(* ===== verification/Prelude.thy ===== *)
theory Prelude
  imports Main "HOL-Library.Word" "HOL-Library.List_Lexorder" "HOL-Library.Char_ord"
    "HOL-Library.AList" "HOL-Library.Multiset"
begin

section \<open>JavaScript values the web client computes with\<close>

text \<open>
  The pieces of the JavaScript language and its standard library that the client uses and that
  every other theory shares: truthiness and the operators \<open>||\<close> and \<open>??\<close>, the string methods
  (\<open>trim\<close>, \<open>split\<close>, \<open>join\<close>, \<open>startsWith\<close>, \<open>toLowerCase\<close>, \<open>replaceAll\<close>, \<open>substring\<close>), number
  formatting and \<open>Number(...)\<close> on integers, JSON values and the insertion-ordered \<open>Map\<close>.

  A JavaScript string is a list of UTF-16 code units; here it is a \<open>string\<close>, a list of code
  units below 256, so that string literals can be written down. An optional property
  (\<open>undefined\<close> or \<open>null\<close>) is an \<open>option\<close>. Numbers that are counts, ids or timestamps are \<open>int\<close>;
  where the code forces 32 bits the model uses \<open>32 word\<close>.
\<close>

named_theorems js_defs \<open>definitions of the JavaScript primitives\<close>
named_theorems client_defs \<open>definitions that the component proofs unfold\<close>

subsection \<open>Truthiness\<close>

definition truthy :: "string option \<Rightarrow> bool" where
  "truthy a \<longleftrightarrow> (case a of None \<Rightarrow> False | Some s \<Rightarrow> s \<noteq> [])"

text \<open>\<open>a || b\<close> where \<open>b\<close> is a string, and where \<open>b\<close> may be missing too; \<open>a ?? b\<close>.\<close>

definition or_str :: "string option \<Rightarrow> string \<Rightarrow> string" where
  "or_str a b = (case a of None \<Rightarrow> b | Some s \<Rightarrow> if s = [] then b else s)"

definition or_opt :: "string option \<Rightarrow> string option \<Rightarrow> string option" where
  "or_opt a b = (if truthy a then a else b)"

definition coalesce :: "'a option \<Rightarrow> 'a \<Rightarrow> 'a" where
  "coalesce a b = (case a of None \<Rightarrow> b | Some x \<Rightarrow> x)"

lemma truthy_simps [simp]:
  "\<not> truthy None" "truthy (Some s) \<longleftrightarrow> s \<noteq> []"
  by (simp_all add: truthy_def)

lemma or_str_simps [simp]:
  "or_str None b = b" "or_str (Some []) b = b" "s \<noteq> [] \<Longrightarrow> or_str (Some s) b = s"
  by (simp_all add: or_str_def)

lemma or_str_truthy: "truthy a \<Longrightarrow> Some (or_str a b) = a"
  by (auto simp: truthy_def or_str_def split: option.splits)

lemma or_opt_simps [simp]:
  "or_opt None b = b" "or_opt (Some []) b = b" "s \<noteq> [] \<Longrightarrow> or_opt (Some s) b = Some s"
  by (simp_all add: or_opt_def)

lemma coalesce_simps [simp]:
  "coalesce None b = b" "coalesce (Some x) b = x"
  by (simp_all add: coalesce_def)

subsection \<open>String methods\<close>

text \<open>White space of \<open>trim\<close> and of the regular expression class \<open>\s\<close>, below code unit 256.\<close>

definition is_space :: "char \<Rightarrow> bool" where
  "is_space c \<longleftrightarrow> (let n = of_char c :: nat in (9 \<le> n \<and> n \<le> 13) \<or> n = 32 \<or> n = 160)"

definition js_trim :: "string \<Rightarrow> string" where
  "js_trim s = rev (dropWhile is_space (rev (dropWhile is_space s)))"

definition starts_with :: "string \<Rightarrow> string \<Rightarrow> bool" where
  "starts_with s p \<longleftrightarrow> take (length p) s = p"

definition ends_with :: "string \<Rightarrow> string \<Rightarrow> bool" where
  "ends_with s p \<longleftrightarrow> starts_with (rev s) (rev p)"

definition lower_char :: "char \<Rightarrow> char" where
  "lower_char c =
     (let n = of_char c :: nat
      in if (65 \<le> n \<and> n \<le> 90) \<or> (192 \<le> n \<and> n \<le> 222 \<and> n \<noteq> 215) then char_of (n + 32) else c)"

definition js_lower :: "string \<Rightarrow> string" where
  "js_lower s = map lower_char s"

text \<open>\<open>s.split(c)\<close> for a one-unit separator, \<open>s.split(/\s+/)\<close> and \<open>parts.join(sep)\<close>.\<close>

fun split_on :: "char \<Rightarrow> string \<Rightarrow> string list" where
  "split_on c [] = [[]]"
| "split_on c (x # xs) =
     (if x = c then [] # split_on c xs
      else (case split_on c xs of [] \<Rightarrow> [[x]] | p # ps \<Rightarrow> (x # p) # ps))"

function split_space :: "string \<Rightarrow> string list" where
  "split_space s =
     (case dropWhile (\<lambda>c. \<not> is_space c) s of
        [] \<Rightarrow> [s]
      | _ # rest \<Rightarrow> takeWhile (\<lambda>c. \<not> is_space c) s # split_space (dropWhile is_space rest))"
  by pat_completeness auto
termination
proof (relation "measure length")
  fix s :: string and c rest
  assume "dropWhile (\<lambda>c. \<not> is_space c) s = c # rest"
  then have "length rest < length s"
    by (metis Suc_le_eq length_Cons length_dropWhile_le)
  moreover have "length (dropWhile is_space rest) \<le> length rest"
    by (rule length_dropWhile_le)
  ultimately show "(dropWhile is_space rest, s) \<in> measure length" by simp
qed simp

declare split_space.simps [simp del]

fun join :: "string \<Rightarrow> string list \<Rightarrow> string" where
  "join sep [] = []"
| "join sep [p] = p"
| "join sep (p # q # ps) = p @ sep @ join sep (q # ps)"

text \<open>\<open>s.replaceAll(p, r)\<close> for a non-empty literal pattern: left to right, without overlaps.\<close>

function replace_all :: "string \<Rightarrow> string \<Rightarrow> string \<Rightarrow> string" where
  "replace_all p r s =
     (if p = [] \<or> s = [] then s
      else if starts_with s p then r @ replace_all p r (drop (length p) s)
      else hd s # replace_all p r (tl s))"
  by pat_completeness auto
termination
  by (relation "measure (\<lambda>(p, r, s). length s)") (auto simp: neq_Nil_conv)

declare replace_all.simps [simp del]

definition js_substring :: "nat \<Rightarrow> nat \<Rightarrow> string \<Rightarrow> string" where
  "js_substring i j s = take (j - i) (drop i s)"

definition code_units :: "string \<Rightarrow> 16 word list" where
  "code_units s = map (\<lambda>c. of_nat (of_char c)) s"

lemma starts_with_append [simp]: "starts_with (p @ s) p"
  by (simp add: starts_with_def)

lemma starts_with_Nil [simp]: "starts_with s []"
  by (simp add: starts_with_def)

lemma starts_withE:
  assumes "starts_with s p"
  obtains t where "s = p @ t"
  using assms by (metis append_take_drop_id starts_with_def)

lemma starts_with_iff: "starts_with s p \<longleftrightarrow> (\<exists>t. s = p @ t)"
  by (auto elim: starts_withE)

lemma starts_with_Cons_Cons [simp]:
  "starts_with (x # s) (y # p) \<longleftrightarrow> x = y \<and> starts_with s p"
  by (auto simp: starts_with_def)

lemma starts_with_Nil_Cons [simp]: "\<not> starts_with [] (y # p)"
  by (simp add: starts_with_def)

lemma split_on_ne [simp]: "split_on c s \<noteq> []"
  by (induction s) (auto split: list.splits)

lemma join_Cons: "ps \<noteq> [] \<Longrightarrow> join sep (p # ps) = p @ sep @ join sep ps"
  by (cases ps) auto

text \<open>Joining with the separator undoes the split.\<close>

lemma join_split_on: "join [c] (split_on c s) = s"
proof (induction s)
  case Nil
  then show ?case by simp
next
  case (Cons x xs)
  obtain p ps where sp: "split_on c xs = p # ps" by (metis split_on_ne neq_Nil_conv)
  with Cons.IH have "join [c] (p # ps) = xs" by simp
  with sp show ?case by (cases ps) (auto simp: join_Cons)
qed

lemma split_on_parts: "\<forall>p \<in> set (split_on c s). c \<notin> set p"
  by (induction s) (auto split: list.splits)

lemma split_on_no_sep: "c \<notin> set s \<Longrightarrow> split_on c s = [s]"
  by (induction s) auto

lemma split_on_append: "c \<notin> set s \<Longrightarrow> split_on c (s @ c # t) = s # split_on c t"
  by (induction s) auto

lemma dropWhile_idem: "dropWhile P (dropWhile P xs) = dropWhile P xs"
  by (induction xs) auto

lemma dropWhile_none: "(\<forall>c \<in> set s. \<not> P c) \<Longrightarrow> dropWhile P s = s"
  by (cases s) auto

lemma js_trim_no_space: "(\<forall>c \<in> set s. \<not> is_space c) \<Longrightarrow> js_trim s = s"
  by (simp add: js_trim_def dropWhile_none)

lemma js_trim_hd: "js_trim s \<noteq> [] \<Longrightarrow> \<not> is_space (hd (js_trim s))"
proof -
  assume ne: "js_trim s \<noteq> []"
  let ?u = "dropWhile is_space s"
  have "\<exists>w. ?u = js_trim s @ w"
    unfolding js_trim_def
    by (metis rev_append rev_rev_ident takeWhile_dropWhile_id)
  then obtain w where "?u = js_trim s @ w" ..
  with ne have u: "hd (js_trim s) = hd ?u" "?u \<noteq> []" by simp_all
  then show ?thesis using hd_dropWhile [of is_space s] by metis
qed

subsection \<open>Numbers\<close>

definition digit_char :: "nat \<Rightarrow> char" where
  "digit_char n = char_of (48 + n)"

definition digit_val :: "char \<Rightarrow> nat option" where
  "digit_val c = (let n = of_char c :: nat in if 48 \<le> n \<and> n \<le> 57 then Some (n - 48) else None)"

fun nat_str :: "nat \<Rightarrow> string" where
  "nat_str n = (if n < 10 then [digit_char n] else nat_str (n div 10) @ [digit_char (n mod 10)])"

declare nat_str.simps [simp del]

text \<open>\<open>n.toString()\<close> on integers.\<close>

definition int_str :: "int \<Rightarrow> string" where
  "int_str i = (if i < 0 then CHR ''-'' # nat_str (nat (- i)) else nat_str (nat i))"

fun digits_val :: "nat \<Rightarrow> string \<Rightarrow> nat option" where
  "digits_val acc [] = Some acc"
| "digits_val acc (c # cs) =
     (case digit_val c of None \<Rightarrow> None | Some d \<Rightarrow> digits_val (10 * acc + d) cs)"

text \<open>
  \<open>Number(s)\<close> on a decimal integer, with the trimming and the empty string (0) of the language;
  \<open>None\<close> for every other text.
\<close>

definition js_number :: "string \<Rightarrow> int option" where
  "js_number s =
     (let t = js_trim s in
      case t of
        [] \<Rightarrow> Some 0
      | c # cs \<Rightarrow>
          if c = CHR ''-'' then (if cs = [] then None else map_option (\<lambda>n. - int n) (digits_val 0 cs))
          else map_option int (digits_val 0 t))"

lemma of_char_digit_char: "n < 10 \<Longrightarrow> of_char (digit_char n) = (48 + n :: nat)"
  by (simp add: digit_char_def)

lemma digit_val_digit_char: "n < 10 \<Longrightarrow> digit_val (digit_char n) = Some n"
  by (simp add: digit_val_def of_char_digit_char)

lemma not_is_space_digit: "n < 10 \<Longrightarrow> \<not> is_space (digit_char n)"
  by (simp add: is_space_def of_char_digit_char Let_def)

lemma digit_char_neq_minus: "n < 10 \<Longrightarrow> digit_char n \<noteq> CHR ''-''"
proof
  assume "n < 10" "digit_char n = CHR ''-''"
  then have "48 + n = (of_char (CHR ''-'') :: nat)" by (metis of_char_digit_char)
  then show False by simp
qed

lemma digits_val_append:
  "digits_val a (s @ t) = (case digits_val a s of None \<Rightarrow> None | Some b \<Rightarrow> digits_val b t)"
  by (induction a s rule: digits_val.induct) (auto split: option.splits)

lemma digits_val_nat_str: "digits_val 0 (nat_str n) = Some n"
proof (induction n rule: nat_str.induct)
  case (1 n)
  show ?case
  proof (cases "n < 10")
    case True
    then show ?thesis by (subst nat_str.simps) (simp add: digit_val_digit_char)
  next
    case False
    with "1.IH" show ?thesis
      by (subst nat_str.simps) (simp add: digits_val_append digit_val_digit_char)
  qed
qed

lemma set_nat_str: "c \<in> set (nat_str n) \<Longrightarrow> \<exists>d < 10. c = digit_char d"
proof (induction n rule: nat_str.induct)
  case (1 n)
  show ?case
  proof (cases "n < 10")
    case True
    with "1.prems" show ?thesis by (subst (asm) nat_str.simps) auto
  next
    case False
    with "1.prems" have "c \<in> set (nat_str (n div 10)) \<or> c = digit_char (n mod 10)"
      by (subst (asm) nat_str.simps) auto
    moreover have "n mod 10 < 10" by simp
    ultimately show ?thesis using "1.IH" False by blast
  qed
qed

lemma nat_str_ne [simp]: "nat_str n \<noteq> []"
  by (subst nat_str.simps) simp

lemma int_str_ne [simp]: "int_str i \<noteq> []"
  by (simp add: int_str_def)

lemma minus_not_space: "\<not> is_space (CHR ''-'')"
  by (simp add: is_space_def Let_def)

lemma js_trim_int_str: "js_trim (int_str i) = int_str i"
  by (rule js_trim_no_space)
    (auto simp: int_str_def minus_not_space not_is_space_digit dest!: set_nat_str)

text \<open>\<open>Number(n.toString())\<close> is \<open>n\<close>.\<close>

lemma js_number_int_str: "js_number (int_str i) = Some i"
proof (cases "i < 0")
  case True
  then have t: "int_str i = CHR ''-'' # nat_str (nat (- i))" by (simp add: int_str_def)
  have "js_trim (CHR ''-'' # nat_str (nat (- i))) = CHR ''-'' # nat_str (nat (- i))"
    using js_trim_int_str [of i] t by simp
  with True show ?thesis
    by (simp add: js_number_def t digits_val_nat_str)
next
  case False
  then have t: "int_str i = nat_str (nat i)" by (simp add: int_str_def)
  obtain c cs where cs: "nat_str (nat i) = c # cs" by (metis nat_str_ne neq_Nil_conv)
  then obtain d where "d < 10" "c = digit_char d" using set_nat_str [of c "nat i"] by auto
  then have "c \<noteq> CHR ''-''" by (simp add: digit_char_neq_minus)
  moreover have "js_trim (c # cs) = c # cs"
    using js_trim_int_str [of i] t cs by simp
  moreover have "digits_val 0 (c # cs) = Some (nat i)"
    using digits_val_nat_str [of "nat i"] cs by simp
  ultimately show ?thesis using False t cs by (simp add: js_number_def)
qed

subsection \<open>JSON values\<close>

datatype json =
    JNull
  | JBool bool
  | JNum int
  | JStr string
  | JArr "json list"
  | JObj "(string \<times> json) list"

text \<open>\<open>JSON.stringify\<close> leaves a property out whose value is \<open>undefined\<close>.\<close>

definition opt_field :: "string \<Rightarrow> ('a \<Rightarrow> json) \<Rightarrow> 'a option \<Rightarrow> (string \<times> json) list" where
  "opt_field k f v = (case v of None \<Rightarrow> [] | Some x \<Rightarrow> [(k, f x)])"

subsection \<open>Insertion-ordered maps\<close>

text \<open>
  A JavaScript \<open>Map\<close>: \<open>set\<close> overwrites in place or appends, \<open>keys\<close> lists in insertion order.
\<close>

type_synonym ('k, 'v) js_map = "('k \<times> 'v) list"

definition jm_get :: "('k, 'v) js_map \<Rightarrow> 'k \<Rightarrow> 'v option" where
  "jm_get m k = map_of m k"

definition jm_set :: "('k, 'v) js_map \<Rightarrow> 'k \<Rightarrow> 'v \<Rightarrow> ('k, 'v) js_map" where
  "jm_set m k v = AList.update k v m"

definition jm_delete :: "('k, 'v) js_map \<Rightarrow> 'k \<Rightarrow> ('k, 'v) js_map" where
  "jm_delete m k = AList.delete k m"

definition jm_keys :: "('k, 'v) js_map \<Rightarrow> 'k list" where
  "jm_keys m = map fst m"

lemma jm_get_set [simp]: "jm_get (jm_set m k v) = (jm_get m)(k \<mapsto> v)"
  by (auto simp: jm_get_def jm_set_def update_conv')

lemma jm_get_delete [simp]: "jm_get (jm_delete m k) = (jm_get m)(k := None)"
  by (auto simp: jm_get_def jm_delete_def delete_conv')

lemma jm_get_Nil [simp]: "jm_get [] k = None"
  by (simp add: jm_get_def)

lemma set_jm_keys: "set (jm_keys m) = dom (jm_get m)"
  by (simp add: jm_keys_def jm_get_def [abs_def] dom_map_of_conv_image_fst)

lemma distinct_jm_set: "distinct (jm_keys m) \<Longrightarrow> distinct (jm_keys (jm_set m k v))"
  by (simp add: jm_keys_def jm_set_def distinct_update)

lemma distinct_jm_delete: "distinct (jm_keys m) \<Longrightarrow> distinct (jm_keys (jm_delete m k))"
  by (simp add: jm_keys_def jm_delete_def distinct_delete)

subsection \<open>Lists\<close>

lemma find_Some_mem: "find P xs = Some x \<Longrightarrow> x \<in> set xs \<and> P x"
  by (auto simp: find_Some_iff)

lemma find_None_iff_filter: "find P xs = None \<longleftrightarrow> filter P xs = []"
  by (auto simp: find_None_iff filter_empty_conv)

lemma filter_hd_find: "(case filter P xs of [] \<Rightarrow> None | x # _ \<Rightarrow> Some x) = find P xs"
  by (induction xs) auto

lemma find_filter_True: "(\<And>x. P x \<Longrightarrow> Q x) \<Longrightarrow> find P (filter Q xs) = find P xs"
  by (induction xs) auto

lemma find_inj:
  assumes "inj_on f (set xs)" "x \<in> set xs"
  shows "find (\<lambda>y. f y = f x) xs = Some x"
  using assms
proof (induction xs)
  case (Cons y ys)
  show ?case
  proof (cases "f y = f x")
    case True
    then have "y = x" using Cons.prems by (meson inj_onD list.set_intros(1))
    then show ?thesis by simp
  next
    case False
    then have "x \<in> set ys" using Cons.prems(2) by auto
    moreover have "inj_on f (set ys)" using Cons.prems(1) by (simp add: inj_on_def)
    ultimately show ?thesis using Cons.IH False by simp
  qed
qed simp

end
