(* ===== verification/Js_Sort.thy ===== *)
theory Js_Sort
  imports Prelude
begin

section \<open>Sorting by a comparison function\<close>

text \<open>
  \<open>Array.prototype.sort(cmp)\<close>: a stable sort. What a comparison function has to satisfy for the
  result to be in an order is the locale \<open>comparator\<close>; \<open>collation\<close> is what the client relies on of
  \<open>localeCompare\<close>. The comparison functions of the side bar, the member list and the token table are
  shown to be comparators where they are defined.
\<close>

fun sort_insert :: "('a \<Rightarrow> 'a \<Rightarrow> int) \<Rightarrow> 'a \<Rightarrow> 'a list \<Rightarrow> 'a list" where
  "sort_insert cmp x [] = [x]"
| "sort_insert cmp x (y # ys) = (if cmp x y \<le> 0 then x # y # ys else y # sort_insert cmp x ys)"

definition js_sort :: "('a \<Rightarrow> 'a \<Rightarrow> int) \<Rightarrow> 'a list \<Rightarrow> 'a list" where
  "js_sort cmp xs = foldr (sort_insert cmp) xs []"

lemma js_sort_simps [simp]: "js_sort cmp [] = []" "js_sort cmp (x # xs) = sort_insert cmp x (js_sort cmp xs)"
  by (simp_all add: js_sort_def)

lemma mset_sort_insert [simp]: "mset (sort_insert cmp x xs) = add_mset x (mset xs)"
  by (induction xs) auto

lemma js_sort_map:
  "(\<And>a b. cmp' (h a) (h b) = cmp a b) \<Longrightarrow> js_sort cmp' (map h xs) = map h (js_sort cmp xs)"
proof -
  assume c: "\<And>a b. cmp' (h a) (h b) = cmp a b"
  have "sort_insert cmp' (h a) (map h ys) = map h (sort_insert cmp a ys)" for a ys
    by (induction ys) (simp_all add: c)
  then show ?thesis
    by (induction xs) simp_all
qed

lemma mset_js_sort [simp]: "mset (js_sort cmp xs) = mset xs"
  by (induction xs) simp_all

lemma set_js_sort [simp]: "set (js_sort cmp xs) = set xs"
  by (metis mset_js_sort set_mset_mset)

lemma set_sort_insert [simp]: "set (sort_insert cmp x xs) = insert x (set xs)"
  by (metis list.simps(15) mset.simps(2) mset_sort_insert set_mset_add_mset_insert set_mset_mset)

text \<open>Elements that compare as equal keep their order.\<close>

lemma filter_sort_insert:
  assumes "\<And>a b. P a \<Longrightarrow> P b \<Longrightarrow> cmp a b \<le> 0"
  shows "filter P (sort_insert cmp x xs) = filter P (x # xs)"
  using assms by (induction xs) auto

lemma js_sort_stable:
  assumes "\<And>a b. P a \<Longrightarrow> P b \<Longrightarrow> cmp a b \<le> 0"
  shows "filter P (js_sort cmp xs) = filter P xs"
  using filter_sort_insert [of P cmp, OF assms] by (induction xs) simp_all

locale comparator =
  fixes cmp :: "'a \<Rightarrow> 'a \<Rightarrow> int" and R :: "'a \<Rightarrow> 'a \<Rightarrow> bool"
  assumes le: "cmp a b \<le> 0 \<Longrightarrow> R a b"
    and gt: "\<not> cmp a b \<le> 0 \<Longrightarrow> R b a"
    and trans: "R a b \<Longrightarrow> R b c \<Longrightarrow> R a c"
begin

lemma sorted_sort_insert: "sorted_wrt R xs \<Longrightarrow> sorted_wrt R (sort_insert cmp x xs)"
proof (induction xs)
  case (Cons y ys)
  then show ?case using le [of x y] gt [of x y] trans [of x y] by auto
qed simp

lemma sorted_js_sort: "sorted_wrt R (js_sort cmp xs)"
  by (induction xs) (simp_all add: sorted_sort_insert)

lemma order_refl: "R a a"
  using le [of a a] gt [of a a] by blast

lemma first_js_sort:
  assumes "x \<in> set xs"
  shows "R (hd (js_sort cmp xs)) x"
proof (cases "js_sort cmp xs")
  case Nil
  then have "set xs = {}" by (metis set_js_sort list.set(1))
  then show ?thesis using assms by simp
next
  case (Cons y ys)
  moreover have "x \<in> set (y # ys)" using assms Cons by (metis set_js_sort)
  ultimately show ?thesis using sorted_js_sort [of xs] order_refl [of y] by auto
qed

end

locale collation =
  fixes collate :: "string \<Rightarrow> string \<Rightarrow> int"
  assumes total: "collate a b \<le> 0 \<or> collate b a \<le> 0"
    and collate_trans: "collate a b \<le> 0 \<Longrightarrow> collate b c \<le> 0 \<Longrightarrow> collate a c \<le> 0"
begin

lemma collate_refl: "collate a a \<le> 0"
  using total [of a a] by blast

end

sublocale collation \<subseteq> comparator collate "\<lambda>a b. collate a b \<le> 0"
  using total collate_trans by unfold_locales blast+

text \<open>The collation of a browser without locales: by code units, as the operator \<open><\<close> compares texts.\<close>

definition code_unit_compare :: "string \<Rightarrow> string \<Rightarrow> int" where
  "code_unit_compare a b = (if a < b then - 1 else if b < a then 1 else 0)"

interpretation code_units: collation code_unit_compare
  by unfold_locales (auto simp: code_unit_compare_def split: if_splits)

end
