(* ===== verification/Stores.thy ===== *)
theory Stores
  imports Prelude
begin

section \<open>Keyed stores and the Dexie tables\<close>

text \<open>
  Two interfaces the client's components rely on. \<open>keyed_store\<close> is what every lookup structure
  of the client promises (the \<open>Map\<close> of live connections, the IndexedDB tables): rows carry their
  key, a lookup finds the row stored last. \<open>dexie_table\<close> extends it with the operations of a
  Dexie.js table that the client calls (web/src/app/db.js declares the tables). Dexie is a
  third-party package, so a table is a parameter of the model: a record of operations on an
  abstract table state, and the laws of \<open>dexie_table\<close> are its documented behaviour. A list of
  rows is a concrete table that satisfies the laws.
\<close>

subsection \<open>The interface of a keyed store\<close>

locale keyed_store =
  fixes key :: "'r \<Rightarrow> 'k"
    and lookup :: "'s \<Rightarrow> 'k \<Rightarrow> 'r option"
    and put :: "'s \<Rightarrow> 'r \<Rightarrow> 's"
    and remove :: "'s \<Rightarrow> 'k \<Rightarrow> 's"
  assumes lookup_put: "lookup (put s r) = (lookup s)(key r \<mapsto> r)"
    and lookup_remove: "lookup (remove s k) = (lookup s)(k := None)"
    and lookup_key: "lookup s k = Some r \<Longrightarrow> key r = k"
begin

lemma lookup_put_all:
  "lookup (fold (\<lambda>r s. put s r) rs s) k =
     (case find (\<lambda>r. key r = k) (rev rs) of Some r \<Rightarrow> Some r | None \<Rightarrow> lookup s k)"
proof (induction rs arbitrary: s rule: rev_induct)
  case Nil
  then show ?case by simp
next
  case (snoc r rs)
  then show ?case by (auto simp: lookup_put)
qed

lemma lookup_remove_all:
  "lookup (fold (\<lambda>k s. remove s k) ks s) k = (if k \<in> set ks then None else lookup s k)"
  by (induction ks arbitrary: s) (auto simp: lookup_remove)

text \<open>
  Adding rows only where the key is free, in order: what was there stays, and of several new
  rows with one key the first is kept.
\<close>

lemma lookup_add_missing_all:
  "lookup (fold (\<lambda>r s. if lookup s (key r) = None then put s r else s) rs s) k =
     (case lookup s k of Some r \<Rightarrow> Some r | None \<Rightarrow> find (\<lambda>r. key r = k) rs)"
proof (induction rs arbitrary: s)
  case Nil
  then show ?case by (auto split: option.splits)
next
  case (Cons r rs)
  then show ?case by (auto simp: lookup_put split: option.splits)
qed

lemma dom_add_missing_all:
  "dom (lookup (fold (\<lambda>r s. if lookup s (key r) = None then put s r else s) rs s)) =
     dom (lookup s) \<union> key ` set rs"
proof (rule set_eqI)
  fix k
  have "find (\<lambda>r. key r = k) rs = None \<longleftrightarrow> k \<notin> key ` set rs"
    by (auto simp: find_None_iff)
  then show "k \<in> dom (lookup (fold (\<lambda>r s. if lookup s (key r) = None then put s r else s) rs s)) \<longleftrightarrow>
      k \<in> dom (lookup s) \<union> key ` set rs"
    by (cases "lookup s k") (simp_all add: domIff lookup_add_missing_all)
qed

end

subsection \<open>The JavaScript Map is a keyed store\<close>

definition jm_lookup_row :: "('k, 'v) js_map \<Rightarrow> 'k \<Rightarrow> ('k \<times> 'v) option" where
  "jm_lookup_row m k = map_option (Pair k) (jm_get m k)"

definition jm_put_row :: "('k, 'v) js_map \<Rightarrow> 'k \<times> 'v \<Rightarrow> ('k, 'v) js_map" where
  "jm_put_row m r = jm_set m (fst r) (snd r)"

interpretation jsmap: keyed_store fst jm_lookup_row jm_put_row jm_delete
  by unfold_locales (auto simp: jm_lookup_row_def jm_put_row_def fun_eq_iff)

lemma sort_key_map: "(\<And>r. g (h r) = g r) \<Longrightarrow> sort_key g (map h xs) = map h (sort_key g xs)"
proof -
  assume g: "\<And>r. g (h r) = g r"
  have "insort_key g (h a) (map h ys) = map h (insort_key g a ys)" for a ys
    by (induction ys) (simp_all add: g)
  then show ?thesis by (induction xs) simp_all
qed

subsection \<open>Dexie tables\<close>

text \<open>
  The operations of a table with a unique primary key (\<open>&id\<close> in db.js). \<open>'t\<close> is the table
  state, \<open>'k\<close> the primary key, \<open>'r\<close> the rows. \<open>where({...})\<close> is a predicate on rows and
  \<open>modify\<close>/\<open>update\<close> take the change as a function on rows. \<open>dx_add\<close> is \<open>None\<close> when it throws
  a ConstraintError.
\<close>

record ('t, 'k, 'r) dexie =
  dx_get :: "'t \<Rightarrow> 'k \<Rightarrow> 'r option"
  dx_put :: "'t \<Rightarrow> 'r \<Rightarrow> 't"
  dx_add :: "'t \<Rightarrow> 'r \<Rightarrow> 't option"
  dx_bulk_put :: "'t \<Rightarrow> 'r list \<Rightarrow> 't"
  dx_delete :: "'t \<Rightarrow> 'k \<Rightarrow> 't"
  dx_update :: "'t \<Rightarrow> 'k \<Rightarrow> ('r \<Rightarrow> 'r) \<Rightarrow> 't"
  dx_delete_where :: "'t \<Rightarrow> ('r \<Rightarrow> bool) \<Rightarrow> 't"
  dx_modify_where :: "'t \<Rightarrow> ('r \<Rightarrow> bool) \<Rightarrow> ('r \<Rightarrow> 'r) \<Rightarrow> 't"
  dx_where :: "'t \<Rightarrow> ('r \<Rightarrow> bool) \<Rightarrow> 'r list"
  dx_count :: "'t \<Rightarrow> ('r \<Rightarrow> bool) \<Rightarrow> nat"
  dx_to_array :: "'t \<Rightarrow> 'r list"
  dx_order_by :: "'t \<Rightarrow> ('r \<Rightarrow> int) \<Rightarrow> 'r list"

locale dexie_table = keyed_store key "dx_get D" "dx_put D" "dx_delete D"
  for key :: "'r \<Rightarrow> 'k::linorder" and D :: "('t, 'k, 'r) dexie" +
  assumes add_new: "dx_get D t (key r) = None \<Longrightarrow>
        \<exists>t'. dx_add D t r = Some t' \<and> dx_get D t' = (dx_get D t)(key r \<mapsto> r)"
    and add_exists: "dx_get D t (key r) \<noteq> None \<Longrightarrow> dx_add D t r = None"
    and get_bulk_put: "dx_get D (dx_bulk_put D t rs) = dx_get D (fold (\<lambda>r t. dx_put D t r) rs t)"
    and get_update: "(\<And>r. key (f r) = key r) \<Longrightarrow>
        dx_get D (dx_update D t k f) = (dx_get D t)(k := map_option f (dx_get D t k))"
    and get_delete_where: "dx_get D (dx_delete_where D t P) k =
        (case dx_get D t k of None \<Rightarrow> None | Some r \<Rightarrow> if P r then None else Some r)"
    and get_modify_where: "(\<And>r. key (f r) = key r) \<Longrightarrow> dx_get D (dx_modify_where D t P f) k =
        map_option (\<lambda>r. if P r then f r else r) (dx_get D t k)"
    and where_rows: "dx_where D t P = filter P (dx_to_array D t)"
    and count_rows: "dx_count D t P = length (filter P (dx_to_array D t))"
    and set_to_array: "set (dx_to_array D t) = ran (dx_get D t)"
    and sorted_to_array: "sorted_wrt (<) (map key (dx_to_array D t))"
    and order_by_rows: "dx_order_by D t g = sort_key g (dx_to_array D t)"
begin

lemma mem_to_array: "r \<in> set (dx_to_array D t) \<longleftrightarrow> dx_get D t (key r) = Some r"
  using lookup_key by (force simp: set_to_array ran_def)

lemma distinct_to_array: "distinct (dx_to_array D t)"
proof -
  have "distinct (map key (dx_to_array D t))"
    using sorted_to_array strict_sorted_iff by blast
  then show ?thesis by (simp add: distinct_map)
qed

lemma get_add:
  "dx_add D t r = Some t' \<Longrightarrow> dx_get D t' = (dx_get D t)(key r \<mapsto> r) \<and> dx_get D t (key r) = None"
  by (metis add_exists add_new option.distinct(1) option.inject)

lemma get_bulk_put_row:
  "dx_get D (dx_bulk_put D t rs) k =
     (case find (\<lambda>r. key r = k) (rev rs) of Some r \<Rightarrow> Some r | None \<Rightarrow> dx_get D t k)"
  by (simp add: get_bulk_put lookup_put_all)

text \<open>Two tables with the same rows list them in the same order.\<close>

lemma to_array_cong:
  assumes "dx_get D t = dx_get D t'"
  shows "dx_to_array D t = dx_to_array D t'"
proof -
  let ?xs = "dx_to_array D t" and ?ys = "dx_to_array D t'"
  have s: "set ?xs = set ?ys" by (simp add: set_to_array assms)
  then have "set (map key ?xs) = set (map key ?ys)" by simp
  then have "map key ?xs = map key ?ys"
    by (metis sorted_to_array strict_sorted_equal)
  moreover have "inj_on key (set ?xs \<union> set ?ys)"
    by (auto simp: inj_on_def mem_to_array s)
  ultimately show ?thesis by (simp add: inj_on_map_eq_map)
qed

lemma to_array_modify_where:
  assumes "\<And>r. key (f r) = key r"
  shows "dx_to_array D (dx_modify_where D t P f) = map (\<lambda>r. if P r then f r else r) (dx_to_array D t)"
proof -
  let ?h = "\<lambda>r. if P r then f r else r" and ?t = "dx_modify_where D t P f"
  have s: "set (dx_to_array D ?t) = set (map ?h (dx_to_array D t))"
    by (force simp: set_to_array ran_def get_modify_where [OF assms])
  have k: "map key (map ?h (dx_to_array D t)) = map key (dx_to_array D t)"
    using assms by simp
  have "set (map key (dx_to_array D ?t)) = set (map key (dx_to_array D t))"
    unfolding k [symmetric] by (simp only: set_map s)
  then have "map key (dx_to_array D ?t) = map key (map ?h (dx_to_array D t))"
    unfolding k by (metis sorted_to_array strict_sorted_equal)
  moreover have "inj_on key (set (dx_to_array D ?t) \<union> set (map ?h (dx_to_array D t)))"
    unfolding s [symmetric] by (auto simp: inj_on_def mem_to_array)
  ultimately show ?thesis by (simp only: inj_on_map_eq_map)
qed

lemma order_by_modify_where:
  assumes "\<And>r. key (f r) = key r" and "\<And>r. g (f r) = g r"
  shows "dx_order_by D (dx_modify_where D t P f) g = map (\<lambda>r. if P r then f r else r) (dx_order_by D t g)"
  using assms by (simp add: order_by_rows to_array_modify_where sort_key_map)

lemma count_cong: "dx_get D t = dx_get D t' \<Longrightarrow> dx_count D t P = dx_count D t' P"
  by (metis count_rows to_array_cong)

lemma count_zero: "dx_count D t P = 0 \<longleftrightarrow> (\<forall>k r. dx_get D t k = Some r \<longrightarrow> \<not> P r)"
  by (auto simp: count_rows filter_empty_conv set_to_array ran_def)

lemma count_card: "dx_count D t P = card {r. dx_get D t (key r) = Some r \<and> P r}"
proof -
  have "dx_count D t P = card (set (filter P (dx_to_array D t)))"
    by (simp add: count_rows distinct_card distinct_to_array del: set_filter)
  also have "set (filter P (dx_to_array D t)) = {r. dx_get D t (key r) = Some r \<and> P r}"
    by (auto simp: mem_to_array)
  finally show ?thesis .
qed

lemma find_to_array: "find (\<lambda>r. key r = k) (dx_to_array D t) = dx_get D t k"
proof (cases "dx_get D t k")
  case None
  then have "\<not> (\<exists>r. r \<in> set (dx_to_array D t) \<and> key r = k)"
    by (metis mem_to_array option.distinct(1))
  then show ?thesis unfolding None find_None_iff .
next
  case (Some r)
  have k: "key r = k" using Some by (rule lookup_key)
  then have "r \<in> set (dx_to_array D t)" using Some by (metis mem_to_array)
  then have "find (\<lambda>r. key r = k) (dx_to_array D t) \<noteq> None"
    unfolding find_None_iff using k by blast
  then obtain v where v: "find (\<lambda>r. key r = k) (dx_to_array D t) = Some v" by blast
  from find_Some_mem [OF v] have "dx_get D t k = Some v" by (metis mem_to_array)
  with Some v show ?thesis by simp
qed

lemma bex_to_array_key:
  "(\<exists>l \<in> set (dx_to_array D t). Q l \<and> key l = k) \<longleftrightarrow> (\<exists>l. dx_get D t k = Some l \<and> Q l)"
proof
  assume "\<exists>l \<in> set (dx_to_array D t). Q l \<and> key l = k"
  then obtain l where "l \<in> set (dx_to_array D t)" "Q l" "key l = k" by blast
  then show "\<exists>l. dx_get D t k = Some l \<and> Q l" using mem_to_array [of l t] by blast
next
  assume "\<exists>l. dx_get D t k = Some l \<and> Q l"
  then obtain l where l: "dx_get D t k = Some l" "Q l" by blast
  then have "key l = k" by (simp add: lookup_key)
  with l show "\<exists>l \<in> set (dx_to_array D t). Q l \<and> key l = k" using mem_to_array [of l t] by blast
qed

lemma bex_to_array:
  "(\<exists>l \<in> set (dx_to_array D t). R l) \<longleftrightarrow> (\<exists>k l. dx_get D t k = Some l \<and> R l)"
  using bex_to_array_key [where Q = R] by metis

lemma mem_order_by: "r \<in> set (dx_order_by D t f) \<longleftrightarrow> dx_get D t (key r) = Some r"
  by (simp add: order_by_rows mem_to_array)

lemma sorted_order_by: "sorted (map f (dx_order_by D t f))"
  by (simp add: order_by_rows)

lemma distinct_order_by: "distinct (dx_order_by D t f)"
  by (simp add: order_by_rows distinct_to_array)

lemmas get_simps = lookup_put lookup_remove get_bulk_put_row get_delete_where

end

subsection \<open>A concrete table: a list of rows\<close>

text \<open>
  The newest row of a key shadows the older ones; \<open>mem_rows\<close> are the visible rows. The
  operations are executable, so a concrete database can be evaluated.
\<close>

definition mem_get :: "('r \<Rightarrow> 'k) \<Rightarrow> 'r list \<Rightarrow> 'k \<Rightarrow> 'r option" where
  "mem_get key t k = find (\<lambda>r. key r = k) t"

fun mem_rows :: "('r \<Rightarrow> 'k) \<Rightarrow> 'r list \<Rightarrow> 'r list" where
  "mem_rows key [] = []"
| "mem_rows key (r # t) = r # filter (\<lambda>q. key q \<noteq> key r) (mem_rows key t)"

definition mem_to_list :: "('r \<Rightarrow> 'k::linorder) \<Rightarrow> 'r list \<Rightarrow> 'r list" where
  "mem_to_list key t = sort_key key (mem_rows key t)"

definition mem_dexie :: "('r \<Rightarrow> 'k::linorder) \<Rightarrow> ('r list, 'k, 'r) dexie" where
  "mem_dexie key = \<lparr>
     dx_get = mem_get key,
     dx_put = (\<lambda>t r. r # t),
     dx_add = (\<lambda>t r. if mem_get key t (key r) = None then Some (r # t) else None),
     dx_bulk_put = (\<lambda>t rs. rev rs @ t),
     dx_delete = (\<lambda>t k. filter (\<lambda>r. key r \<noteq> k) t),
     dx_update = (\<lambda>t k f. map (\<lambda>r. if key r = k then f r else r) t),
     dx_delete_where = (\<lambda>t P. filter (\<lambda>r. \<not> P r) (mem_rows key t)),
     dx_modify_where = (\<lambda>t P f. map (\<lambda>r. if P r then f r else r) t),
     dx_where = (\<lambda>t P. filter P (mem_to_list key t)),
     dx_count = (\<lambda>t P. length (filter P (mem_to_list key t))),
     dx_to_array = mem_to_list key,
     dx_order_by = (\<lambda>t f. sort_key f (mem_to_list key t))\<rparr>"

lemma set_mem_rows: "set (mem_rows key t) = {r. mem_get key t (key r) = Some r}"
  by (induction t) (auto simp: mem_get_def)

lemma distinct_mem_rows: "distinct (map key (mem_rows key t))"
  by (induction t) (auto simp: distinct_map_filter)

lemma mem_get_filter_key: "mem_get key (filter (\<lambda>r. key r \<noteq> k) t) = (mem_get key t)(k := None)"
  by (induction t) (auto simp: mem_get_def fun_eq_iff)

lemma mem_get_map:
  assumes "\<And>r. key (f r) = key r"
  shows "mem_get key (map f t) k = map_option f (mem_get key t k)"
  using assms by (induction t) (auto simp: mem_get_def)

lemma mem_get_update:
  assumes "\<And>r. key (f r) = key r"
  shows "mem_get key (map (\<lambda>r. if key r = k then f r else r) t) =
    (mem_get key t)(k := map_option f (mem_get key t k))"
  using assms by (induction t) (auto simp: mem_get_def fun_eq_iff)

lemma mem_get_mem_rows: "mem_get key (mem_rows key t) = mem_get key t"
proof (induction t)
  case Nil
  then show ?case by (simp add: mem_get_def)
next
  case (Cons r t)
  have cons: "mem_get key (r # u) k = (if key r = k then Some r else mem_get key u k)" for u k
    by (simp add: mem_get_def)
  show ?case by (auto simp: fun_eq_iff cons mem_get_filter_key Cons.IH)
qed

lemma mem_get_filter_rows:
  assumes "distinct (map key t)"
  shows "mem_get key (filter Q t) k =
    (case mem_get key t k of None \<Rightarrow> None | Some r \<Rightarrow> if Q r then Some r else None)"
  using assms
proof (induction t)
  case Nil
  then show ?case by (simp add: mem_get_def)
next
  case (Cons r t)
  have "mem_get key t k = None" if "key r = k"
  proof -
    have "k \<notin> key ` set t" using Cons.prems that by auto
    then show ?thesis by (auto simp: mem_get_def find_None_iff)
  qed
  with Cons show ?case by (auto simp: mem_get_def)
qed

lemma mem_get_rev_append:
  "mem_get key (rev rs @ t) = mem_get key (fold (\<lambda>r t. r # t) rs t)"
  by (induction rs arbitrary: t) auto

interpretation mem: dexie_table key "mem_dexie key" for key :: "'r \<Rightarrow> 'k::linorder"
proof
  fix t :: "'r list" and r :: 'r and k :: 'k and P f rs and g :: "'r \<Rightarrow> int"
  show "dx_get (mem_dexie key) (dx_put (mem_dexie key) t r) =
      (dx_get (mem_dexie key) t)(key r \<mapsto> r)"
    by (auto simp: mem_dexie_def mem_get_def)
  show "dx_get (mem_dexie key) (dx_delete (mem_dexie key) t k) = (dx_get (mem_dexie key) t)(k := None)"
    by (simp add: mem_dexie_def mem_get_filter_key)
  show "key r = k" if "dx_get (mem_dexie key) t k = Some r"
    using that by (auto simp: mem_dexie_def mem_get_def dest: find_Some_mem)
  show "\<exists>t'. dx_add (mem_dexie key) t r = Some t' \<and>
      dx_get (mem_dexie key) t' = (dx_get (mem_dexie key) t)(key r \<mapsto> r)"
    if "dx_get (mem_dexie key) t (key r) = None"
    using that by (auto simp: mem_dexie_def mem_get_def)
  show "dx_add (mem_dexie key) t r = None" if "dx_get (mem_dexie key) t (key r) \<noteq> None"
    using that by (simp add: mem_dexie_def)
  show "dx_get (mem_dexie key) (dx_bulk_put (mem_dexie key) t rs) =
      dx_get (mem_dexie key) (fold (\<lambda>r t. dx_put (mem_dexie key) t r) rs t)"
    by (simp add: mem_dexie_def mem_get_rev_append)
  show "dx_get (mem_dexie key) (dx_update (mem_dexie key) t k f) =
      (dx_get (mem_dexie key) t)(k := map_option f (dx_get (mem_dexie key) t k))"
    if "\<And>r. key (f r) = key r"
    using that by (simp add: mem_dexie_def mem_get_update)
  show "dx_get (mem_dexie key) (dx_delete_where (mem_dexie key) t P) k =
      (case dx_get (mem_dexie key) t k of None \<Rightarrow> None | Some r \<Rightarrow> if P r then None else Some r)"
    by (auto simp: mem_dexie_def mem_get_filter_rows distinct_mem_rows mem_get_mem_rows
        split: option.splits)
  show "dx_get (mem_dexie key) (dx_modify_where (mem_dexie key) t P f) k =
      map_option (\<lambda>r. if P r then f r else r) (dx_get (mem_dexie key) t k)"
    if "\<And>r. key (f r) = key r"
    using that by (simp add: mem_dexie_def mem_get_map)
  show "dx_where (mem_dexie key) t P = filter P (dx_to_array (mem_dexie key) t)"
    by (simp add: mem_dexie_def)
  show "dx_count (mem_dexie key) t P = length (filter P (dx_to_array (mem_dexie key) t))"
    by (simp add: mem_dexie_def)
  show "set (dx_to_array (mem_dexie key) t) = ran (dx_get (mem_dexie key) t)"
    by (auto simp: mem_dexie_def mem_to_list_def set_mem_rows ran_def mem_get_def
        dest: find_Some_mem)
  show "sorted_wrt (<) (map key (dx_to_array (mem_dexie key) t))"
    by (simp add: mem_dexie_def mem_to_list_def strict_sorted_iff distinct_map
        distinct_mem_rows [unfolded distinct_map])
  show "dx_order_by (mem_dexie key) t g = sort_key g (dx_to_array (mem_dexie key) t)"
    by (simp add: mem_dexie_def)
qed

end
