(* ===== verification/Js_Object.thy ===== *)
theory Js_Object
  imports Prelude
begin

section \<open>Plain JavaScript objects used as dictionaries\<close>

text \<open>
  The client uses plain objects as dictionaries (the emoji table, the poller's table of latest
  notifications). Two facts of the language matter for that and are modelled here: the operator
  \<open>in\<close> also finds the properties inherited from \<open>Object.prototype\<close>, and own properties are
  listed with the integer-like keys first, in ascending order, then the others in creation order.
\<close>

type_synonym 'v js_obj = "(string \<times> 'v) list"

definition proto_names :: "string list" where
  "proto_names =
     [''constructor'', ''__defineGetter__'', ''__defineSetter__'', ''hasOwnProperty'',
      ''__lookupGetter__'', ''__lookupSetter__'', ''isPrototypeOf'', ''propertyIsEnumerable'',
      ''toString'', ''valueOf'', ''__proto__'', ''toLocaleString'']"

definition inherited :: "string \<Rightarrow> bool" where
  "inherited k \<longleftrightarrow> k \<in> set proto_names"

text \<open>What an inherited property of \<open>Object.prototype\<close> turns into when it is joined into a text.\<close>

definition inherited_text :: "string \<Rightarrow> string" where
  "inherited_text k =
     (if k = ''__proto__'' then ''[object Object]''
      else ''function '' @ (if k = ''constructor'' then ''Object'' else k) @ ''() { [native code] }'')"

definition obj_in :: "'v js_obj \<Rightarrow> string \<Rightarrow> bool" where
  "obj_in ob k \<longleftrightarrow> map_of ob k \<noteq> None \<or> inherited k"

text \<open>\<open>ob[k] = v\<close>; assigning \<open>__proto__\<close> changes the prototype and makes no own property.\<close>

definition obj_set :: "'v js_obj \<Rightarrow> string \<Rightarrow> 'v \<Rightarrow> 'v js_obj" where
  "obj_set ob k v = (if k = ''__proto__'' then ob else AList.update k v ob)"

text \<open>An integer-like key: a canonical decimal below \<open>2 ^ 32 - 1\<close>.\<close>

definition array_index :: "string \<Rightarrow> nat option" where
  "array_index k =
     (case k of
        [] \<Rightarrow> None
      | c # cs \<Rightarrow>
          if c = CHR ''0'' \<and> cs \<noteq> [] then None
          else case digits_val 0 k of
                 None \<Rightarrow> None
               | Some n \<Rightarrow> if n < 2 ^ 32 - 1 then Some n else None)"

definition index_key :: "string \<times> 'v \<Rightarrow> nat" where
  "index_key e = coalesce (array_index (fst e)) 0"

definition obj_entries :: "'v js_obj \<Rightarrow> (string \<times> 'v) list" where
  "obj_entries ob =
     sort_key index_key (filter (\<lambda>e. array_index (fst e) \<noteq> None) ob) @
     filter (\<lambda>e. array_index (fst e) = None) ob"

definition obj_values :: "'v js_obj \<Rightarrow> 'v list" where
  "obj_values ob = map snd (obj_entries ob)"

lemma map_of_obj_set [simp]:
  "map_of (obj_set ob k v) = (if k = ''__proto__'' then map_of ob else (map_of ob)(k \<mapsto> v))"
  by (auto simp: obj_set_def update_conv')

lemma distinct_obj_set: "distinct (map fst ob) \<Longrightarrow> distinct (map fst (obj_set ob k v))"
  by (simp add: obj_set_def distinct_update)

lemma set_obj_entries [simp]: "set (obj_entries ob) = set ob"
  by (auto simp: obj_entries_def)

lemma mset_obj_entries: "mset (obj_entries ob) = mset ob"
  by (auto simp: obj_entries_def multiset_eq_iff)

lemma distinct_obj_entries:
  assumes "distinct (map fst ob)"
  shows "distinct (map fst (obj_entries ob))"
proof -
  have "mset (map fst (obj_entries ob)) = mset (map fst ob)"
    by (simp add: mset_obj_entries)
  with assms show ?thesis by (metis mset_eq_imp_distinct_iff)
qed

lemma set_obj_values: "set (obj_values ob) = snd ` set ob"
  by (simp add: obj_values_def)

text \<open>Without integer-like keys the listing is the creation order.\<close>

lemma obj_entries_plain:
  "(\<And>k. k \<in> set (map fst ob) \<Longrightarrow> array_index k = None) \<Longrightarrow> obj_entries ob = ob"
  by (force simp: obj_entries_def filter_empty_conv intro: filter_True)

end
