(* ===== verification/Client_Types.thy ===== *)
theory Client_Types
  imports Stores Js_Object
begin

section \<open>The data of the web client\<close>

text \<open>
  The objects the client passes around: the server-provided configuration (web/public/config.js
  and app/config.js), users and their credentials, messages with their actions and attachments
  (the JSON of server/types.go, plus the three fields the client adds before storing one), and
  subscriptions. An optional JSON property is an \<open>option\<close>; the server always sends \<open>id\<close>, \<open>time\<close>
  and \<open>event\<close>, so a message has them, and the checks of the code for their presence are made on
  incoming frames (Connection.thy, Api.thy) before one becomes a message.
\<close>

subsection \<open>config.js\<close>

record config =
  base_url :: string
  app_root :: string
  enable_login :: bool
  require_login :: bool
  enable_signup :: bool
  enable_payments :: bool
  enable_reservations :: bool
  enable_emails :: bool
  enable_calls :: bool
  enable_web_push :: bool
  billing_contact :: string
  web_push_public_key :: string
  disallowed_topics :: "string list"
  config_hash :: string

text \<open>The server may leave \<open>base_url\<close> empty; the client then uses \<open>window.location.origin\<close>.\<close>

definition init_config :: "string \<Rightarrow> config \<Rightarrow> config" where
  "init_config origin c = (if base_url c = [] then c\<lparr>base_url := origin\<rparr> else c)"

text \<open>A configuration to write examples down with.\<close>

definition plain_config :: config where
  "plain_config = \<lparr>base_url = ''https://c'', app_root = ''/app'', enable_login = True,
     require_login = False, enable_signup = True, enable_payments = False, enable_reservations = True,
     enable_emails = True, enable_calls = True, enable_web_push = True, billing_contact = [],
     web_push_public_key = [], disallowed_topics = [''docs''],
     config_hash = []\<rparr>"

subsection \<open>Users\<close>

record user =
  u_baseUrl :: string
  u_username :: string
  u_password :: "string option"
  u_token :: "string option"

subsection \<open>Events (events.js) and actions (actions.js)\<close>

definition EVENT_OPEN :: string where "EVENT_OPEN = ''open''"
definition EVENT_KEEPALIVE :: string where "EVENT_KEEPALIVE = ''keepalive''"
definition EVENT_MESSAGE :: string where "EVENT_MESSAGE = ''message''"
definition EVENT_MESSAGE_DELETE :: string where "EVENT_MESSAGE_DELETE = ''message_delete''"
definition EVENT_MESSAGE_CLEAR :: string where "EVENT_MESSAGE_CLEAR = ''message_clear''"
definition EVENT_POLL_REQUEST :: string where "EVENT_POLL_REQUEST = ''poll_request''"
definition EVENT_COOP_TYPING :: string where "EVENT_COOP_TYPING = ''coop_typing''"
definition EVENT_COOP_NUDGE :: string where "EVENT_COOP_NUDGE = ''coop_nudge''"

definition WEBPUSH_EVENT_MESSAGE :: string where "WEBPUSH_EVENT_MESSAGE = ''message''"
definition WEBPUSH_EVENT_SUBSCRIPTION_EXPIRING :: string where
  "WEBPUSH_EVENT_SUBSCRIPTION_EXPIRING = ''subscription_expiring''"

definition isNotificationEvent :: "string \<Rightarrow> bool" where
  "isNotificationEvent ev \<longleftrightarrow> ev = EVENT_MESSAGE \<or> ev = EVENT_MESSAGE_DELETE \<or>
     ev = EVENT_MESSAGE_CLEAR \<or> ev = EVENT_COOP_NUDGE"

definition isCoopSocialEvent :: "string \<Rightarrow> bool" where
  "isCoopSocialEvent ev \<longleftrightarrow> ev = EVENT_COOP_TYPING"

definition ACTION_VIEW :: string where "ACTION_VIEW = ''view''"
definition ACTION_BROADCAST :: string where "ACTION_BROADCAST = ''broadcast''"
definition ACTION_HTTP :: string where "ACTION_HTTP = ''http''"
definition ACTION_COPY :: string where "ACTION_COPY = ''copy''"

lemmas event_names =
  EVENT_OPEN_def EVENT_KEEPALIVE_def EVENT_MESSAGE_def EVENT_MESSAGE_DELETE_def
  EVENT_MESSAGE_CLEAR_def EVENT_POLL_REQUEST_def EVENT_COOP_TYPING_def EVENT_COOP_NUDGE_def

lemmas action_names = ACTION_VIEW_def ACTION_BROADCAST_def ACTION_HTTP_def ACTION_COPY_def

lemma event_names_distinct:
  "distinct [EVENT_OPEN, EVENT_KEEPALIVE, EVENT_MESSAGE, EVENT_MESSAGE_DELETE, EVENT_MESSAGE_CLEAR,
     EVENT_POLL_REQUEST, EVENT_COOP_TYPING, EVENT_COOP_NUDGE]"
  by (simp add: event_names)

lemma event_names_neq [simp]:
  "EVENT_MESSAGE \<noteq> EVENT_MESSAGE_DELETE" "EVENT_MESSAGE \<noteq> EVENT_MESSAGE_CLEAR"
  "EVENT_MESSAGE_DELETE \<noteq> EVENT_MESSAGE" "EVENT_MESSAGE_CLEAR \<noteq> EVENT_MESSAGE"
  "EVENT_MESSAGE_DELETE \<noteq> EVENT_MESSAGE_CLEAR" "EVENT_MESSAGE_CLEAR \<noteq> EVENT_MESSAGE_DELETE"
  "EVENT_MESSAGE \<noteq> EVENT_OPEN" "EVENT_OPEN \<noteq> EVENT_MESSAGE"
  "EVENT_MESSAGE \<noteq> EVENT_COOP_TYPING" "EVENT_COOP_TYPING \<noteq> EVENT_MESSAGE"
  "EVENT_COOP_TYPING \<noteq> EVENT_OPEN" "EVENT_OPEN \<noteq> EVENT_COOP_TYPING"
  by (simp_all add: event_names)

subsection \<open>Messages\<close>

record attachment =
  att_name :: "string option"
  att_type :: "string option"
  att_url :: "string option"
  att_size :: "int option"
  att_expires :: "int option"

datatype progress = Ongoing | Success | Failed

record action =
  act_id :: string
  act_action :: string
  act_label :: string
  act_url :: string
  act_clear :: bool
  act_method :: "string option"
  act_headers :: "(string \<times> string) list option"
  act_body :: "string option"
  act_value :: "string option"
  act_progress :: "progress option"
  act_error :: "string option"

record notification =
  n_id :: string
  n_time :: int
  n_event :: string
  n_topic :: string
  n_sequence_id :: "string option"
  n_title :: "string option"
  n_message :: "string option"
  n_priority :: "int option"
  n_tags :: "string list option"
  n_click :: "string option"
  n_actions :: "action list option"
  n_attachment :: "attachment option"
  n_content_type :: "string option"
  n_sender :: "string option"
  n_reply_to_text :: "string option"
  n_sequenceId :: "string option"
  n_subscriptionId :: "string option"
  n_new :: "nat option"

text \<open>A message with only the mandatory properties, to write examples down with.\<close>

definition plain_message :: "string \<Rightarrow> int \<Rightarrow> string \<Rightarrow> notification" where
  "plain_message i t ev = \<lparr>n_id = i, n_time = t, n_event = ev, n_topic = [], n_sequence_id = None,
     n_title = None, n_message = None, n_priority = None, n_tags = None, n_click = None,
     n_actions = None, n_attachment = None, n_content_type = None, n_sender = None,
     n_reply_to_text = None, n_sequenceId = None, n_subscriptionId = None, n_new = None\<rparr>"

subsection \<open>Subscriptions\<close>

record reservation =
  r_topic :: string
  r_everyone :: string

record subscription =
  s_id :: string
  s_baseUrl :: string
  s_topic :: string
  s_mutedUntil :: int
  s_last :: "string option"
  s_displayName :: "string option"
  s_internal :: bool
  s_reservation :: "reservation option"
  s_state :: "string option"

end
