(* ===== verification/Utils.thy ===== *)
theory Utils
  imports Client_Types
begin

section \<open>The utility functions (app/utils.js)\<close>

text \<open>
  The pure functions of utils.js: the URLs of the server's endpoints, the checks on topics, the
  authorisation headers, the shuffle, the 32-bit string hash that identifies connections, and the
  line iterator over a streamed response. Base64 comes from the package js-base64 and is a
  parameter; the random choices of \<open>Math.random\<close> are parameters too.
\<close>

subsection \<open>URLs\<close>

definition tiersUrl :: "string \<Rightarrow> string" where "tiersUrl b = b @ ''/v1/tiers''"

text \<open>\<open>url.replaceAll(/https?:\/\//g, "")\<close>: one pass from the left.\<close>

function shortUrl :: "string \<Rightarrow> string" where
  "shortUrl url =
     (if url = [] then []
      else if starts_with url ''https://'' then shortUrl (drop 8 url)
      else if starts_with url ''http://'' then shortUrl (drop 7 url)
      else hd url # shortUrl (tl url))"
  by pat_completeness auto
termination
  by (relation "measure length") (auto simp: neq_Nil_conv)

declare shortUrl.simps [simp del]

definition expandUrl :: "string \<Rightarrow> string list" where
  "expandUrl url = [''https://'' @ url, ''http://'' @ url]"

definition expandSecureUrl :: "string \<Rightarrow> string" where
  "expandSecureUrl url = ''https://'' @ url"

definition topicUrl :: "string \<Rightarrow> string \<Rightarrow> string" where
  "topicUrl b topic = b @ ''/'' @ topic"

definition topicUrlWs :: "string \<Rightarrow> string \<Rightarrow> string" where
  "topicUrlWs b topic =
     replace_all ''http://'' ''ws://''
       (replace_all ''https://'' ''wss://'' (topicUrl b topic @ ''/ws''))"

definition topicUrlJson :: "string \<Rightarrow> string \<Rightarrow> string" where
  "topicUrlJson b topic = topicUrl b topic @ ''/json''"

definition topicUrlJsonPoll :: "string \<Rightarrow> string \<Rightarrow> string" where
  "topicUrlJsonPoll b topic = topicUrlJson b topic @ ''?poll=1''"

definition topicUrlJsonPollWithSince :: "string \<Rightarrow> string \<Rightarrow> string \<Rightarrow> string" where
  "topicUrlJsonPollWithSince b topic since = topicUrlJson b topic @ ''?poll=1&since='' @ since"

definition topicUrlAuth :: "string \<Rightarrow> string \<Rightarrow> string" where
  "topicUrlAuth b topic = topicUrl b topic @ ''/auth''"

definition topicShortUrl :: "string \<Rightarrow> string \<Rightarrow> string" where
  "topicShortUrl b topic = shortUrl (topicUrl b topic)"

definition webPushUrl :: "string \<Rightarrow> string" where "webPushUrl b = b @ ''/v1/webpush''"
definition accountUrl :: "string \<Rightarrow> string" where "accountUrl b = b @ ''/v1/account''"
definition accountPasswordUrl :: "string \<Rightarrow> string" where
  "accountPasswordUrl b = b @ ''/v1/account/password''"
definition accountTokenUrl :: "string \<Rightarrow> string" where "accountTokenUrl b = b @ ''/v1/account/token''"
definition accountSettingsUrl :: "string \<Rightarrow> string" where
  "accountSettingsUrl b = b @ ''/v1/account/settings''"
definition accountSubscriptionUrl :: "string \<Rightarrow> string" where
  "accountSubscriptionUrl b = b @ ''/v1/account/subscription''"
definition accountReservationUrl :: "string \<Rightarrow> string" where
  "accountReservationUrl b = b @ ''/v1/account/reservation''"
definition accountReservationSingleUrl :: "string \<Rightarrow> string \<Rightarrow> string" where
  "accountReservationSingleUrl b topic = b @ ''/v1/account/reservation/'' @ topic"
definition accountBillingSubscriptionUrl :: "string \<Rightarrow> string" where
  "accountBillingSubscriptionUrl b = b @ ''/v1/account/billing/subscription''"
definition accountBillingPortalUrl :: "string \<Rightarrow> string" where
  "accountBillingPortalUrl b = b @ ''/v1/account/billing/portal''"
definition accountPhoneUrl :: "string \<Rightarrow> string" where "accountPhoneUrl b = b @ ''/v1/account/phone''"
definition accountPhoneVerifyUrl :: "string \<Rightarrow> string" where
  "accountPhoneVerifyUrl b = b @ ''/v1/account/phone/verify''"

definition validUrl :: "string \<Rightarrow> bool" where
  "validUrl url \<longleftrightarrow>
     (\<exists>p \<in> set [''http://'', ''https://''].
        starts_with url p \<and>
        (case drop (length p) url of [] \<Rightarrow> False
           | c # _ \<Rightarrow> c \<noteq> CHR 0x0A \<and> c \<noteq> CHR 0x0D))"

subsection \<open>Topics and display names\<close>

definition disallowedTopic :: "config \<Rightarrow> string \<Rightarrow> bool" where
  "disallowedTopic cfg topic \<longleftrightarrow> topic \<in> set (disallowed_topics cfg)"

definition topic_char :: "char \<Rightarrow> bool" where
  "topic_char c \<longleftrightarrow>
     (let n = of_char c :: nat
      in n = 45 \<or> n = 95 \<or> (48 \<le> n \<and> n \<le> 57) \<or> (65 \<le> n \<and> n \<le> 90) \<or> (97 \<le> n \<and> n \<le> 122))"

definition validTopic :: "config \<Rightarrow> string \<Rightarrow> bool" where
  "validTopic cfg topic \<longleftrightarrow>
     (if disallowedTopic cfg topic then False
      else 1 \<le> length topic \<and> length topic \<le> 64 \<and> list_all topic_char topic)"

definition topicDisplayName :: "config \<Rightarrow> subscription \<Rightarrow> string" where
  "topicDisplayName cfg sub =
     (if truthy (s_displayName sub) then coalesce (s_displayName sub) []
      else if s_baseUrl sub = base_url cfg then s_topic sub
      else topicShortUrl (s_baseUrl sub) (s_topic sub))"

definition unmatchedTags :: "string js_obj \<Rightarrow> string list option \<Rightarrow> string list" where
  "unmatchedTags emojis tags =
     (case tags of None \<Rightarrow> [] | Some ts \<Rightarrow> filter (\<lambda>tag. \<not> obj_in emojis tag) ts)"

subsection \<open>Authorisation headers\<close>

text \<open>Header objects, with the spread \<open>{ ...headers, Authorization: v }\<close> as an update in place.\<close>

type_synonym headers = "(string \<times> string) list"

record base64_lib =
  b64_encode :: "string \<Rightarrow> string"
  b64_encode_uri :: "string \<Rightarrow> string"

definition bearerAuth :: "string \<Rightarrow> string" where
  "bearerAuth token = ''Bearer '' @ token"

definition basicAuth :: "base64_lib \<Rightarrow> string \<Rightarrow> string \<Rightarrow> string" where
  "basicAuth B username password = ''Basic '' @ b64_encode B (username @ '':'' @ password)"

definition withBearerAuth :: "headers \<Rightarrow> string \<Rightarrow> headers" where
  "withBearerAuth hs token = AList.update ''Authorization'' (bearerAuth token) hs"

definition maybeWithBearerAuth :: "headers \<Rightarrow> string option \<Rightarrow> headers" where
  "maybeWithBearerAuth hs token =
     (if truthy token then withBearerAuth hs (coalesce token []) else hs)"

definition withBasicAuth :: "base64_lib \<Rightarrow> headers \<Rightarrow> string \<Rightarrow> string \<Rightarrow> headers" where
  "withBasicAuth B hs username password =
     AList.update ''Authorization'' (basicAuth B username password) hs"

definition maybeWithAuth :: "base64_lib \<Rightarrow> headers \<Rightarrow> user option \<Rightarrow> headers" where
  "maybeWithAuth B hs user =
     (case user of
        None \<Rightarrow> hs
      | Some u \<Rightarrow>
          if truthy (u_password u) then withBasicAuth B hs (u_username u) (coalesce (u_password u) [])
          else if truthy (u_token u) then withBearerAuth hs (coalesce (u_token u) [])
          else hs)"

definition maybeActionErrors :: "notification \<Rightarrow> string option" where
  "maybeActionErrors n =
     (let actionErrors = join [CHR 0x0A]
            (map (\<lambda>e. coalesce e []) (filter truthy (map act_error (coalesce (n_actions n) []))))
      in if length actionErrors = 0 then None else Some actionErrors)"

lemma map_of_withBearerAuth [simp]:
  "map_of (withBearerAuth hs t) = (map_of hs)(''Authorization'' \<mapsto> bearerAuth t)"
  by (simp add: withBearerAuth_def update_conv')

lemma map_of_withBasicAuth [simp]:
  "map_of (withBasicAuth B hs u p) = (map_of hs)(''Authorization'' \<mapsto> basicAuth B u p)"
  by (simp add: withBasicAuth_def update_conv')

subsection \<open>Shuffle, split, random ids\<close>

definition list_swap :: "'a list \<Rightarrow> nat \<Rightarrow> nat \<Rightarrow> 'a list" where
  "list_swap xs i j = xs[i := xs ! j, j := xs ! i]"

text \<open>\<open>pick index\<close> is \<open>Math.floor(Math.random() * (index + 1))\<close>.\<close>

fun shuffle_from :: "(nat \<Rightarrow> nat) \<Rightarrow> nat \<Rightarrow> 'a list \<Rightarrow> 'a list" where
  "shuffle_from pick 0 xs = xs"
| "shuffle_from pick (Suc i) xs = shuffle_from pick i (list_swap xs (Suc i) (pick (Suc i)))"

definition shuffle :: "(nat \<Rightarrow> nat) \<Rightarrow> 'a list \<Rightarrow> 'a list" where
  "shuffle pick arr = shuffle_from pick (length arr - 1) arr"

definition splitNoEmpty :: "string \<Rightarrow> char \<Rightarrow> string list" where
  "splitNoEmpty s delimiter = filter (\<lambda>x. x \<noteq> []) (map js_trim (split_on delimiter s))"

definition alphabet :: string where
  "alphabet = ''abcdefghijklmnopqrstuvwxyzABCDEFGHIJKLMNOPQRSTUVWXYZ0123456789''"

text \<open>\<open>pick i\<close> is \<open>(Math.random() * alphabet.length) | 0\<close> in round \<open>i\<close>.\<close>

definition randomAlphanumericString :: "(nat \<Rightarrow> nat) \<Rightarrow> nat \<Rightarrow> string" where
  "randomAlphanumericString pick len = map (\<lambda>i. alphabet ! pick i) [0..<len]"

definition getKebabCaseLangStr :: "string \<Rightarrow> string" where
  "getKebabCaseLangStr language = map (\<lambda>c. if c = CHR ''_'' then CHR ''-'' else c) language"

definition darkModeEnabled :: "bool \<Rightarrow> string \<Rightarrow> bool" where
  "darkModeEnabled prefersDarkMode themePreference \<longleftrightarrow> themePreference = ''dark''"

lemma mset_list_swap:
  "i < length xs \<Longrightarrow> j < length xs \<Longrightarrow> mset (list_swap xs i j) = mset xs"
  by (simp add: list_swap_def mset_swap)

lemma length_list_swap [simp]: "length (list_swap xs i j) = length xs"
  by (simp add: list_swap_def)

lemma mset_shuffle_from:
  "i < length xs \<or> i = 0 \<Longrightarrow> (\<And>k. pick k \<le> k) \<Longrightarrow> mset (shuffle_from pick i xs) = mset xs"
proof (induction i arbitrary: xs)
  case 0
  then show ?case by simp
next
  case (Suc i)
  then have "pick (Suc i) < length xs" by (metis Zero_not_Suc le_less_trans)
  with Suc show ?case by (simp add: mset_list_swap)
qed

lemma topic_char_alphabet: "list_all topic_char alphabet"
  by (simp add: alphabet_def topic_char_def Let_def)

lemma length_alphabet: "length alphabet = 62"
  by (simp add: alphabet_def)

subsection \<open>The string hash\<close>

text \<open>
  \<open>hash = (hash << 5) - hash + char; hash &= hash\<close>: every round ends in a 32-bit integer, so the
  arithmetic is that of a 32-bit word; the result is read as a signed number.
\<close>

fun hash_loop :: "32 word \<Rightarrow> 16 word list \<Rightarrow> 32 word" where
  "hash_loop hash [] = hash"
| "hash_loop hash (char # cs) = hash_loop (push_bit 5 hash - hash + ucast char) cs"

definition hash_units :: "16 word list \<Rightarrow> int" where
  "hash_units us = sint (hash_loop 0 us)"

definition hashCode :: "string \<Rightarrow> int" where
  "hashCode s = hash_units (code_units s)"

text \<open>The polynomial the hash computes, on integers.\<close>

fun hash_poly :: "int \<Rightarrow> 16 word list \<Rightarrow> int" where
  "hash_poly acc [] = acc"
| "hash_poly acc (c # cs) = hash_poly (31 * acc + uint c) cs"

lemma hash_step: "push_bit 5 (h :: 32 word) - h + c = 31 * h + c"
  by (simp add: push_bit_eq_mult)

lemma hash_loop_poly: "hash_loop (word_of_int a) us = word_of_int (hash_poly a us)"
proof (induction us arbitrary: a)
  case Nil
  then show ?case by simp
next
  case (Cons c cs)
  have "word_of_int (31 * a + uint c) = 31 * word_of_int a + (word_of_int (uint c) :: 32 word)"
    by simp
  also have "word_of_int (uint c) = (ucast c :: 32 word)"
    by (simp only: ucast_eq)
  finally show ?case
    using Cons.IH [of "31 * a + uint c"] by (simp only: hash_loop.simps hash_poly.simps hash_step)
qed

lemma hash_loop_append: "hash_loop h (us @ vs) = hash_loop (hash_loop h us) vs"
  by (induction us arbitrary: h) auto

subsection \<open>Lines of a streamed response\<close>

text \<open>
  \<open>fetchLinesIterator\<close>: the reader delivers decoded chunks and then \<open>done\<close>. The regular
  expression \<open>/\n|\r|\r\n/\<close> always matches one unit, because its alternatives are tried in
  order. \<open>next_break\<close> is \<open>re.exec\<close> from \<open>startIndex\<close> (\<open>lastIndex\<close> equals it at every call).
\<close>

definition is_break :: "char \<Rightarrow> bool" where
  "is_break c \<longleftrightarrow> c = CHR 0x0A \<or> c = CHR 0x0D"

definition next_break :: "string \<Rightarrow> nat \<Rightarrow> nat option" where
  "next_break chunk start =
     (let n = length (takeWhile (\<lambda>c. \<not> is_break c) (drop start chunk))
      in if start + n < length chunk then Some (start + n) else None)"

function fetch_lines_loop :: "string \<Rightarrow> nat \<Rightarrow> bool \<Rightarrow> string list \<Rightarrow> string list" where
  "fetch_lines_loop chunk start reader_done reads =
     (case next_break chunk start of
        Some i \<Rightarrow> js_substring start i chunk # fetch_lines_loop chunk (Suc i) reader_done reads
      | None \<Rightarrow>
          if reader_done then (if start < length chunk then [drop start chunk] else [])
          else (case reads of
                  [] \<Rightarrow> fetch_lines_loop (drop start chunk) 0 True []
                | c # reads' \<Rightarrow> fetch_lines_loop (drop start chunk @ c) 0 False reads'))"
  by pat_completeness auto
termination
  by (relation "measures [\<lambda>(chunk, start, dn, reads). length reads,
        \<lambda>(chunk, start, dn, reads). if dn then 0 else 1,
        \<lambda>(chunk, start, dn, reads). length chunk - start]")
    (auto simp: next_break_def Let_def split: if_splits)

declare fetch_lines_loop.simps [simp del]

definition fetchLinesIterator :: "string list \<Rightarrow> string list" where
  "fetchLinesIterator reads =
     (case reads of [] \<Rightarrow> fetch_lines_loop [] 0 True [] | c # cs \<Rightarrow> fetch_lines_loop c 0 False cs)"

text \<open>The lines of a whole text: cut at every break, no empty last line.\<close>

function lines_of :: "string \<Rightarrow> string list" where
  "lines_of s =
     (if s = [] then []
      else (case dropWhile (\<lambda>c. \<not> is_break c) s of
              [] \<Rightarrow> [s]
            | _ # rest \<Rightarrow> takeWhile (\<lambda>c. \<not> is_break c) s # lines_of rest))"
  by pat_completeness auto
termination
proof (relation "measure length")
  fix s :: string and c rest
  assume "dropWhile (\<lambda>c. \<not> is_break c) s = c # rest"
  then show "(rest, s) \<in> measure length"
    by (metis Suc_le_eq in_measure length_Cons length_dropWhile_le)
qed simp

declare lines_of.simps [simp del]

lemma next_break_Some:
  assumes "next_break chunk start = Some i"
  shows "\<exists>c. drop start chunk = js_substring start i chunk @ c # drop (Suc i) chunk \<and> is_break c \<and>
    takeWhile (\<lambda>c. \<not> is_break c) (drop start chunk) = js_substring start i chunk \<and>
    start \<le> i \<and> i < length chunk"
proof -
  let ?t = "takeWhile (\<lambda>c. \<not> is_break c) (drop start chunk)"
  from assms have i: "i = start + length ?t" "i < length chunk"
    by (auto simp: next_break_def Let_def split: if_splits)
  then have le: "start \<le> i" by simp
  have t: "?t = js_substring start i chunk"
    unfolding js_substring_def i(1) by (simp add: takeWhile_eq_take [symmetric])
  have "length ?t < length (drop start chunk)" using i by simp
  then have "is_break (drop start chunk ! length ?t)"
    using nth_length_takeWhile by fastforce
  then have b: "is_break (chunk ! i)" using i by (simp add: add.commute)
  have "drop start chunk = take (i - start) (drop start chunk) @ drop (i - start) (drop start chunk)"
    by (rule append_take_drop_id [symmetric])
  also have "drop (i - start) (drop start chunk) = drop i chunk"
    using le by simp
  also have "drop i chunk = chunk ! i # drop (Suc i) chunk"
    using i(2) by (rule Cons_nth_drop_Suc [symmetric])
  also have "take (i - start) (drop start chunk) = js_substring start i chunk"
    by (simp only: js_substring_def)
  finally show ?thesis using b t le i(2) by blast
qed

lemma next_break_None:
  "next_break chunk start = None \<Longrightarrow> \<forall>c \<in> set (drop start chunk). \<not> is_break c"
proof -
  assume "next_break chunk start = None"
  then have "\<not> start + length (takeWhile (\<lambda>c. \<not> is_break c) (drop start chunk)) < length chunk"
    by (auto simp: next_break_def Let_def split: if_splits)
  then have "length (takeWhile (\<lambda>c. \<not> is_break c) (drop start chunk)) \<ge> length (drop start chunk)"
    by simp
  then show ?thesis
    by (metis (no_types, lifting) le_antisym length_takeWhile_le nth_equalityI set_takeWhileD
        takeWhile_eq_take take_all)
qed

lemma lines_of_break:
  "\<lbrakk>drop start s = l @ c # r; is_break c; takeWhile (\<lambda>c. \<not> is_break c) (drop start s) = l\<rbrakk>
     \<Longrightarrow> lines_of (drop start s @ t) = l # lines_of (r @ t)"
proof -
  assume d: "drop start s = l @ c # r" and c: "is_break c"
    and "takeWhile (\<lambda>c. \<not> is_break c) (drop start s) = l"
  then have "\<forall>x \<in> set l. \<not> is_break x" by (metis set_takeWhileD)
  with c show ?thesis
    by (subst lines_of.simps) (simp add: d dropWhile_append3 takeWhile_append)
qed

lemma lines_of_no_break:
  "\<forall>c \<in> set s. \<not> is_break c \<Longrightarrow> lines_of s = (if s = [] then [] else [s])"
  by (subst lines_of.simps) (simp add: dropWhile_eq_Nil_conv [THEN iffD2])

lemma fetch_lines_loop_eq:
  "(dn \<longrightarrow> reads = []) \<Longrightarrow>
     fetch_lines_loop chunk start dn reads = lines_of (drop start chunk @ concat reads)"
proof (induction chunk start dn reads rule: fetch_lines_loop.induct)
  case (1 chunk start dn reads)
  show ?case
  proof (cases "next_break chunk start")
    case (Some i)
    then obtain c where c: "drop start chunk = js_substring start i chunk @ c # drop (Suc i) chunk"
      "is_break c" "takeWhile (\<lambda>c. \<not> is_break c) (drop start chunk) = js_substring start i chunk"
      using next_break_Some by blast
    have "fetch_lines_loop chunk start dn reads =
        js_substring start i chunk # fetch_lines_loop chunk (Suc i) dn reads"
      by (subst fetch_lines_loop.simps) (simp add: Some)
    also have "fetch_lines_loop chunk (Suc i) dn reads = lines_of (drop (Suc i) chunk @ concat reads)"
      using "1.IH"(3) [OF Some] "1.prems" by blast
    finally show ?thesis using lines_of_break [OF c, of "concat reads"] by simp
  next
    case None
    then have nb: "\<forall>c \<in> set (drop start chunk). \<not> is_break c" by (rule next_break_None)
    show ?thesis
    proof (cases dn)
      case True
      with "1.prems" have "reads = []" by simp
      with True None show ?thesis
        by (subst fetch_lines_loop.simps) (simp add: lines_of_no_break [OF nb])
    next
      case False
      show ?thesis
      proof (cases reads)
        case Nil
        with None False "1.IH"(1) [OF None False Nil] show ?thesis
          by (subst fetch_lines_loop.simps) simp
      next
        case (Cons c cs)
        with None False "1.IH"(2) [OF None False Cons] show ?thesis
          by (subst fetch_lines_loop.simps) simp
      qed
    qed
  qed
qed

subsection \<open>Properties\<close>

text \<open>
  The line iterator yields the lines of the whole response body, however the network cuts the
  body into chunks: no line is lost, split or joined at a chunk border, and the iterator ends.
\<close>

theorem stream_lines: "fetchLinesIterator reads = lines_of (concat reads)"
  by (cases reads) (simp_all add: fetchLinesIterator_def fetch_lines_loop_eq)

text \<open>
  The string hash is the polynomial with base 31 over the UTF-16 code units, wrapped to a signed
  32-bit number after every step or only once at the end; it stays within 32 bits.
\<close>

theorem hash_code_wraps:
  "hashCode s = (hash_poly 0 (code_units s) + 2 ^ 31) mod 2 ^ 32 - 2 ^ 31 \<and>
   - (2 ^ 31) \<le> hashCode s \<and> hashCode s < 2 ^ 31"
proof -
  have "hash_loop 0 (code_units s) = word_of_int (hash_poly 0 (code_units s))"
    using hash_loop_poly [of 0 "code_units s"] by simp
  moreover have "sint (word_of_int k :: 32 word) = signed_take_bit 31 k" for k
    by transfer simp
  ultimately have "hashCode s = signed_take_bit 31 (hash_poly 0 (code_units s))"
    by (simp add: hashCode_def hash_units_def)
  also have "\<dots> = (hash_poly 0 (code_units s) + 2 ^ 31) mod 2 ^ 32 - 2 ^ 31"
    by (simp add: signed_take_bit_eq_take_bit_shift take_bit_eq_mod)
  finally have e: "hashCode s = (hash_poly 0 (code_units s) + 2 ^ 31) mod 2 ^ 32 - 2 ^ 31" .
  define m where "m = (hash_poly 0 (code_units s) + 2 ^ 31) mod 2 ^ 32"
  have m: "0 \<le> m" "m < 4294967296" by (simp_all add: m_def)
  have "hashCode s = m - 2147483648" using e by (simp add: m_def)
  with m have "- 2147483648 \<le> hashCode s \<and> hashCode s < 2147483648" by linarith
  with e show ?thesis by simp
qed

subsection \<open>Percent-encoding, as in the addresses of the coop API\<close>

definition hex_digit :: "nat \<Rightarrow> char" where
  "hex_digit n = char_of (if n < 10 then 48 + n else 55 + n)"

definition percent :: "nat \<Rightarrow> string" where
  "percent n = [CHR ''%'', hex_digit (n div 16), hex_digit (n mod 16)]"

definition uri_unreserved :: "char \<Rightarrow> bool" where
  "uri_unreserved c \<longleftrightarrow>
     (let n = of_char c :: nat
      in (48 \<le> n \<and> n \<le> 57) \<or> (65 \<le> n \<and> n \<le> 90) \<or> (97 \<le> n \<and> n \<le> 122) \<or>
         n \<in> {45, 95, 46, 33, 126, 42, 39, 40, 41})"

text \<open>\<open>encodeURIComponent\<close>: percent-encoded UTF-8; units from 128 to 255 take two bytes.\<close>

definition encode_uri_char :: "char \<Rightarrow> string" where
  "encode_uri_char c =
     (let n = of_char c :: nat
      in if uri_unreserved c then [c]
         else if n < 128 then percent n
         else percent (192 + n div 64) @ percent (128 + n mod 64))"

definition encodeURIComponent :: "string \<Rightarrow> string" where
  "encodeURIComponent s = concat (map encode_uri_char s)"

end
