(* ===== verification/Notification_Utils.thy ===== *)
theory Notification_Utils
  imports Utils
begin

section \<open>Formatting notifications (app/notificationUtils.js, app/emojisMapped.js)\<close>

text \<open>
  How a message becomes what the user sees: tags that are emoji aliases become emojis in front of
  the title or the body, an attachment is recognised as an image, and a message becomes the
  arguments of the browser's \<open>showNotification\<close>. The functions are shared by the web app and the
  service worker. The emoji table is the argument \<open>emojis\<close>; \<open>emojisMapped\<close> builds it from the
  generated list of app/emojis.js.
\<close>

record raw_emoji =
  re_emoji :: string
  re_aliases :: "string list"

definition emojisMapped :: "raw_emoji list \<Rightarrow> string js_obj" where
  "emojisMapped raw =
     fold (\<lambda>(alias, e) ob. AList.update alias e ob)
       (concat (map (\<lambda>r. map (\<lambda>alias. (alias, re_emoji r)) (re_aliases r)) raw)) []"

text \<open>\<open>emojisMapped[tag]\<close> for a tag that is \<open>in\<close> the object, as it appears in a joined text.\<close>

definition emoji_text :: "string js_obj \<Rightarrow> string \<Rightarrow> string" where
  "emoji_text emojis tag =
     (case map_of emojis tag of Some e \<Rightarrow> e | None \<Rightarrow> inherited_text tag)"

definition toEmojis :: "string js_obj \<Rightarrow> string list option \<Rightarrow> string list" where
  "toEmojis emojis tags =
     (case tags of None \<Rightarrow> []
      | Some ts \<Rightarrow> map (emoji_text emojis) (filter (obj_in emojis) ts))"

text \<open>A property in a template literal: \<open>undefined\<close> is written out.\<close>

definition template :: "string option \<Rightarrow> string" where
  "template v = coalesce v ''undefined''"

definition formatTitle :: "string js_obj \<Rightarrow> notification \<Rightarrow> string option" where
  "formatTitle emojis m =
     (let emojiList = toEmojis emojis (n_tags m)
      in if length emojiList > 0 then Some (join '' '' emojiList @ '' '' @ template (n_title m))
         else n_title m)"

definition formatTitleWithDefault :: "string js_obj \<Rightarrow> notification \<Rightarrow> string \<Rightarrow> string option" where
  "formatTitleWithDefault emojis m fallback =
     (if truthy (n_title m) then formatTitle emojis m else Some fallback)"

definition formatMessage :: "string js_obj \<Rightarrow> notification \<Rightarrow> string" where
  "formatMessage emojis m =
     (if truthy (n_title m) then or_str (n_message m) []
      else let emojiList = toEmojis emojis (n_tags m)
           in if length emojiList > 0 then join '' '' emojiList @ '' '' @ or_str (n_message m) []
              else or_str (n_message m) [])"

text \<open>\<open>/\.(png|jpe?g|gif|webp)$/i\<close>\<close>

definition matches_image_regex :: "string \<Rightarrow> bool" where
  "matches_image_regex s \<longleftrightarrow>
     list_ex (\<lambda>ext. ends_with (js_lower s) ext) [''.png'', ''.jpg'', ''.jpeg'', ''.gif'', ''.webp'']"

definition isImage :: "attachment option \<Rightarrow> bool" where
  "isImage attachment =
     (case attachment of
        None \<Rightarrow> False
      | Some a \<Rightarrow>
          if truthy (att_type a) then starts_with (coalesce (att_type a) []) ''image/''
          else (case att_name a of None \<Rightarrow> False | Some n \<Rightarrow> matches_image_regex n) \<or>
               (case att_url a of None \<Rightarrow> False | Some u \<Rightarrow> matches_image_regex u))"

definition notificationTag :: "string \<Rightarrow> string \<Rightarrow> string \<Rightarrow> string" where
  "notificationTag b topic sequenceId = b @ ''/'' @ topic @ ''/'' @ sequenceId"

text \<open>\<open>message.sequence_id || message.id\<close>, used all over the client.\<close>

definition seq_of :: "notification \<Rightarrow> string" where
  "seq_of m = or_str (n_sequence_id m) (n_id m)"

record notification_params =
  np_title :: "string option"
  np_body :: string
  np_image :: "string option"
  np_timestamp :: int
  np_tag :: string
  np_subscriptionId :: string
  np_message :: notification
  np_topicRoute :: string
  np_actions :: "string list option"

definition toNotificationParams ::
  "string js_obj \<Rightarrow> notification \<Rightarrow> string \<Rightarrow> string \<Rightarrow> string \<Rightarrow> string \<Rightarrow> notification_params" where
  "toNotificationParams emojis m defaultTitle topicRoute b topic = \<lparr>
     np_title = formatTitleWithDefault emojis m defaultTitle,
     np_body = formatMessage emojis m,
     np_image = (if isImage (n_attachment m)
                 then (case n_attachment m of None \<Rightarrow> None | Some a \<Rightarrow> att_url a) else None),
     np_timestamp = n_time m * 1000,
     np_tag = notificationTag b topic (seq_of m),
     np_subscriptionId = b @ ''/'' @ topic,
     np_message = m,
     np_topicRoute = topicRoute,
     np_actions = map_option (\<lambda>as. map act_label
       (filter (\<lambda>a. act_action a = ACTION_VIEW \<or> act_action a = ACTION_HTTP) as)) (n_actions m)\<rparr>"

definition messageWithSequenceId :: "notification \<Rightarrow> notification" where
  "messageWithSequenceId m =
     (if truthy (n_sequenceId m) then m else m\<lparr>n_sequenceId := Some (seq_of m)\<rparr>)"

subsection \<open>Lemmas\<close>

lemma messageWithSequenceId_simps [simp]:
  "n_id (messageWithSequenceId m) = n_id m"
  "n_time (messageWithSequenceId m) = n_time m"
  "n_event (messageWithSequenceId m) = n_event m"
  "n_sequence_id (messageWithSequenceId m) = n_sequence_id m"
  "n_sender (messageWithSequenceId m) = n_sender m"
  "n_new (messageWithSequenceId m) = n_new m"
  "n_subscriptionId (messageWithSequenceId m) = n_subscriptionId m"
  by (simp_all add: messageWithSequenceId_def)

lemma messageWithSequenceId_server [simp]:
  "n_sequenceId m = None \<Longrightarrow> n_sequenceId (messageWithSequenceId m) = Some (seq_of m)"
  by (simp add: messageWithSequenceId_def)

lemma seq_of_ne: "n_id m \<noteq> [] \<Longrightarrow> seq_of m \<noteq> []"
  by (auto simp: seq_of_def or_str_def split: option.splits)

text \<open>Text up to the last separator is determined when the tail has no separator.\<close>

lemma append_sep_inject:
  assumes "a @ c # x = b @ c # y" "c \<notin> set x" "c \<notin> set y"
  shows "a = b \<and> x = y"
proof -
  have "rev x @ c # rev a = rev y @ c # rev b"
    using arg_cong [OF assms(1), of rev] by simp
  moreover have "takeWhile (\<lambda>d. d \<noteq> c) (rev z @ c # w) = rev z" if "c \<notin> set z" for z w
    using that by (subst takeWhile_append2) auto
  ultimately have "rev x = rev y" by (metis assms(2,3))
  with \<open>rev x @ c # rev a = rev y @ c # rev b\<close> show ?thesis by simp
qed

lemma topicUrl_inject:
  "\<lbrakk>topicUrl b t = topicUrl b' t'; CHR ''/'' \<notin> set t; CHR ''/'' \<notin> set t'\<rbrakk> \<Longrightarrow> b = b' \<and> t = t'"
  using append_sep_inject [of b "CHR ''/''" t b' t'] by (simp add: topicUrl_def)

lemma topic_char_slash: "\<not> topic_char (CHR ''/'')"
  by (simp add: topic_char_def)

lemma validTopic_no_slash: "validTopic cfg t \<Longrightarrow> CHR ''/'' \<notin> set t"
  using topic_char_slash by (auto simp: validTopic_def list_all_iff split: if_splits)

subsection \<open>Properties\<close>

text \<open>
  Desktop notifications of different servers, topics or sequences never share a tag: for valid
  topics and sequence ids without a slash the tag determines all three.
\<close>

theorem notification_tags_distinct:
  assumes "validTopic cfg t" and "validTopic cfg t'" and "CHR ''/'' \<notin> set q" and "CHR ''/'' \<notin> set q'"
  shows "notificationTag b t q = notificationTag b' t' q' \<longleftrightarrow> b = b' \<and> t = t' \<and> q = q'"
proof
  assume "notificationTag b t q = notificationTag b' t' q'"
  then have "topicUrl b t @ CHR ''/'' # q = topicUrl b' t' @ CHR ''/'' # q'"
    by (simp add: notificationTag_def topicUrl_def)
  then have "topicUrl b t = topicUrl b' t' \<and> q = q'" using assms(3,4) by (rule append_sep_inject)
  then show "b = b' \<and> t = t' \<and> q = q'"
    using topicUrl_inject validTopic_no_slash assms(1,2) by blast
qed simp

theorem notification_tags_distinct_witness:
  "notificationTag ''https://c'' ''a'' ''1'' \<noteq> notificationTag ''https://c'' ''b'' ''1''"
proof -
  have "validTopic plain_config ''a''" "validTopic plain_config ''b''"
    by (simp_all add: validTopic_def disallowedTopic_def plain_config_def topic_char_def)
  then show ?thesis
    using notification_tags_distinct [of plain_config "''a''" "''b''" "''1''" "''1''"] by simp
qed

end
