(* ===== verification/Session_Prefs.thy ===== *)
theory Session_Prefs
  imports Notification_Utils
begin

section \<open>Session, preferences and users (app/Session.js, Prefs.js, UserManager.js, db.js)\<close>

text \<open>
  The logged-in session lives twice: in \<open>localStorage\<close>, which the web app reads synchronously,
  and in the IndexedDB table \<open>kv\<close>, which the service worker reads. Preferences are key-value rows
  of another table, credentials of other servers are rows of the table \<open>users\<close>; the credentials of
  the home server come from the session. \<open>localStorage\<close> is a map of strings.
\<close>

subsection \<open>Session\<close>

record kv_row =
  kv_key :: string
  kv_value :: string

record 'kv session =
  local_storage :: "string \<rightharpoonup> string"
  kv_store :: 'kv
  href :: "string option"

type_synonym 'kv kv_ops = "('kv, string, kv_row) dexie"

text \<open>The database can also be deleted as a whole (\<open>this.db.delete()\<close>): \<open>fresh\<close> is an empty table.\<close>

locale kv_table = dexie_table kv_key KV for KV :: "'kv kv_ops" +
  fixes fresh :: 'kv
  assumes get_fresh: "dx_get KV fresh k = None"

interpretation mem_kv: kv_table "mem_dexie kv_key" "[]"
  by unfold_locales (simp add: mem_dexie_def mem_get_def)

definition session_username :: "'kv session \<Rightarrow> string option" where
  "session_username s = local_storage s ''user''"

definition session_token :: "'kv session \<Rightarrow> string option" where
  "session_token s = local_storage s ''token''"

definition session_exists :: "'kv session \<Rightarrow> bool" where
  "session_exists s \<longleftrightarrow> truthy (session_username s) \<and> truthy (session_token s)"

definition session_usernameAsync :: "'kv kv_ops \<Rightarrow> 'kv session \<Rightarrow> string option" where
  "session_usernameAsync KV s = map_option kv_value (dx_get KV (kv_store s) ''user'')"

text \<open>The constructor copies an existing session into the replica.\<close>

definition session_init :: "'kv kv_ops \<Rightarrow> 'kv session \<Rightarrow> 'kv session" where
  "session_init KV s =
     (if session_exists s
      then s\<lparr>kv_store := dx_bulk_put KV (kv_store s)
             [\<lparr>kv_key = ''user'', kv_value = coalesce (session_username s) []\<rparr>,
              \<lparr>kv_key = ''token'', kv_value = coalesce (session_token s) []\<rparr>]\<rparr>
      else s)"

definition session_store :: "'kv kv_ops \<Rightarrow> string \<Rightarrow> string \<Rightarrow> 'kv session \<Rightarrow> 'kv session" where
  "session_store KV username token s =
     s\<lparr>kv_store := dx_bulk_put KV (kv_store s)
         [\<lparr>kv_key = ''user'', kv_value = username\<rparr>, \<lparr>kv_key = ''token'', kv_value = token\<rparr>],
       local_storage := (local_storage s)(''user'' \<mapsto> username, ''token'' \<mapsto> token)\<rparr>"

definition resetAndRedirect :: "'kv \<Rightarrow> string \<Rightarrow> 'kv session \<Rightarrow> 'kv session" where
  "resetAndRedirect fresh url s =
     s\<lparr>kv_store := fresh, local_storage := (local_storage s)(''user'' := None, ''token'' := None), href := Some url\<rparr>"

lemmas session_defs = session_username_def session_token_def session_exists_def
  session_usernameAsync_def session_store_def resetAndRedirect_def

lemma session_reset_not_exists [simp]: "\<not> session_exists (resetAndRedirect fresh url s)"
  by (simp add: session_defs)

definition dbName :: "string option \<Rightarrow> string" where
  "dbName username = (if truthy username then ''coop-'' @ coalesce username [] else ''coop'')"

subsection \<open>Preferences\<close>

datatype pref_value = PStr string | PBool bool

record pref_row =
  p_key :: string
  p_value :: pref_value

type_synonym 'p pref_ops = "('p, string, pref_row) dexie"

definition pref_text :: "pref_value \<Rightarrow> string" where
  "pref_text v = (case v of PStr s \<Rightarrow> s | PBool b \<Rightarrow> if b then ''true'' else ''false'')"

text \<open>\<open>Number(v)\<close>; \<open>None\<close> stands for NaN.\<close>

definition pref_number :: "pref_value \<Rightarrow> int option" where
  "pref_number v = (case v of PStr s \<Rightarrow> js_number s | PBool b \<Rightarrow> Some (if b then 1 else 0))"

definition pref_truthy :: "pref_value option \<Rightarrow> bool" where
  "pref_truthy v = (case v of None \<Rightarrow> False | Some (PStr s) \<Rightarrow> s \<noteq> [] | Some (PBool b) \<Rightarrow> b)"

definition pref_get :: "'p pref_ops \<Rightarrow> 'p \<Rightarrow> string \<Rightarrow> pref_value option" where
  "pref_get P t k = map_option p_value (dx_get P t k)"

definition pref_put :: "'p pref_ops \<Rightarrow> 'p \<Rightarrow> string \<Rightarrow> pref_value \<Rightarrow> 'p" where
  "pref_put P t k v = dx_put P t \<lparr>p_key = k, p_value = v\<rparr>"

definition prefs_setSound :: "'p pref_ops \<Rightarrow> string \<Rightarrow> 'p \<Rightarrow> 'p" where
  "prefs_setSound P sound t = pref_put P t ''sound'' (PStr sound)"

definition prefs_sound :: "'p pref_ops \<Rightarrow> 'p \<Rightarrow> string" where
  "prefs_sound P t = (case pref_get P t ''sound'' of None \<Rightarrow> ''ding'' | Some v \<Rightarrow> pref_text v)"

definition prefs_setMinPriority :: "'p pref_ops \<Rightarrow> int \<Rightarrow> 'p \<Rightarrow> 'p" where
  "prefs_setMinPriority P n t = pref_put P t ''minPriority'' (PStr (int_str n))"

definition prefs_minPriority :: "'p pref_ops \<Rightarrow> 'p \<Rightarrow> int option" where
  "prefs_minPriority P t =
     (case pref_get P t ''minPriority'' of None \<Rightarrow> Some 1 | Some v \<Rightarrow> pref_number v)"

definition prefs_setDeleteAfter :: "'p pref_ops \<Rightarrow> int \<Rightarrow> 'p \<Rightarrow> 'p" where
  "prefs_setDeleteAfter P n t = pref_put P t ''deleteAfter'' (PStr (int_str n))"

definition prefs_deleteAfter :: "'p pref_ops \<Rightarrow> 'p \<Rightarrow> int option" where
  "prefs_deleteAfter P t =
     (case pref_get P t ''deleteAfter'' of None \<Rightarrow> Some 604800 | Some v \<Rightarrow> pref_number v)"

definition prefs_webPushEnabled :: "'p pref_ops \<Rightarrow> 'p \<Rightarrow> bool" where
  "prefs_webPushEnabled P t = pref_truthy (pref_get P t ''webPushEnabled'')"

definition prefs_setWebPushEnabled :: "'p pref_ops \<Rightarrow> bool \<Rightarrow> 'p \<Rightarrow> 'p" where
  "prefs_setWebPushEnabled P enabled t = pref_put P t ''webPushEnabled'' (PBool enabled)"

definition prefs_theme :: "'p pref_ops \<Rightarrow> 'p \<Rightarrow> string" where
  "prefs_theme P t = pref_text (coalesce (pref_get P t ''theme'') (PStr ''light''))"

definition prefs_setTheme :: "'p pref_ops \<Rightarrow> string \<Rightarrow> 'p \<Rightarrow> 'p" where
  "prefs_setTheme P mode t = pref_put P t ''theme'' (PStr mode)"

definition prefs_accentColor :: "'p pref_ops \<Rightarrow> 'p \<Rightarrow> string" where
  "prefs_accentColor P t = pref_text (coalesce (pref_get P t ''accentColor'') (PStr ''earth''))"

definition prefs_setAccentColor :: "'p pref_ops \<Rightarrow> string \<Rightarrow> 'p \<Rightarrow> 'p" where
  "prefs_setAccentColor P color t = pref_put P t ''accentColor'' (PStr color)"

definition prefs_customAccentColor :: "'p pref_ops \<Rightarrow> 'p \<Rightarrow> string" where
  "prefs_customAccentColor P t =
     pref_text (coalesce (pref_get P t ''customAccentColor'') (PStr ''#C4A265''))"

definition prefs_setCustomAccentColor :: "'p pref_ops \<Rightarrow> string \<Rightarrow> 'p \<Rightarrow> 'p" where
  "prefs_setCustomAccentColor P hex t = pref_put P t ''customAccentColor'' (PStr hex)"

lemmas prefs_set_defs = prefs_setSound_def prefs_setMinPriority_def prefs_setDeleteAfter_def
  prefs_setWebPushEnabled_def prefs_setTheme_def prefs_setAccentColor_def
  prefs_setCustomAccentColor_def

lemmas prefs_get_defs = prefs_sound_def prefs_minPriority_def prefs_deleteAfter_def
  prefs_webPushEnabled_def prefs_theme_def prefs_accentColor_def prefs_customAccentColor_def

locale pref_table = dexie_table p_key P for P :: "'p pref_ops"
begin

lemma pref_get_put: "pref_get P (pref_put P t k v) = (pref_get P t)(k \<mapsto> v)"
  by (auto simp: pref_get_def pref_put_def lookup_put)

end

interpretation mem_prefs: pref_table "mem_dexie p_key" ..

subsection \<open>Users\<close>

type_synonym 'u user_ops = "('u, string, user) dexie"

definition localUser :: "config \<Rightarrow> 'kv session \<Rightarrow> user option" where
  "localUser cfg s =
     (if \<not> session_exists s then None
      else Some \<lparr>u_baseUrl = base_url cfg, u_username = coalesce (session_username s) [],
                 u_password = None, u_token = session_token s\<rparr>)"

definition users_all :: "'u user_ops \<Rightarrow> config \<Rightarrow> 'kv session \<Rightarrow> 'u \<Rightarrow> user list" where
  "users_all U cfg s t =
     (let users = dx_to_array U t
      in case localUser cfg s of Some u \<Rightarrow> u # users | None \<Rightarrow> users)"

definition users_get :: "'u user_ops \<Rightarrow> config \<Rightarrow> 'kv session \<Rightarrow> 'u \<Rightarrow> string \<Rightarrow> user option" where
  "users_get U cfg s t b =
     (if session_exists s \<and> b = base_url cfg then localUser cfg s else dx_get U t b)"

definition users_save :: "'u user_ops \<Rightarrow> config \<Rightarrow> 'kv session \<Rightarrow> user \<Rightarrow> 'u \<Rightarrow> 'u" where
  "users_save U cfg s u t =
     (if session_exists s \<and> u_baseUrl u = base_url cfg then t else dx_put U t u)"

definition users_delete :: "'u user_ops \<Rightarrow> config \<Rightarrow> 'kv session \<Rightarrow> string \<Rightarrow> 'u \<Rightarrow> 'u" where
  "users_delete U cfg s b t =
     (if session_exists s \<and> b = base_url cfg then t else dx_delete U t b)"

subsection \<open>Properties\<close>

text \<open>
  The web app and the service worker agree on who is logged in, hence open the same database:
  after a login both read the new user, after a logout neither has a session and both are back on
  the anonymous database.
\<close>

theorem session_replica_agrees:
  assumes "kv_table KV fresh" and "username \<noteq> []" and "token \<noteq> []"
  shows "session_exists (session_store KV username token s) \<and>
    session_usernameAsync KV (session_store KV username token s) =
      session_username (session_store KV username token s) \<and>
    dbName (session_usernameAsync KV (session_store KV username token s)) = ''coop-'' @ username \<and>
    \<not> session_exists (resetAndRedirect fresh url s) \<and>
    dbName (session_usernameAsync KV (resetAndRedirect fresh url s)) = ''coop'' \<and>
    dbName (session_username (resetAndRedirect fresh url s)) = ''coop''"
proof -
  have "dexie_table kv_key KV" using assms(1) by (rule kv_table.axioms)
  note bulk = dexie_table.get_bulk_put_row [OF this]
  have "dx_get KV fresh k = None" for k using assms(1) by (rule kv_table.get_fresh)
  then show ?thesis
    using assms(2,3) by (simp add: session_defs bulk dbName_def)
qed

theorem session_replica_agrees_witness:
  "dbName (session_usernameAsync (mem_dexie kv_key)
     (session_store (mem_dexie kv_key) ''bob'' ''tk'' \<lparr>local_storage = Map.empty, kv_store = [], href = None\<rparr>)) = ''coop-bob''"
  using session_replica_agrees [OF mem_kv.kv_table_axioms, of "''bob''" "''tk''",
      THEN conjunct2, THEN conjunct2, THEN conjunct1] by simp

text \<open>
  Preferences read back what was set, through their text form, and setting one changes no other.
\<close>

theorem prefs_round_trip:
  assumes "pref_table P"
  shows "prefs_minPriority P (prefs_setMinPriority P n t) = Some n \<and>
    prefs_deleteAfter P (prefs_setDeleteAfter P n t) = Some n \<and>
    prefs_sound P (prefs_setSound P x t) = x \<and>
    prefs_webPushEnabled P (prefs_setWebPushEnabled P b t) = b \<and>
    prefs_theme P (prefs_setTheme P x t) = x \<and>
    prefs_minPriority P (prefs_setDeleteAfter P n t) = prefs_minPriority P t \<and>
    prefs_deleteAfter P (prefs_setMinPriority P n t) = prefs_deleteAfter P t \<and>
    prefs_sound P (prefs_setWebPushEnabled P b t) = prefs_sound P t \<and>
    prefs_webPushEnabled P (prefs_setSound P x t) = prefs_webPushEnabled P t"
  by (simp add: prefs_set_defs prefs_get_defs pref_table.pref_get_put [OF assms] pref_number_def
      js_number_int_str pref_text_def pref_truthy_def)

theorem prefs_round_trip_witness:
  "prefs_minPriority (mem_dexie p_key) (prefs_setMinPriority (mem_dexie p_key) 4 []) = Some 4"
  using prefs_round_trip [OF mem_prefs.pref_table_axioms] by blast

end
