(* ===== verification/Http.thy ===== *)
theory Http
  imports Session_Prefs
begin

section \<open>Requests, errors and the message API (app/errors.js, app/Api.js)\<close>

text \<open>
  The server is the environment: a function from the requests made so far and the next request to
  its response, where \<open>None\<close> is a failed connection (\<open>fetch\<close> rejects). A client operation is a
  function from the log of requests to its result and the longer log. What the operations throw
  is the left side of a sum.
\<close>

subsection \<open>Requests and responses\<close>

record request =
  rq_method :: string
  rq_url :: string
  rq_headers :: headers
  rq_body :: "json option"

record response =
  rs_status :: int
  rs_json :: "json option"

type_synonym server = "request list \<Rightarrow> request \<Rightarrow> response option"

datatype app_error =
    UnauthorizedError
  | UserExistsError
  | TopicReservedError
  | AccountCreateLimitReachedError
  | IncorrectPasswordError
  | OtherError string
  | NetworkError
  | SyntaxError
  | TypeError
  | ConstraintError

type_synonym 'a io = "request list \<Rightarrow> (app_error + 'a) \<times> request list"

definition fetch :: "server \<Rightarrow> request \<Rightarrow> response io" where
  "fetch srv rq log =
     (case srv log rq of None \<Rightarrow> Inl NetworkError | Some rs \<Rightarrow> Inr rs, log @ [rq])"

definition io_bind :: "'a io \<Rightarrow> ('a \<Rightarrow> 'b io) \<Rightarrow> 'b io" where
  "io_bind m f log =
     (case m log of (Inl e, log') \<Rightarrow> (Inl e, log') | (Inr x, log') \<Rightarrow> f x log')"

definition io_return :: "'a \<Rightarrow> 'a io" where
  "io_return x log = (Inr x, log)"

definition io_throw :: "app_error \<Rightarrow> 'a io" where
  "io_throw e log = (Inl e, log)"

subsection \<open>Reading JSON values\<close>

definition json_prop :: "json \<Rightarrow> string \<Rightarrow> json option" where
  "json_prop j k = (case j of JObj fs \<Rightarrow> map_of (rev fs) k | _ \<Rightarrow> None)"

definition json_truthy :: "json option \<Rightarrow> bool" where
  "json_truthy v =
     (case v of
        None \<Rightarrow> False
      | Some JNull \<Rightarrow> False
      | Some (JBool b) \<Rightarrow> b
      | Some (JNum n) \<Rightarrow> n \<noteq> 0
      | Some (JStr s) \<Rightarrow> s \<noteq> []
      | Some _ \<Rightarrow> True)"

text \<open>\<open>String(v)\<close>, as in a template literal; \<open>null\<close> is empty inside a joined array.\<close>

fun json_text :: "json \<Rightarrow> string" where
  "json_text JNull = ''null''"
| "json_text (JBool b) = (if b then ''true'' else ''false'')"
| "json_text (JNum n) = int_str n"
| "json_text (JStr s) = s"
| "json_text (JArr vs) = join '','' (map (\<lambda>v. if v = JNull then [] else json_text v) vs)"
| "json_text (JObj fs) = ''[object Object]''"

definition json_string :: "json option \<Rightarrow> string option" where
  "json_string v = (case v of Some (JStr s) \<Rightarrow> Some s | _ \<Rightarrow> None)"

definition json_int :: "json option \<Rightarrow> int option" where
  "json_int v = (case v of Some (JNum n) \<Rightarrow> Some n | _ \<Rightarrow> None)"

text \<open>A value as a React child, after \<open>|| "-"\<close>, and in a template literal.\<close>

definition child_text :: "json option \<Rightarrow> string" where
  "child_text v = (case v of Some (JStr s) \<Rightarrow> s | Some (JNum n) \<Rightarrow> int_str n | _ \<Rightarrow> [])"

definition or_dash :: "json option \<Rightarrow> string" where
  "or_dash v = (if json_truthy v then child_text v else ''-'')"

definition value_text :: "json option \<Rightarrow> string" where
  "value_text v = (case v of Some j \<Rightarrow> json_text j | None \<Rightarrow> ''undefined'')"

subsection \<open>errors.js\<close>

definition maybeToJson :: "response \<Rightarrow> json option" where
  "maybeToJson rs = rs_json rs"

definition throwAppError :: "response \<Rightarrow> app_error" where
  "throwAppError rs =
     (if rs_status rs = 401 \<or> rs_status rs = 403 then UnauthorizedError
      else
        let err = coalesce (maybeToJson rs) JNull;
            code = json_prop err ''code'';
            unexpected = OtherError (''Unexpected response '' @ int_str (rs_status rs))
        in if json_truthy code then
             (if code = Some (JNum 40901) then UserExistsError
              else if code = Some (JNum 40902) then TopicReservedError
              else if code = Some (JNum 42906) then AccountCreateLimitReachedError
              else if code = Some (JNum 40026) then IncorrectPasswordError
              else if json_truthy (json_prop err ''error'') then
                OtherError (''Error '' @ json_text (coalesce code JNull) @ '': '' @
                  json_text (coalesce (json_prop err ''error'') JNull))
              else unexpected)
           else unexpected)"

definition fetchOrThrow :: "server \<Rightarrow> request \<Rightarrow> response io" where
  "fetchOrThrow srv rq =
     io_bind (fetch srv rq)
       (\<lambda>rs. if rs_status rs \<noteq> 200 then io_throw (throwAppError rs) else io_return rs)"

text \<open>\<open>response.ok\<close>\<close>

definition rs_ok :: "response \<Rightarrow> bool" where
  "rs_ok rs \<longleftrightarrow> 200 \<le> rs_status rs \<and> rs_status rs \<le> 299"

definition response_json :: "response \<Rightarrow> json io" where
  "response_json rs =
     (case rs_json rs of None \<Rightarrow> io_throw SyntaxError | Some j \<Rightarrow> io_return j)"

lemmas io_defs = io_bind_def io_return_def io_throw_def fetch_def

lemma fetchOrThrow_unfold:
  "fetchOrThrow srv rq log =
     (case srv log rq of
        None \<Rightarrow> Inl NetworkError
      | Some rs \<Rightarrow> if rs_status rs \<noteq> 200 then Inl (throwAppError rs) else Inr rs, log @ [rq])"
  by (simp add: fetchOrThrow_def io_defs split: option.split)

lemma fetchOrThrow_log [simp]: "snd (fetchOrThrow srv rq log) = log @ [rq]"
  by (simp add: fetchOrThrow_unfold)

lemma fetchOrThrow_Inr: "fst (fetchOrThrow srv rq log) = Inr rs \<Longrightarrow> rs_status rs = 200"
  by (auto simp: fetchOrThrow_unfold split: option.splits if_splits)

lemma fetchOrThrow_Unauthorized:
  "fst (fetchOrThrow srv rq log) = Inl UnauthorizedError \<longleftrightarrow>
     (\<exists>rs. srv log rq = Some rs \<and> (rs_status rs = 401 \<or> rs_status rs = 403))"
  by (auto simp: fetchOrThrow_unfold throwAppError_def Let_def split: option.splits)

subsection \<open>Api.js: polling, publishing, access checks\<close>

text \<open>
  A line of the server's stream after \<open>JSON.parse\<close>: the properties the client tests for may be
  missing. \<open>parse\<close> is \<open>JSON.parse\<close>, \<open>None\<close> when it throws.
\<close>

record frame =
  fr_id :: "string option"
  fr_time :: "int option"
  fr_body :: notification

definition frame_message :: "frame \<Rightarrow> notification" where
  "frame_message fr =
     (fr_body fr)\<lparr>n_id := coalesce (fr_id fr) [], n_time := coalesce (fr_time fr) 0\<rparr>"

fun collect_messages :: "(string \<Rightarrow> frame option) \<Rightarrow> string list \<Rightarrow> app_error + notification list" where
  "collect_messages parse [] = Inr []"
| "collect_messages parse (line # lines) =
     (case parse line of
        None \<Rightarrow> Inl SyntaxError
      | Some fr \<Rightarrow>
          (case collect_messages parse lines of
             Inl e \<Rightarrow> Inl e
           | Inr ms \<Rightarrow> Inr (if truthy (fr_id fr) then frame_message fr # ms else ms)))"

definition poll_request :: "base64_lib \<Rightarrow> user option \<Rightarrow> string \<Rightarrow> string \<Rightarrow> string option \<Rightarrow> request" where
  "poll_request B user b topic since = \<lparr>
     rq_method = ''GET'',
     rq_url = (if truthy since then topicUrlJsonPollWithSince b topic (coalesce since [])
               else topicUrlJsonPoll b topic),
     rq_headers = maybeWithAuth B [] user,
     rq_body = None\<rparr>"

text \<open>\<open>stream\<close> delivers the chunks of the response body, or \<open>None\<close> when the connection fails.\<close>

definition api_poll ::
  "base64_lib \<Rightarrow> (request \<Rightarrow> string list option) \<Rightarrow> (string \<Rightarrow> frame option) \<Rightarrow> user option \<Rightarrow>
     string \<Rightarrow> string \<Rightarrow> string option \<Rightarrow> app_error + notification list" where
  "api_poll B stream parse user b topic since =
     (case stream (poll_request B user b topic since) of
        None \<Rightarrow> Inl NetworkError
      | Some chunks \<Rightarrow> collect_messages parse (fetchLinesIterator chunks))"

definition obj_spread :: "(string \<times> json) list \<Rightarrow> (string \<times> json) list \<Rightarrow> (string \<times> json) list" where
  "obj_spread fs gs = fold (\<lambda>(k, v) o'. AList.update k v o') gs fs"

definition publish_request ::
  "base64_lib \<Rightarrow> user option \<Rightarrow> string \<Rightarrow> string \<Rightarrow> string \<Rightarrow> (string \<times> json) list \<Rightarrow> request" where
  "publish_request B user b topic message options = \<lparr>
     rq_method = ''PUT'', rq_url = b, rq_headers = maybeWithAuth B [] user,
     rq_body = Some (JObj (obj_spread [(''topic'', JStr topic), (''message'', JStr message)] options))\<rparr>"

definition api_publish ::
  "base64_lib \<Rightarrow> server \<Rightarrow> user option \<Rightarrow> string \<Rightarrow> string \<Rightarrow> string \<Rightarrow> (string \<times> json) list \<Rightarrow> unit io" where
  "api_publish B srv user b topic message options =
     io_bind (fetchOrThrow srv (publish_request B user b topic message options)) (\<lambda>_. io_return ())"

text \<open>
  \<open>publishXHR\<close>: what a \<open>readystatechange\<close> does. \<open>None\<close> leaves the promise pending; the text of a
  failed response is parsed as JSON (\<open>body\<close>), a parse error is ignored.
\<close>

definition publishXHR_ready :: "nat \<Rightarrow> int \<Rightarrow> json option \<Rightarrow> (string + unit) option" where
  "publishXHR_ready readyState status body =
     (if readyState = 4 \<and> status \<ge> 200 \<and> status \<le> 299 then Some (Inr ())
      else if readyState = 4 then
        let err = coalesce body JNull;
            errorText =
              (if json_truthy (json_prop err ''code'') \<and> json_truthy (json_prop err ''error'')
               then Some (''Error '' @ json_text (coalesce (json_prop err ''code'') JNull) @ '': '' @
                      json_text (coalesce (json_prop err ''error'') JNull))
               else None)
        in Some (Inl (coalesce errorText ''An error occurred''))
      else None)"

definition auth_request :: "base64_lib \<Rightarrow> user option \<Rightarrow> string \<Rightarrow> string \<Rightarrow> request" where
  "auth_request B user b topic = \<lparr>rq_method = ''GET'', rq_url = topicUrlAuth b topic,
     rq_headers = maybeWithAuth B [] user, rq_body = None\<rparr>"

definition api_topicAuth :: "base64_lib \<Rightarrow> server \<Rightarrow> string \<Rightarrow> string \<Rightarrow> user option \<Rightarrow> bool io" where
  "api_topicAuth B srv b topic user =
     io_bind (fetch srv (auth_request B user b topic))
       (\<lambda>rs. if rs_status rs \<ge> 200 \<and> rs_status rs \<le> 299 then io_return True
             else if rs_status rs = 401 \<or> rs_status rs = 403 then io_return False
             else io_throw (OtherError (''Unexpected server response '' @ int_str (rs_status rs))))"

record push_subscription =
  ps_endpoint :: string
  ps_auth :: string
  ps_p256dh :: string

definition api_updateWebPush ::
  "base64_lib \<Rightarrow> server \<Rightarrow> config \<Rightarrow> user option \<Rightarrow> push_subscription \<Rightarrow> string list \<Rightarrow> unit io" where
  "api_updateWebPush B srv cfg user ps topics =
     io_bind (fetchOrThrow srv \<lparr>rq_method = ''POST'', rq_url = webPushUrl (base_url cfg),
         rq_headers = maybeWithAuth B [] user,
         rq_body = Some (JObj [(''endpoint'', JStr (ps_endpoint ps)), (''auth'', JStr (ps_auth ps)),
           (''p256dh'', JStr (ps_p256dh ps)), (''topics'', JArr (map JStr topics))])\<rparr>)
       (\<lambda>_. io_return ())"

definition api_deleteWebPush ::
  "base64_lib \<Rightarrow> server \<Rightarrow> config \<Rightarrow> user option \<Rightarrow> push_subscription \<Rightarrow> unit io" where
  "api_deleteWebPush B srv cfg user ps =
     io_bind (fetchOrThrow srv \<lparr>rq_method = ''DELETE'', rq_url = webPushUrl (base_url cfg),
         rq_headers = maybeWithAuth B [] user,
         rq_body = Some (JObj [(''endpoint'', JStr (ps_endpoint ps))])\<rparr>)
       (\<lambda>_. io_return ())"

lemma collect_messages_append:
  "collect_messages parse (xs @ ys) =
     (case collect_messages parse xs of
        Inl e \<Rightarrow> Inl e
      | Inr ms \<Rightarrow> (case collect_messages parse ys of Inl e \<Rightarrow> Inl e | Inr ns \<Rightarrow> Inr (ms @ ns)))"
  by (induction xs) (auto split: option.splits sum.splits)

lemma collect_messages_ids:
  "collect_messages parse ls = Inr ms \<Longrightarrow> m \<in> set ms \<Longrightarrow> n_id m \<noteq> []"
proof (induction ls arbitrary: ms)
  case (Cons l ls)
  then show ?case
    by (auto simp: frame_message_def truthy_def split: option.splits sum.splits if_splits)
qed simp

end
