(* ===== verification/Notifier.thy ===== *)
theory Notifier
  imports Http
begin

section \<open>Routes and desktop notifications (components/routes.js, app/Notifier.js)\<close>

text \<open>
  The capabilities of the browser are a record of the facts the code tests; what the code makes
  the browser do is a list of effects, in order. \<open>new_URL\<close> is \<open>new URL(path, origin).toString()\<close>.
\<close>

record browser =
  has_notification :: bool
  permission :: string
  protocol :: string
  hostname :: string
  origin :: string
  new_URL :: "string \<Rightarrow> string \<Rightarrow> string"
  has_service_worker :: bool
  has_registration :: bool
  has_push_manager :: bool
  standalone :: "bool option"

datatype effect =
    PlaySound string
  | ShowNotification notification_params
  | CloseTagged string
  | SetAppBadge nat
  | BroadcastMessage notification
  | ShowText string string
  | SyncAccount

subsection \<open>Routes\<close>

definition forSubscription :: "config \<Rightarrow> subscription \<Rightarrow> string" where
  "forSubscription cfg sub =
     (if s_baseUrl sub \<noteq> base_url cfg then ''/'' @ shortUrl (s_baseUrl sub) @ ''/'' @ s_topic sub
      else ''/'' @ s_topic sub)"

subsection \<open>What the browser supports\<close>

definition browserSupported :: "browser \<Rightarrow> bool" where
  "browserSupported br \<longleftrightarrow> has_notification br"

text \<open>\<open>hostname.match("^127.")\<close>: the dot of the pattern stands for any unit but a line break.\<close>

definition contextSupported :: "browser \<Rightarrow> bool" where
  "contextSupported br \<longleftrightarrow> protocol br = ''https:'' \<or>
     (starts_with (hostname br) ''127'' \<and> length (hostname br) > 3 \<and> \<not> is_break (hostname br ! 3)) \<or>
     hostname br = ''localhost''"

definition supported :: "browser \<Rightarrow> bool" where
  "supported br \<longleftrightarrow> browserSupported br \<and> contextSupported br"

definition notRequested :: "browser \<Rightarrow> bool" where
  "notRequested br \<longleftrightarrow> supported br \<and> permission br = ''default''"

definition granted :: "browser \<Rightarrow> bool" where
  "granted br \<longleftrightarrow> supported br \<and> permission br = ''granted''"

definition denied :: "browser \<Rightarrow> bool" where
  "denied br \<longleftrightarrow> supported br \<and> permission br = ''denied''"

definition pushSupported :: "config \<Rightarrow> browser \<Rightarrow> bool" where
  "pushSupported cfg br \<longleftrightarrow> enable_web_push cfg \<and> has_service_worker br \<and> has_push_manager br"

definition iosSupportedButInstallRequired :: "config \<Rightarrow> browser \<Rightarrow> bool" where
  "iosSupportedButInstallRequired cfg br \<longleftrightarrow>
     enable_web_push cfg \<and> has_service_worker br \<and> \<not> has_push_manager br \<and>
     standalone br = Some False"

definition pushPossible :: "config \<Rightarrow> browser \<Rightarrow> bool" where
  "pushPossible cfg br \<longleftrightarrow> pushSupported cfg br \<and> contextSupported br \<and> granted br \<and>
     \<not> iosSupportedButInstallRequired cfg br"

subsection \<open>Showing and cancelling\<close>

definition serviceWorkerRegistration :: "browser \<Rightarrow> app_error + unit" where
  "serviceWorkerRegistration br =
     (if has_registration br then Inr ()
      else Inl (OtherError ''No service worker registration found''))"

text \<open>Playing a sound that does not exist or may not play only logs an error.\<close>

definition notifier_playSound :: "string \<Rightarrow> effect list" where
  "notifier_playSound sound = (if sound \<noteq> [] \<and> sound \<noteq> ''none'' then [PlaySound sound] else [])"

text \<open>The effects that happened, and what the call throws after them, if anything.\<close>

definition notifier_notify ::
  "string js_obj \<Rightarrow> config \<Rightarrow> browser \<Rightarrow> string \<Rightarrow> subscription \<Rightarrow> notification \<Rightarrow>
     effect list \<times> (app_error + unit)" where
  "notifier_notify emojis cfg br sound sub n =
     (if \<not> supported br then ([], Inr ())
      else
        let played = notifier_playSound sound in
        case serviceWorkerRegistration br of
          Inl e \<Rightarrow> (played, Inl e)
        | Inr _ \<Rightarrow>
            (played @ [ShowNotification (toNotificationParams emojis n (topicDisplayName cfg sub)
               (new_URL br (forSubscription cfg sub) (origin br)) (s_baseUrl sub) (s_topic sub))],
             Inr ()))"

text \<open>\<open>cancel\<close> closes the shown notifications with the message's tag; its errors are only logged.\<close>

definition notifier_cancel :: "browser \<Rightarrow> subscription \<Rightarrow> notification \<Rightarrow> effect list" where
  "notifier_cancel br sub n =
     (if \<not> supported br \<or> \<not> has_registration br then []
      else [CloseTagged (notificationTag (s_baseUrl sub) (s_topic sub) (seq_of n))])"

text \<open>
  \<open>webPushSubscription\<close>: the existing push subscription, or a new one when there are topics to
  subscribe to. \<open>created\<close> is what \<open>pushManager.subscribe\<close> delivers.
\<close>

definition webPushSubscription ::
  "browser \<Rightarrow> push_subscription option \<Rightarrow> push_subscription \<Rightarrow> bool \<Rightarrow>
     app_error + push_subscription option" where
  "webPushSubscription br existing created hasWebPushTopics =
     (case serviceWorkerRegistration br of
        Inl e \<Rightarrow> Inl e
      | Inr _ \<Rightarrow>
          (case existing of
             Some ps \<Rightarrow> Inr (Some ps)
           | None \<Rightarrow> Inr (if hasWebPushTopics then Some created else None)))"

lemma pushPossible_imp: "pushPossible cfg br \<Longrightarrow> supported br \<and> has_push_manager br"
  by (simp add: pushPossible_def granted_def pushSupported_def)

text \<open>The permission states exclude one another.\<close>

lemma permission_exclusive:
  "\<not> (granted br \<and> denied br)" "\<not> (granted br \<and> notRequested br)" "\<not> (denied br \<and> notRequested br)"
  by (auto simp: granted_def denied_def notRequested_def)

end
