(* ===== verification/Subscriptions.thy ===== *)
theory Subscriptions
  imports Notifier
begin

section \<open>Subscriptions and stored notifications (app/SubscriptionManager.js)\<close>

text \<open>
  The client's IndexedDB (db.js declares the tables \<open>subscriptions\<close>, \<open>notifications\<close>, \<open>users\<close> and
  \<open>prefs\<close>) and every operation of the subscription manager on it. Each awaited Dexie call is one
  atomic step; an operation is its calls in order. The locale \<open>coop_db\<close> joins the contracts of the
  four tables.
\<close>

record ('s, 'n, 'p, 'u) db_ops =
  SUBS :: "('s, string, subscription) dexie"
  NOTIFS :: "('n, string, notification) dexie"
  PREFS :: "('p, string, pref_row) dexie"
  USERS :: "('u, string, user) dexie"

record ('s, 'n, 'p, 'u) db =
  subs :: 's
  notifs :: 'n
  prefs :: 'p
  users :: 'u

locale coop_db =
  subs: dexie_table s_id "SUBS T" + notifs: dexie_table n_id "NOTIFS T" +
  prefs: pref_table "PREFS T" + users: dexie_table u_baseUrl "USERS T"
  for T :: "('s, 'n, 'p, 'u) db_ops"

text \<open>A database of row lists.\<close>

definition mem_db_ops :: "(subscription list, notification list, pref_row list, user list) db_ops" where
  "mem_db_ops = \<lparr>SUBS = mem_dexie s_id, NOTIFS = mem_dexie n_id, PREFS = mem_dexie p_key,
     USERS = mem_dexie u_baseUrl\<rparr>"

definition mem_db :: "subscription list \<Rightarrow> notification list \<Rightarrow>
    (subscription list, notification list, pref_row list, user list) db" where
  "mem_db ss ns = \<lparr>subs = ss, notifs = ns, prefs = [], users = []\<rparr>"

lemma coop_db_mem: "coop_db mem_db_ops"
proof -
  have "dexie_table s_id (SUBS mem_db_ops)" by (simp add: mem_db_ops_def mem.dexie_table_axioms)
  moreover have "dexie_table n_id (NOTIFS mem_db_ops)"
    by (simp add: mem_db_ops_def mem.dexie_table_axioms)
  moreover have "pref_table (PREFS mem_db_ops)"
    by (simp add: mem_db_ops_def mem_prefs.pref_table_axioms)
  moreover have "dexie_table u_baseUrl (USERS mem_db_ops)"
    by (simp add: mem_db_ops_def mem.dexie_table_axioms)
  ultimately show ?thesis by (rule coop_db.intro)
qed

interpretation memdb: coop_db mem_db_ops
  by (rule coop_db_mem)

subsection \<open>Rows\<close>

abbreviation sub_row where "sub_row T d \<equiv> dx_get (SUBS T) (subs d)"
abbreviation notif_row where "notif_row T d \<equiv> dx_get (NOTIFS T) (notifs d)"

definition in_sub :: "string \<Rightarrow> notification \<Rightarrow> bool" where
  "in_sub sid n \<longleftrightarrow> n_subscriptionId n = Some sid"

definition in_seq :: "string \<Rightarrow> string \<Rightarrow> notification \<Rightarrow> bool" where
  "in_seq sid q n \<longleftrightarrow> n_subscriptionId n = Some sid \<and> n_sequenceId n = Some q"

definition is_new :: "notification \<Rightarrow> bool" where
  "is_new n \<longleftrightarrow> n_new n = Some 1"

definition set_new :: "nat \<Rightarrow> notification \<Rightarrow> notification" where
  "set_new k n = n\<lparr>n_new := Some k\<rparr>"

lemma set_new_simps [simp]:
  "n_id (set_new k n) = n_id n" "n_time (set_new k n) = n_time n"
  "n_subscriptionId (set_new k n) = n_subscriptionId n"
  "n_sequenceId (set_new k n) = n_sequenceId n" "n_new (set_new k n) = Some k"
  "in_sub sid (set_new k n) = in_sub sid n" "in_seq sid q (set_new k n) = in_seq sid q n"
  by (simp_all add: set_new_def in_sub_def in_seq_def)

subsection \<open>Subscriptions\<close>

definition sm_all :: "('s, 'n, 'p, 'u) db_ops \<Rightarrow> ('s, 'n, 'p, 'u) db \<Rightarrow> (subscription \<times> nat) list" where
  "sm_all T d =
     map (\<lambda>s. (s, dx_count (NOTIFS T) (notifs d) (\<lambda>n. in_sub (s_id s) n \<and> is_new n)))
       (dx_to_array (SUBS T) (subs d))"

definition sm_webPushTopics ::
  "('s, 'n, 'p, 'u) db_ops \<Rightarrow> config \<Rightarrow> bool \<Rightarrow> ('s, 'n, 'p, 'u) db \<Rightarrow> string list" where
  "sm_webPushTopics T cfg push_possible d =
     (if \<not> push_possible then []
      else if \<not> prefs_webPushEnabled (PREFS T) (prefs d) then []
      else map s_topic (filter (\<lambda>s. \<not> s_internal s)
             (dx_where (SUBS T) (subs d) (\<lambda>s. s_baseUrl s = base_url cfg \<and> s_mutedUntil s = 0))))"

definition sm_get :: "('s, 'n, 'p, 'u) db_ops \<Rightarrow> ('s, 'n, 'p, 'u) db \<Rightarrow> string \<Rightarrow> subscription option" where
  "sm_get T d sid = dx_get (SUBS T) (subs d) sid"

record sub_opts =
  o_displayName :: "string option"
  o_internal :: bool
  o_reservation :: "reservation option"

definition no_opts :: sub_opts where
  "no_opts = \<lparr>o_displayName = None, o_internal = False, o_reservation = None\<rparr>"

definition new_subscription :: "string \<Rightarrow> string \<Rightarrow> sub_opts \<Rightarrow> subscription" where
  "new_subscription b topic opts = \<lparr>s_id = topicUrl b topic, s_baseUrl = b, s_topic = topic,
     s_mutedUntil = 0, s_last = None, s_displayName = o_displayName opts,
     s_internal = o_internal opts, s_reservation = o_reservation opts, s_state = None\<rparr>"

definition sm_add ::
  "('s, 'n, 'p, 'u) db_ops \<Rightarrow> string \<Rightarrow> string \<Rightarrow> sub_opts \<Rightarrow> ('s, 'n, 'p, 'u) db \<Rightarrow>
     ('s, 'n, 'p, 'u) db \<times> subscription" where
  "sm_add T b topic opts d =
     (case sm_get T d (topicUrl b topic) of
        Some existing \<Rightarrow> (d, existing)
      | None \<Rightarrow>
          let s = new_subscription b topic opts
          in (d\<lparr>subs := dx_put (SUBS T) (subs d) s\<rparr>, s))"

definition sm_remove ::
  "('s, 'n, 'p, 'u) db_ops \<Rightarrow> subscription \<Rightarrow> ('s, 'n, 'p, 'u) db \<Rightarrow> ('s, 'n, 'p, 'u) db" where
  "sm_remove T s d =
     d\<lparr>subs := dx_delete (SUBS T) (subs d) (s_id s),
       notifs := dx_delete_where (NOTIFS T) (notifs d) (in_sub (s_id s))\<rparr>"

record remote_subscription =
  rem_base_url :: string
  rem_topic :: string
  rem_display_name :: "string option"

definition remote_opts ::
  "config \<Rightarrow> reservation list option \<Rightarrow> remote_subscription \<Rightarrow> sub_opts" where
  "remote_opts cfg reservations rem = \<lparr>
     o_displayName = rem_display_name rem, o_internal = False,
     o_reservation = (case reservations of None \<Rightarrow> None
        | Some rs \<Rightarrow> find (\<lambda>r. rem_base_url rem = base_url cfg \<and> rem_topic rem = r_topic r) rs)\<rparr>"

fun sync_add ::
  "('s, 'n, 'p, 'u) db_ops \<Rightarrow> config \<Rightarrow> reservation list option \<Rightarrow> remote_subscription list \<Rightarrow>
     ('s, 'n, 'p, 'u) db \<Rightarrow> ('s, 'n, 'p, 'u) db \<times> string list" where
  "sync_add T cfg res [] d = (d, [])"
| "sync_add T cfg res (rem # rems) d =
     (let (d', local) = sm_add T (rem_base_url rem) (rem_topic rem) (remote_opts cfg res rem) d;
          (d'', ids) = sync_add T cfg res rems d'
      in (d'', s_id local # ids))"

definition sm_syncFromRemote ::
  "('s, 'n, 'p, 'u) db_ops \<Rightarrow> config \<Rightarrow> remote_subscription list \<Rightarrow> reservation list option \<Rightarrow>
     ('s, 'n, 'p, 'u) db \<Rightarrow> ('s, 'n, 'p, 'u) db" where
  "sm_syncFromRemote T cfg rems res d =
     (let (d', remoteIds) = sync_add T cfg res rems d
      in fold (\<lambda>local d. if \<not> s_internal local \<and> s_id local \<notin> set remoteIds
                         then sm_remove T local d else d)
           (dx_to_array (SUBS T) (subs d')) d')"

definition sm_update ::
  "('s, 'n, 'p, 'u) db_ops \<Rightarrow> string \<Rightarrow> (subscription \<Rightarrow> subscription) \<Rightarrow>
     ('s, 'n, 'p, 'u) db \<Rightarrow> ('s, 'n, 'p, 'u) db" where
  "sm_update T sid f d = d\<lparr>subs := dx_update (SUBS T) (subs d) sid f\<rparr>"

definition sm_updateState where
  "sm_updateState T sid state = sm_update T sid (\<lambda>s. s\<lparr>s_state := Some state\<rparr>)"
definition sm_setMutedUntil where
  "sm_setMutedUntil T sid mutedUntil = sm_update T sid (\<lambda>s. s\<lparr>s_mutedUntil := mutedUntil\<rparr>)"
definition sm_setDisplayName where
  "sm_setDisplayName T sid displayName = sm_update T sid (\<lambda>s. s\<lparr>s_displayName := displayName\<rparr>)"
definition sm_setReservation where
  "sm_setReservation T sid reservation = sm_update T sid (\<lambda>s. s\<lparr>s_reservation := reservation\<rparr>)"
definition sm_setLast where
  "sm_setLast T sid i = sm_update T sid (\<lambda>s. s\<lparr>s_last := Some i\<rparr>)"

definition sm_first :: "('s, 'n, 'p, 'u) db_ops \<Rightarrow> ('s, 'n, 'p, 'u) db \<Rightarrow> subscription option" where
  "sm_first T d = (case dx_to_array (SUBS T) (subs d) of [] \<Rightarrow> None | s # _ \<Rightarrow> Some s)"

subsection \<open>Notifications\<close>

definition sm_getNotifications ::
  "('s, 'n, 'p, 'u) db_ops \<Rightarrow> ('s, 'n, 'p, 'u) db \<Rightarrow> string \<Rightarrow> notification list" where
  "sm_getNotifications T d sid =
     rev (filter (in_sub sid) (dx_order_by (NOTIFS T) (notifs d) n_time))"

definition sm_getAllNotifications ::
  "('s, 'n, 'p, 'u) db_ops \<Rightarrow> ('s, 'n, 'p, 'u) db \<Rightarrow> notification list" where
  "sm_getAllNotifications T d = rev (dx_order_by (NOTIFS T) (notifs d) n_time)"

definition is_own :: "string option \<Rightarrow> notification \<Rightarrow> bool" where
  "is_own currentUser n \<longleftrightarrow> truthy currentUser \<and> truthy (n_sender n) \<and> n_sender n = currentUser"

definition stored_row :: "string \<Rightarrow> nat \<Rightarrow> notification \<Rightarrow> notification" where
  "stored_row sid k n = (messageWithSequenceId n)\<lparr>n_subscriptionId := Some sid, n_new := Some k\<rparr>"

definition sm_addNotification ::
  "('s, 'n, 'p, 'u) db_ops \<Rightarrow> string option \<Rightarrow> string \<Rightarrow> notification \<Rightarrow> ('s, 'n, 'p, 'u) db \<Rightarrow>
     ('s, 'n, 'p, 'u) db \<times> bool" where
  "sm_addNotification T currentUser sid n d =
     (if dx_get (NOTIFS T) (notifs d) (n_id n) \<noteq> None \<or>
         n_event n = EVENT_MESSAGE_DELETE \<or> n_event n = EVENT_MESSAGE_CLEAR
      then (d, False)
      else
        (case dx_add (NOTIFS T) (notifs d)
                (stored_row sid (if is_own currentUser n then 0 else 1) n) of
           None \<Rightarrow> (d, True)
         | Some t \<Rightarrow> (sm_setLast T sid (n_id n) (d\<lparr>notifs := t\<rparr>), True)))"

definition polled_row :: "string \<Rightarrow> notification \<Rightarrow> notification" where
  "polled_row sid n = (messageWithSequenceId n)\<lparr>n_subscriptionId := Some sid\<rparr>"

text \<open>\<open>notifications.at(-1).id\<close> throws on an empty list.\<close>

definition sm_addNotifications ::
  "('s, 'n, 'p, 'u) db_ops \<Rightarrow> string \<Rightarrow> notification list \<Rightarrow> ('s, 'n, 'p, 'u) db \<Rightarrow>
     app_error + ('s, 'n, 'p, 'u) db" where
  "sm_addNotifications T sid ns d =
     (if ns = [] then Inl TypeError
      else Inr (sm_setLast T sid (n_id (last ns))
             (d\<lparr>notifs := dx_bulk_put (NOTIFS T) (notifs d) (map (polled_row sid) ns)\<rparr>)))"

definition sm_updateNotification ::
  "('s, 'n, 'p, 'u) db_ops \<Rightarrow> notification \<Rightarrow> ('s, 'n, 'p, 'u) db \<Rightarrow> ('s, 'n, 'p, 'u) db \<times> bool" where
  "sm_updateNotification T n d =
     (if dx_get (NOTIFS T) (notifs d) (n_id n) = None then (d, False)
      else (d\<lparr>notifs := dx_put (NOTIFS T) (notifs d) n\<rparr>, True))"

definition sm_deleteNotification where
  "sm_deleteNotification T i d = d\<lparr>notifs := dx_delete (NOTIFS T) (notifs d) i\<rparr>"

definition sm_deleteNotificationBySequenceId where
  "sm_deleteNotificationBySequenceId T sid q d =
     d\<lparr>notifs := dx_delete_where (NOTIFS T) (notifs d) (in_seq sid q)\<rparr>"

definition sm_deleteNotifications where
  "sm_deleteNotifications T sid d = d\<lparr>notifs := dx_delete_where (NOTIFS T) (notifs d) (in_sub sid)\<rparr>"

definition sm_markNotificationRead where
  "sm_markNotificationRead T i d =
     d\<lparr>notifs := dx_modify_where (NOTIFS T) (notifs d) (\<lambda>n. n_id n = i) (set_new 0)\<rparr>"

definition sm_markNotificationReadBySequenceId where
  "sm_markNotificationReadBySequenceId T sid q d =
     d\<lparr>notifs := dx_modify_where (NOTIFS T) (notifs d) (in_seq sid q) (set_new 0)\<rparr>"

definition sm_markNotificationsRead where
  "sm_markNotificationsRead T sid d =
     d\<lparr>notifs := dx_modify_where (NOTIFS T) (notifs d) (\<lambda>n. in_sub sid n \<and> is_new n) (set_new 0)\<rparr>"

definition sm_pruneNotifications where
  "sm_pruneNotifications T threshold d =
     d\<lparr>notifs := dx_delete_where (NOTIFS T) (notifs d) (\<lambda>n. n_time n < threshold)\<rparr>"

text \<open>
  \<open>notify\<close>: only messages of others, in subscriptions that are not muted, at or above the
  minimum priority (a NaN minimum lets every message through).
\<close>

definition sm_notify ::
  "('s, 'n, 'p, 'u) db_ops \<Rightarrow> string js_obj \<Rightarrow> config \<Rightarrow> browser \<Rightarrow> string option \<Rightarrow>
     string \<Rightarrow> notification \<Rightarrow> ('s, 'n, 'p, 'u) db \<Rightarrow> effect list \<times> (app_error + unit)" where
  "sm_notify T emojis cfg br currentUser sid n d =
     (if n_event n \<noteq> EVENT_MESSAGE then ([], Inr ())
      else if is_own currentUser n then ([], Inr ())
      else
        (case sm_get T d sid of
           None \<Rightarrow> ([], Inl TypeError)
         | Some s \<Rightarrow>
             if s_mutedUntil s > 0 then ([], Inr ())
             else
               let priority = coalesce (n_priority n) 3;
                   below = (case prefs_minPriority (PREFS T) (prefs d) of
                              None \<Rightarrow> False | Some m \<Rightarrow> priority < m)
               in if below then ([], Inr ())
                  else notifier_notify emojis cfg br (prefs_sound (PREFS T) (prefs d)) s n))"

lemmas sm_sub_defs = sm_update_def sm_updateState_def sm_setMutedUntil_def sm_setDisplayName_def
  sm_setReservation_def sm_setLast_def

lemmas sm_notif_defs = sm_deleteNotification_def sm_deleteNotificationBySequenceId_def
  sm_deleteNotifications_def sm_markNotificationRead_def sm_markNotificationReadBySequenceId_def
  sm_markNotificationsRead_def sm_pruneNotifications_def

end
