(* ===== verification/Subscription_Facts.thy ===== *)
theory Subscription_Facts
  imports Subscriptions
begin

section \<open>What the subscription manager guarantees\<close>

text \<open>
  Lemmas over the contract of the tables (inside \<open>coop_db\<close>): how each operation changes the rows
  that can be looked up. Then the properties, stated for every database that satisfies the
  contract, with witnesses on a database of row lists.
\<close>

definition remote_id :: "remote_subscription \<Rightarrow> string" where
  "remote_id r = topicUrl (rem_base_url r) (rem_topic r)"

definition remote_row ::
  "config \<Rightarrow> reservation list option \<Rightarrow> remote_subscription \<Rightarrow> subscription" where
  "remote_row cfg res r = \<lparr>s_id = topicUrl (rem_base_url r) (rem_topic r), s_baseUrl = rem_base_url r,
     s_topic = rem_topic r, s_mutedUntil = 0, s_last = None, s_displayName = rem_display_name r,
     s_internal = False,
     s_reservation = Option.bind res (find (\<lambda>v. rem_base_url r = base_url cfg \<and> rem_topic r = r_topic v)),
     s_state = None\<rparr>"

lemma remote_row_new:
  "remote_row cfg res r = new_subscription (rem_base_url r) (rem_topic r) (remote_opts cfg res r)"
  by (simp add: remote_row_def new_subscription_def remote_opts_def split: option.split)

lemma s_id_new [simp]: "s_id (new_subscription b t opts) = topicUrl b t"
  by (simp add: new_subscription_def)

lemma s_id_remote_row [simp]: "s_id (remote_row cfg res r) = remote_id r"
  by (simp add: remote_row_def remote_id_def)

lemma n_stored_row [simp]:
  "n_id (stored_row sid k n) = n_id n" "n_time (stored_row sid k n) = n_time n"
  "n_event (stored_row sid k n) = n_event n"
  "n_subscriptionId (stored_row sid k n) = Some sid" "n_new (stored_row sid k n) = Some k"
  "n_sequenceId (stored_row sid k n) = n_sequenceId (messageWithSequenceId n)"
  by (simp_all add: stored_row_def)

lemma n_polled_row [simp]:
  "n_id (polled_row sid n) = n_id n" "n_time (polled_row sid n) = n_time n"
  "n_event (polled_row sid n) = n_event n"
  "n_subscriptionId (polled_row sid n) = Some sid" "n_new (polled_row sid n) = n_new n"
  "n_sequenceId (polled_row sid n) = n_sequenceId (messageWithSequenceId n)"
  by (simp_all add: polled_row_def)

context coop_db
begin

lemma sub_row_update:
  "(\<And>s. s_id (f s) = s_id s) \<Longrightarrow>
     sub_row T (sm_update T sid f d) = (sub_row T d)(sid := map_option f (sub_row T d sid))"
  by (simp add: sm_update_def subs.get_update)

lemma sub_row_setLast:
  "sub_row T (sm_setLast T sid i d) =
     (sub_row T d)(sid := map_option (\<lambda>s. s\<lparr>s_last := Some i\<rparr>) (sub_row T d sid))"
  unfolding sm_setLast_def by (rule sub_row_update) simp

lemma notifs_setLast [simp]: "notifs (sm_setLast T sid i d) = notifs d"
  by (simp add: sm_sub_defs)

lemma subs_of_notif_ops [simp]:
  "subs (sm_deleteNotification T i d) = subs d"
  "subs (sm_deleteNotificationBySequenceId T sid q d) = subs d"
  "subs (sm_deleteNotifications T sid d) = subs d"
  "subs (sm_markNotificationRead T i d) = subs d"
  "subs (sm_markNotificationReadBySequenceId T sid q d) = subs d"
  "subs (sm_markNotificationsRead T sid d) = subs d"
  "subs (sm_pruneNotifications T th d) = subs d"
  by (simp_all add: sm_notif_defs)

lemma notif_row_deletes:
  "notif_row T (sm_deleteNotification T i d) j = (if j = i then None else notif_row T d j)"
  "notif_row T (sm_deleteNotificationBySequenceId T sid q d) j =
     (case notif_row T d j of None \<Rightarrow> None | Some n \<Rightarrow> if in_seq sid q n then None else Some n)"
  "notif_row T (sm_deleteNotifications T sid d) j =
     (case notif_row T d j of None \<Rightarrow> None | Some n \<Rightarrow> if in_sub sid n then None else Some n)"
  "notif_row T (sm_pruneNotifications T th d) j =
     (case notif_row T d j of None \<Rightarrow> None | Some n \<Rightarrow> if n_time n < th then None else Some n)"
  by (simp_all add: sm_notif_defs notifs.lookup_remove notifs.get_delete_where)

lemma notif_row_marks:
  "notif_row T (sm_markNotificationRead T i d) j =
     map_option (\<lambda>n. if n_id n = i then set_new 0 n else n) (notif_row T d j)"
  "notif_row T (sm_markNotificationReadBySequenceId T sid q d) j =
     map_option (\<lambda>n. if in_seq sid q n then set_new 0 n else n) (notif_row T d j)"
  "notif_row T (sm_markNotificationsRead T sid d) j =
     map_option (\<lambda>n. if in_sub sid n \<and> is_new n then set_new 0 n else n) (notif_row T d j)"
  by (simp_all add: sm_notif_defs notifs.get_modify_where)

lemma notif_row_addNotification:
  assumes "notif_row T d (n_id n) = None"
    and "n_event n \<noteq> EVENT_MESSAGE_DELETE" "n_event n \<noteq> EVENT_MESSAGE_CLEAR"
  shows "notif_row T (fst (sm_addNotification T cu sid n d)) =
      (notif_row T d)(n_id n \<mapsto> stored_row sid (if is_own cu n then 0 else 1) n) \<and>
    sub_row T (fst (sm_addNotification T cu sid n d)) =
      (sub_row T d)(sid := map_option (\<lambda>s. s\<lparr>s_last := Some (n_id n)\<rparr>) (sub_row T d sid)) \<and>
    snd (sm_addNotification T cu sid n d)"
proof -
  let ?r = "stored_row sid (if is_own cu n then 0 else 1) n"
  obtain t where t: "dx_add (NOTIFS T) (notifs d) ?r = Some t"
    "dx_get (NOTIFS T) t = (notif_row T d)(n_id n \<mapsto> ?r)"
    using notifs.add_new [of "notifs d" ?r] assms(1) by auto
  with assms show ?thesis
    by (simp add: sm_addNotification_def sub_row_setLast)
qed

lemma sm_addNotification_skip:
  "notif_row T d (n_id n) \<noteq> None \<or> n_event n = EVENT_MESSAGE_DELETE \<or> n_event n = EVENT_MESSAGE_CLEAR
     \<Longrightarrow> sm_addNotification T cu sid n d = (d, False)"
  by (auto simp: sm_addNotification_def)

lemma notif_row_addNotifications:
  assumes "sm_addNotifications T sid ns d = Inr d'"
  shows "notif_row T d' j =
    (case find (\<lambda>n. n_id n = j) (rev ns) of
       Some n \<Rightarrow> Some (polled_row sid n) | None \<Rightarrow> notif_row T d j)"
proof -
  have f: "find (\<lambda>r. n_id r = j) (rev (map (polled_row sid) ns)) =
      map_option (polled_row sid) (find (\<lambda>n. n_id n = j) (rev ns))"
    by (induction ns rule: rev_induct) auto
  from assms show ?thesis
    by (auto simp: sm_addNotifications_def notifs.get_bulk_put_row f split: if_splits option.splits)
qed

lemma sm_add_row:
  "sub_row T (fst (sm_add T b t opts d)) =
     (if sub_row T d (topicUrl b t) = None
      then (sub_row T d)(topicUrl b t \<mapsto> new_subscription b t opts) else sub_row T d)"
  by (auto simp: sm_add_def sm_get_def subs.lookup_put Let_def split: option.splits)

lemma sm_add_id: "s_id (snd (sm_add T b t opts d)) = topicUrl b t"
  by (auto simp: sm_add_def sm_get_def Let_def subs.lookup_key split: option.splits)

lemma sm_add_notifs [simp]: "notifs (fst (sm_add T b t opts d)) = notifs d"
  by (auto simp: sm_add_def Let_def split: option.splits)

lemma sm_add_subs:
  "subs (fst (sm_add T (rem_base_url r) (rem_topic r) (remote_opts cfg res r) d)) =
     (if sub_row T d (s_id (remote_row cfg res r)) = None
      then dx_put (SUBS T) (subs d) (remote_row cfg res r) else subs d)"
  by (auto simp: sm_add_def sm_get_def remote_row_new Let_def split: option.splits)

lemma sync_add_eq:
  "subs (fst (sync_add T cfg res rems d)) =
     fold (\<lambda>r t. if dx_get (SUBS T) t (s_id r) = None then dx_put (SUBS T) t r else t)
       (map (remote_row cfg res) rems) (subs d) \<and>
   notifs (fst (sync_add T cfg res rems d)) = notifs d \<and>
   snd (sync_add T cfg res rems d) = map remote_id rems"
proof (induction rems arbitrary: d)
  case Nil
  then show ?case by simp
next
  case (Cons r rems)
  show ?case
    using Cons.IH [of "fst (sm_add T (rem_base_url r) (rem_topic r) (remote_opts cfg res r) d)"]
    by (simp add: case_prod_unfold Let_def sm_add_subs sm_add_id remote_id_def)
qed

lemmas sync_add_rest = sync_add_eq [THEN conjunct2, THEN conjunct1] sync_add_eq [THEN conjunct2, THEN conjunct2]

lemma sub_row_sync_add:
  "sub_row T (fst (sync_add T cfg res rems d)) k =
     (case sub_row T d k of
        Some s \<Rightarrow> Some s
      | None \<Rightarrow> map_option (remote_row cfg res) (find (\<lambda>r. remote_id r = k) rems))"
proof -
  have "find (\<lambda>s. s_id s = k) (map (remote_row cfg res) rems) =
      map_option (remote_row cfg res) (find (\<lambda>r. remote_id r = k) rems)"
    by (induction rems) auto
  then show ?thesis
    by (simp only: sync_add_eq [THEN conjunct1] subs.lookup_add_missing_all)
qed

lemma remove_rows:
  "sub_row T (sm_remove T s d) k = (if k = s_id s then None else sub_row T d k)"
  "notif_row T (sm_remove T s d) i =
     (case notif_row T d i of None \<Rightarrow> None | Some n \<Rightarrow> if in_sub (s_id s) n then None else Some n)"
  by (simp_all add: sm_remove_def subs.lookup_remove notifs.get_delete_where)

lemma remove_all_rows:
  "sub_row T (fold (\<lambda>l d. if Q l then sm_remove T l d else d) ls d) k =
     (if \<exists>l \<in> set ls. Q l \<and> s_id l = k then None else sub_row T d k)"
  "notif_row T (fold (\<lambda>l d. if Q l then sm_remove T l d else d) ls d) i =
     (case notif_row T d i of None \<Rightarrow> None
      | Some n \<Rightarrow> if \<exists>l \<in> set ls. Q l \<and> in_sub (s_id l) n then None else Some n)"
  by (induction ls arbitrary: d) (auto simp: remove_rows split: option.splits)

lemma notifs_all_ids: "notif_row T d i = Some n \<Longrightarrow> n_id n = i"
  by (rule notifs.lookup_key)

lemma subs_key: "sub_row T d k = Some s \<Longrightarrow> s_id s = k"
  by (rule subs.lookup_key)

lemma unread_zero:
  "dx_count (NOTIFS T) (notifs d) P = 0 \<longleftrightarrow> (\<forall>i n. notif_row T d i = Some n \<longrightarrow> \<not> P n)"
  by (rule notifs.count_zero)

lemma sync_sub_row:
  "sub_row T (sm_syncFromRemote T cfg rems res d) k =
    (case sub_row T d k of
       Some s \<Rightarrow> if s_internal s \<or> k \<in> remote_id ` set rems then Some s else None
     | None \<Rightarrow> map_option (remote_row cfg res) (find (\<lambda>r. remote_id r = k) rems))"
proof -
  let ?d = "fst (sync_add T cfg res rems d)" and ?ids = "map remote_id rems"
  let ?Q = "\<lambda>l. \<not> s_internal l \<and> s_id l \<notin> set ?ids"
  let ?old = "\<exists>l \<in> set (dx_to_array (SUBS T) (subs ?d)). ?Q l \<and> s_id l = k"
  have old: "?old \<longleftrightarrow> (\<exists>l. sub_row T ?d k = Some l \<and> ?Q l)"
    by (rule subs.bex_to_array_key)
  have "sub_row T (sm_syncFromRemote T cfg rems res d) k = (if ?old then None else sub_row T ?d k)"
    unfolding sm_syncFromRemote_def
    by (simp add: case_prod_unfold Let_def sync_add_rest remove_all_rows(1))
  also have "\<dots> = (case sub_row T ?d k of None \<Rightarrow> None | Some s \<Rightarrow> if ?Q s then None else Some s)"
    unfolding old by (auto split: option.split)
  also have "\<dots> = (case sub_row T d k of
       Some s \<Rightarrow> if s_internal s \<or> k \<in> remote_id ` set rems then Some s else None
     | None \<Rightarrow> map_option (remote_row cfg res) (find (\<lambda>r. remote_id r = k) rems))"
  proof (cases "sub_row T d k")
    case (Some s)
    then show ?thesis using subs.lookup_key [OF Some] by (simp add: sub_row_sync_add)
  next
    case None
    show ?thesis
    proof (cases "find (\<lambda>r. remote_id r = k) rems")
      case (Some r)
      then have "r \<in> set rems" using find_Some_mem [OF Some] by blast
      then show ?thesis using Some None by (simp add: sub_row_sync_add)
    qed (simp add: sub_row_sync_add None)
  qed
  finally show ?thesis .
qed

lemma sync_notif_row:
  "notif_row T (sm_syncFromRemote T cfg rems res d) i =
    (case notif_row T d i of None \<Rightarrow> None
     | Some n \<Rightarrow> if \<exists>sid s. n_subscriptionId n = Some sid \<and> sub_row T d sid = Some s \<and>
                       \<not> s_internal s \<and> sid \<notin> remote_id ` set rems
                 then None else Some n)"
proof -
  let ?d = "fst (sync_add T cfg res rems d)" and ?ids = "map remote_id rems"
  let ?Q = "\<lambda>l. \<not> s_internal l \<and> s_id l \<notin> set ?ids"
  have old: "(\<exists>l \<in> set (dx_to_array (SUBS T) (subs ?d)). ?Q l \<and> in_sub (s_id l) n) \<longleftrightarrow>
      (\<exists>sid s. n_subscriptionId n = Some sid \<and> sub_row T d sid = Some s \<and>
         \<not> s_internal s \<and> sid \<notin> remote_id ` set rems)" for n
  proof -
    have same: "sub_row T ?d k = sub_row T d k" if "k \<notin> remote_id ` set rems" for k
    proof -
      have "find (\<lambda>r. remote_id r = k) rems = None"
        unfolding find_None_iff using that by blast
      then show ?thesis by (simp add: sub_row_sync_add split: option.split)
    qed
    have "(\<exists>l \<in> set (dx_to_array (SUBS T) (subs ?d)). ?Q l \<and> in_sub (s_id l) n) \<longleftrightarrow>
        (\<exists>k l. sub_row T ?d k = Some l \<and> ?Q l \<and> n_subscriptionId n = Some k)"
      unfolding subs.bex_to_array in_sub_def using subs.lookup_key by metis
    also have "\<dots> \<longleftrightarrow> (\<exists>k l. sub_row T d k = Some l \<and> ?Q l \<and> n_subscriptionId n = Some k)"
    proof -
      have "sub_row T ?d k = Some l \<and> ?Q l \<longleftrightarrow> sub_row T d k = Some l \<and> ?Q l" for k l
        using same [of k] subs.lookup_key [of _ k l] by auto
      then show ?thesis by metis
    qed
    also have "\<dots> \<longleftrightarrow> (\<exists>sid s. n_subscriptionId n = Some sid \<and> sub_row T d sid = Some s \<and>
         \<not> s_internal s \<and> sid \<notin> remote_id ` set rems)"
      using subs.lookup_key unfolding set_map by metis
    finally show ?thesis .
  qed
  show ?thesis
    unfolding sm_syncFromRemote_def
    by (simp add: case_prod_unfold Let_def sync_add_rest remove_all_rows(2) old [simplified]
        split: option.split)
qed

lemma getNotifications_rows:
  "set (sm_getNotifications T d sid) = {n. notif_row T d (n_id n) = Some n \<and> in_sub sid n}"
  "distinct (sm_getNotifications T d sid)"
  "sorted (rev (map n_time (sm_getNotifications T d sid)))"
proof -
  show "set (sm_getNotifications T d sid) = {n. notif_row T d (n_id n) = Some n \<and> in_sub sid n}"
    by (auto simp: sm_getNotifications_def notifs.mem_order_by)
  show "distinct (sm_getNotifications T d sid)"
    by (simp add: sm_getNotifications_def notifs.distinct_order_by)
  have "sorted (map n_time (filter (in_sub sid) (dx_order_by (NOTIFS T) (notifs d) n_time)))"
    by (rule sorted_filter) (rule notifs.sorted_order_by)
  then show "sorted (rev (map n_time (sm_getNotifications T d sid)))"
    by (simp add: sm_getNotifications_def rev_map)
qed

lemma unread_after_mark:
  "dx_count (NOTIFS T) (notifs (sm_markNotificationsRead T sid d)) (\<lambda>n. in_sub sid n \<and> is_new n) = 0"
  by (auto simp: notifs.count_zero notif_row_marks is_new_def dest: arg_cong [of _ _ n_new] split: if_splits)

lemma unread_other_sub:
  assumes "sid' \<noteq> sid"
  shows "dx_count (NOTIFS T) (notifs (sm_markNotificationsRead T sid d)) (\<lambda>n. in_sub sid' n \<and> is_new n)
    = dx_count (NOTIFS T) (notifs d) (\<lambda>n. in_sub sid' n \<and> is_new n)"
proof -
  let ?d = "sm_markNotificationsRead T sid d"
  have "(notif_row T ?d (n_id n) = Some n \<and> in_sub sid' n) \<longleftrightarrow>
      (notif_row T d (n_id n) = Some n \<and> in_sub sid' n)" for n
    using assms by (auto simp: notif_row_marks in_sub_def)
  then show ?thesis unfolding notifs.count_card by (metis (no_types, lifting))
qed

end


subsection \<open>The rows stay well formed\<close>

text \<open>
  \<open>from_server\<close>: what the server sends (it never sets the client's own properties).
  \<open>manager_step\<close> is one operation of the manager, as its callers in the client use it: the
  poller adds only \<open>message\<close> events, and the notification card writes back a stored row with
  changed actions.
\<close>

definition from_server :: "notification \<Rightarrow> bool" where
  "from_server n \<longleftrightarrow> n_id n \<noteq> [] \<and> n_sequenceId n = None \<and> n_new n = None \<and>
     n_subscriptionId n = None \<and> isNotificationEvent (n_event n)"

inductive manager_step ::
  "('s, 'n, 'p, 'u) db_ops \<Rightarrow> ('s, 'n, 'p, 'u) db \<Rightarrow> ('s, 'n, 'p, 'u) db \<Rightarrow> bool" for T where
  step_add: "manager_step T d (fst (sm_add T b t opts d))"
| step_sync: "manager_step T d (sm_syncFromRemote T cfg rems res d)"
| step_remove: "manager_step T d (sm_remove T s d)"
| step_state: "manager_step T d (sm_updateState T sid state d)"
| step_muted: "manager_step T d (sm_setMutedUntil T sid until d)"
| step_name: "manager_step T d (sm_setDisplayName T sid name d)"
| step_reservation: "manager_step T d (sm_setReservation T sid rv d)"
| step_receive: "from_server n \<Longrightarrow> manager_step T d (fst (sm_addNotification T cu sid n d))"
| step_poll: "\<lbrakk>\<forall>n \<in> set ns. from_server n \<and> n_event n = EVENT_MESSAGE;
      sm_addNotifications T sid ns d = Inr d'\<rbrakk> \<Longrightarrow> manager_step T d d'"
| step_rewrite: "dx_get (NOTIFS T) (notifs d) i = Some n \<Longrightarrow>
      manager_step T d (fst (sm_updateNotification T (n\<lparr>n_actions := actions\<rparr>) d))"
| step_delete: "manager_step T d (sm_deleteNotification T i d)"
| step_delete_seq: "manager_step T d (sm_deleteNotificationBySequenceId T sid q d)"
| step_delete_all: "manager_step T d (sm_deleteNotifications T sid d)"
| step_read: "manager_step T d (sm_markNotificationRead T i d)"
| step_read_seq: "manager_step T d (sm_markNotificationReadBySequenceId T sid q d)"
| step_read_all: "manager_step T d (sm_markNotificationsRead T sid d)"
| step_prune: "manager_step T d (sm_pruneNotifications T th d)"

definition sub_ok :: "subscription \<Rightarrow> bool" where
  "sub_ok s \<longleftrightarrow> s_id s = topicUrl (s_baseUrl s) (s_topic s)"

text \<open>
  A stored notification belongs to a subscription, carries its sequence id, and is never a delete
  or a clear event.
\<close>

definition notif_ok :: "notification \<Rightarrow> bool" where
  "notif_ok n \<longleftrightarrow> n_subscriptionId n \<noteq> None \<and> n_sequenceId n = Some (seq_of n) \<and> seq_of n \<noteq> [] \<and>
     (n_event n = EVENT_MESSAGE \<or> n_event n = EVENT_COOP_NUDGE)"

definition db_ok :: "('s, 'n, 'p, 'u) db_ops \<Rightarrow> ('s, 'n, 'p, 'u) db \<Rightarrow> bool" where
  "db_ok T d \<longleftrightarrow> (\<forall>k s. sub_row T d k = Some s \<longrightarrow> sub_ok s) \<and>
     (\<forall>i n. notif_row T d i = Some n \<longrightarrow> notif_ok n)"

lemma db_okI:
  "\<lbrakk>\<And>k s. sub_row T d k = Some s \<Longrightarrow> sub_ok s; \<And>i n. notif_row T d i = Some n \<Longrightarrow> notif_ok n\<rbrakk>
     \<Longrightarrow> db_ok T d"
  by (simp add: db_ok_def)

lemma db_okD:
  "\<lbrakk>db_ok T d; sub_row T d k = Some s\<rbrakk> \<Longrightarrow> sub_ok s"
  "\<lbrakk>db_ok T d; notif_row T d i = Some n\<rbrakk> \<Longrightarrow> notif_ok n"
  by (auto simp: db_ok_def)

lemma sub_ok_new [simp]: "sub_ok (new_subscription b t opts)"
  by (simp add: sub_ok_def new_subscription_def)

lemma notif_ok_set_new [simp]: "notif_ok (set_new k n) = notif_ok n"
  by (simp add: notif_ok_def set_new_def seq_of_def)

lemma notif_ok_actions [simp]: "notif_ok (n\<lparr>n_actions := as\<rparr>) = notif_ok n"
  by (simp add: notif_ok_def seq_of_def)

lemma seq_of_messageWithSequenceId [simp]: "seq_of (messageWithSequenceId n) = seq_of n"
  by (simp add: seq_of_def)

lemma seq_of_rows [simp]:
  "seq_of (stored_row sid k n) = seq_of n" "seq_of (polled_row sid n) = seq_of n"
  by (simp_all add: stored_row_def polled_row_def seq_of_def)

lemma notif_ok_stored:
  "\<lbrakk>from_server n; n_event n \<noteq> EVENT_MESSAGE_DELETE; n_event n \<noteq> EVENT_MESSAGE_CLEAR\<rbrakk>
     \<Longrightarrow> notif_ok (stored_row sid k n)"
  by (auto simp: notif_ok_def from_server_def isNotificationEvent_def seq_of_ne)

lemma notif_ok_polled:
  "\<lbrakk>from_server n; n_event n = EVENT_MESSAGE\<rbrakk> \<Longrightarrow> notif_ok (polled_row sid n)"
  by (auto simp: notif_ok_def from_server_def seq_of_ne)

context coop_db
begin

lemma ok_update:
  assumes "db_ok T d" "\<And>s. s_id (f s) = s_id s \<and> s_baseUrl (f s) = s_baseUrl s \<and> s_topic (f s) = s_topic s"
  shows "db_ok T (sm_update T sid f d)"
proof (rule db_okI)
  fix k s
  assume "sub_row T (sm_update T sid f d) k = Some s"
  then show "sub_ok s"
    using assms db_okD(1) [OF assms(1)]
    by (auto simp: sub_row_update sub_ok_def split: if_splits)
next
  fix i n
  assume "notif_row T (sm_update T sid f d) i = Some n"
  then show "notif_ok n" using db_okD(2) [OF assms(1)] by (simp add: sm_update_def)
qed

lemma ok_notifs:
  assumes "db_ok T d" "subs d' = subs d" "\<And>i n. notif_row T d' i = Some n \<Longrightarrow> notif_ok n"
  shows "db_ok T d'"
  using assms by (auto simp: db_ok_def)

lemma ok_sync:
  assumes "db_ok T d"
  shows "db_ok T (sm_syncFromRemote T cfg rems res d)"
  using db_okD [OF assms]
  by (intro db_okI) (auto simp: sync_sub_row sync_notif_row remote_row_new split: option.splits if_splits)

lemma ok_receive:
  assumes "db_ok T d" "from_server n"
  shows "db_ok T (fst (sm_addNotification T cu sid n d))"
proof (cases "notif_row T d (n_id n) \<noteq> None \<or> n_event n = EVENT_MESSAGE_DELETE \<or>
    n_event n = EVENT_MESSAGE_CLEAR")
  case True
  then show ?thesis using assms(1) by (simp add: sm_addNotification_skip)
next
  case False
  then have rows: "notif_row T (fst (sm_addNotification T cu sid n d)) =
      (notif_row T d)(n_id n \<mapsto> stored_row sid (if is_own cu n then 0 else 1) n)"
    "sub_row T (fst (sm_addNotification T cu sid n d)) =
      (sub_row T d)(sid := map_option (\<lambda>s. s\<lparr>s_last := Some (n_id n)\<rparr>) (sub_row T d sid))"
    using notif_row_addNotification [of d n cu sid] by auto
  show ?thesis
    using db_okD [OF assms(1)] False notif_ok_stored [OF assms(2)]
    by (intro db_okI) (auto simp: rows sub_ok_def split: if_splits)
qed

lemma ok_poll:
  assumes "db_ok T d" "\<forall>n \<in> set ns. from_server n \<and> n_event n = EVENT_MESSAGE"
    "sm_addNotifications T sid ns d = Inr d'"
  shows "db_ok T d'"
proof (rule db_okI)
  fix k s
  assume "sub_row T d' k = Some s"
  then show "sub_ok s"
    using assms(3) db_okD(1) [OF assms(1)]
    by (auto simp: sm_addNotifications_def sub_row_setLast sub_ok_def split: if_splits)
next
  fix i n
  assume n: "notif_row T d' i = Some n"
  show "notif_ok n"
  proof (cases "find (\<lambda>n. n_id n = i) (rev ns)")
    case None
    with n show ?thesis
      using notif_row_addNotifications [OF assms(3)] db_okD(2) [OF assms(1)] by simp
  next
    case (Some m)
    then have "m \<in> set ns" using find_Some_mem [OF Some] by simp
    moreover have "n = polled_row sid m"
      using n Some notif_row_addNotifications [OF assms(3), of i] by simp
    ultimately show ?thesis using assms(2) notif_ok_polled by blast
  qed
qed

lemma ok_rewrite:
  assumes "db_ok T d" "notif_row T d i = Some n"
  shows "db_ok T (fst (sm_updateNotification T (n\<lparr>n_actions := as\<rparr>) d))"
  using db_okD [OF assms(1)] assms(2)
  by (intro db_okI) (auto simp: sm_updateNotification_def notifs.lookup_put split: if_splits)

lemma ok_setters:
  assumes "db_ok T d"
  shows "db_ok T (sm_updateState T sid state d)" "db_ok T (sm_setMutedUntil T sid until d)"
    "db_ok T (sm_setDisplayName T sid name d)" "db_ok T (sm_setReservation T sid rv d)"
  unfolding sm_updateState_def sm_setMutedUntil_def sm_setDisplayName_def sm_setReservation_def
  by (rule ok_update [OF assms], simp)+

lemma ok_notif_ops:
  assumes "db_ok T d"
  shows "db_ok T (sm_deleteNotification T i d)" "db_ok T (sm_deleteNotificationBySequenceId T sid q d)"
    "db_ok T (sm_deleteNotifications T sid d)" "db_ok T (sm_markNotificationRead T i d)"
    "db_ok T (sm_markNotificationReadBySequenceId T sid q d)"
    "db_ok T (sm_markNotificationsRead T sid d)" "db_ok T (sm_pruneNotifications T th d)"
  using db_okD [OF assms]
  by (auto intro!: db_okI simp: notif_row_deletes notif_row_marks split: if_splits option.splits)

lemma ok_add_remove:
  assumes "db_ok T d"
  shows "db_ok T (fst (sm_add T b t opts d))" "db_ok T (sm_remove T s d)"
  using db_okD [OF assms]
  by (auto intro!: db_okI simp: sm_add_row remove_rows split: if_splits option.splits)

lemma ok_step: "manager_step T d d' \<Longrightarrow> db_ok T d \<Longrightarrow> db_ok T d'"
  by (induction rule: manager_step.induct)
    (simp_all add: ok_setters ok_notif_ops ok_add_remove ok_sync ok_receive ok_rewrite ok_poll)

lemma ok_steps: "(manager_step T)\<^sup>*\<^sup>* d d' \<Longrightarrow> db_ok T d \<Longrightarrow> db_ok T d'"
  by (induction rule: rtranclp_induct) (auto intro: ok_step)

end

subsection \<open>Properties\<close>

text \<open>
  C1: the account sync leaves exactly the remote subscriptions and the internal local ones. A local
  subscription survives, unchanged, if and only if it is internal or remote; a remote one that was
  missing is created with the remote display name and the matching reservation; nothing else exists.
\<close>

theorem sync_subscriptions:
  assumes "coop_db T"
  shows "dx_get (SUBS T) (subs (sm_syncFromRemote T cfg rems res d)) k =
    (case dx_get (SUBS T) (subs d) k of
       Some s \<Rightarrow> if s_internal s \<or> k \<in> remote_id ` set rems then Some s else None
     | None \<Rightarrow> map_option (remote_row cfg res) (find (\<lambda>r. remote_id r = k) rems))"
  by (rule coop_db.sync_sub_row [OF assms])

theorem sync_subscriptions_witness:
  "dx_get (SUBS mem_db_ops) (subs (sm_syncFromRemote mem_db_ops plain_config
      [\<lparr>rem_base_url = ''https://c'', rem_topic = ''b'', rem_display_name = None\<rparr>] None
      (mem_db [new_subscription ''https://c'' ''a'' no_opts] []))) ''https://c/a'' = None"
  by (subst sync_subscriptions [OF coop_db_mem])
    (simp add: mem_db_ops_def mem_db_def mem_dexie_def mem_get_def topicUrl_def remote_id_def
      new_subscription_def no_opts_def)

text \<open>
  The sync deletes exactly the notifications of the subscriptions it drops (local, not internal,
  not remote any more); every other notification is kept unchanged.
\<close>

theorem sync_notifications:
  assumes "coop_db T"
  shows "dx_get (NOTIFS T) (notifs (sm_syncFromRemote T cfg rems res d)) i =
    (case dx_get (NOTIFS T) (notifs d) i of None \<Rightarrow> None
     | Some n \<Rightarrow> if \<exists>sid s. n_subscriptionId n = Some sid \<and> dx_get (SUBS T) (subs d) sid = Some s \<and>
                       \<not> s_internal s \<and> sid \<notin> remote_id ` set rems
                 then None else Some n)"
  by (rule coop_db.sync_notif_row [OF assms])

theorem sync_notifications_witness:
  "dx_get (NOTIFS mem_db_ops) (notifs (sm_syncFromRemote mem_db_ops plain_config [] None
      (mem_db [new_subscription ''https://c'' ''a'' no_opts]
         [stored_row ''https://c/a'' 1 (plain_message ''m1'' 10 EVENT_MESSAGE)]))) ''m1'' = None"
  by (subst sync_notifications [OF coop_db_mem])
    (simp add: mem_db_ops_def mem_db_def mem_dexie_def mem_get_def topicUrl_def
      new_subscription_def no_opts_def plain_message_def stored_row_def)

text \<open>
  A message is stored at most once. Its first delivery stores exactly one new row, with the
  subscription id, its sequence id and the unread flag (read at once when the user sent it), moves
  the subscription's \<open>last\<close> to it and changes nothing else; a second delivery, by the same or any
  other subscription, changes nothing and reports that.
\<close>

theorem message_stored_once:
  assumes "coop_db T"
    and "dx_get (NOTIFS T) (notifs d) (n_id n) = None"
    and "n_event n \<noteq> EVENT_MESSAGE_DELETE" "n_event n \<noteq> EVENT_MESSAGE_CLEAR"
    and "sm_addNotification T currentUser sid n d = (d', r)"
  shows "r \<and>
    dx_get (NOTIFS T) (notifs d') =
      (dx_get (NOTIFS T) (notifs d))(n_id n \<mapsto> stored_row sid (if is_own currentUser n then 0 else 1) n) \<and>
    dx_get (SUBS T) (subs d') = (dx_get (SUBS T) (subs d))
      (sid := map_option (\<lambda>s. s\<lparr>s_last := Some (n_id n)\<rparr>) (dx_get (SUBS T) (subs d) sid)) \<and>
    sm_addNotification T cu sid' n d' = (d', False)"
proof -
  note row = coop_db.notif_row_addNotification [OF assms(1-4), of currentUser sid, unfolded assms(5)]
  then have "notif_row T d' (n_id n) \<noteq> None" by simp
  then have "sm_addNotification T cu sid' n d' = (d', False)"
    using coop_db.sm_addNotification_skip [OF assms(1)] by blast
  with row show ?thesis by simp
qed

theorem message_stored_once_witness:
  "let m = plain_message ''m1'' 10 EVENT_MESSAGE;
       r = sm_addNotification mem_db_ops (Some ''bob'') ''https://c/a'' m (mem_db [] [])
   in snd r \<and> sm_addNotification mem_db_ops None ''https://c/b'' m (fst r) = (fst r, False)"
  using message_stored_once [OF coop_db_mem, of "mem_db [] []" "plain_message ''m1'' 10 EVENT_MESSAGE"
      "Some ''bob''" "''https://c/a''" _ _ None "''https://c/b''"]
  by (simp add: mem_db_ops_def mem_db_def mem_dexie_def mem_get_def plain_message_def event_names
      prod_eq_iff)

text \<open>
  Starting from an empty database, whatever sequence of operations of the manager runs, every
  subscription is keyed by its topic URL, and every stored notification names its subscription,
  carries its sequence id and is a message or a nudge: delete and clear events are never stored.
\<close>

theorem manager_rows_ok:
  assumes "coop_db T"
    and "\<And>k. dx_get (SUBS T) (subs d0) k = None" "\<And>i. dx_get (NOTIFS T) (notifs d0) i = None"
    and "(manager_step T)\<^sup>*\<^sup>* d0 d"
  shows "(\<forall>k s. dx_get (SUBS T) (subs d) k = Some s \<longrightarrow> k = topicUrl (s_baseUrl s) (s_topic s)) \<and>
    (\<forall>i n. dx_get (NOTIFS T) (notifs d) i = Some n \<longrightarrow> n_id n = i \<and> notif_ok n)"
proof -
  have "db_ok T d0" using assms(2,3) by (simp add: db_ok_def)
  then have "db_ok T d" using coop_db.ok_steps [OF assms(1,4)] by blast
  moreover have "s_id s = k" if "sub_row T d k = Some s" for k s
    using coop_db.subs_key [OF assms(1) that] .
  moreover have "n_id n = i" if "notif_row T d i = Some n" for i n
    using coop_db.notifs_all_ids [OF assms(1) that] .
  ultimately show ?thesis by (auto simp: db_ok_def sub_ok_def)
qed

theorem manager_rows_ok_witness:
  "\<exists>n. dx_get (NOTIFS mem_db_ops) (notifs (fst (sm_addNotification mem_db_ops None ''https://c/a''
      (plain_message ''m1'' 10 EVENT_MESSAGE) (mem_db [] [])))) ''m1'' = Some n \<and> notif_ok n"
proof -
  let ?n = "plain_message ''m1'' 10 EVENT_MESSAGE" and ?start = "mem_db [] []"
  let ?d = "fst (sm_addNotification mem_db_ops None ''https://c/a'' ?n ?start)"
  have "manager_step mem_db_ops ?start ?d"
    by (rule step_receive) (simp add: from_server_def plain_message_def isNotificationEvent_def)
  then have "(manager_step mem_db_ops)\<^sup>*\<^sup>* ?start ?d" by (rule r_into_rtranclp)
  moreover have "dx_get (SUBS mem_db_ops) (subs ?start) k = None"
    "dx_get (NOTIFS mem_db_ops) (notifs ?start) i = None" for k i
    by (simp_all add: mem_db_ops_def mem_db_def mem_dexie_def mem_get_def)
  ultimately have "\<forall>i n. dx_get (NOTIFS mem_db_ops) (notifs ?d) i = Some n \<longrightarrow> n_id n = i \<and> notif_ok n"
    using manager_rows_ok [OF coop_db_mem, of ?start ?d] by blast
  moreover have "dx_get (NOTIFS mem_db_ops) (notifs ?d) ''m1'' = Some (stored_row ''https://c/a'' 1 ?n)"
    by (simp add: sm_addNotification_def mem_db_ops_def mem_db_def mem_dexie_def mem_get_def
        plain_message_def sm_setLast_def sm_update_def is_own_def event_names)
  ultimately show ?thesis by blast
qed

text \<open>
  Marking a subscription's notifications read brings its unread badge to zero, leaves the
  unread badge of every other subscription as it was, and loses no notification.
\<close>

theorem mark_read_badges:
  assumes "coop_db T"
  shows "map snd (filter (\<lambda>p. s_id (fst p) = sid) (sm_all T (sm_markNotificationsRead T sid d))) =
      map (\<lambda>_. 0) (filter (\<lambda>p. s_id (fst p) = sid) (sm_all T d)) \<and>
    filter (\<lambda>p. s_id (fst p) \<noteq> sid) (sm_all T (sm_markNotificationsRead T sid d)) =
      filter (\<lambda>p. s_id (fst p) \<noteq> sid) (sm_all T d) \<and>
    dom (dx_get (NOTIFS T) (notifs (sm_markNotificationsRead T sid d))) = dom (dx_get (NOTIFS T) (notifs d))"
proof -
  note un = coop_db.unread_after_mark [OF assms] coop_db.unread_other_sub [OF assms]
    coop_db.subs_of_notif_ops [OF assms]
  have "dom (notif_row T (sm_markNotificationsRead T sid d)) = dom (notif_row T d)"
    by (auto simp: coop_db.notif_row_marks [OF assms] dom_def)
  then show ?thesis
    by (auto simp: sm_all_def filter_map o_def un intro!: map_cong)
qed

theorem mark_read_badges_witness:
  "sm_all mem_db_ops (sm_markNotificationsRead mem_db_ops ''https://c/a''
      (mem_db [new_subscription ''https://c'' ''a'' no_opts]
         [stored_row ''https://c/a'' 1 (plain_message ''m1'' 10 EVENT_MESSAGE)])) =
     [(new_subscription ''https://c'' ''a'' no_opts, 0)]"
proof -
  let ?d = "mem_db [new_subscription ''https://c'' ''a'' no_opts]
         [stored_row ''https://c/a'' 1 (plain_message ''m1'' 10 EVENT_MESSAGE)]"
  have "map fst (sm_all mem_db_ops (sm_markNotificationsRead mem_db_ops ''https://c/a'' ?d)) =
      [new_subscription ''https://c'' ''a'' no_opts]"
    by (simp add: sm_all_def mem_db_ops_def mem_db_def mem_dexie_def mem_to_list_def
        sm_markNotificationsRead_def)
  then obtain k where k: "sm_all mem_db_ops (sm_markNotificationsRead mem_db_ops ''https://c/a'' ?d) =
      [(new_subscription ''https://c'' ''a'' no_opts, k)]" by auto
  moreover have "length (sm_all mem_db_ops ?d) = 1"
    by (simp add: sm_all_def mem_db_ops_def mem_db_def mem_dexie_def mem_to_list_def)
  ultimately show ?thesis
    using mark_read_badges [OF coop_db_mem, of "''https://c/a''" ?d]
    by (auto simp: topicUrl_def new_subscription_def length_Suc_conv split: if_splits)
qed

text \<open>
  The notifications listed for a subscription are exactly its stored ones, each once, newest
  first.
\<close>

theorem notifications_listed:
  assumes "coop_db T"
  shows "set (sm_getNotifications T d sid) =
      {n. dx_get (NOTIFS T) (notifs d) (n_id n) = Some n \<and> n_subscriptionId n = Some sid} \<and>
    distinct (sm_getNotifications T d sid) \<and>
    sorted (rev (map n_time (sm_getNotifications T d sid)))"
  using coop_db.getNotifications_rows [OF assms, where d = d and sid = sid]
  by (simp add: in_sub_def)

theorem notifications_listed_witness:
  "sorted (rev (map n_time (sm_getNotifications mem_db_ops
      (mem_db [] [stored_row ''s'' 1 (plain_message ''a'' 5 EVENT_MESSAGE),
                  stored_row ''s'' 1 (plain_message ''b'' 9 EVENT_MESSAGE)]) ''s'')))"
  using notifications_listed [OF coop_db_mem] by blast

end
