(* ===== verification/Poller.thy ===== *)
theory Poller
  imports Subscription_Facts Js_Object
begin

section \<open>Polling and pruning (app/Poller.js, app/Pruner.js)\<close>

text \<open>
  \<open>poll\<close> fetches the messages since the subscription's last one, keeps the latest of each sequence
  and applies it to the database; \<open>prune\<close> deletes old notifications. \<open>api\<close> is the message API
  (\<open>api_poll\<close> with its environment), \<open>now\<close> is \<open>Date.now()\<close> in milliseconds. The polls of \<open>pollAll\<close>
  run concurrently in the code; each touches its own subscription and the model takes them in order.
\<close>

definition poller_api ::
  "('s, 'n, 'p, 'u) db_ops \<Rightarrow> base64_lib \<Rightarrow> (request \<Rightarrow> string list option) \<Rightarrow>
     (string \<Rightarrow> frame option) \<Rightarrow> config \<Rightarrow> 'kv session \<Rightarrow> ('s, 'n, 'p, 'u) db \<Rightarrow>
     string \<Rightarrow> string \<Rightarrow> string option \<Rightarrow> app_error + notification list" where
  "poller_api T B stream parse cfg ses d b topic since =
     api_poll B stream parse (users_get (USERS T) cfg ses (users d) b) b topic since"

text \<open>
  \<open>sequenceId in latest\<close> is also true for the names of \<open>Object.prototype\<close>; their \<open>time\<close> is undefined
  and no comparison with it succeeds.
\<close>

definition latest_step :: "notification \<Rightarrow> notification js_obj \<Rightarrow> notification js_obj" where
  "latest_step n ob =
     (let k = seq_of n
      in if \<not> obj_in ob k \<or> (case map_of ob k of None \<Rightarrow> False | Some m \<Rightarrow> n_time n \<ge> n_time m)
         then obj_set ob k n else ob)"

definition latestNotificationsBySequenceId :: "notification list \<Rightarrow> notification js_obj" where
  "latestNotificationsBySequenceId ns = fold latest_step ns []"

text \<open>\<open>Math.round(Date.now() / 1000)\<close>\<close>

definition round_seconds :: "int \<Rightarrow> int" where
  "round_seconds ms = (ms + 500) div 1000"

definition poll_threshold :: "int \<Rightarrow> int option \<Rightarrow> int" where
  "poll_threshold now deleteAfter =
     (case deleteAfter of None \<Rightarrow> 0 | Some s \<Rightarrow> if s > 0 then round_seconds now - s else 0)"

definition recentNotifications :: "int \<Rightarrow> notification list \<Rightarrow> notification list" where
  "recentNotifications th ns = (if th > 0 then filter (\<lambda>n. n_time n \<ge> th) ns else ns)"

definition deletedSequenceIds :: "notification js_obj \<Rightarrow> string list" where
  "deletedSequenceIds latest =
     map fst (filter (\<lambda>e. n_event (snd e) = EVENT_MESSAGE_DELETE) (obj_entries latest))"

definition notificationsToAdd :: "notification js_obj \<Rightarrow> notification list" where
  "notificationsToAdd latest = filter (\<lambda>n. n_event n = EVENT_MESSAGE) (obj_values latest)"

definition poll ::
  "('s, 'n, 'p, 'u) db_ops \<Rightarrow> (string \<Rightarrow> string \<Rightarrow> string option \<Rightarrow> app_error + notification list) \<Rightarrow>
     int \<Rightarrow> subscription \<Rightarrow> ('s, 'n, 'p, 'u) db \<Rightarrow> app_error + ('s, 'n, 'p, 'u) db" where
  "poll T api now s d =
     (case api (s_baseUrl s) (s_topic s) (s_last s) of
        Inl e \<Rightarrow> Inl e
      | Inr ns \<Rightarrow>
          let th = poll_threshold now (prefs_deleteAfter (PREFS T) (prefs d));
              latest = latestNotificationsBySequenceId (recentNotifications th ns);
              d' = fold (\<lambda>q d. sm_deleteNotificationBySequenceId T (s_id s) q d)
                     (deletedSequenceIds latest) d;
              toAdd = notificationsToAdd latest
          in if toAdd \<noteq> [] then sm_addNotifications T (s_id s) toAdd d' else Inr d')"

text \<open>A poll that throws is logged and the others go on.\<close>

definition pollAll ::
  "('s, 'n, 'p, 'u) db_ops \<Rightarrow> (string \<Rightarrow> string \<Rightarrow> string option \<Rightarrow> app_error + notification list) \<Rightarrow>
     int \<Rightarrow> ('s, 'n, 'p, 'u) db \<Rightarrow> ('s, 'n, 'p, 'u) db" where
  "pollAll T api now d =
     fold (\<lambda>s d. case poll T api now s d of Inl e \<Rightarrow> d | Inr d' \<Rightarrow> d') (map fst (sm_all T d)) d"

definition pollInBackground where
  "pollInBackground T api now s d = (case poll T api now s d of Inl e \<Rightarrow> d | Inr d' \<Rightarrow> d')"

text \<open>
  \<open>prune\<close>: with a preference that is not a number the database call throws and is logged.
\<close>

definition prune ::
  "('s, 'n, 'p, 'u) db_ops \<Rightarrow> int \<Rightarrow> ('s, 'n, 'p, 'u) db \<Rightarrow> ('s, 'n, 'p, 'u) db" where
  "prune T now d =
     (case prefs_deleteAfter (PREFS T) (prefs d) of
        None \<Rightarrow> d
      | Some s \<Rightarrow> if s = 0 then d else sm_pruneNotifications T (round_seconds now - s) d)"

subsection \<open>The latest message of each sequence\<close>

text \<open>\<open>n\<close> is in \<open>ns\<close>, none of its sequence is newer, and it is the last of the newest ones.\<close>

definition is_latest :: "notification list \<Rightarrow> notification \<Rightarrow> bool" where
  "is_latest ns n \<longleftrightarrow> (\<exists>xs ys. ns = xs @ n # ys \<and>
     (\<forall>m \<in> set xs. seq_of m = seq_of n \<longrightarrow> n_time m \<le> n_time n) \<and>
     (\<forall>m \<in> set ys. seq_of m = seq_of n \<longrightarrow> n_time m < n_time n))"

lemma is_latest_mem: "is_latest ns n \<Longrightarrow> n \<in> set ns"
  by (auto simp: is_latest_def)

lemma is_latest_single: "is_latest [n] n"
  unfolding is_latest_def by (intro exI [of _ "[]"]) simp

lemma is_latest_snoc:
  "is_latest (ns @ [m]) n \<longleftrightarrow>
     (n = m \<and> (\<forall>x \<in> set ns. seq_of x = seq_of m \<longrightarrow> n_time x \<le> n_time m)) \<or>
     (is_latest ns n \<and> (seq_of m = seq_of n \<longrightarrow> n_time m < n_time n))"
proof
  assume "is_latest (ns @ [m]) n"
  then obtain xs ys where e: "ns @ [m] = xs @ n # ys"
    and l: "\<forall>m \<in> set xs. seq_of m = seq_of n \<longrightarrow> n_time m \<le> n_time n"
      "\<forall>m \<in> set ys. seq_of m = seq_of n \<longrightarrow> n_time m < n_time n"
    by (auto simp: is_latest_def)
  show "(n = m \<and> (\<forall>x \<in> set ns. seq_of x = seq_of m \<longrightarrow> n_time x \<le> n_time m)) \<or>
     (is_latest ns n \<and> (seq_of m = seq_of n \<longrightarrow> n_time m < n_time n))"
  proof (cases ys rule: rev_cases)
    case Nil
    then show ?thesis using e l by auto
  next
    case (snoc zs z)
    then have "ns = xs @ n # zs" "z = m" using e by auto
    then have "is_latest ns n" using l snoc by (simp add: is_latest_def) blast
    then show ?thesis using l snoc \<open>z = m\<close> by simp
  qed
next
  assume "(n = m \<and> (\<forall>x \<in> set ns. seq_of x = seq_of m \<longrightarrow> n_time x \<le> n_time m)) \<or>
     (is_latest ns n \<and> (seq_of m = seq_of n \<longrightarrow> n_time m < n_time n))"
  then show "is_latest (ns @ [m]) n"
  proof
    assume "n = m \<and> (\<forall>x \<in> set ns. seq_of x = seq_of m \<longrightarrow> n_time x \<le> n_time m)"
    then show ?thesis unfolding is_latest_def by (intro exI [of _ ns] exI [of _ "[]"]) auto
  next
    assume "is_latest ns n \<and> (seq_of m = seq_of n \<longrightarrow> n_time m < n_time n)"
    then obtain xs ys where "ns = xs @ n # ys"
      "\<forall>m \<in> set xs. seq_of m = seq_of n \<longrightarrow> n_time m \<le> n_time n"
      "\<forall>m \<in> set ys. seq_of m = seq_of n \<longrightarrow> n_time m < n_time n"
      "seq_of m = seq_of n \<longrightarrow> n_time m < n_time n"
      by (auto simp: is_latest_def)
    then show ?thesis unfolding is_latest_def by (intro exI [of _ xs] exI [of _ "ys @ [m]"]) auto
  qed
qed

lemma is_latest_max:
  assumes "is_latest ns n" "x \<in> set ns" "seq_of x = seq_of n"
  shows "n_time x \<le> n_time n"
proof -
  obtain xs ys where "ns = xs @ n # ys"
    "\<forall>m \<in> set xs. seq_of m = seq_of n \<longrightarrow> n_time m \<le> n_time n"
    "\<forall>m \<in> set ys. seq_of m = seq_of n \<longrightarrow> n_time m < n_time n"
    using assms(1) unfolding is_latest_def by blast
  with assms(2,3) show ?thesis by (auto simp: order.strict_implies_order)
qed

lemma is_latest_exists:
  "x \<in> set ns \<Longrightarrow> \<exists>n. is_latest ns n \<and> seq_of n = seq_of x"
proof (induction ns arbitrary: x rule: rev_induct)
  case (snoc m ns)
  show ?case
  proof (cases "\<exists>y \<in> set ns. seq_of y = seq_of x")
    case True
    then obtain n where n: "is_latest ns n" "seq_of n = seq_of x" using snoc.IH by metis
    show ?thesis
    proof (cases "seq_of m = seq_of n \<longrightarrow> n_time m < n_time n")
      case True
      then show ?thesis using n is_latest_snoc by blast
    next
      case False
      then have "n_time y \<le> n_time m" if "y \<in> set ns" "seq_of y = seq_of m" for y
        using is_latest_max [OF n(1) that(1)] that(2) by simp
      then have "is_latest (ns @ [m]) m" by (simp add: is_latest_snoc)
      then show ?thesis using False n(2) by auto
    qed
  next
    case False
    then have "x = m" using snoc.prems by auto
    then have "is_latest (ns @ [m]) m" using False by (simp add: is_latest_snoc)
    then show ?thesis using \<open>x = m\<close> by blast
  qed
qed simp

lemma is_latest_unique:
  assumes "is_latest ns n" "is_latest ns m" "seq_of n = seq_of m"
  shows "n = m"
proof -
  obtain xs ys where n: "ns = xs @ n # ys"
    "\<forall>k \<in> set xs. seq_of k = seq_of n \<longrightarrow> n_time k \<le> n_time n"
    "\<forall>k \<in> set ys. seq_of k = seq_of n \<longrightarrow> n_time k < n_time n"
    using assms(1) by (auto simp: is_latest_def)
  obtain us vs where m: "ns = us @ m # vs"
    "\<forall>k \<in> set us. seq_of k = seq_of m \<longrightarrow> n_time k \<le> n_time m"
    "\<forall>k \<in> set vs. seq_of k = seq_of m \<longrightarrow> n_time k < n_time m"
    using assms(2) by (auto simp: is_latest_def)
  from n(1) m(1) have "xs @ n # ys = us @ m # vs" by simp
  then consider "n = m" | "m \<in> set ys \<and> n \<in> set us" | "n \<in> set vs \<and> m \<in> set xs"
    by (auto simp: append_eq_append_conv2 append_eq_Cons_conv Cons_eq_append_conv)
  then show ?thesis
  proof cases
    case 2
    then have "n_time m < n_time n" "n_time n \<le> n_time m" using n(3) m(2) assms(3) by auto
    then show ?thesis by simp
  next
    case 3
    then have "n_time n < n_time m" "n_time m \<le> n_time n" using n(2) m(3) assms(3) by auto
    then show ?thesis by simp
  qed
qed

lemma latest_snoc:
  "latestNotificationsBySequenceId (ns @ [m]) = latest_step m (latestNotificationsBySequenceId ns)"
  by (simp add: latestNotificationsBySequenceId_def)

text \<open>The table the code builds holds exactly the latest message of each sequence.\<close>

lemma map_of_latest:
  "map_of (latestNotificationsBySequenceId ns) k = Some n \<longleftrightarrow>
     \<not> inherited k \<and> seq_of n = k \<and> is_latest ns n"
proof (induction ns arbitrary: k n rule: rev_induct)
  case Nil
  show ?case by (auto simp: latestNotificationsBySequenceId_def is_latest_def)
next
  case (snoc m ns)
  let ?ob = "latestNotificationsBySequenceId ns"
  have proto: "seq_of m \<noteq> ''__proto__''" if "\<not> inherited (seq_of m)"
    using that by (auto simp: inherited_def proto_names_def)
  show ?case
  proof (cases "inherited (seq_of m)")
    case True
    have "map_of ?ob (seq_of m) = None" using True snoc.IH [of "seq_of m"] by (metis not_None_eq)
    then have "latest_step m ?ob = ?ob" using True by (simp add: latest_step_def obj_in_def)
    then show ?thesis using snoc.IH True is_latest_snoc by (metis latest_snoc)
  next
    case ni: False
    show ?thesis
    proof (cases "map_of ?ob (seq_of m)")
      case None
      have "seq_of x \<noteq> seq_of m" if "x \<in> set ns" for x
        using is_latest_exists [OF that] snoc.IH ni None by (metis option.distinct(1))
      then have "is_latest (ns @ [m]) m" "\<And>n. is_latest ns n \<Longrightarrow> seq_of n \<noteq> seq_of m"
        using is_latest_mem by (auto simp: is_latest_snoc)
      moreover have "latest_step m ?ob = obj_set ?ob (seq_of m) m"
        using None ni by (simp add: latest_step_def obj_in_def)
      ultimately show ?thesis
        using ni proto [OF ni] snoc.IH [of k n] by (auto simp: latest_snoc is_latest_snoc)
    next
      case (Some x)
      then have x: "is_latest ns x" "seq_of x = seq_of m" using snoc.IH by auto
      have max: "n_time y \<le> n_time x" if "y \<in> set ns" "seq_of y = seq_of m" for y
        using is_latest_max [OF x(1) that(1)] that(2) x(2) by simp
      have uniq: "n = x" if "is_latest ns n" "seq_of n = seq_of m" for n
        using is_latest_unique [OF that(1) x(1)] that(2) x(2) by simp
      show ?thesis
      proof (cases "n_time x \<le> n_time m")
        case True
        then have "latest_step m ?ob = obj_set ?ob (seq_of m) m"
          using Some ni by (simp add: latest_step_def obj_in_def)
        moreover have "is_latest (ns @ [m]) m"
          using max True unfolding is_latest_snoc by force
        ultimately show ?thesis
          using ni proto [OF ni] snoc.IH [of k n] uniq [of n] True
          by (auto simp: latest_snoc is_latest_snoc)
      next
        case False
        then have "latest_step m ?ob = ?ob"
          using Some ni by (simp add: latest_step_def obj_in_def)
        then show ?thesis
          using False ni snoc.IH [of k n] uniq [of n] x is_latest_mem [OF x(1)]
          by (auto simp: latest_snoc is_latest_snoc)
      qed
    qed
  qed
qed

lemma distinct_latest: "distinct (map fst (latestNotificationsBySequenceId ns))"
proof (induction ns rule: rev_induct)
  case (snoc m ns)
  then show ?case by (simp add: latest_snoc latest_step_def Let_def distinct_obj_set)
qed (simp add: latestNotificationsBySequenceId_def)

lemma mem_latest:
  "(k, n) \<in> set (latestNotificationsBySequenceId ns) \<longleftrightarrow>
     \<not> inherited k \<and> seq_of n = k \<and> is_latest ns n"
  using map_of_eq_Some_iff [OF distinct_latest] map_of_latest by metis

lemma set_notificationsToAdd:
  "set (notificationsToAdd (latestNotificationsBySequenceId ns)) =
     {n. is_latest ns n \<and> \<not> inherited (seq_of n) \<and> n_event n = EVENT_MESSAGE}"
  unfolding notificationsToAdd_def set_filter set_obj_values
  by (auto simp: mem_latest image_iff) (metis mem_latest snd_conv)

lemma set_deletedSequenceIds:
  "set (deletedSequenceIds (latestNotificationsBySequenceId ns)) =
     {k. \<exists>n. is_latest ns n \<and> seq_of n = k \<and> \<not> inherited k \<and> n_event n = EVENT_MESSAGE_DELETE}"
  unfolding deletedSequenceIds_def set_map set_filter set_obj_entries
  by (auto simp: mem_latest image_iff) (metis mem_latest fst_conv snd_conv)

subsection \<open>The effect on the database\<close>

context coop_db
begin

lemma delete_seqs_rows:
  "subs (fold (\<lambda>q d. sm_deleteNotificationBySequenceId T sid q d) qs d) = subs d"
  "prefs (fold (\<lambda>q d. sm_deleteNotificationBySequenceId T sid q d) qs d) = prefs d"
  "notif_row T (fold (\<lambda>q d. sm_deleteNotificationBySequenceId T sid q d) qs d) i =
     (case notif_row T d i of None \<Rightarrow> None
      | Some n \<Rightarrow> if \<exists>q \<in> set qs. in_seq sid q n then None else Some n)"
proof -
  show "subs (fold (\<lambda>q d. sm_deleteNotificationBySequenceId T sid q d) qs d) = subs d"
    by (induction qs arbitrary: d) auto
  show "prefs (fold (\<lambda>q d. sm_deleteNotificationBySequenceId T sid q d) qs d) = prefs d"
    by (induction qs arbitrary: d) (auto simp: sm_deleteNotificationBySequenceId_def)
  show "notif_row T (fold (\<lambda>q d. sm_deleteNotificationBySequenceId T sid q d) qs d) i =
     (case notif_row T d i of None \<Rightarrow> None
      | Some n \<Rightarrow> if \<exists>q \<in> set qs. in_seq sid q n then None else Some n)"
    by (induction qs arbitrary: d) (auto simp: notif_row_deletes split: option.splits)
qed

text \<open>A poll that gets a response never throws; its effect on every row:\<close>

lemma poll_rows:
  fixes now s d ns
  defines "latest \<equiv> latestNotificationsBySequenceId
      (recentNotifications (poll_threshold now (prefs_deleteAfter (PREFS T) (prefs d))) ns)"
  assumes "api (s_baseUrl s) (s_topic s) (s_last s) = Inr ns"
  obtains d' where "poll T api now s d = Inr d'" and "prefs d' = prefs d"
    and "\<And>i. notif_row T d' i =
       (case find (\<lambda>n. n_id n = i) (rev (notificationsToAdd latest)) of
          Some n \<Rightarrow> Some (polled_row (s_id s) n)
        | None \<Rightarrow> (case notif_row T d i of None \<Rightarrow> None
            | Some n \<Rightarrow> if \<exists>q \<in> set (deletedSequenceIds latest). in_seq (s_id s) q n
                        then None else Some n))"
proof -
  let ?D = "fold (\<lambda>q d. sm_deleteNotificationBySequenceId T (s_id s) q d) (deletedSequenceIds latest) d"
  let ?add = "notificationsToAdd latest"
  show ?thesis
  proof (cases "?add = []")
    case True
    have "poll T api now s d = Inr ?D"
      using assms(2) True by (simp add: poll_def latest_def Let_def)
    then show ?thesis
      by (rule that) (simp_all only: delete_seqs_rows True rev.simps find.simps option.case)
  next
    case False
    then obtain d' where d': "sm_addNotifications T (s_id s) ?add ?D = Inr d'"
      by (simp add: sm_addNotifications_def)
    have "poll T api now s d = Inr d'"
      using assms(2) False d' by (simp add: poll_def latest_def Let_def)
    moreover have "prefs d' = prefs d"
      using d' delete_seqs_rows(2) False
      by (auto simp: sm_addNotifications_def sm_setLast_def sm_update_def)
    ultimately show ?thesis
      by (rule that) (simp only: notif_row_addNotifications [OF d'] delete_seqs_rows(3))
  qed
qed

end

lemma recent_subset: "set (recentNotifications th ns) \<subseteq> set ns"
  by (auto simp: recentNotifications_def)

context coop_db
begin

lemma poll_applies:
  fixes now s d ns
  defines "recent \<equiv> recentNotifications (poll_threshold now (prefs_deleteAfter (PREFS T) (prefs d))) ns"
  assumes api: "api (s_baseUrl s) (s_topic s) (s_last s) = Inr ns"
    and ids: "distinct (map n_id ns)" and server: "\<forall>n \<in> set ns. from_server n"
  obtains d' where "poll T api now s d = Inr d'" and "prefs d' = prefs d"
    and "\<And>n. \<lbrakk>is_latest recent n; \<not> inherited (seq_of n); n_event n = EVENT_MESSAGE\<rbrakk> \<Longrightarrow>
        notif_row T d' (n_id n) = Some (polled_row (s_id s) n)"
    and "\<And>n i m. \<lbrakk>is_latest recent n; \<not> inherited (seq_of n); n_event n = EVENT_MESSAGE_DELETE;
        notif_row T d' i = Some m\<rbrakk> \<Longrightarrow> \<not> in_seq (s_id s) (seq_of n) m"
    and "\<And>i m. \<lbrakk>notif_row T d i = Some m; i \<notin> n_id ` set ns; \<not> in_sub (s_id s) m\<rbrakk> \<Longrightarrow>
        notif_row T d' i = Some m"
proof -
  let ?latest = "latestNotificationsBySequenceId recent"
  let ?add = "notificationsToAdd ?latest"
  obtain d' where d': "poll T api now s d = Inr d'" "prefs d' = prefs d"
    and rows: "\<And>i. notif_row T d' i =
       (case find (\<lambda>n. n_id n = i) (rev ?add) of
          Some n \<Rightarrow> Some (polled_row (s_id s) n)
        | None \<Rightarrow> (case notif_row T d i of None \<Rightarrow> None
            | Some n \<Rightarrow> if \<exists>q \<in> set (deletedSequenceIds ?latest). in_seq (s_id s) q n
                        then None else Some n))"
    using poll_rows [where api = api and s = s and ns = ns and now = now and d = d, OF api]
    unfolding recent_def by blast
  have sub: "set ?add \<subseteq> set ns"
    using recent_subset is_latest_mem unfolding set_notificationsToAdd recent_def by blast
  show ?thesis
  proof (rule that [OF d'])
    fix n
    assume "is_latest recent n" "\<not> inherited (seq_of n)" "n_event n = EVENT_MESSAGE"
    then have "n \<in> set ?add" by (simp add: set_notificationsToAdd)
    moreover have "inj_on n_id (set (rev ?add))"
      using ids sub inj_on_subset by (metis distinct_map set_rev)
    ultimately have "find (\<lambda>y. n_id y = n_id n) (rev ?add) = Some n"
      using find_inj [of n_id "rev ?add" n] by simp
    then show "notif_row T d' (n_id n) = Some (polled_row (s_id s) n)" by (simp add: rows)
  next
    fix n i m
    assume n: "is_latest recent n" "\<not> inherited (seq_of n)" "n_event n = EVENT_MESSAGE_DELETE"
      and m: "notif_row T d' i = Some m"
    show "\<not> in_seq (s_id s) (seq_of n) m"
    proof (cases "find (\<lambda>n. n_id n = i) (rev ?add)")
      case None
      have "seq_of n \<in> set (deletedSequenceIds ?latest)"
        using n by (auto simp: set_deletedSequenceIds)
      then show ?thesis using m None by (auto simp: rows split: option.splits if_splits)
    next
      case (Some p)
      then have p: "p \<in> set ?add" using find_Some_mem [OF Some] by simp
      then have "n_sequenceId p = None" using sub server by (auto simp: from_server_def)
      then have "n_sequenceId m = Some (seq_of p)" using m Some by (simp add: rows)
          (metis messageWithSequenceId_server n_polled_row(6))
      moreover have "seq_of p \<noteq> seq_of n"
        using p n is_latest_unique [of recent p n] by (auto simp: set_notificationsToAdd)
      ultimately show ?thesis by (simp add: in_seq_def)
    qed
  next
    fix i m
    assume m: "notif_row T d i = Some m" "i \<notin> n_id ` set ns" "\<not> in_sub (s_id s) m"
    have "find (\<lambda>n. n_id n = i) (rev ?add) = None"
      unfolding find_None_iff using m(2) sub by auto
    then show "notif_row T d' i = Some m" using m by (auto simp: rows in_seq_def in_sub_def)
  qed
qed

end

subsection \<open>Properties\<close>

text \<open>
  The poller's table of latest messages holds, for a sequence id, exactly the newest message of
  that sequence (of several equally new ones the last), except that an id which is the name of a
  property of \<open>Object.prototype\<close> is never found.
\<close>

theorem latest_per_sequence:
  "map_of (latestNotificationsBySequenceId ns) k = Some n \<longleftrightarrow>
     \<not> inherited k \<and> seq_of n = k \<and>
     (\<exists>xs ys. ns = xs @ n # ys \<and>
        (\<forall>m \<in> set xs. seq_of m = k \<longrightarrow> n_time m \<le> n_time n) \<and>
        (\<forall>m \<in> set ys. seq_of m = k \<longrightarrow> n_time m < n_time n))"
  unfolding map_of_latest is_latest_def by blast

theorem latest_per_sequence_witness:
  "map_of (latestNotificationsBySequenceId
      [plain_message ''a'' 1 EVENT_MESSAGE, plain_message ''a'' 2 EVENT_MESSAGE_DELETE]) ''a'' =
     Some (plain_message ''a'' 2 EVENT_MESSAGE_DELETE)"
  unfolding latest_per_sequence
  by (intro conjI exI [of _ "[plain_message ''a'' 1 EVENT_MESSAGE]"] exI [of _ "[]"])
    (simp_all add: inherited_def proto_names_def seq_of_def plain_message_def)



text \<open>
  The poller and the pruner agree on what is too old: what a poll has just stored survives a
  prune at the same moment, for every retention setting that is not negative.
\<close>

theorem polled_survives_prune:
  assumes "coop_db T" and "api (s_baseUrl s) (s_topic s) (s_last s) = Inr ns"
    and "distinct (map n_id ns)" and "\<forall>n \<in> set ns. from_server n \<and> n_time n \<ge> 0"
    and "prefs_deleteAfter (PREFS T) (prefs d) = Some keep" and "keep \<ge> 0"
    and "poll T api now s d = Inr d'"
    and "n \<in> set (notificationsToAdd (latestNotificationsBySequenceId
           (recentNotifications (poll_threshold now (Some keep)) ns)))"
  shows "dx_get (NOTIFS T) (notifs (prune T now d')) (n_id n) = Some (polled_row (s_id s) n)"
proof -
  let ?recent = "recentNotifications (poll_threshold now (Some keep)) ns"
  have n: "is_latest ?recent n" "\<not> inherited (seq_of n)" "n_event n = EVENT_MESSAGE"
    using assms(8) by (auto simp: set_notificationsToAdd)
  have server: "\<forall>n \<in> set ns. from_server n" using assms(4) by blast
  have "\<exists>e. poll T api now s d = Inr e \<and> prefs e = prefs d \<and>
      notif_row T e (n_id n) = Some (polled_row (s_id s) n)"
    by (rule coop_db.poll_applies [where api = api and s = s and ns = ns and now = now and d = d,
          OF assms(1-3) server]) (use n in \<open>simp add: assms(5)\<close>)
  then obtain e where e: "poll T api now s d = Inr e" "prefs e = prefs d"
    "notif_row T e (n_id n) = Some (polled_row (s_id s) n)" by blast
  have mem: "n \<in> set ?recent" using n(1) by (rule is_latest_mem)
  have "n \<in> set ns" using mem recent_subset by blast
  then have "keep > 0 \<Longrightarrow> \<not> n_time n < round_seconds now - keep"
    using mem assms(4) by (auto simp: recentNotifications_def poll_threshold_def split: if_splits)
  moreover have "prune T now d' = (if keep = 0 then d' else sm_pruneNotifications T (round_seconds now - keep) d')"
    using e assms(5,7) by (simp add: prune_def)
  ultimately show ?thesis
    using e assms(6,7) by (auto simp: coop_db.notif_row_deletes [OF assms(1)])
qed

theorem polled_survives_prune_witness:
  "dx_get (NOTIFS mem_db_ops) (notifs (prune mem_db_ops 700000000
     (case poll mem_db_ops (\<lambda>b t since. Inr [plain_message ''m1'' 699999 EVENT_MESSAGE]) 700000000
        (new_subscription ''https://c'' ''a'' no_opts) (mem_db [] []) of Inr d \<Rightarrow> d))) ''m1'' =
   Some (polled_row ''https://c/a'' (plain_message ''m1'' 699999 EVENT_MESSAGE))"
proof -
  let ?n = "plain_message ''m1'' 699999 EVENT_MESSAGE"
  let ?api = "\<lambda>b t since. Inr [?n]" and ?s = "new_subscription ''https://c'' ''a'' no_opts"
  have server: "from_server ?n \<and> n_time ?n \<ge> 0 \<and> n_id ?n = ''m1''"
    by (simp add: from_server_def plain_message_def isNotificationEvent_def)
  have pref: "prefs_deleteAfter (PREFS mem_db_ops) (prefs (mem_db [] [])) = Some 604800"
    by (simp add: prefs_deleteAfter_def pref_get_def mem_db_ops_def mem_db_def mem_dexie_def mem_get_def)
  have "recentNotifications (poll_threshold 700000000 (Some 604800)) [?n] = [?n]"
    by (simp add: recentNotifications_def poll_threshold_def round_seconds_def plain_message_def)
  moreover have "\<not> inherited (seq_of ?n)" "n_event ?n = EVENT_MESSAGE"
    by (simp_all add: plain_message_def seq_of_def inherited_def proto_names_def)
  ultimately have add: "?n \<in> set (notificationsToAdd (latestNotificationsBySequenceId
      (recentNotifications (poll_threshold 700000000 (Some 604800)) [?n])))"
    by (simp add: set_notificationsToAdd is_latest_single)
  obtain d' where d': "poll mem_db_ops ?api 700000000 ?s (mem_db [] []) = Inr d'"
    using coop_db.poll_rows [where api = ?api and s = ?s and ns = "[?n]" and now = 700000000
        and d = "mem_db [] []", OF coop_db_mem] by auto
  have ids: "distinct (map n_id [?n])" by simp
  have srv: "\<forall>n \<in> set [?n]. from_server n \<and> n_time n \<ge> 0" using server by simp
  have "dx_get (NOTIFS mem_db_ops) (notifs (prune mem_db_ops 700000000 d')) (n_id ?n) =
      Some (polled_row (s_id ?s) ?n)"
    by (rule polled_survives_prune [where api = ?api, OF coop_db_mem refl ids srv pref _ d' add]) simp
  moreover have "n_id ?n = ''m1''" using server by blast
  moreover have "s_id ?s = ''https://c/a''" by (simp add: topicUrl_def)
  ultimately show ?thesis unfolding d' by simp
qed

subsection \<open>Findings\<close>

text \<open>A message whose sequence id is the name of an inherited property is dropped by the poller.\<close>

lemma poll_drops_inherited_id:
  "latestNotificationsBySequenceId [n\<lparr>n_sequence_id := Some ''constructor''\<rparr>] = []"
  by (simp add: latestNotificationsBySequenceId_def latest_step_def obj_in_def inherited_def
      proto_names_def seq_of_def)

text \<open>A message that was cleared on another device before the poll is not stored at all.\<close>

lemma poll_drops_cleared:
  assumes "is_latest ns c" "n_event c = EVENT_MESSAGE_CLEAR"
    "n \<in> set (notificationsToAdd (latestNotificationsBySequenceId ns))"
  shows "seq_of n \<noteq> seq_of c"
proof
  assume "seq_of n = seq_of c"
  moreover have n: "is_latest ns n" "n_event n = EVENT_MESSAGE"
    using assms(3) by (simp_all add: set_notificationsToAdd)
  ultimately have "c = n" using is_latest_unique [OF assms(1)] by simp
  with n(2) assms(2) show False by simp
qed

end
