(* ===== verification/Workers.thy ===== *)
theory Workers
  imports Http
begin

section \<open>Background workers (Poller.js, Pruner.js, AccountApi.js, VersionChecker.js, hooks.js)\<close>

text \<open>
  Four objects each keep the id of an interval timer in \<open>this.timer\<close>. The browser's timers are the
  ids handed out so far with the delay each still runs under: intervals repeat, timeouts fire once,
  and \<open>clearTimeout\<close> clears either. A worker is its \<open>timer\<close> field next to the timers of the page.
\<close>

record timers =
  next_timer :: nat
  intervals :: "(nat \<times> int) list"
  timeouts :: "(nat \<times> int) list"

definition no_timers :: timers where
  "no_timers = \<lparr>next_timer = 1, intervals = [], timeouts = []\<rparr>"

definition setInterval :: "int \<Rightarrow> timers \<Rightarrow> nat \<times> timers" where
  "setInterval ms t =
     (next_timer t, t\<lparr>next_timer := next_timer t + 1, intervals := intervals t @ [(next_timer t, ms)]\<rparr>)"

definition setTimeout :: "int \<Rightarrow> timers \<Rightarrow> nat \<times> timers" where
  "setTimeout ms t =
     (next_timer t, t\<lparr>next_timer := next_timer t + 1, timeouts := timeouts t @ [(next_timer t, ms)]\<rparr>)"

definition clearTimer :: "nat option \<Rightarrow> timers \<Rightarrow> timers" where
  "clearTimer i t =
     t\<lparr>intervals := filter (\<lambda>e. Some (fst e) \<noteq> i) (intervals t),
       timeouts := filter (\<lambda>e. Some (fst e) \<noteq> i) (timeouts t)\<rparr>"

record worker =
  timer :: "nat option"
  page :: timers

definition fresh_worker :: worker where
  "fresh_worker = \<lparr>timer = None, page = no_timers\<rparr>"

definition start_timers :: "int \<Rightarrow> int \<Rightarrow> worker \<Rightarrow> worker" where
  "start_timers interval delay w =
     (let (i, t) = setInterval interval (page w);
          (_, t') = setTimeout delay t
      in w\<lparr>timer := Some i, page := t'\<rparr>)"

subsection \<open>The four workers\<close>

definition poller_startWorker :: "worker \<Rightarrow> worker" where
  "poller_startWorker w = (if timer w \<noteq> None then w else start_timers 300000 2000 w)"

definition poller_stopWorker :: "worker \<Rightarrow> worker" where
  "poller_stopWorker w = w\<lparr>page := clearTimer (timer w) (page w)\<rparr>"

definition pruner_startWorker :: "worker \<Rightarrow> worker" where
  "pruner_startWorker w = (if timer w \<noteq> None then w else start_timers 1800000 25000 w)"

definition pruner_stopWorker :: "worker \<Rightarrow> worker" where
  "pruner_stopWorker w =
     (if timer w \<noteq> None then w\<lparr>timer := None, page := clearTimer (timer w) (page w)\<rparr> else w)"

definition account_startWorker :: "worker \<Rightarrow> worker" where
  "account_startWorker w = (if timer w \<noteq> None then w else start_timers 900000 45000 w)"

definition account_stopWorker :: "worker \<Rightarrow> worker" where
  "account_stopWorker w = w\<lparr>page := clearTimer (timer w) (page w)\<rparr>"

record version_checker =
  vc_worker :: worker
  initialConfigHash :: "string option"
  vc_listener :: bool

definition version_startWorker :: "string option \<Rightarrow> version_checker \<Rightarrow> version_checker" where
  "version_startWorker hash v =
     (let (i, t) = setInterval 300000 (page (vc_worker v))
      in v\<lparr>initialConfigHash := Some (or_str hash []),
           vc_worker := \<lparr>timer = Some i, page = t\<rparr>\<rparr>)"

definition version_stopWorker :: "version_checker \<Rightarrow> version_checker" where
  "version_stopWorker v = v\<lparr>vc_worker := pruner_stopWorker (vc_worker v)\<rparr>"

definition version_registerListener :: "version_checker \<Rightarrow> version_checker" where
  "version_registerListener v = v\<lparr>vc_listener := True\<rparr>"

definition version_resetListener :: "version_checker \<Rightarrow> version_checker" where
  "version_resetListener v = v\<lparr>vc_listener := False\<rparr>"

text \<open>\<open>checkVersion\<close>: whether the listener is called. Every error is logged only.\<close>

definition checkVersion :: "server \<Rightarrow> string \<Rightarrow> version_checker \<Rightarrow> request list \<Rightarrow> bool \<times> request list" where
  "checkVersion srv url v log =
     (if \<not> truthy (initialConfigHash v) then (False, log)
      else
        (case fetch srv \<lparr>rq_method = ''GET'', rq_url = url @ ''/v1/config'', rq_headers = [],
                rq_body = None\<rparr> log of
           (Inl e, log') \<Rightarrow> (False, log')
         | (Inr rs, log') \<Rightarrow>
             (if \<not> (200 \<le> rs_status rs \<and> rs_status rs \<le> 299) then False
              else (case rs_json rs of
                      None \<Rightarrow> False
                    | Some data \<Rightarrow>
                        json_truthy (json_prop data ''config_hash'') \<and>
                        json_prop data ''config_hash'' \<noteq> map_option JStr (initialConfigHash v) \<and>
                        vc_listener v), log')))"

record app_workers =
  w_poller :: worker
  w_pruner :: worker
  w_account :: worker
  w_version :: version_checker

definition startWorkers :: "string option \<Rightarrow> app_workers \<Rightarrow> app_workers" where
  "startWorkers hash a = \<lparr>
     w_poller = poller_startWorker (w_poller a), w_pruner = pruner_startWorker (w_pruner a),
     w_account = account_startWorker (w_account a),
     w_version = version_startWorker hash (w_version a)\<rparr>"

definition stopWorkers :: "app_workers \<Rightarrow> app_workers" where
  "stopWorkers a = \<lparr>
     w_poller = poller_stopWorker (w_poller a), w_pruner = pruner_stopWorker (w_pruner a),
     w_account = account_stopWorker (w_account a), w_version = version_stopWorker (w_version a)\<rparr>"

subsection \<open>What a worker promises\<close>

text \<open>
  Ids are handed out once (\<open>timers_ok\<close>); the \<open>timer\<close> field names one of the page's intervals as long
  as the worker runs.
\<close>

definition timers_ok :: "timers \<Rightarrow> bool" where
  "timers_ok t \<longleftrightarrow> distinct (map fst (intervals t @ timeouts t)) \<and>
     (\<forall>e \<in> set (intervals t @ timeouts t). fst e < next_timer t)"

definition running :: "worker \<Rightarrow> bool" where
  "running w \<longleftrightarrow> (\<exists>i ms. timer w = Some i \<and> (i, ms) \<in> set (intervals (page w)))"

text \<open>A worker whose start is guarded: starting twice is starting once.\<close>

locale guarded_worker =
  fixes start stop :: "worker \<Rightarrow> worker"
  assumes start_idle: "timer w = None \<Longrightarrow> timers_ok (page w) \<Longrightarrow>
      running (start w) \<and> length (intervals (page (start w))) = length (intervals (page w)) + 1"
    and start_busy: "timer w \<noteq> None \<Longrightarrow> start w = w"
    and start_ok: "timers_ok (page w) \<Longrightarrow> timers_ok (page (start w))"
    and stop_clears: "\<not> running (stop w)"
begin

lemma start_again: "timers_ok (page w) \<Longrightarrow> start (start w) = start w"
  by (metis running_def start_busy start_idle option.distinct(1))

lemma starts_once:
  assumes "timer w = None" "timers_ok (page w)" "k > 0"
  shows "(start ^^ k) w = start w"
  using assms(3)
proof (induction k)
  case (Suc k)
  then show ?case using start_again [OF assms(2)] by (cases "k = 0") auto
qed simp

end

text \<open>A worker that can also be started again after it was stopped.\<close>

locale restartable_worker = guarded_worker +
  assumes stop_idle: "timer (stop w) = None"
    and stop_ok: "timers_ok (page w) \<Longrightarrow> timers_ok (page (stop w))"
begin

lemma restart_runs: "timers_ok (page w) \<Longrightarrow> running (start (stop w))"
  by (simp add: start_idle stop_idle stop_ok)

end

lemma start_timers_simps:
  "timer (start_timers ms delay w) = Some (next_timer (page w))"
  "intervals (page (start_timers ms delay w)) = intervals (page w) @ [(next_timer (page w), ms)]"
  "timeouts (page (start_timers ms delay w)) = timeouts (page w) @ [(next_timer (page w) + 1, delay)]"
  "next_timer (page (start_timers ms delay w)) = next_timer (page w) + 2"
  by (simp_all add: start_timers_def setInterval_def setTimeout_def)

lemma start_timers_ok: "timers_ok (page w) \<Longrightarrow> timers_ok (page (start_timers ms delay w))"
proof -
  let ?ids = "map fst (intervals (page w)) @ map fst (timeouts (page w))" and ?n = "next_timer (page w)"
  assume "timers_ok (page w)"
  then have d: "distinct ?ids" and l: "\<And>i. i \<in> set ?ids \<Longrightarrow> i < ?n"
    by (auto simp: timers_ok_def)
  then have "?n \<notin> set ?ids" "?n + 1 \<notin> set ?ids" by fastforce+
  with d l show ?thesis
    by (auto simp: timers_ok_def start_timers_simps less_Suc_eq)
qed

lemma clearTimer_ok: "timers_ok t \<Longrightarrow> timers_ok (clearTimer i t)"
  by (auto simp: timers_ok_def clearTimer_def distinct_map_filter)

lemma clearTimer_not_running: "timer w = i \<Longrightarrow> \<not> running (w\<lparr>page := clearTimer i (page w)\<rparr>)"
  by (auto simp: running_def clearTimer_def)

lemma running_start: "running (start_timers ms delay w)"
  by (auto simp: running_def start_timers_simps)

interpretation poller: guarded_worker poller_startWorker poller_stopWorker
  by unfold_locales
    (auto simp: poller_startWorker_def poller_stopWorker_def running_start start_timers_simps
      start_timers_ok clearTimer_not_running)

interpretation pruner: restartable_worker pruner_startWorker pruner_stopWorker
  by unfold_locales
    (auto simp: pruner_startWorker_def pruner_stopWorker_def running_start start_timers_simps
      start_timers_ok clearTimer_ok running_def)

interpretation account: guarded_worker account_startWorker account_stopWorker
  by unfold_locales
    (auto simp: account_startWorker_def account_stopWorker_def running_start start_timers_simps
      start_timers_ok clearTimer_not_running)

subsection \<open>Properties\<close>

text \<open>
  The pruner is a proper worker: after any stop it can be started again and then runs, and
  starting it any number of times without a stop leaves one interval, the one of its timer.
\<close>

theorem pruner_restarts:
  assumes "timers_ok (page w)"
  shows "running (pruner_startWorker (pruner_stopWorker w)) \<and> \<not> running (pruner_stopWorker w) \<and>
    (timer w = None \<and> k > 0 \<longrightarrow> (pruner_startWorker ^^ k) w = pruner_startWorker w)"
  using assms pruner.restart_runs pruner.stop_clears pruner.starts_once by blast

theorem pruner_restarts_witness:
  "running (pruner_startWorker (pruner_stopWorker (pruner_startWorker fresh_worker)))"
proof -
  have "timers_ok (page (pruner_startWorker fresh_worker))"
    by (simp add: fresh_worker_def no_timers_def pruner_startWorker_def timers_ok_def start_timers_simps)
  then show ?thesis using pruner_restarts by blast
qed

text \<open>
  The poller and the account worker cannot be restarted: after they ran and were stopped, no
  number of further starts runs them again, because stopping leaves \<open>timer\<close> set.
\<close>

theorem stopped_poller_stays_stopped:
  assumes "timer w \<noteq> None"
  shows "\<not> running ((poller_startWorker ^^ k) (poller_stopWorker w)) \<and>
    \<not> running ((account_startWorker ^^ k) (account_stopWorker w))"
proof -
  have "timer (poller_stopWorker w) \<noteq> None" "timer (account_stopWorker w) \<noteq> None"
    using assms by (simp_all add: poller_stopWorker_def account_stopWorker_def)
  then have "(poller_startWorker ^^ k) (poller_stopWorker w) = poller_stopWorker w"
    "(account_startWorker ^^ k) (account_stopWorker w) = account_stopWorker w"
    by (induction k) (simp_all add: poller.start_busy account.start_busy)
  then show ?thesis by (simp add: poller.stop_clears account.stop_clears)
qed

theorem stopped_poller_stays_stopped_witness:
  "running (poller_startWorker fresh_worker) \<and>
   \<not> running (poller_startWorker (poller_stopWorker (poller_startWorker fresh_worker)))"
proof -
  have "timer (poller_startWorker fresh_worker) \<noteq> None"
    by (simp add: fresh_worker_def poller_startWorker_def start_timers_simps)
  then have "\<not> running (poller_startWorker (poller_stopWorker (poller_startWorker fresh_worker)))"
    using stopped_poller_stays_stopped [of "poller_startWorker fresh_worker" 1] by simp
  moreover have "running (poller_startWorker fresh_worker)"
    by (simp add: fresh_worker_def poller_startWorker_def running_start)
  ultimately show ?thesis by blast
qed

text \<open>The version checker has no guard: a second start leaks the first interval.\<close>

lemma version_start_leaks:
  "length (intervals (page (vc_worker (version_startWorker h (version_startWorker h v))))) =
     length (intervals (page (vc_worker v))) + 2"
  by (simp add: version_startWorker_def setInterval_def)

text \<open>
  The version listener is called if and only if the page had a configuration hash, a listener
  is registered and the server answered with a different non-empty hash.
\<close>

theorem version_change_detected:
  "fst (checkVersion srv url v log) \<longleftrightarrow>
     vc_listener v \<and> truthy (initialConfigHash v) \<and>
     (\<exists>rs data h. srv log \<lparr>rq_method = ''GET'', rq_url = url @ ''/v1/config'', rq_headers = [],
          rq_body = None\<rparr> = Some rs \<and> 200 \<le> rs_status rs \<and> rs_status rs \<le> 299 \<and>
        rs_json rs = Some data \<and> json_prop data ''config_hash'' = Some h \<and> json_truthy (Some h) \<and>
        h \<noteq> JStr (coalesce (initialConfigHash v) []))"
  by (auto simp: checkVersion_def fetch_def json_truthy_def truthy_def split: option.splits)

end
