(* ===== verification/Connection.thy ===== *)
theory Connection
  imports Workers
begin

section \<open>One WebSocket connection (app/Connection.js)\<close>

text \<open>
  A \<open>Connection\<close> object, the sockets it has created, its pending retry timers and what it has
  reported to its listeners. The handlers are functions on this state, one per method of the
  class; the browser's part is the step relation \<open>conn_step\<close>: a socket opens, delivers a message
  or closes, a timer fires. A socket is the browser's WebSocket object; \<open>parse\<close> is \<open>JSON.parse\<close>
  (\<open>None\<close> when it throws).
\<close>

definition retryBackoffSeconds :: "int list" where
  "retryBackoffSeconds = [5, 10, 20, 30, 60, 120]"

definition StateConnected :: string where "StateConnected = ''connected''"
definition StateConnecting :: string where "StateConnecting = ''connecting''"

datatype ready_state = CONNECTING | OPEN | CLOSING | CLOSED

record socket =
  sk_url :: string
  sk_state :: ready_state
  sk_opened :: bool

datatype report =
    StateChanged string string
  | NotificationReceived string notification
  | SocialEvent string notification

record conn =
  c_id :: int
  c_subscriptionId :: string
  c_baseUrl :: string
  c_topic :: string
  c_user :: "user option"
  c_since :: "string option"
  c_ws :: "nat option"
  c_retryCount :: nat
  c_retryTimeout :: "nat option"
  c_sockets :: "socket list"
  c_timers :: "(nat \<times> int) list"
  c_next_timer :: nat
  c_reports :: "report list"

definition new_connection ::
  "int \<Rightarrow> string \<Rightarrow> string \<Rightarrow> string \<Rightarrow> user option \<Rightarrow> string option \<Rightarrow> conn" where
  "new_connection cid sid b topic u since = \<lparr>c_id = cid, c_subscriptionId = sid, c_baseUrl = b,
     c_topic = topic, c_user = u, c_since = since, c_ws = None, c_retryCount = 0,
     c_retryTimeout = None, c_sockets = [], c_timers = [], c_next_timer = 0, c_reports = []\<rparr>"

definition authParam :: "base64_lib \<Rightarrow> user \<Rightarrow> string" where
  "authParam B u =
     (if truthy (u_password u)
      then b64_encode_uri B (basicAuth B (u_username u) (coalesce (u_password u) []))
      else b64_encode_uri B (bearerAuth (coalesce (u_token u) ''undefined'')))"

definition wsUrl :: "base64_lib \<Rightarrow> conn \<Rightarrow> string" where
  "wsUrl B c =
     (let params = (if truthy (c_since c) then [''since='' @ coalesce (c_since c) []] else []) @
            (case c_user c of None \<Rightarrow> [] | Some u \<Rightarrow> [''auth='' @ authParam B u]);
          url = topicUrlWs (c_baseUrl c) (c_topic c)
      in if length params = 0 then url else url @ ''?'' @ join ''&'' params)"

definition conn_start :: "base64_lib \<Rightarrow> conn \<Rightarrow> conn" where
  "conn_start B c =
     c\<lparr>c_ws := Some (length (c_sockets c)),
       c_sockets := c_sockets c @ [\<lparr>sk_url = wsUrl B c, sk_state = CONNECTING, sk_opened = False\<rparr>]\<rparr>"

definition set_socket :: "nat \<Rightarrow> ready_state \<Rightarrow> conn \<Rightarrow> conn" where
  "set_socket i st c =
     (if i < length (c_sockets c)
      then c\<lparr>c_sockets := (c_sockets c)[i := (c_sockets c ! i)\<lparr>sk_state := st,
              sk_opened := (sk_opened (c_sockets c ! i) \<or> st = OPEN)\<rparr>]\<rparr>
      else c)"

definition report_event :: "report \<Rightarrow> conn \<Rightarrow> conn" where
  "report_event r c = c\<lparr>c_reports := c_reports c @ [r]\<rparr>"

definition conn_onopen :: "conn \<Rightarrow> conn" where
  "conn_onopen c = report_event (StateChanged (c_subscriptionId c) StateConnected) (c\<lparr>c_retryCount := 0\<rparr>)"

definition conn_onmessage :: "(string \<Rightarrow> frame option) \<Rightarrow> string \<Rightarrow> conn \<Rightarrow> conn" where
  "conn_onmessage parse text c =
     (case parse text of
        None \<Rightarrow> c
      | Some data \<Rightarrow>
          let ev = n_event (fr_body data) in
          if ev = EVENT_OPEN then c
          else if isCoopSocialEvent ev then
            report_event (SocialEvent (c_subscriptionId c) (fr_body data)) c
          else if \<not> (isNotificationEvent ev \<and> fr_id data \<noteq> None \<and> fr_time data \<noteq> None) then c
          else report_event (NotificationReceived (c_subscriptionId c) (frame_message data))
                 (c\<lparr>c_since := fr_id data\<rparr>))"

definition retry_ms :: "nat \<Rightarrow> int" where
  "retry_ms retryCount =
     retryBackoffSeconds ! (min retryCount (length retryBackoffSeconds - 1)) * 1000"

definition conn_onclose :: "bool \<Rightarrow> conn \<Rightarrow> conn" where
  "conn_onclose wasClean c =
     (if wasClean then c\<lparr>c_ws := None\<rparr>
      else report_event (StateChanged (c_subscriptionId c) StateConnecting)
             (c\<lparr>c_retryCount := c_retryCount c + 1,
                c_retryTimeout := Some (c_next_timer c),
                c_timers := c_timers c @ [(c_next_timer c, retry_ms (c_retryCount c))],
                c_next_timer := c_next_timer c + 1\<rparr>))"

text \<open>\<open>socket.close()\<close> has no effect on a socket that is closing or closed.\<close>

definition socket_close :: "nat \<Rightarrow> conn \<Rightarrow> conn" where
  "socket_close i c =
     (if i < length (c_sockets c) \<and> sk_state (c_sockets c ! i) \<in> {CONNECTING, OPEN}
      then set_socket i CLOSING c else c)"

definition conn_close :: "conn \<Rightarrow> conn" where
  "conn_close c =
     (let c1 = (case c_ws c of None \<Rightarrow> c | Some i \<Rightarrow> socket_close i c);
          c2 = (case c_retryTimeout c of None \<Rightarrow> c1
                | Some t \<Rightarrow> c1\<lparr>c_timers := filter (\<lambda>e. fst e \<noteq> t) (c_timers c1)\<rparr>)
      in c2\<lparr>c_retryTimeout := None, c_ws := None\<rparr>)"

subsection \<open>What the browser does\<close>

text \<open>
  A closing socket may still deliver messages that were on their way. Only a socket that was open
  can close cleanly.
\<close>

inductive conn_step :: "base64_lib \<Rightarrow> (string \<Rightarrow> frame option) \<Rightarrow> conn \<Rightarrow> conn \<Rightarrow> bool"
  for B parse where
  opens: "\<lbrakk>i < length (c_sockets c); sk_state (c_sockets c ! i) = CONNECTING\<rbrakk> \<Longrightarrow>
      conn_step B parse c (conn_onopen (set_socket i OPEN c))"
| message: "\<lbrakk>i < length (c_sockets c); sk_state (c_sockets c ! i) = OPEN \<or>
        (sk_state (c_sockets c ! i) = CLOSING \<and> sk_opened (c_sockets c ! i))\<rbrakk> \<Longrightarrow>
      conn_step B parse c (conn_onmessage parse text c)"
| closes: "\<lbrakk>i < length (c_sockets c); sk_state (c_sockets c ! i) \<noteq> CLOSED;
        wasClean \<Longrightarrow> sk_opened (c_sockets c ! i)\<rbrakk> \<Longrightarrow>
      conn_step B parse c (conn_onclose wasClean (set_socket i CLOSED c))"
| fires: "(t, ms) \<in> set (c_timers c) \<Longrightarrow>
      conn_step B parse c (conn_start B (c\<lparr>c_timers := filter (\<lambda>e. fst e \<noteq> t) (c_timers c)\<rparr>))"

inductive_cases conn_stepE: "conn_step B parse c c'"

text \<open>A connection as the manager uses it: started once, then events and closes in any order.\<close>

inductive conn_reachable :: "base64_lib \<Rightarrow> (string \<Rightarrow> frame option) \<Rightarrow> conn \<Rightarrow> conn \<Rightarrow> bool"
  for B parse c0 where
  started: "conn_reachable B parse c0 (conn_start B c0)"
| stepped: "\<lbrakk>conn_reachable B parse c0 c; conn_step B parse c c'\<rbrakk> \<Longrightarrow> conn_reachable B parse c0 c'"
| closed: "conn_reachable B parse c0 c \<Longrightarrow> conn_reachable B parse c0 (conn_close c)"

subsection \<open>Invariants\<close>

definition live_sockets :: "conn \<Rightarrow> nat" where
  "live_sockets c = length (filter (\<lambda>s. sk_state s \<noteq> CLOSED) (c_sockets c))"

definition activity :: "conn \<Rightarrow> nat" where
  "activity c = live_sockets c + length (c_timers c)"

fun last_notification :: "report list \<Rightarrow> string option \<Rightarrow> string option" where
  "last_notification [] d = d"
| "last_notification (r # rs) d =
     last_notification rs (case r of NotificationReceived sid n \<Rightarrow> Some (n_id n) | _ \<Rightarrow> d)"

lemma last_notification_append:
  "last_notification (rs @ [r]) d =
     (case r of NotificationReceived sid n \<Rightarrow> Some (n_id n) | _ \<Rightarrow> last_notification rs d)"
  by (induction rs arbitrary: d) (auto split: report.splits)

definition conn_inv :: "string option \<Rightarrow> conn \<Rightarrow> bool" where
  "conn_inv since c \<longleftrightarrow>
     activity c \<le> 1 \<and>
     c_since c = last_notification (c_reports c) since \<and>
     (\<forall>(t, ms) \<in> set (c_timers c). c_retryCount c > 0 \<and> ms = retry_ms (c_retryCount c - 1) \<and>
        c_retryTimeout c = Some t)"

lemma count_update:
  "i < length xs \<Longrightarrow> length (filter P (xs[i := y])) + (if P (xs ! i) then 1 else 0) =
     length (filter P xs) + (if P y then 1 else 0)"
proof (induction xs arbitrary: i)
  case (Cons x xs)
  then show ?case by (cases i) auto
qed simp

lemma live_set_socket:
  assumes "i < length (c_sockets c)" "sk_state (c_sockets c ! i) \<noteq> CLOSED"
  shows "live_sockets (set_socket i st c) + 1 = live_sockets c + (if st \<noteq> CLOSED then 1 else 0)"
  using count_update [OF assms(1), of "\<lambda>s. sk_state s \<noteq> CLOSED"
      "(c_sockets c ! i)\<lparr>sk_state := st, sk_opened := (sk_opened (c_sockets c ! i) \<or> st = OPEN)\<rparr>"] assms
  by (simp add: live_sockets_def set_socket_def)

lemma set_socket_fields [simp]:
  "c_timers (set_socket i st c) = c_timers c" "c_since (set_socket i st c) = c_since c"
  "c_reports (set_socket i st c) = c_reports c" "c_retryCount (set_socket i st c) = c_retryCount c"
  "c_retryTimeout (set_socket i st c) = c_retryTimeout c" "c_ws (set_socket i st c) = c_ws c"
  "c_next_timer (set_socket i st c) = c_next_timer c"
  "c_subscriptionId (set_socket i st c) = c_subscriptionId c"
  by (simp_all add: set_socket_def)

lemma inv_no_timer: "conn_inv d c \<Longrightarrow> live_sockets c > 0 \<Longrightarrow> c_timers c = [] \<and> live_sockets c = 1"
  by (cases "c_timers c") (simp_all add: conn_inv_def activity_def)

lemma inv_opens:
  assumes "conn_inv d c" "i < length (c_sockets c)" "sk_state (c_sockets c ! i) = CONNECTING"
  shows "conn_inv d (conn_onopen (set_socket i OPEN c))"
proof -
  have "live_sockets c > 0" using live_set_socket [OF assms(2), of CLOSED] assms(3) by simp
  with assms(1) have "c_timers c = []" by (simp add: inv_no_timer)
  moreover have "live_sockets (conn_onopen (set_socket i OPEN c)) = live_sockets c"
    using live_set_socket [OF assms(2), of OPEN] assms(3)
    by (simp add: conn_onopen_def report_event_def live_sockets_def)
  ultimately show ?thesis
    using assms(1) by (auto simp: conn_inv_def activity_def conn_onopen_def report_event_def
        last_notification_append)
qed

lemma inv_message:
  assumes "conn_inv d c"
  shows "conn_inv d (conn_onmessage parse text c)"
  using assms
  by (auto simp: conn_inv_def activity_def live_sockets_def conn_onmessage_def report_event_def
      last_notification_append frame_message_def Let_def split: option.splits)

lemma inv_closes:
  assumes "conn_inv d c" "i < length (c_sockets c)" "sk_state (c_sockets c ! i) \<noteq> CLOSED"
  shows "conn_inv d (conn_onclose wasClean (set_socket i CLOSED c))"
proof -
  have l: "live_sockets (set_socket i CLOSED c) + 1 = live_sockets c"
    using live_set_socket [OF assms(2,3), of CLOSED] by simp
  with inv_no_timer [OF assms(1)] have "c_timers c = []" "live_sockets (set_socket i CLOSED c) = 0"
    by simp_all
  then show ?thesis
    using assms(1) by (auto simp: conn_inv_def activity_def conn_onclose_def report_event_def
        last_notification_append live_sockets_def)
qed

lemma inv_fires:
  assumes "conn_inv d c" "(t, ms) \<in> set (c_timers c)"
  shows "conn_inv d (conn_start B (c\<lparr>c_timers := filter (\<lambda>e. fst e \<noteq> t) (c_timers c)\<rparr>))"
proof -
  have "c_timers c = [(t, ms)]" "live_sockets c = 0"
    using assms by (cases "c_timers c"; auto simp: conn_inv_def activity_def)+
  then show ?thesis
    using assms(1) by (auto simp: conn_inv_def activity_def conn_start_def live_sockets_def)
qed

lemma live_socket_close: "live_sockets (socket_close i c) = live_sockets c"
  using live_set_socket [of i c CLOSING] by (auto simp: socket_close_def)

lemma socket_close_fields [simp]:
  "c_timers (socket_close i c) = c_timers c" "c_since (socket_close i c) = c_since c"
  "c_reports (socket_close i c) = c_reports c" "c_retryCount (socket_close i c) = c_retryCount c"
  "c_retryTimeout (socket_close i c) = c_retryTimeout c"
  by (simp_all add: socket_close_def)

lemma inv_close:
  assumes "conn_inv d c"
  shows "conn_inv d (conn_close c)"
proof -
  have "c_timers (conn_close c) = (case c_retryTimeout c of None \<Rightarrow> c_timers c
      | Some t \<Rightarrow> filter (\<lambda>e. fst e \<noteq> t) (c_timers c))"
    by (simp add: conn_close_def Let_def split: option.split)
  moreover have "\<forall>(t, ms) \<in> set (c_timers c). c_retryTimeout c = Some t"
    using assms by (auto simp: conn_inv_def)
  ultimately have t: "c_timers (conn_close c) = []"
    by (cases "c_timers c"; cases "c_retryTimeout c") (auto simp: filter_empty_conv)
  have "live_sockets (conn_close c) = live_sockets c"
    using live_socket_close
    by (simp add: conn_close_def Let_def live_sockets_def split: option.split)
  moreover have "c_since (conn_close c) = c_since c" "c_reports (conn_close c) = c_reports c"
    by (simp_all add: conn_close_def Let_def split: option.split)
  ultimately show ?thesis using assms t by (auto simp: conn_inv_def activity_def)
qed

lemma inv_step: "conn_step B parse c c' \<Longrightarrow> conn_inv d c \<Longrightarrow> conn_inv d c'"
  by (induction rule: conn_step.induct) (auto intro: inv_opens inv_message inv_closes inv_fires)

lemma inv_reachable:
  assumes "conn_reachable B parse (new_connection cid sid b topic u since) c"
  shows "conn_inv since c"
  using assms
proof (induction rule: conn_reachable.induct)
  case started
  then show ?case
    by (simp add: conn_inv_def activity_def live_sockets_def conn_start_def new_connection_def)
qed (auto intro: inv_step inv_close)

lemma backoff_ms:
  "j \<in> {0, 1, 2, 3, 4, 5} \<Longrightarrow>
     [5, 10, 20, 30, 60, 120] ! j * 1000 = ([5000, 10000, 20000, 30000, 60000, 120000] ! j :: int)"
  by auto

lemma retry_ms_table: "retry_ms k = [5000, 10000, 20000, 30000, 60000, 120000] ! min k 5"
proof -
  have "min k 5 \<in> {0, 1, 2, 3, 4, 5}" by auto
  moreover have "length retryBackoffSeconds - 1 = 5" by (simp add: retryBackoffSeconds_def)
  ultimately show ?thesis
    by (simp only: retry_ms_def backoff_ms retryBackoffSeconds_def)
qed

subsection \<open>Properties\<close>

text \<open>
  C6: whatever the browser does and whenever the connection is closed, a connection never has more
  than one WebSocket that is not closed, and never one while a reconnect is pending; and every
  pending reconnect waits for the backoff that belongs to the number of failures since the last
  successful open.
\<close>

theorem connection_single_socket:
  assumes "conn_reachable B parse (new_connection cid sid b topic u since) c"
  shows "length (filter (\<lambda>s. sk_state s \<noteq> CLOSED) (c_sockets c)) + length (c_timers c) \<le> 1 \<and>
    (\<forall>t ms. (t, ms) \<in> set (c_timers c) \<longrightarrow> c_retryCount c > 0 \<and>
       ms = [5000, 10000, 20000, 30000, 60000, 120000] ! min (c_retryCount c - 1) 5)"
  using inv_reachable [OF assms]
  by (auto simp: conn_inv_def activity_def live_sockets_def retry_ms_table)

definition no_base64 :: base64_lib where
  "no_base64 = \<lparr>b64_encode = id, b64_encode_uri = id\<rparr>"

definition example_conn :: conn where
  "example_conn = new_connection 1 ''https://c/a'' ''https://c'' ''a'' None None"

definition failed_conn :: conn where
  "failed_conn = conn_onclose False (set_socket 0 CLOSED (conn_start no_base64 example_conn))"

lemma failed_reachable: "conn_reachable no_base64 (\<lambda>_. None) example_conn failed_conn"
  unfolding failed_conn_def
  by (rule conn_reachable.stepped [OF conn_reachable.started closes])
    (simp_all add: conn_start_def example_conn_def new_connection_def)

theorem connection_single_socket_witness: "c_timers failed_conn = [(0, 5000)]"
proof -
  have "length (c_timers failed_conn) = 1" "fst ` set (c_timers failed_conn) = {0}"
    by (simp_all add: failed_conn_def conn_onclose_def report_event_def conn_start_def
        example_conn_def new_connection_def)
  then obtain ms where "c_timers failed_conn = [(0, ms)]" by (auto simp: length_Suc_conv)
  moreover have "c_retryCount failed_conn = 1"
    by (simp add: failed_conn_def conn_onclose_def report_event_def conn_start_def
        example_conn_def new_connection_def)
  ultimately show ?thesis
    using connection_single_socket [OF failed_reachable [unfolded example_conn_def]] by simp
qed



text \<open>
  Closing a connection that waits for a reconnect, or that has no socket any more, is final:
  no event can happen to it afterwards.
\<close>

theorem close_is_final:
  assumes "conn_reachable B parse (new_connection cid sid b topic u since) c"
    and "\<forall>s \<in> set (c_sockets c). sk_state s = CLOSED"
  shows "\<not> conn_step B parse (conn_close c) c'"
proof -
  have inv: "conn_inv since (conn_close c)" by (rule inv_close) (rule inv_reachable [OF assms(1)])
  have t: "c_timers (conn_close c) = []"
  proof -
    have "c_timers (conn_close c) = (case c_retryTimeout c of None \<Rightarrow> c_timers c
        | Some t \<Rightarrow> filter (\<lambda>e. fst e \<noteq> t) (c_timers c))"
      by (simp add: conn_close_def Let_def split: option.split)
    moreover have "\<forall>(t, ms) \<in> set (c_timers c). c_retryTimeout c = Some t"
      using inv_reachable [OF assms(1)] by (auto simp: conn_inv_def)
    ultimately show ?thesis
      by (cases "c_timers c"; cases "c_retryTimeout c") (auto simp: filter_empty_conv)
  qed
  have "live_sockets (conn_close c) = live_sockets c"
    using live_socket_close
    by (simp add: conn_close_def Let_def live_sockets_def split: option.split)
  then have "live_sockets (conn_close c) = 0"
    using assms(2) by (simp add: live_sockets_def filter_empty_conv)
  then have "\<forall>s \<in> set (c_sockets (conn_close c)). sk_state s = CLOSED"
    by (simp add: live_sockets_def filter_empty_conv)
  then have "sk_state (c_sockets (conn_close c) ! i) = CLOSED" if "i < length (c_sockets (conn_close c))" for i
    using that nth_mem by blast
  then show ?thesis using t by (auto elim!: conn_stepE)
qed

theorem close_is_final_witness:
  "\<not> conn_step no_base64 (\<lambda>_. None) (conn_close failed_conn) failed_conn"
  by (rule close_is_final [OF failed_reachable [unfolded example_conn_def]])
    (simp add: failed_conn_def conn_onclose_def report_event_def conn_start_def
        example_conn_def new_connection_def set_socket_def)

text \<open>
  C13: closing a connection while its socket is still connecting does not stop it: the browser then
  reports an unclean close, which schedules a reconnect, and the reconnect opens a new socket.
\<close>

theorem closed_connection_reconnects:
  assumes "i < length (c_sockets c)" and "sk_state (c_sockets c ! i) = CONNECTING"
    and "c_ws c = Some i"
  shows "\<exists>c'. (conn_step B parse)\<^sup>*\<^sup>* (conn_close c) c' \<and> c_ws c' = Some (length (c_sockets c)) \<and>
    sk_state (c_sockets c' ! length (c_sockets c)) = CONNECTING"
proof -
  let ?c1 = "conn_onclose False (set_socket i CLOSED (conn_close c))"
  have sock: "length (c_sockets (conn_close c)) = length (c_sockets c)"
    "sk_state (c_sockets (conn_close c) ! i) = CLOSING"
    using assms by (auto simp: conn_close_def Let_def socket_close_def set_socket_def split: option.split)
  have s1: "conn_step B parse (conn_close c) ?c1"
    by (rule closes) (use sock assms(1) in simp_all)
  obtain t ms where t: "(t, ms) \<in> set (c_timers ?c1)"
    by (auto simp: conn_onclose_def report_event_def)
  have len: "length (c_sockets ?c1) = length (c_sockets c)"
    using sock(1) by (simp add: conn_onclose_def report_event_def set_socket_def)
  define d where "d = ?c1\<lparr>c_timers := filter (\<lambda>e. fst e \<noteq> t) (c_timers ?c1)\<rparr>"
  have "conn_step B parse ?c1 (conn_start B d)" unfolding d_def using t by (rule fires)
  with s1 have "(conn_step B parse)\<^sup>*\<^sup>* (conn_close c) (conn_start B d)"
    by (metis converse_rtranclp_into_rtranclp r_into_rtranclp)
  moreover have "length (c_sockets d) = length (c_sockets c)" using len by (simp add: d_def)
  ultimately show ?thesis
    by (intro exI [of _ "conn_start B d"]) (simp add: conn_start_def nth_append)
qed

theorem closed_connection_reconnects_witness:
  "\<exists>c'. (conn_step no_base64 (\<lambda>_. None))\<^sup>*\<^sup>* (conn_close (conn_start no_base64 example_conn)) c' \<and>
     c_ws c' = Some 1"
  using closed_connection_reconnects [of 0 "conn_start no_base64 example_conn" no_base64 "\<lambda>_. None"]
  by (auto simp: conn_start_def example_conn_def new_connection_def)

end
