(* ===== verification/Connection_Manager.thy ===== *)
theory Connection_Manager
  imports Connection Subscriptions
begin

section \<open>The connections that should run (app/ConnectionManager.js)\<close>

text \<open>
  The manager's map from connection ids to connections, in insertion order, and the listeners it
  forwards to. A connection that was closed lives on as an object; \<open>closed_conns\<close> lists them. The
  lemmas on the map come from its contract as a keyed store.
\<close>

record manager =
  connections :: "(int, conn) js_map"
  closed_conns :: "conn list"
  stateListener :: bool
  messageListener :: bool
  socialEventListener :: bool

definition new_manager :: manager where
  "new_manager = \<lparr>connections = [], closed_conns = [], stateListener = False,
     messageListener = False, socialEventListener = False\<rparr>"

definition makeConnectionId :: "subscription \<Rightarrow> user option \<Rightarrow> int" where
  "makeConnectionId s u =
     (case u of
        Some u \<Rightarrow> hashCode (s_id s @ ''|'' @ u_username u @ ''|'' @ coalesce (u_password u) [] @ ''|'' @
                     coalesce (u_token u) [])
      | None \<Rightarrow> hashCode (s_id s))"

text \<open>\<open>const [user] = users.filter(...)\<close>: the first match.\<close>

definition subscriptionUser :: "user list \<Rightarrow> subscription \<Rightarrow> user option" where
  "subscriptionUser us s = find (\<lambda>u. u_baseUrl u = s_baseUrl s) us"

definition connectionId :: "user list \<Rightarrow> subscription \<Rightarrow> int" where
  "connectionId us s = makeConnectionId s (subscriptionUser us s)"

definition start_connection :: "base64_lib \<Rightarrow> user list \<Rightarrow> subscription \<Rightarrow> conn" where
  "start_connection B us s =
     conn_start B (new_connection (connectionId us s) (s_id s) (s_baseUrl s) (s_topic s)
       (subscriptionUser us s) (s_last s))"

definition add_connection ::
  "base64_lib \<Rightarrow> user list \<Rightarrow> subscription \<Rightarrow> (int, conn) js_map \<Rightarrow> (int, conn) js_map" where
  "add_connection B us s m =
     (if jm_get m (connectionId us s) = None
      then jm_set m (connectionId us s) (start_connection B us s) else m)"

definition drop_connection :: "int \<Rightarrow> manager \<Rightarrow> manager" where
  "drop_connection i m =
     m\<lparr>connections := jm_delete (connections m) i,
       closed_conns := closed_conns m @
         (case jm_get (connections m) i of None \<Rightarrow> [] | Some c \<Rightarrow> [conn_close c])\<rparr>"

definition refresh ::
  "base64_lib \<Rightarrow> subscription list option \<Rightarrow> user list option \<Rightarrow> manager \<Rightarrow> manager" where
  "refresh B all_subs all_users m =
     (case (all_subs, all_users) of
        (Some ss, Some us) \<Rightarrow>
          let targetIds = map (connectionId us) ss;
              deletedIds = filter (\<lambda>i. i \<notin> set targetIds) (jm_keys (connections m))
          in fold drop_connection deletedIds
               (m\<lparr>connections := fold (add_connection B us) ss (connections m)\<rparr>)
      | _ \<Rightarrow> m)"

text \<open>Forwarding to a listener; what the listener throws is logged and goes no further.\<close>

definition stateChanged :: "manager \<Rightarrow> (string \<Rightarrow> string \<Rightarrow> 'w \<Rightarrow> 'w) \<Rightarrow> string \<Rightarrow> string \<Rightarrow> 'w \<Rightarrow> 'w" where
  "stateChanged m listener sid state w = (if stateListener m then listener sid state w else w)"

definition notificationReceived ::
  "manager \<Rightarrow> (string \<Rightarrow> notification \<Rightarrow> 'w \<Rightarrow> 'w) \<Rightarrow> string \<Rightarrow> notification \<Rightarrow> 'w \<Rightarrow> 'w" where
  "notificationReceived m listener sid n w = (if messageListener m then listener sid n w else w)"

definition socialEventReceived ::
  "manager \<Rightarrow> (string \<Rightarrow> notification \<Rightarrow> 'w \<Rightarrow> 'w) \<Rightarrow> string \<Rightarrow> notification \<Rightarrow> 'w \<Rightarrow> 'w" where
  "socialEventReceived m listener sid n w = (if socialEventListener m then listener sid n w else w)"

definition registerStateListener :: "manager \<Rightarrow> manager" where
  "registerStateListener m = m\<lparr>stateListener := True\<rparr>"
definition resetStateListener :: "manager \<Rightarrow> manager" where
  "resetStateListener m = m\<lparr>stateListener := False\<rparr>"
definition registerMessageListener :: "manager \<Rightarrow> manager" where
  "registerMessageListener m = m\<lparr>messageListener := True\<rparr>"
definition resetMessageListener :: "manager \<Rightarrow> manager" where
  "resetMessageListener m = m\<lparr>messageListener := False\<rparr>"
definition registerSocialEventListener :: "manager \<Rightarrow> manager" where
  "registerSocialEventListener m = m\<lparr>socialEventListener := True\<rparr>"
definition resetSocialEventListener :: "manager \<Rightarrow> manager" where
  "resetSocialEventListener m = m\<lparr>socialEventListener := False\<rparr>"

subsection \<open>Lemmas\<close>

lemma add_connection_row:
  "add_connection B us s m =
     (let r = (connectionId us s, start_connection B us s)
      in if jm_lookup_row m (fst r) = None then jm_put_row m r else m)"
  by (simp add: add_connection_def jm_lookup_row_def jm_put_row_def)

lemma add_connections_rows:
  "fold (add_connection B us) ss m =
     fold (\<lambda>r m. if jm_lookup_row m (fst r) = None then jm_put_row m r else m)
       (map (\<lambda>s. (connectionId us s, start_connection B us s)) ss) m"
  by (induction ss arbitrary: m) (simp_all add: add_connection_row Let_def)

lemma jm_get_row: "jm_get m k = map_option snd (jm_lookup_row m k)"
  by (simp add: jm_lookup_row_def option.map_comp o_def option.map_ident)

lemma find_map_pair:
  "find (\<lambda>r. fst r = k) (map (\<lambda>s. (f s, g s)) ss) = map_option (\<lambda>s. (f s, g s)) (find (\<lambda>s. f s = k) ss)"
  by (induction ss) auto

lemma get_add_connections:
  "jm_get (fold (add_connection B us) ss m) k =
     (case jm_get m k of Some c \<Rightarrow> Some c
      | None \<Rightarrow> map_option (start_connection B us) (find (\<lambda>s. connectionId us s = k) ss))"
  unfolding add_connections_rows jm_get_row [of "fold _ _ _"] jsmap.lookup_add_missing_all find_map_pair
  by (auto simp: jm_lookup_row_def option.map_comp o_def split: option.split)

lemma get_drop_connections:
  "jm_get (connections (fold drop_connection is m)) k =
     (if k \<in> set is then None else jm_get (connections m) k)"
  by (induction "is" arbitrary: m) (auto simp: drop_connection_def)

definition closed_by :: "manager \<Rightarrow> int \<Rightarrow> conn list" where
  "closed_by m i = (case jm_get (connections m) i of None \<Rightarrow> [] | Some c \<Rightarrow> [conn_close c])"

lemma closed_by_drop: "i \<noteq> j \<Longrightarrow> closed_by (drop_connection i m) j = closed_by m j"
  by (simp add: closed_by_def drop_connection_def)

lemma closed_drop: "closed_conns (drop_connection i m) = closed_conns m @ closed_by m i"
  by (simp add: closed_by_def drop_connection_def)

lemma closed_drop_connections:
  "distinct is \<Longrightarrow>
     closed_conns (fold drop_connection is m) = closed_conns m @ concat (map (closed_by m) is)"
proof (induction "is" arbitrary: m)
  case (Cons i "is")
  have "map (closed_by (drop_connection i m)) is = map (closed_by m) is"
    using Cons.prems by (auto intro!: map_cong closed_by_drop)
  then have "concat (map (closed_by (drop_connection i m)) is) = concat (map (closed_by m) is)"
    by (rule arg_cong)
  with Cons.IH [of "drop_connection i m"] Cons.prems show ?case by (simp only: closed_drop fold.simps
      o_apply distinct.simps list.map concat.simps append_assoc)
qed simp

lemma distinct_add_connections:
  "distinct (jm_keys m) \<Longrightarrow> distinct (jm_keys (fold (add_connection B us) ss m))"
  by (induction ss arbitrary: m) (auto simp: add_connection_def distinct_jm_set)

lemma add_connections_noop:
  "\<forall>s \<in> set ss. jm_get m (connectionId us s) \<noteq> None \<Longrightarrow> fold (add_connection B us) ss m = m"
  by (induction ss) (auto simp: add_connection_def)

lemma refresh_get:
  "jm_get (connections (refresh B (Some ss) (Some us) m)) k =
     (if k \<in> connectionId us ` set ss
      then (case jm_get (connections m) k of Some c \<Rightarrow> Some c
            | None \<Rightarrow> map_option (start_connection B us) (find (\<lambda>s. connectionId us s = k) ss))
      else None)"
proof -
  have f: "find (\<lambda>s. connectionId us s = k) ss = None" if "k \<notin> connectionId us ` set ss"
    unfolding find_None_iff using that by blast
  have keys: "jm_get (connections m) k = None" if "k \<notin> set (jm_keys (connections m))"
    using that by (auto simp: jm_get_def jm_keys_def map_of_eq_None_iff)
  show ?thesis
    using f keys
    by (auto simp: refresh_def Let_def get_drop_connections get_add_connections split: option.split)
qed

lemma distinct_drop_connections:
  "distinct (jm_keys (connections m)) \<Longrightarrow> distinct (jm_keys (connections (fold drop_connection is m)))"
  by (induction "is" arbitrary: m) (auto simp: drop_connection_def distinct_jm_delete)

lemma refresh_distinct:
  "distinct (jm_keys (connections m)) \<Longrightarrow> distinct (jm_keys (connections (refresh B ss us m)))"
  by (auto simp: refresh_def Let_def split: option.split
      intro!: distinct_drop_connections distinct_add_connections)

lemma refresh_keys:
  "set (jm_keys (connections (refresh B (Some ss) (Some us) m))) = connectionId us ` set ss"
proof (rule set_eqI)
  fix k
  have "find (\<lambda>s. connectionId us s = k) ss \<noteq> None" if "k \<in> connectionId us ` set ss"
    unfolding find_None_iff using that by blast
  then show "k \<in> set (jm_keys (connections (refresh B (Some ss) (Some us) m))) \<longleftrightarrow>
      k \<in> connectionId us ` set ss"
    by (auto simp: set_jm_keys domIff refresh_get split: option.split)
qed

lemma refresh_closed:
  assumes "distinct (jm_keys (connections m))"
  shows "closed_conns (refresh B (Some ss) (Some us) m) = closed_conns m @
    map (\<lambda>(i, c). conn_close c) (filter (\<lambda>(i, c). i \<notin> connectionId us ` set ss) (connections m))"
proof -
  let ?m = "m\<lparr>connections := fold (add_connection B us) ss (connections m)\<rparr>"
  let ?del = "filter (\<lambda>i. i \<notin> connectionId us ` set ss) (jm_keys (connections m))"
  have one: "closed_by ?m i = [conn_close c]"
    if "(i, c) \<in> set (connections m)" for i c
  proof -
    have "jm_get (connections m) i = Some c"
      using assms that by (simp add: jm_get_def jm_keys_def)
    then show ?thesis by (simp add: closed_by_def get_add_connections)
  qed
  have "closed_conns (refresh B (Some ss) (Some us) m) = closed_conns m @ concat (map (closed_by ?m) ?del)"
    using assms closed_drop_connections [of ?del ?m] by (simp add: refresh_def Let_def)
  also have "concat (map (closed_by ?m) ?del) =
      map (\<lambda>(i, c). conn_close c) (filter (\<lambda>(i, c). i \<notin> connectionId us ` set ss) (connections m))"
  proof -
    have "concat (map (closed_by ?m) (filter P (map fst xs))) =
        map (\<lambda>(i, c). conn_close c) (filter (\<lambda>(i, c). P i) xs)"
      if "set xs \<subseteq> set (connections m)" for P xs
      using that by (induction xs) (auto simp: one)
    then show ?thesis unfolding jm_keys_def by blast
  qed
  finally show ?thesis .
qed

lemma refresh_noop:
  assumes "connectionId us ` set ss = set (jm_keys (connections m))"
  shows "refresh B (Some ss) (Some us) m = m"
proof -
  have "fold (add_connection B us) ss (connections m) = connections m"
    using assms by (intro add_connections_noop) (auto simp: set_jm_keys)
  moreover have "filter (\<lambda>i. i \<notin> connectionId us ` set ss) (jm_keys (connections m)) = []"
    using assms by (simp add: filter_empty_conv)
  ultimately show ?thesis by (simp add: refresh_def Let_def)
qed

subsection \<open>Properties\<close>

text \<open>
  C7: after a refresh the open connections are exactly the targets: one per connection id of a
  subscription; a connection that was already open is kept as it is, a missing one is created for
  the first subscription with that id, with its user and last message, and started.
\<close>

theorem refresh_targets:
  "set (jm_keys (connections (refresh B (Some ss) (Some us) m))) = connectionId us ` set ss \<and>
   jm_get (connections (refresh B (Some ss) (Some us) m)) k =
     (if k \<in> connectionId us ` set ss
      then (case jm_get (connections m) k of Some c \<Rightarrow> Some c
            | None \<Rightarrow> map_option (start_connection B us) (find (\<lambda>s. connectionId us s = k) ss))
      else None)"
  by (simp add: refresh_keys refresh_get)

text \<open>
  A refresh closes exactly the connections that are no target any more, each once, in the order
  they were opened, and no other.
\<close>

theorem refresh_closes:
  assumes "distinct (jm_keys (connections m))"
  shows "closed_conns (refresh B (Some ss) (Some us) m) = closed_conns m @
    map (\<lambda>(i, c). conn_close c) (filter (\<lambda>(i, c). i \<notin> connectionId us ` set ss) (connections m)) \<and>
    distinct (jm_keys (connections (refresh B (Some ss) (Some us) m)))"
  using refresh_closed [OF assms] refresh_distinct [OF assms] by blast

theorem refresh_closes_witness:
  "length (closed_conns (refresh no_base64 (Some []) (Some [])
     (new_manager\<lparr>connections := [(1, example_conn)]\<rparr>))) = 1"
  using refresh_closes [of "new_manager\<lparr>connections := [(1, example_conn)]\<rparr>" no_base64 "[]" "[]"]
  by (simp add: jm_keys_def new_manager_def)

text \<open>
  Refreshing is idempotent: with the same subscriptions and users a second refresh changes
  nothing, so it opens and closes no connection.
\<close>

theorem refresh_idempotent:
  "refresh B ss us (refresh B ss us m) = refresh B ss us m"
proof (cases "ss = None \<or> us = None")
  case True
  then show ?thesis by (auto simp: refresh_def split: option.split)
next
  case False
  then show ?thesis using refresh_noop refresh_keys by (metis not_Some_eq)
qed

text \<open>
  When no two subscriptions have the same connection id, every subscription has its own
  connection after a refresh from an empty manager, for its server and topic.
\<close>

theorem every_subscription_connected:
  assumes "inj_on (connectionId us) (set ss)" and "s \<in> set ss" and "connections m = []"
  shows "\<exists>c. jm_get (connections (refresh B (Some ss) (Some us) m)) (connectionId us s) = Some c \<and>
    c_subscriptionId c = s_id s \<and> c_baseUrl c = s_baseUrl s \<and> c_topic c = s_topic s \<and>
    c_since c = s_last s \<and> c_ws c \<noteq> None"
proof -
  have "find (\<lambda>x. connectionId us x = connectionId us s) ss = Some s"
    using assms(1,2) by (rule find_inj)
  then show ?thesis
    using assms(2,3)
    by (simp add: refresh_get start_connection_def conn_start_def new_connection_def)
qed

theorem every_subscription_connected_witness:
  "\<exists>c. jm_get (connections (refresh no_base64 (Some [new_subscription ''https://c'' ''a'' no_opts])
      (Some []) new_manager)) (connectionId [] (new_subscription ''https://c'' ''a'' no_opts)) = Some c \<and>
    c_topic c = ''a''"
  using every_subscription_connected [of "[]" "[new_subscription ''https://c'' ''a'' no_opts]"
      "new_subscription ''https://c'' ''a'' no_opts" new_manager no_base64]
  by (auto simp: new_manager_def new_subscription_def)

text \<open>
  The connection id is a 32-bit hash, so two subscriptions can share it: of the topics \<open>Aa\<close> and
  \<open>BB\<close> of one server only the first gets a connection, the other is never listened to.
\<close>

theorem colliding_topics_share_connection:
  "let aa = new_subscription ''https://c'' ''Aa'' no_opts; bb = new_subscription ''https://c'' ''BB'' no_opts;
       m = refresh B (Some [aa, bb]) (Some []) new_manager
   in s_id aa \<noteq> s_id bb \<and> jm_keys (connections m) = [connectionId [] aa] \<and>
      map (c_topic \<circ> snd) (connections m) = [''Aa'']"
proof -
  let ?aa = "new_subscription ''https://c'' ''Aa'' no_opts"
  let ?bb = "new_subscription ''https://c'' ''BB'' no_opts"
  have "hashCode (s_id ?aa) = hashCode (s_id ?bb)"
    by (simp add: new_subscription_def topicUrl_def hashCode_def hash_units_def code_units_def
        push_bit_eq_mult)
  then have "connectionId [] ?bb = connectionId [] ?aa"
    by (simp add: connectionId_def makeConnectionId_def subscriptionUser_def)
  then show ?thesis
    by (simp add: refresh_def new_manager_def add_connection_def jm_set_def jm_get_def jm_keys_def
        start_connection_def conn_start_def new_connection_def new_subscription_def topicUrl_def)
qed

end
