(* ===== verification/Messages.thy ===== *)
theory Messages
  imports Poller
begin

section \<open>Incoming messages in the web app (components/hooks.js)\<close>

text \<open>
  What the app does with a message that arrives over a WebSocket: \<open>handleMessage\<close> looks the
  subscription up, \<open>handleInternalMessage\<close> serves the sync topic, \<open>handleNotification\<close> applies
  deletions, read marks and regular messages to the database and shows or closes desktop
  notifications. The result is the new database and the effects; what the display of a notification
  throws ends in a rejected promise that nobody reads. The filters that decide which subscriptions
  get a WebSocket and what is subscribed to automatically follow.
\<close>

subsection \<open>Handlers\<close>

definition handleInternalMessage :: "(string \<Rightarrow> json option) \<Rightarrow> notification \<Rightarrow> effect list" where
  "handleInternalMessage parse n =
     (case n_message n of
        None \<Rightarrow> []
      | Some text \<Rightarrow>
          (case parse text of
             None \<Rightarrow> []
           | Some data \<Rightarrow> if json_prop data ''event'' = Some (JStr ''sync'') then [SyncAccount] else []))"

definition handleNotification ::
  "('s, 'n, 'p, 'u) db_ops \<Rightarrow> string js_obj \<Rightarrow> config \<Rightarrow> browser \<Rightarrow> string option \<Rightarrow>
     subscription \<Rightarrow> notification \<Rightarrow> ('s, 'n, 'p, 'u) db \<Rightarrow> ('s, 'n, 'p, 'u) db \<times> effect list" where
  "handleNotification T emojis cfg br currentUser s n d =
     (if n_event n = EVENT_MESSAGE_DELETE \<and> truthy (n_sequence_id n) then
        (sm_deleteNotificationBySequenceId T (s_id s) (coalesce (n_sequence_id n) []) d,
         notifier_cancel br s n)
      else if n_event n = EVENT_MESSAGE_CLEAR \<and> truthy (n_sequence_id n) then
        (sm_markNotificationReadBySequenceId T (s_id s) (coalesce (n_sequence_id n) []) d,
         notifier_cancel br s n)
      else
        let sequenceId = seq_of n;
            d1 = (if sequenceId \<noteq> [] then sm_deleteNotificationBySequenceId T (s_id s) sequenceId d else d);
            (d2, added) = sm_addNotification T currentUser (s_id s) n d1
        in (d2, if added then fst (sm_notify T emojis cfg br currentUser (s_id s) n d2) else []))"

definition handleMessage ::
  "('s, 'n, 'p, 'u) db_ops \<Rightarrow> (string \<Rightarrow> json option) \<Rightarrow> string js_obj \<Rightarrow> config \<Rightarrow> browser \<Rightarrow>
     string option \<Rightarrow> string \<Rightarrow> notification \<Rightarrow> ('s, 'n, 'p, 'u) db \<Rightarrow> ('s, 'n, 'p, 'u) db \<times> effect list" where
  "handleMessage T parse emojis cfg br currentUser subscriptionId message d =
     (case sm_get T d subscriptionId of
        None \<Rightarrow> (d, [])
      | Some s \<Rightarrow>
          if s_internal s then (d, handleInternalMessage parse message)
          else handleNotification T emojis cfg br currentUser s message d)"

subsection \<open>Which subscriptions get a WebSocket\<close>

definition wsSubscriptions :: "subscription list option \<Rightarrow> string list option \<Rightarrow> subscription list" where
  "wsSubscriptions all_subs webPushTopics =
     (case (all_subs, webPushTopics) of
        (Some ss, Some ts) \<Rightarrow> filter (\<lambda>s. s_topic s \<notin> set ts) ss
      | _ \<Rightarrow> [])"

text \<open>The sync topic of an account is an internal subscription on the home server.\<close>

definition addSyncTopic ::
  "('s, 'n, 'p, 'u) db_ops \<Rightarrow> config \<Rightarrow> string option \<Rightarrow> ('s, 'n, 'p, 'u) db \<Rightarrow> ('s, 'n, 'p, 'u) db" where
  "addSyncTopic T cfg sync_topic d =
     (if \<not> truthy sync_topic then d
      else fst (sm_add T (base_url cfg) (coalesce sync_topic []) (no_opts\<lparr>o_internal := True\<rparr>) d))"

text \<open>\<open>useAutoSubscribe\<close>: what the page's parameters make the hook subscribe to, once.\<close>

definition autoSubscribeTarget ::
  "config \<Rightarrow> bool \<Rightarrow> bool \<Rightarrow> bool \<Rightarrow> string option \<Rightarrow> string option \<Rightarrow> (string \<times> string) option" where
  "autoSubscribeTarget cfg loaded hasRun selected param_baseUrl param_topic =
     (if \<not> loaded \<or> hasRun then None
      else if truthy param_topic \<and> \<not> selected \<and> \<not> disallowedTopic cfg (coalesce param_topic []) then
        Some (if truthy param_baseUrl then expandSecureUrl (coalesce param_baseUrl []) else base_url cfg,
              coalesce param_topic [])
      else None)"

text \<open>\<open>updateWebPushSubscriptions\<close> tells the server about the topics, or that there are none.\<close>

definition sm_updateWebPushSubscriptions ::
  "base64_lib \<Rightarrow> server \<Rightarrow> config \<Rightarrow> user option \<Rightarrow> browser \<Rightarrow> push_subscription option \<Rightarrow>
     push_subscription \<Rightarrow> string list \<Rightarrow> unit io" where
  "sm_updateWebPushSubscriptions B srv cfg user br existing created topics log =
     (case webPushSubscription br existing created (length topics > 0) of
        Inl e \<Rightarrow> (Inl e, log)
      | Inr None \<Rightarrow> (Inr (), log)
      | Inr (Some ps) \<Rightarrow>
          if length topics > 0 then api_updateWebPush B srv cfg user ps topics log
          else api_deleteWebPush B srv cfg user ps log)"

subsection \<open>Lemmas\<close>

lemma not_Some_None: "(\<And>y. x \<noteq> Some y) \<Longrightarrow> x = None"
  by (cases x) auto

lemma seq_of_truthy: "truthy (n_sequence_id n) \<Longrightarrow> coalesce (n_sequence_id n) [] = seq_of n"
  by (auto simp: seq_of_def truthy_def or_str_def split: option.splits)

definition is_regular :: "notification \<Rightarrow> bool" where
  "is_regular n \<longleftrightarrow> n_event n = EVENT_MESSAGE \<or> n_event n = EVENT_COOP_NUDGE"

lemma regular_events: "is_regular n \<Longrightarrow> n_event n \<noteq> EVENT_MESSAGE_DELETE \<and> n_event n \<noteq> EVENT_MESSAGE_CLEAR"
  by (auto simp: is_regular_def event_names)

context coop_db
begin

lemma handle_delete_rows:
  assumes "n_event n = EVENT_MESSAGE_DELETE" "truthy (n_sequence_id n)"
  shows "notif_row T (fst (handleNotification T emojis cfg br cu s n d)) i =
      (case notif_row T d i of None \<Rightarrow> None
       | Some m \<Rightarrow> if in_seq (s_id s) (seq_of n) m then None else Some m)"
    and "subs (fst (handleNotification T emojis cfg br cu s n d)) = subs d"
  using assms by (simp_all add: handleNotification_def notif_row_deletes seq_of_truthy)

lemma handle_clear_rows:
  assumes "n_event n = EVENT_MESSAGE_CLEAR" "truthy (n_sequence_id n)"
  shows "notif_row T (fst (handleNotification T emojis cfg br cu s n d)) i =
      map_option (\<lambda>m. if in_seq (s_id s) (seq_of n) m then set_new 0 m else m) (notif_row T d i)"
    and "subs (fst (handleNotification T emojis cfg br cu s n d)) = subs d"
  using assms by (simp_all add: handleNotification_def notif_row_marks seq_of_truthy)


lemma handle_regular_eq:
  assumes "is_regular n" "seq_of n \<noteq> []"
  shows "fst (handleNotification T emojis cfg br cu s n d) =
    fst (sm_addNotification T cu (s_id s) n (sm_deleteNotificationBySequenceId T (s_id s) (seq_of n) d))"
  using assms regular_events [OF assms(1)]
  by (simp add: handleNotification_def Let_def case_prod_unfold)

lemma handle_regular_rows:
  assumes "is_regular n" "seq_of n \<noteq> []"
    and "\<And>m. notif_row T d (n_id n) = Some m \<Longrightarrow> in_seq (s_id s) (seq_of n) m"
  shows "notif_row T (fst (handleNotification T emojis cfg br cu s n d)) i =
      (if i = n_id n then Some (stored_row (s_id s) (if is_own cu n then 0 else 1) n)
       else case notif_row T d i of None \<Rightarrow> None
            | Some m \<Rightarrow> if in_seq (s_id s) (seq_of n) m then None else Some m)"
    and "sub_row T (fst (handleNotification T emojis cfg br cu s n d)) = (sub_row T d)
      (s_id s := map_option (\<lambda>s. s\<lparr>s_last := Some (n_id n)\<rparr>) (sub_row T d (s_id s)))"
proof -
  let ?d = "sm_deleteNotificationBySequenceId T (s_id s) (seq_of n) d"
  have "notif_row T ?d (n_id n) = None"
    using assms(3) by (auto simp: notif_row_deletes split: option.splits)
  note row = notif_row_addNotification [OF this, of cu "s_id s"]
  have ev: "n_event n \<noteq> EVENT_MESSAGE_DELETE" "n_event n \<noteq> EVENT_MESSAGE_CLEAR"
    using regular_events [OF assms(1)] by simp_all
  show "notif_row T (fst (handleNotification T emojis cfg br cu s n d)) i =
      (if i = n_id n then Some (stored_row (s_id s) (if is_own cu n then 0 else 1) n)
       else case notif_row T d i of None \<Rightarrow> None
            | Some m \<Rightarrow> if in_seq (s_id s) (seq_of n) m then None else Some m)"
    unfolding handle_regular_eq [OF assms(1,2)] using row [OF ev] by (simp add: notif_row_deletes)
  show "sub_row T (fst (handleNotification T emojis cfg br cu s n d)) = (sub_row T d)
      (s_id s := map_option (\<lambda>s. s\<lparr>s_last := Some (n_id n)\<rparr>) (sub_row T d (s_id s)))"
    unfolding handle_regular_eq [OF assms(1,2)] using row [OF ev] by simp
qed

end

subsection \<open>Properties\<close>

text \<open>
  C9: a regular message replaces its sequence. After the app has handled one for a subscription that
  exists, the message is stored, it is the only notification of its sequence in the subscription,
  every notification of another sequence or subscription is unchanged, and the subscription's
  \<open>last\<close> is the message.
\<close>

theorem message_replaces_sequence:
  assumes "coop_db T" and "is_regular n" and "n_id n \<noteq> []"
    and "dx_get (SUBS T) (subs d) sid = Some s" and "\<not> s_internal s"
    and "\<And>m. dx_get (NOTIFS T) (notifs d) (n_id n) = Some m \<Longrightarrow> in_seq sid (seq_of n) m"
    and "d' = fst (handleMessage T parse emojis cfg br cu sid n d)"
  shows "dx_get (NOTIFS T) (notifs d') (n_id n) = Some (stored_row sid (if is_own cu n then 0 else 1) n) \<and>
    (\<forall>i m. i \<noteq> n_id n \<longrightarrow> (dx_get (NOTIFS T) (notifs d') i = Some m \<longleftrightarrow>
       dx_get (NOTIFS T) (notifs d) i = Some m \<and> \<not> in_seq sid (seq_of n) m)) \<and>
    dx_get (SUBS T) (subs d') = (dx_get (SUBS T) (subs d))(sid \<mapsto> s\<lparr>s_last := Some (n_id n)\<rparr>)"
proof -
  have sid: "s_id s = sid" using coop_db.subs_key [OF assms(1,4)] .
  have d': "d' = fst (handleNotification T emojis cfg br cu s n d)"
    using assms(4,5,7) by (simp add: handleMessage_def sm_get_def)
  have other: "\<And>m. notif_row T d (n_id n) = Some m \<Longrightarrow> in_seq (s_id s) (seq_of n) m"
    unfolding sid using assms(6) .
  note rows = coop_db.handle_regular_rows [where emojis = emojis and cfg = cfg and br = br and cu = cu,
      OF assms(1,2) seq_of_ne [OF assms(3)] other]
  show ?thesis
    unfolding d' by (auto simp: rows [simplified sid] sid assms(4) split: option.splits)
qed

definition plain_browser :: browser where
  "plain_browser = \<lparr>has_notification = True, permission = ''granted'', protocol = ''https:'',
     hostname = ''c'', origin = ''https://c'', new_URL = (\<lambda>p b. b @ p), has_service_worker = True,
     has_registration = True, has_push_manager = True, standalone = None\<rparr>"

theorem message_replaces_sequence_witness:
  "dx_get (NOTIFS mem_db_ops) (notifs (fst (handleMessage mem_db_ops (\<lambda>_. None) [] plain_config
      plain_browser None ''https://c/a'' ((plain_message ''m2'' 11 EVENT_MESSAGE)\<lparr>n_sequence_id := Some ''m1''\<rparr>)
      (mem_db [new_subscription ''https://c'' ''a'' no_opts]
        [stored_row ''https://c/a'' 1 (plain_message ''m1'' 10 EVENT_MESSAGE)])))) ''m1'' = None"
proof -
  let ?n = "(plain_message ''m2'' 11 EVENT_MESSAGE)\<lparr>n_sequence_id := Some ''m1''\<rparr>"
  let ?s = "new_subscription ''https://c'' ''a'' no_opts"
  let ?m = "stored_row ''https://c/a'' 1 (plain_message ''m1'' 10 EVENT_MESSAGE)"
  let ?d = "mem_db [?s] [?m]"
  have 1: "dx_get (SUBS mem_db_ops) (subs ?d) ''https://c/a'' = Some ?s"
    by (simp add: mem_db_ops_def mem_db_def mem_dexie_def mem_get_def topicUrl_def)
  have 2: "is_regular ?n" "n_id ?n \<noteq> []" "n_id ?n = ''m2''" "seq_of ?n = ''m1''"
    by (simp_all add: is_regular_def plain_message_def seq_of_def)
  have 3: "\<not> s_internal ?s" by (simp add: new_subscription_def no_opts_def)
  have 4: "dx_get (NOTIFS mem_db_ops) (notifs ?d) j = (if j = ''m1'' then Some ?m else None)" for j
    by (simp add: mem_db_ops_def mem_db_def mem_dexie_def mem_get_def plain_message_def)
  have 5: "in_seq ''https://c/a'' ''m1'' ?m"
    by (simp add: in_seq_def stored_row_def messageWithSequenceId_def plain_message_def seq_of_def)
  let ?e = "fst (handleMessage mem_db_ops (\<lambda>_. None) [] plain_config plain_browser None ''https://c/a'' ?n ?d)"
  have "in_seq ''https://c/a'' (seq_of ?n) m" if "dx_get (NOTIFS mem_db_ops) (notifs ?d) (n_id ?n) = Some m" for m
    using that unfolding 4 2(3) by simp
  note all = message_replaces_sequence [OF coop_db_mem 2(1,2) 1 3 this refl,
      where parse = "\<lambda>_. None" and emojis = "[]" and cfg = plain_config and br = plain_browser and cu = None]
  have "dx_get (NOTIFS mem_db_ops) (notifs ?e) ''m1'' \<noteq> Some m" for m
    using all [THEN conjunct2, THEN conjunct1, rule_format, of "''m1''" m] 5 unfolding 2(3,4) 4 by auto
  then show ?thesis by (rule not_Some_None)
qed

text \<open>
  A deletion removes exactly the notifications of its sequence in its subscription; a clear
  marks exactly those as read and removes none. Both leave the subscriptions unchanged.
\<close>

theorem delete_and_clear_exact:
  assumes "coop_db T" and "truthy (n_sequence_id n)"
    and "dx_get (SUBS T) (subs d) sid = Some s" and "\<not> s_internal s"
    and "d' = fst (handleMessage T parse emojis cfg br cu sid n d)"
  shows "(n_event n = EVENT_MESSAGE_DELETE \<longrightarrow>
      dx_get (NOTIFS T) (notifs d') i =
        (case dx_get (NOTIFS T) (notifs d) i of None \<Rightarrow> None
         | Some m \<Rightarrow> if in_seq sid (seq_of n) m then None else Some m) \<and> subs d' = subs d) \<and>
    (n_event n = EVENT_MESSAGE_CLEAR \<longrightarrow>
      dx_get (NOTIFS T) (notifs d') i =
        map_option (\<lambda>m. if in_seq sid (seq_of n) m then set_new 0 m else m)
          (dx_get (NOTIFS T) (notifs d) i) \<and> subs d' = subs d)"
proof -
  have sid: "s_id s = sid" using coop_db.subs_key [OF assms(1,3)] .
  have d': "d' = fst (handleNotification T emojis cfg br cu s n d)"
    using assms(3-5) by (simp add: handleMessage_def sm_get_def)
  show ?thesis
    unfolding d' sid [symmetric]
    by (simp add: coop_db.handle_delete_rows [OF assms(1) _ assms(2)]
        coop_db.handle_clear_rows [OF assms(1) _ assms(2)])
qed

theorem delete_and_clear_exact_witness:
  "dx_get (NOTIFS mem_db_ops) (notifs (fst (handleMessage mem_db_ops (\<lambda>_. None) [] plain_config
      plain_browser None ''https://c/a'' ((plain_message ''m2'' 11 EVENT_MESSAGE_DELETE)\<lparr>n_sequence_id := Some ''m1''\<rparr>)
      (mem_db [new_subscription ''https://c'' ''a'' no_opts]
        [stored_row ''https://c/a'' 1 (plain_message ''m1'' 10 EVENT_MESSAGE)])))) ''m1'' = None"
proof -
  let ?n = "(plain_message ''m2'' 11 EVENT_MESSAGE_DELETE)\<lparr>n_sequence_id := Some ''m1''\<rparr>"
  let ?s = "new_subscription ''https://c'' ''a'' no_opts"
  let ?m = "stored_row ''https://c/a'' 1 (plain_message ''m1'' 10 EVENT_MESSAGE)"
  let ?d = "mem_db [?s] [?m]"
  have 1: "dx_get (SUBS mem_db_ops) (subs ?d) ''https://c/a'' = Some ?s"
    by (simp add: mem_db_ops_def mem_db_def mem_dexie_def mem_get_def topicUrl_def)
  have 2: "truthy (n_sequence_id ?n)" "n_event ?n = EVENT_MESSAGE_DELETE" "seq_of ?n = ''m1''"
    by (simp_all add: plain_message_def seq_of_def)
  have 3: "\<not> s_internal ?s" by (simp add: new_subscription_def no_opts_def)
  have 4: "dx_get (NOTIFS mem_db_ops) (notifs ?d) ''m1'' = Some ?m"
    by (simp add: mem_db_ops_def mem_db_def mem_dexie_def mem_get_def plain_message_def)
  have 5: "in_seq ''https://c/a'' ''m1'' ?m"
    by (simp add: in_seq_def stored_row_def messageWithSequenceId_def plain_message_def seq_of_def)
  show ?thesis
    using delete_and_clear_exact [OF coop_db_mem 2(1) 1 3 refl,
        where parse = "\<lambda>_. None" and emojis = "[]" and cfg = plain_config and br = plain_browser
        and cu = None and i = "''m1''"] 2 4 5 by simp
qed

text \<open>
  A message that is delivered again after it was read becomes unread again and is announced as
  new: the handler deletes the stored row before it asks whether the message exists.
\<close>

theorem redelivery_marks_unread:
  assumes "coop_db T" and "is_regular n" and "n_id n \<noteq> []" and "\<not> is_own cu n" and "from_server n"
    and "dx_get (SUBS T) (subs d) sid = Some s" and "\<not> s_internal s"
    and "dx_get (NOTIFS T) (notifs d) (n_id n) = Some (stored_row sid 0 n)"
  shows "dx_get (NOTIFS T) (notifs (fst (handleMessage T parse emojis cfg br cu sid n d))) (n_id n) =
      Some (stored_row sid 1 n) \<and>
    snd (handleMessage T parse emojis cfg br cu sid n d) =
      fst (sm_notify T emojis cfg br cu sid n (fst (handleMessage T parse emojis cfg br cu sid n d)))"
proof -
  have sid: "s_id s = sid" using coop_db.subs_key [OF assms(1,6)] .
  have hm: "handleMessage T parse emojis cfg br cu sid n d = handleNotification T emojis cfg br cu s n d"
    using assms(6,7) by (simp add: handleMessage_def sm_get_def)
  have seq: "in_seq sid (seq_of n) (stored_row sid 0 n)"
    using assms(5) by (simp add: in_seq_def from_server_def)
  have ne: "seq_of n \<noteq> []" using assms(3) by (rule seq_of_ne)
  have "notif_row T (sm_deleteNotificationBySequenceId T sid (seq_of n) d) (n_id n) = None"
    using assms(8) seq by (simp add: coop_db.notif_row_deletes [OF assms(1)])
  then have "snd (sm_addNotification T cu sid n (sm_deleteNotificationBySequenceId T sid (seq_of n) d))"
    using regular_events [OF assms(2)] coop_db.notif_row_addNotification [OF assms(1)] by blast
  moreover have "notif_row T (fst (handleNotification T emojis cfg br cu s n d)) (n_id n) =
      Some (stored_row sid 1 n)"
    using coop_db.handle_regular_rows(1) [OF assms(1,2) ne, of d s emojis cfg br cu "n_id n"] seq assms(4,8)
    by (simp add: sid)
  ultimately show ?thesis
    unfolding hm using ne regular_events [OF assms(2)]
    by (simp add: handleNotification_def Let_def case_prod_unfold sid)
qed

theorem redelivery_marks_unread_witness:
  "dx_get (NOTIFS mem_db_ops) (notifs (fst (handleMessage mem_db_ops (\<lambda>_. None) [] plain_config
      plain_browser None ''https://c/a'' (plain_message ''m1'' 10 EVENT_MESSAGE)
      (mem_db [new_subscription ''https://c'' ''a'' no_opts]
        [stored_row ''https://c/a'' 0 (plain_message ''m1'' 10 EVENT_MESSAGE)])))) ''m1'' =
   Some (stored_row ''https://c/a'' 1 (plain_message ''m1'' 10 EVENT_MESSAGE))"
proof -
  let ?n = "plain_message ''m1'' 10 EVENT_MESSAGE" and ?s = "new_subscription ''https://c'' ''a'' no_opts"
  let ?d = "mem_db [?s] [stored_row ''https://c/a'' 0 ?n]"
  have 1: "dx_get (SUBS mem_db_ops) (subs ?d) ''https://c/a'' = Some ?s"
    by (simp add: mem_db_ops_def mem_db_def mem_dexie_def mem_get_def topicUrl_def)
  have 2: "is_regular ?n" "n_id ?n \<noteq> []" "n_id ?n = ''m1''" "\<not> is_own None ?n" "from_server ?n"
    by (simp_all add: is_regular_def plain_message_def is_own_def from_server_def isNotificationEvent_def)
  have 3: "\<not> s_internal ?s" by (simp add: new_subscription_def no_opts_def)
  have 4: "dx_get (NOTIFS mem_db_ops) (notifs ?d) (n_id ?n) = Some (stored_row ''https://c/a'' 0 ?n)"
    by (simp add: mem_db_ops_def mem_db_def mem_dexie_def mem_get_def plain_message_def)
  show ?thesis
    using redelivery_marks_unread [OF coop_db_mem 2(1,2,4,5) 1 3 4] 2(3) by simp
qed

text \<open>
  A subscription on another server gets no WebSocket when its topic has the name of a topic that
  web push delivers from the home server.
\<close>

lemma foreign_topic_not_connected:
  "s_topic s \<in> set topics \<Longrightarrow> s \<notin> set (wsSubscriptions (Some ss) (Some topics))"
  by (simp add: wsSubscriptions_def)

text \<open>A poll does not remove the older message of a sequence that a WebSocket message would replace.\<close>

lemma poll_keeps_superseded:
  assumes "coop_db T" and "api (s_baseUrl s) (s_topic s) (s_last s) = Inr [n]"
    and "n_event n = EVENT_MESSAGE" and "dx_get (NOTIFS T) (notifs d) i = Some m" and "i \<noteq> n_id n"
  shows "\<exists>d'. poll T api now s d = Inr d' \<and> dx_get (NOTIFS T) (notifs d') i = Some m"
proof -
  let ?r = "recentNotifications (poll_threshold now (prefs_deleteAfter (PREFS T) (prefs d))) [n]"
  have sub: "set ?r \<subseteq> {n}" using recent_subset by fastforce
  have del: "deletedSequenceIds (latestNotificationsBySequenceId ?r) = []"
  proof -
    have "set (deletedSequenceIds (latestNotificationsBySequenceId ?r)) = {}"
      unfolding set_deletedSequenceIds using sub assms(3) is_latest_mem by fastforce
    then show ?thesis by simp
  qed
  have add: "find (\<lambda>n. n_id n = i) (rev (notificationsToAdd (latestNotificationsBySequenceId ?r))) = None"
  proof -
    have "set (notificationsToAdd (latestNotificationsBySequenceId ?r)) \<subseteq> {n}"
      unfolding set_notificationsToAdd using sub is_latest_mem by blast
    then show ?thesis unfolding find_None_iff using assms(5) by auto
  qed
  obtain d' where d': "poll T api now s d = Inr d'"
    and rows: "\<And>i. notif_row T d' i =
       (case find (\<lambda>n. n_id n = i) (rev (notificationsToAdd (latestNotificationsBySequenceId ?r))) of
          Some n \<Rightarrow> Some (polled_row (s_id s) n)
        | None \<Rightarrow> (case notif_row T d i of None \<Rightarrow> None
            | Some n \<Rightarrow> if \<exists>q \<in> set (deletedSequenceIds (latestNotificationsBySequenceId ?r)). in_seq (s_id s) q n
                        then None else Some n))"
    using coop_db.poll_rows [where api = api and s = s and ns = "[n]" and now = now and d = d,
        OF assms(1,2)] by blast
  then show ?thesis using add del assms(4) by simp
qed

end
