(* ===== verification/Service_Worker.thy ===== *)
theory Service_Worker
  imports Messages
begin

section \<open>The service worker (public/sw.js)\<close>

text \<open>
  The push handlers work on the same database as the web app; the click handler focuses or opens
  windows, performs the action of a button and marks notifications read. \<open>worker_env\<close> holds what
  the worker reads from its global scope: its origin, \<open>new URL(path, base).toString()\<close>, whether
  \<open>setAppBadge\<close> exists, the translations, and the texts of the browser in a failed request (the
  status text of a response, the message of the error when the connection fails). The cache and route set-up at the end of the file only
  calls the workbox library.
\<close>

record worker_env =
  we_origin :: string
  we_new_URL :: "string \<Rightarrow> string \<Rightarrow> string"
  we_app_badge :: bool
  we_t :: "string \<Rightarrow> string"
  we_status_text :: "response \<Rightarrow> string"
  we_fetch_error :: string

record push_data =
  pd_event :: string
  pd_subscription_id :: string
  pd_message :: notification

subsection \<open>Push messages\<close>

definition unread_total :: "('s, 'n, 'p, 'u) db_ops \<Rightarrow> ('s, 'n, 'p, 'u) db \<Rightarrow> nat" where
  "unread_total T d = dx_count (NOTIFS T) (notifs d) is_new"

definition set_badge :: "worker_env \<Rightarrow> nat \<Rightarrow> effect list" where
  "set_badge we k = (if we_app_badge we then [SetAppBadge k] else [])"

text \<open>\<open>add\<close> throws when the id is taken by another sequence or subscription; the promise rejects.\<close>

definition handlePushMessage ::
  "('s, 'n, 'p, 'u) db_ops \<Rightarrow> string js_obj \<Rightarrow> worker_env \<Rightarrow> push_data \<Rightarrow> ('s, 'n, 'p, 'u) db \<Rightarrow>
     ('s, 'n, 'p, 'u) db \<times> effect list \<times> (app_error + unit)" where
  "handlePushMessage T emojis we data d =
     (let subscriptionId = pd_subscription_id data; message = pd_message data in
      case dx_get (SUBS T) (subs d) subscriptionId of
        None \<Rightarrow> (d, [], Inr ())
      | Some s \<Rightarrow>
          let sequenceId = seq_of message;
              d1 = (if sequenceId \<noteq> [] then d\<lparr>notifs := dx_delete_where (NOTIFS T) (notifs d)
                       (in_seq subscriptionId sequenceId)\<rparr> else d)
          in (case dx_add (NOTIFS T) (notifs d1) (stored_row subscriptionId 1 message) of
                None \<Rightarrow> (d1, [], Inl ConstraintError)
              | Some t \<Rightarrow>
                  let d2 = d1\<lparr>notifs := t,
                             subs := dx_update (SUBS T) (subs d1) subscriptionId
                               (\<lambda>s. s\<lparr>s_last := Some (n_id message)\<rparr>)\<rparr>
                  in (d2, set_badge we (unread_total T d2) @
                        [BroadcastMessage message,
                         ShowNotification (toNotificationParams emojis message (n_topic message)
                           (we_new_URL we (n_topic message) (we_origin we)) (s_baseUrl s) (s_topic s))],
                      Inr ())))"

definition handlePushMessageDelete ::
  "('s, 'n, 'p, 'u) db_ops \<Rightarrow> push_data \<Rightarrow> ('s, 'n, 'p, 'u) db \<Rightarrow> ('s, 'n, 'p, 'u) db \<times> effect list" where
  "handlePushMessageDelete T data d =
     (let subscriptionId = pd_subscription_id data; message = pd_message data in
      case dx_get (SUBS T) (subs d) subscriptionId of
        None \<Rightarrow> (d, [])
      | Some s \<Rightarrow>
          let d1 = (if truthy (n_sequence_id message)
                    then d\<lparr>notifs := dx_delete_where (NOTIFS T) (notifs d)
                           (in_seq subscriptionId (coalesce (n_sequence_id message) []))\<rparr> else d)
          in (d1\<lparr>subs := dx_update (SUBS T) (subs d1) subscriptionId
                   (\<lambda>s. s\<lparr>s_last := Some (n_id message)\<rparr>)\<rparr>,
              [CloseTagged (notificationTag (s_baseUrl s) (s_topic s) (seq_of message))]))"

definition handlePushMessageClear ::
  "('s, 'n, 'p, 'u) db_ops \<Rightarrow> worker_env \<Rightarrow> push_data \<Rightarrow> ('s, 'n, 'p, 'u) db \<Rightarrow>
     ('s, 'n, 'p, 'u) db \<times> effect list" where
  "handlePushMessageClear T we data d =
     (let subscriptionId = pd_subscription_id data; message = pd_message data in
      case dx_get (SUBS T) (subs d) subscriptionId of
        None \<Rightarrow> (d, [])
      | Some s \<Rightarrow>
          let d1 = (if truthy (n_sequence_id message)
                    then d\<lparr>notifs := dx_modify_where (NOTIFS T) (notifs d)
                           (in_seq subscriptionId (coalesce (n_sequence_id message) [])) (set_new 0)\<rparr> else d);
              d2 = d1\<lparr>subs := dx_update (SUBS T) (subs d1) subscriptionId
                     (\<lambda>s. s\<lparr>s_last := Some (n_id message)\<rparr>)\<rparr>
          in (d2, [CloseTagged (notificationTag (s_baseUrl s) (s_topic s) (seq_of message))] @
                set_badge we (unread_total T d2)))"

definition handlePushSubscriptionExpiring :: "worker_env \<Rightarrow> effect list" where
  "handlePushSubscriptionExpiring we =
     [ShowText (we_t we ''web_push_subscription_expiring_title'') (we_t we ''web_push_subscription_expiring_body'')]"

definition handlePushUnknown :: "worker_env \<Rightarrow> effect list" where
  "handlePushUnknown we =
     [ShowText (we_t we ''web_push_unknown_notification_title'') (we_t we ''web_push_unknown_notification_body'')]"

definition handlePush ::
  "('s, 'n, 'p, 'u) db_ops \<Rightarrow> string js_obj \<Rightarrow> worker_env \<Rightarrow> push_data \<Rightarrow> ('s, 'n, 'p, 'u) db \<Rightarrow>
     ('s, 'n, 'p, 'u) db \<times> effect list \<times> (app_error + unit)" where
  "handlePush T emojis we data d =
     (let ev = n_event (pd_message data);
          unknown = (d, handlePushUnknown we, Inr ());
          plain = (\<lambda>(d', effs). (d', effs, Inr ()))
      in if pd_event data = WEBPUSH_EVENT_MESSAGE then
           (if ev = EVENT_MESSAGE then handlePushMessage T emojis we data d
            else if ev = EVENT_MESSAGE_DELETE then plain (handlePushMessageDelete T data d)
            else if ev = EVENT_MESSAGE_CLEAR then plain (handlePushMessageClear T we data d)
            else unknown)
         else if pd_event data = WEBPUSH_EVENT_SUBSCRIPTION_EXPIRING then
           plain (d, handlePushSubscriptionExpiring we)
         else unknown)"

subsection \<open>Clicks\<close>

record client =
  cl_id :: nat
  cl_url :: string

datatype click_effect =
    FocusClient nat
  | NavigateClient nat string
  | OpenWindow string
  | CloseNotification
  | ClickBadge nat
  | ShowFailure string string

definition clickClearNotification ::
  "('s, 'n, 'p, 'u) db_ops \<Rightarrow> worker_env \<Rightarrow> notification_params \<Rightarrow> ('s, 'n, 'p, 'u) db \<Rightarrow>
     ('s, 'n, 'p, 'u) db \<times> click_effect list" where
  "clickClearNotification T we data d =
     (let sid = np_subscriptionId data; seqId = seq_of (np_message data)
      in if sid \<noteq> [] \<and> seqId \<noteq> [] then
           let d' = d\<lparr>notifs := dx_modify_where (NOTIFS T) (notifs d) (in_seq sid seqId) (set_new 0)\<rparr>
           in (d', CloseNotification # (if we_app_badge we then [ClickBadge (unread_total T d')] else []))
         else (d, [CloseNotification]))"

text \<open>Without a message the click opens the app's root, in an open window if there is one.\<close>

definition openRoot :: "string \<Rightarrow> client list \<Rightarrow> click_effect list" where
  "openRoot rootUrl clients =
     (case find (\<lambda>c. cl_url c = rootUrl) clients of
        Some c \<Rightarrow> [FocusClient (cl_id c)]
      | None \<Rightarrow>
          (case clients of
             c # _ \<Rightarrow> [FocusClient (cl_id c), NavigateClient (cl_id c) rootUrl]
           | [] \<Rightarrow> [OpenWindow rootUrl])) @ [CloseNotification]"

definition openTopic :: "string \<Rightarrow> string \<Rightarrow> client list \<Rightarrow> click_effect list" where
  "openTopic rootUrl topicRoute clients =
     (case find (\<lambda>c. cl_url c = topicRoute) clients of
        Some c \<Rightarrow> [FocusClient (cl_id c)]
      | None \<Rightarrow>
          (case find (\<lambda>c. cl_url c = rootUrl) clients of
             Some c \<Rightarrow> [FocusClient (cl_id c), NavigateClient (cl_id c) topicRoute]
           | None \<Rightarrow>
               (case clients of
                  c # _ \<Rightarrow> [FocusClient (cl_id c), NavigateClient (cl_id c) topicRoute]
                | [] \<Rightarrow> [OpenWindow topicRoute]))) @ [CloseNotification]"

definition action_request :: "action \<Rightarrow> request" where
  "action_request a = \<lparr>rq_method = coalesce (act_method a) ''POST'', rq_url = act_url a,
     rq_headers = coalesce (act_headers a) [], rq_body = map_option JStr (act_body a)\<rparr>"

definition handleClick ::
  "('s, 'n, 'p, 'u) db_ops \<Rightarrow> worker_env \<Rightarrow> server \<Rightarrow> string \<Rightarrow> client list \<Rightarrow>
     notification_params option \<Rightarrow> string option \<Rightarrow> ('s, 'n, 'p, 'u) db \<Rightarrow> request list \<Rightarrow>
     (('s, 'n, 'p, 'u) db \<times> click_effect list \<times> (app_error + unit)) \<times> request list" where
  "handleClick T we srv rootUrl clients data clicked d log =
     (case data of
        None \<Rightarrow> ((d, openRoot rootUrl clients, Inr ()), log)
      | Some np \<Rightarrow>
          let message = np_message np in
          if truthy clicked then
            (case find (\<lambda>a. Some (act_label a) = clicked) (coalesce (n_actions message) []) of
               None \<Rightarrow> ((d, [], Inl TypeError), log)
             | Some a \<Rightarrow>
                 let cleared = (if act_clear a then clickClearNotification T we np d else (d, [])) in
                 if act_action a = ACTION_VIEW then
                   ((fst cleared, OpenWindow (act_url a) # snd cleared, Inr ()), log)
                 else if act_action a = ACTION_HTTP then
                   (let failed = (\<lambda>reason. [ShowFailure (we_t we ''notifications_actions_failed_notification'' @
                           '': '' @ act_label a @ '' ('' @ act_action a @ '')'') reason])
                    in case fetch srv (action_request a) log of
                         (Inl e, log') \<Rightarrow> ((d, failed (we_fetch_error we), Inr ()), log')
                       | (Inr rs, log') \<Rightarrow>
                           if 200 \<le> rs_status rs \<and> rs_status rs \<le> 299
                           then ((fst cleared, snd cleared, Inr ()), log')
                           else ((d, failed (''HTTP '' @ int_str (rs_status rs) @ '' '' @ we_status_text we rs), Inr ()), log'))
                 else ((d, [], Inr ()), log))
          else if truthy (n_click message) then
            ((d, [OpenWindow (coalesce (n_click message) []), CloseNotification], Inr ()), log)
          else ((d, openTopic rootUrl (np_topicRoute np) clients, Inr ()), log))"

subsection \<open>Lemmas\<close>

context coop_db
begin

lemma push_message_eq:
  assumes "dx_get (SUBS T) (subs d) sid = Some s" "n_event n = EVENT_MESSAGE" "\<not> is_own cu n"
    and "n_id n \<noteq> []" "pd_subscription_id data = sid" "pd_message data = n"
  shows "fst (handlePushMessage T emojis we data d) = fst (handleNotification T emojis cfg br cu s n d)"
proof -
  have sid: "s_id s = sid" using assms(1) by (rule subs_key)
  let ?d = "sm_deleteNotificationBySequenceId T sid (seq_of n) d"
  have app: "fst (handleNotification T emojis cfg br cu s n d) = fst (sm_addNotification T cu sid n ?d)"
    using handle_regular_eq [of n emojis cfg br cu s d] assms(2) seq_of_ne [OF assms(4)]
    by (simp add: is_regular_def sid)
  show ?thesis
  proof (cases "dx_add (NOTIFS T) (notifs ?d) (stored_row sid 1 n)")
    case None
    then have "notif_row T ?d (n_id n) \<noteq> None" using notifs.add_new [of "notifs ?d" "stored_row sid 1 n"] by auto
    then show ?thesis
      unfolding app using None assms(1,5,6) seq_of_ne [OF assms(4)]
      by (simp add: handlePushMessage_def Let_def sm_addNotification_skip sm_deleteNotificationBySequenceId_def)
  next
    case (Some t)
    then have "notif_row T ?d (n_id n) = None" using notifs.get_add [OF Some] by simp
    then show ?thesis
      unfolding app using Some assms seq_of_ne [OF assms(4)]
      by (simp add: handlePushMessage_def Let_def sm_addNotification_def sm_deleteNotificationBySequenceId_def
          sm_setLast_def sm_update_def)
  qed
qed

end

subsection \<open>Properties\<close>


definition plain_env :: worker_env where
  "plain_env = \<lparr>we_origin = ''https://c'', we_new_URL = (\<lambda>p b. b @ ''/'' @ p), we_app_badge = True,
     we_t = id, we_status_text = (\<lambda>_. []), we_fetch_error = []\<rparr>"


text \<open>
  Clicking a button that performs an HTTP action sends exactly its request; the notification is
  marked read and closed only if the action asks for it and the request succeeds, and then exactly
  the rows of its sequence change; in every other case the database is unchanged.
\<close>

theorem http_action_clears_on_success:
  assumes "coop_db T"
    and "find (\<lambda>a. Some (act_label a) = clicked) (coalesce (n_actions (np_message np)) []) = Some a"
    and "truthy clicked" and "act_action a = ACTION_HTTP"
    and "handleClick T we srv rootUrl clients (Some np) clicked d log = ((d', effs, r), log')"
  shows "log' = log @ [action_request a] \<and> subs d' = subs d \<and>
    (if act_clear a \<and> np_subscriptionId np \<noteq> [] \<and> seq_of (np_message np) \<noteq> [] \<and>
        (\<exists>rs. srv log (action_request a) = Some rs \<and> 200 \<le> rs_status rs \<and> rs_status rs \<le> 299)
     then CloseNotification \<in> set effs \<and>
       (\<forall>i. dx_get (NOTIFS T) (notifs d') i =
          map_option (\<lambda>m. if in_seq (np_subscriptionId np) (seq_of (np_message np)) m then set_new 0 m else m)
            (dx_get (NOTIFS T) (notifs d) i))
     else d' = d)"
proof -
  have mark: "dx_get (NOTIFS T) (dx_modify_where (NOTIFS T) (notifs d) (in_seq sid q) (set_new 0)) i =
      map_option (\<lambda>m. if in_seq sid q m then set_new 0 m else m) (dx_get (NOTIFS T) (notifs d) i)" for i sid q
    using coop_db.notif_row_marks(2) [OF assms(1), of sid q d i]
    by (simp add: sm_markNotificationReadBySequenceId_def)
  have "act_action a \<noteq> ACTION_VIEW" using assms(4) by (simp add: action_names)
  with assms(2-5) show ?thesis
    by (auto simp: handleClick_def fetch_def clickClearNotification_def Let_def mark
        split: option.splits if_splits)
qed

theorem http_action_clears_on_success_witness:
  "let n = (plain_message ''m1'' 10 EVENT_MESSAGE)\<lparr>n_actions := Some [\<lparr>act_id = ''1'', act_action = ACTION_HTTP,
         act_label = ''go'', act_url = ''https://x'', act_clear = True, act_method = None, act_headers = None,
         act_body = None, act_value = None, act_progress = None, act_error = None\<rparr>]\<rparr>;
       np = toNotificationParams [] n [] [] ''https://c'' ''a''
   in fst (fst (handleClick mem_db_ops plain_env (\<lambda>log rq. None) ''https://c/'' [] (Some np) (Some ''go'')
        (mem_db [] []) [])) = mem_db [] []"
proof -
  let ?a = "\<lparr>act_id = ''1'', act_action = ACTION_HTTP,
         act_label = ''go'', act_url = ''https://x'', act_clear = True, act_method = None, act_headers = None,
         act_body = None, act_value = None, act_progress = None, act_error = None\<rparr>"
  let ?n = "(plain_message ''m1'' 10 EVENT_MESSAGE)\<lparr>n_actions := Some [?a]\<rparr>"
  let ?np = "toNotificationParams [] ?n [] [] ''https://c'' ''a''"
  obtain d' effs r log' where r: "handleClick mem_db_ops plain_env (\<lambda>log rq. None) ''https://c/'' []
      (Some ?np) (Some ''go'') (mem_db [] []) [] = ((d', effs, r), log')"
    by (metis surj_pair)
  have np: "np_message ?np = ?n" by (simp add: toNotificationParams_def)
  have f: "find (\<lambda>a. Some (act_label a) = Some ''go'') (coalesce (n_actions (np_message ?np)) []) = Some ?a"
    unfolding np by simp
  have "d' = mem_db [] []"
    using http_action_clears_on_success [OF coop_db_mem f _ _ r] by simp
  then show ?thesis using r by (simp add: Let_def)
qed

end
