(* ===== verification/Account_Api.thy ===== *)
theory Account_Api
  imports Poller
begin

section \<open>The account API (app/AccountApi.js)\<close>

text \<open>
  One definition per method: the request it sends, what it reads from the response, what it throws.
  \<open>cfg\<close> is the configuration, \<open>tok\<close> is \<open>session.token()\<close>. \<open>account_sync\<close> applies the account to the
  preferences and subscriptions and logs out when the server no longer accepts the token.
\<close>

subsection \<open>Requests\<close>

text \<open>\<open>withBearerAuth(headers, session.token())\<close>; a missing token is the text \<open>null\<close>.\<close>

definition bearer :: "string option \<Rightarrow> headers \<Rightarrow> headers" where
  "bearer tok hs = withBearerAuth hs (coalesce tok ''null'')"

definition call_unit :: "server \<Rightarrow> string \<Rightarrow> string \<Rightarrow> headers \<Rightarrow> (string \<times> json) list option \<Rightarrow> unit io" where
  "call_unit srv verb url hs body =
     io_bind (fetchOrThrow srv \<lparr>rq_method = verb, rq_url = url, rq_headers = hs,
         rq_body = map_option JObj body\<rparr>) (\<lambda>_. io_return ())"

definition call_json :: "server \<Rightarrow> string \<Rightarrow> string \<Rightarrow> headers \<Rightarrow> (string \<times> json) list option \<Rightarrow> json io" where
  "call_json srv verb url hs body =
     io_bind (fetchOrThrow srv \<lparr>rq_method = verb, rq_url = url, rq_headers = hs,
         rq_body = map_option JObj body\<rparr>) response_json"

definition account_login :: "base64_lib \<Rightarrow> server \<Rightarrow> config \<Rightarrow> user \<Rightarrow> json io" where
  "account_login B srv cfg u =
     io_bind (call_json srv ''POST'' (accountTokenUrl (base_url cfg))
         (withBasicAuth B [] (u_username u) (coalesce (u_password u) ''undefined'')) None)
       (\<lambda>j. if json_truthy (json_prop j ''token'') then io_return (coalesce (json_prop j ''token'') JNull)
            else if j = JNull then io_throw TypeError
            else io_throw (OtherError ''Unexpected server response: Cannot find token''))"

definition account_logout :: "server \<Rightarrow> config \<Rightarrow> string option \<Rightarrow> unit io" where
  "account_logout srv cfg tok = call_unit srv ''DELETE'' (accountTokenUrl (base_url cfg)) (bearer tok []) None"

definition account_create :: "server \<Rightarrow> config \<Rightarrow> string \<Rightarrow> string \<Rightarrow> unit io" where
  "account_create srv cfg username password =
     call_unit srv ''POST'' (accountUrl (base_url cfg)) []
       (Some [(''username'', JStr username), (''password'', JStr password)])"

text \<open>The listener is called with every account that was fetched.\<close>

definition account_get :: "server \<Rightarrow> config \<Rightarrow> string option \<Rightarrow> json io" where
  "account_get srv cfg tok =
     call_json srv ''GET'' (accountUrl (base_url cfg)) (maybeWithBearerAuth [] tok) None"

definition account_listened :: "bool \<Rightarrow> app_error + json \<Rightarrow> json list" where
  "account_listened listener result =
     (case result of Inr account \<Rightarrow> if listener then [account] else [] | Inl e \<Rightarrow> [])"

definition account_delete :: "server \<Rightarrow> config \<Rightarrow> string option \<Rightarrow> string \<Rightarrow> unit io" where
  "account_delete srv cfg tok password =
     call_unit srv ''DELETE'' (accountUrl (base_url cfg)) (bearer tok []) (Some [(''password'', JStr password)])"

definition account_changePassword :: "server \<Rightarrow> config \<Rightarrow> string option \<Rightarrow> string \<Rightarrow> string \<Rightarrow> unit io" where
  "account_changePassword srv cfg tok currentPassword newPassword =
     call_unit srv ''POST'' (accountPasswordUrl (base_url cfg)) (bearer tok [])
       (Some [(''password'', JStr currentPassword), (''new_password'', JStr newPassword)])"

text \<open>\<open>now\<close> is \<open>Date.now()\<close> in milliseconds, \<open>expires\<close> a number of seconds.\<close>

definition account_createToken :: "server \<Rightarrow> config \<Rightarrow> string option \<Rightarrow> int \<Rightarrow> string \<Rightarrow> int \<Rightarrow> unit io" where
  "account_createToken srv cfg tok now label expires =
     call_unit srv ''POST'' (accountTokenUrl (base_url cfg)) (bearer tok [])
       (Some [(''label'', JStr label), (''expires'', JNum (if expires > 0 then now div 1000 + expires else 0))])"

definition account_updateToken ::
  "server \<Rightarrow> config \<Rightarrow> string option \<Rightarrow> int \<Rightarrow> string \<Rightarrow> string \<Rightarrow> int \<Rightarrow> unit io" where
  "account_updateToken srv cfg tok now token label expires =
     call_unit srv ''PATCH'' (accountTokenUrl (base_url cfg)) (bearer tok [])
       (Some ([(''token'', JStr token), (''label'', JStr label)] @
          (if expires > 0 then [(''expires'', JNum (now div 1000 + expires))] else [])))"

definition account_extendToken :: "server \<Rightarrow> config \<Rightarrow> string option \<Rightarrow> unit io" where
  "account_extendToken srv cfg tok = call_unit srv ''PATCH'' (accountTokenUrl (base_url cfg)) (bearer tok []) None"

definition account_deleteToken :: "server \<Rightarrow> config \<Rightarrow> string option \<Rightarrow> string \<Rightarrow> unit io" where
  "account_deleteToken srv cfg tok token =
     call_unit srv ''DELETE'' (accountTokenUrl (base_url cfg)) (bearer tok [(''X-Token'', token)]) None"

definition account_updateSettings ::
  "server \<Rightarrow> config \<Rightarrow> string option \<Rightarrow> (string \<times> json) list \<Rightarrow> unit io" where
  "account_updateSettings srv cfg tok payload =
     call_unit srv ''PATCH'' (accountSettingsUrl (base_url cfg)) (bearer tok []) (Some payload)"

definition account_addSubscription :: "server \<Rightarrow> config \<Rightarrow> string option \<Rightarrow> string \<Rightarrow> string \<Rightarrow> json io" where
  "account_addSubscription srv cfg tok b topic =
     call_json srv ''POST'' (accountSubscriptionUrl (base_url cfg)) (bearer tok [])
       (Some [(''base_url'', JStr b), (''topic'', JStr topic)])"

definition account_updateSubscription ::
  "server \<Rightarrow> config \<Rightarrow> string option \<Rightarrow> string \<Rightarrow> string \<Rightarrow> (string \<times> json) list \<Rightarrow> json io" where
  "account_updateSubscription srv cfg tok b topic payload =
     call_json srv ''PATCH'' (accountSubscriptionUrl (base_url cfg)) (bearer tok [])
       (Some (obj_spread [(''base_url'', JStr b), (''topic'', JStr topic)] payload))"

definition account_deleteSubscription :: "server \<Rightarrow> config \<Rightarrow> string option \<Rightarrow> string \<Rightarrow> string \<Rightarrow> unit io" where
  "account_deleteSubscription srv cfg tok b topic =
     call_unit srv ''DELETE'' (accountSubscriptionUrl (base_url cfg))
       (bearer tok [(''X-BaseURL'', b), (''X-Topic'', topic)]) None"

definition account_upsertReservation :: "server \<Rightarrow> config \<Rightarrow> string option \<Rightarrow> string \<Rightarrow> string \<Rightarrow> unit io" where
  "account_upsertReservation srv cfg tok topic everyone =
     call_unit srv ''POST'' (accountReservationUrl (base_url cfg)) (bearer tok [])
       (Some [(''topic'', JStr topic), (''everyone'', JStr everyone)])"

definition account_deleteReservation :: "server \<Rightarrow> config \<Rightarrow> string option \<Rightarrow> string \<Rightarrow> bool \<Rightarrow> unit io" where
  "account_deleteReservation srv cfg tok topic deleteMessages =
     call_unit srv ''DELETE'' (accountReservationSingleUrl (base_url cfg) topic)
       (bearer tok [(''X-Delete-Messages'', if deleteMessages then ''true'' else ''false'')]) None"

text \<open>The tiers are cached in the object: the state before and after.\<close>

definition billingTiers ::
  "server \<Rightarrow> config \<Rightarrow> json option \<Rightarrow> request list \<Rightarrow> ((app_error + json) \<times> json option) \<times> request list" where
  "billingTiers srv cfg tiers log =
     (if json_truthy tiers then ((Inr (coalesce tiers JNull), tiers), log)
      else
        (case call_json srv ''GET'' (tiersUrl (base_url cfg)) [] None log of
           (Inl e, log') \<Rightarrow> ((Inl e, tiers), log')
         | (Inr j, log') \<Rightarrow> ((Inr j, Some j), log')))"

definition upsertBillingSubscription ::
  "server \<Rightarrow> config \<Rightarrow> string option \<Rightarrow> string \<Rightarrow> string option \<Rightarrow> string \<Rightarrow> json io" where
  "upsertBillingSubscription srv cfg tok verb tier interval =
     call_json srv verb (accountBillingSubscriptionUrl (base_url cfg)) (bearer tok [])
       (Some ((case tier of Some code \<Rightarrow> [(''tier'', JStr code)] | None \<Rightarrow> []) @ [(''interval'', JStr interval)]))"

definition createBillingSubscription where
  "createBillingSubscription srv cfg tok tier interval =
     upsertBillingSubscription srv cfg tok ''POST'' tier interval"

definition updateBillingSubscription where
  "updateBillingSubscription srv cfg tok tier interval =
     upsertBillingSubscription srv cfg tok ''PUT'' tier interval"

definition deleteBillingSubscription :: "server \<Rightarrow> config \<Rightarrow> string option \<Rightarrow> unit io" where
  "deleteBillingSubscription srv cfg tok =
     call_unit srv ''DELETE'' (accountBillingSubscriptionUrl (base_url cfg)) (bearer tok []) None"

definition createBillingPortalSession :: "server \<Rightarrow> config \<Rightarrow> string option \<Rightarrow> json io" where
  "createBillingPortalSession srv cfg tok =
     call_json srv ''POST'' (accountBillingPortalUrl (base_url cfg)) (bearer tok []) None"

definition verifyPhoneNumber :: "server \<Rightarrow> config \<Rightarrow> string option \<Rightarrow> string \<Rightarrow> string \<Rightarrow> unit io" where
  "verifyPhoneNumber srv cfg tok phoneNumber channel =
     call_unit srv ''PUT'' (accountPhoneVerifyUrl (base_url cfg)) (bearer tok [])
       (Some [(''number'', JStr phoneNumber), (''channel'', JStr channel)])"

definition addPhoneNumber :: "server \<Rightarrow> config \<Rightarrow> string option \<Rightarrow> string \<Rightarrow> string \<Rightarrow> unit io" where
  "addPhoneNumber srv cfg tok phoneNumber code =
     call_unit srv ''PUT'' (accountPhoneUrl (base_url cfg)) (bearer tok [])
       (Some [(''number'', JStr phoneNumber), (''code'', JStr code)])"

definition deletePhoneNumber :: "server \<Rightarrow> config \<Rightarrow> string option \<Rightarrow> string \<Rightarrow> unit io" where
  "deletePhoneNumber srv cfg tok phoneNumber =
     call_unit srv ''DELETE'' (accountPhoneUrl (base_url cfg)) (bearer tok [])
       (Some [(''number'', JStr phoneNumber)])"

subsection \<open>Contacts, direct messages, groups\<close>

definition coop_url :: "config \<Rightarrow> string \<Rightarrow> string" where
  "coop_url cfg path = base_url cfg @ ''/v1/coop/'' @ path"

definition getContacts :: "server \<Rightarrow> config \<Rightarrow> string option \<Rightarrow> json io" where
  "getContacts srv cfg tok = call_json srv ''GET'' (coop_url cfg ''contacts'') (bearer tok []) None"

definition getContactRequests :: "server \<Rightarrow> config \<Rightarrow> string option \<Rightarrow> json io" where
  "getContactRequests srv cfg tok =
     call_json srv ''GET'' (coop_url cfg ''contacts/requests'') (bearer tok []) None"

definition addContact :: "server \<Rightarrow> config \<Rightarrow> string option \<Rightarrow> string \<Rightarrow> unit io" where
  "addContact srv cfg tok username =
     call_unit srv ''POST'' (coop_url cfg ''contacts'') (bearer tok []) (Some [(''username'', JStr username)])"

definition contact_url :: "config \<Rightarrow> string \<Rightarrow> string" where
  "contact_url cfg username = coop_url cfg (''contacts/'' @ encodeURIComponent username)"

definition acceptContact :: "server \<Rightarrow> config \<Rightarrow> string option \<Rightarrow> string \<Rightarrow> unit io" where
  "acceptContact srv cfg tok username =
     call_unit srv ''PUT'' (contact_url cfg username) (bearer tok []) (Some [(''status'', JStr ''accepted'')])"

definition rejectContact :: "server \<Rightarrow> config \<Rightarrow> string option \<Rightarrow> string \<Rightarrow> unit io" where
  "rejectContact srv cfg tok username =
     call_unit srv ''PUT'' (contact_url cfg username) (bearer tok []) (Some [(''status'', JStr ''rejected'')])"

definition removeContact :: "server \<Rightarrow> config \<Rightarrow> string option \<Rightarrow> string \<Rightarrow> unit io" where
  "removeContact srv cfg tok username =
     call_unit srv ''DELETE'' (contact_url cfg username) (bearer tok []) None"

definition blockContact :: "server \<Rightarrow> config \<Rightarrow> string option \<Rightarrow> string \<Rightarrow> unit io" where
  "blockContact srv cfg tok username =
     call_unit srv ''POST'' (contact_url cfg username @ ''/block'') (bearer tok []) None"

definition searchUsers :: "server \<Rightarrow> config \<Rightarrow> string option \<Rightarrow> string \<Rightarrow> json io" where
  "searchUsers srv cfg tok query =
     call_json srv ''GET'' (coop_url cfg (''users/search?q='' @ encodeURIComponent query)) (bearer tok []) None"

definition startDM :: "server \<Rightarrow> config \<Rightarrow> string option \<Rightarrow> string \<Rightarrow> json io" where
  "startDM srv cfg tok username =
     call_json srv ''POST'' (coop_url cfg ''dm'') (bearer tok []) (Some [(''username'', JStr username)])"

definition getDMs :: "server \<Rightarrow> config \<Rightarrow> string option \<Rightarrow> json io" where
  "getDMs srv cfg tok = call_json srv ''GET'' (coop_url cfg ''dm'') (bearer tok []) None"

definition createGroup :: "server \<Rightarrow> config \<Rightarrow> string option \<Rightarrow> string \<Rightarrow> string list \<Rightarrow> json io" where
  "createGroup srv cfg tok name members =
     call_json srv ''POST'' (coop_url cfg ''groups'') (bearer tok [])
       (Some [(''name'', JStr name), (''members'', JArr (map JStr members))])"

definition topic_meta_url :: "config \<Rightarrow> string \<Rightarrow> string" where
  "topic_meta_url cfg topic = coop_url cfg (''topics/'' @ encodeURIComponent topic @ ''/meta'')"

definition getTopicMeta :: "server \<Rightarrow> config \<Rightarrow> string option \<Rightarrow> string \<Rightarrow> json io" where
  "getTopicMeta srv cfg tok topic = call_json srv ''GET'' (topic_meta_url cfg topic) (bearer tok []) None"

definition updateTopicMeta ::
  "server \<Rightarrow> config \<Rightarrow> string option \<Rightarrow> string \<Rightarrow> string \<Rightarrow> string \<Rightarrow> json io" where
  "updateTopicMeta srv cfg tok topic displayName description =
     call_json srv ''PATCH'' (topic_meta_url cfg topic) (bearer tok [])
       (Some [(''display_name'', JStr displayName), (''description'', JStr description)])"

subsection \<open>Synchronising the account\<close>

text \<open>
  The account as the server sends it: strings where it documents strings. A missing \<open>base_url\<close> or
  \<open>topic\<close> would be written out as \<open>undefined\<close>.
\<close>

definition json_list :: "json option \<Rightarrow> json list option" where
  "json_list v = (case v of Some (JArr js) \<Rightarrow> Some js | _ \<Rightarrow> None)"

definition decode_remote :: "json \<Rightarrow> remote_subscription" where
  "decode_remote j = \<lparr>rem_base_url = template (json_string (json_prop j ''base_url'')),
     rem_topic = template (json_string (json_prop j ''topic'')),
     rem_display_name = json_string (json_prop j ''display_name'')\<rparr>"

definition decode_reservation :: "json \<Rightarrow> reservation" where
  "decode_reservation j = \<lparr>r_topic = template (json_string (json_prop j ''topic'')),
     r_everyone = template (json_string (json_prop j ''everyone''))\<rparr>"

definition account_notification :: "json \<Rightarrow> string \<Rightarrow> json option" where
  "account_notification account k =
     (case json_prop account ''notification'' of None \<Rightarrow> None | Some n \<Rightarrow> json_prop n k)"

definition sync_prefs :: "'p pref_ops \<Rightarrow> json \<Rightarrow> 'p \<Rightarrow> 'p" where
  "sync_prefs P account t =
     (let t1 = (case account_notification account ''sound'' of
                  Some (JStr s) \<Rightarrow> if s \<noteq> [] then prefs_setSound P s t else t | _ \<Rightarrow> t);
          t2 = (case account_notification account ''delete_after'' of
                  Some (JNum n) \<Rightarrow> if n \<noteq> 0 then prefs_setDeleteAfter P n t1 else t1 | _ \<Rightarrow> t1)
      in (case account_notification account ''min_priority'' of
            Some (JNum n) \<Rightarrow> if n \<noteq> 0 then prefs_setMinPriority P n t2 else t2 | _ \<Rightarrow> t2))"

definition apply_account ::
  "('s, 'n, 'p, 'u) db_ops \<Rightarrow> config \<Rightarrow> json \<Rightarrow> ('s, 'n, 'p, 'u) db \<Rightarrow> ('s, 'n, 'p, 'u) db" where
  "apply_account T cfg account d =
     (let d1 = d\<lparr>prefs := sync_prefs (PREFS T) account (prefs d)\<rparr>
      in case json_list (json_prop account ''subscriptions'') of
           None \<Rightarrow> d1
         | Some rems \<Rightarrow> sm_syncFromRemote T cfg (map decode_remote rems)
             (map_option (map decode_reservation) (json_list (json_prop account ''reservations''))) d1)"

text \<open>
  \<open>sync\<close>: the account, \<open>null\<close> without a token, \<open>undefined\<close> (\<open>None\<close>) after an error; the database and
  the session afterwards. \<open>fresh\<close> is the emptied session store.
\<close>

definition account_sync ::
  "('s, 'n, 'p, 'u) db_ops \<Rightarrow> server \<Rightarrow> config \<Rightarrow> 'kv \<Rightarrow> 'kv session \<Rightarrow> ('s, 'n, 'p, 'u) db \<Rightarrow>
     request list \<Rightarrow> (json option \<times> ('s, 'n, 'p, 'u) db \<times> 'kv session) \<times> request list" where
  "account_sync T srv cfg fresh ses d log =
     (if \<not> truthy (session_token ses) then ((Some JNull, d, ses), log)
      else
        (case account_get srv cfg (session_token ses) log of
           (Inr account, log') \<Rightarrow>
             if account = JNull then ((None, d, ses), log')
             else ((Some account, apply_account T cfg account d, ses), log')
         | (Inl e, log') \<Rightarrow>
             ((None, d, if e = UnauthorizedError then resetAndRedirect fresh ''/login'' ses else ses), log')))"

definition account_runWorker :: "server \<Rightarrow> config \<Rightarrow> 'kv session \<Rightarrow> request list \<Rightarrow> request list" where
  "account_runWorker srv cfg ses log =
     (if \<not> truthy (session_token ses) then log
      else snd (account_extendToken srv cfg (session_token ses) log))"

definition Role :: "string list" where "Role = [''admin'', ''user'']"
definition Permission :: "string list" where
  "Permission = [''read-write'', ''read-only'', ''write-only'', ''deny-all'']"
definition SubscriptionStatus :: "string list" where "SubscriptionStatus = [''active'', ''past_due'']"
definition SubscriptionInterval :: "string list" where "SubscriptionInterval = [''month'', ''year'']"
definition LimitBasis :: "string list" where "LimitBasis = [''ip'', ''tier'']"

subsection \<open>Lemmas\<close>

text \<open>A call that sends exactly one request, with the property \<open>P\<close>, whatever the server answers.\<close>

definition sends :: "'a io \<Rightarrow> (request \<Rightarrow> bool) \<Rightarrow> bool" where
  "sends m P \<longleftrightarrow> (\<forall>log. \<exists>rq. snd (m log) = log @ [rq] \<and> P rq)"

definition authorized :: "string option \<Rightarrow> string \<Rightarrow> request \<Rightarrow> bool" where
  "authorized tok b rq \<longleftrightarrow>
     map_of (rq_headers rq) ''Authorization'' = Some (''Bearer '' @ coalesce tok ''null'') \<and>
     starts_with (rq_url rq) (b @ ''/v1/'')"

lemma snd_call_unit [simp]:
  "snd (call_unit srv verb url hs body log) =
     log @ [\<lparr>rq_method = verb, rq_url = url, rq_headers = hs, rq_body = map_option JObj body\<rparr>]"
  by (simp add: call_unit_def io_bind_def io_return_def fetchOrThrow_unfold split: option.split)

lemma snd_call_json [simp]:
  "snd (call_json srv verb url hs body log) =
     log @ [\<lparr>rq_method = verb, rq_url = url, rq_headers = hs, rq_body = map_option JObj body\<rparr>]"
  by (simp add: call_json_def io_bind_def io_return_def io_throw_def response_json_def fetchOrThrow_unfold
      split: option.split)

lemma sends_call:
  "P \<lparr>rq_method = verb, rq_url = url, rq_headers = hs, rq_body = map_option JObj body\<rparr> \<Longrightarrow>
     sends (call_unit srv verb url hs body) P"
  "P \<lparr>rq_method = verb, rq_url = url, rq_headers = hs, rq_body = map_option JObj body\<rparr> \<Longrightarrow>
     sends (call_json srv verb url hs body) P"
  by (simp_all add: sends_def)

lemma bearer_header [simp]:
  "map_of (bearer tok hs) ''Authorization'' = Some (''Bearer '' @ coalesce tok ''null'')"
  by (simp add: bearer_def bearerAuth_def)

lemma starts_with_append_cancel: "starts_with (b @ s) (b @ p) = starts_with s p"
  by (simp add: starts_with_def)

lemmas account_urls = accountUrl_def accountTokenUrl_def accountPasswordUrl_def accountSettingsUrl_def
  accountSubscriptionUrl_def accountReservationUrl_def accountReservationSingleUrl_def
  accountBillingSubscriptionUrl_def accountBillingPortalUrl_def accountPhoneUrl_def
  accountPhoneVerifyUrl_def coop_url_def contact_url_def topic_meta_url_def

lemmas account_calls = account_logout_def account_delete_def account_changePassword_def
  account_createToken_def account_updateToken_def account_extendToken_def account_deleteToken_def
  account_updateSettings_def account_addSubscription_def account_updateSubscription_def
  account_deleteSubscription_def account_upsertReservation_def account_deleteReservation_def
  createBillingSubscription_def updateBillingSubscription_def upsertBillingSubscription_def
  deleteBillingSubscription_def createBillingPortalSession_def verifyPhoneNumber_def
  addPhoneNumber_def deletePhoneNumber_def getContacts_def getContactRequests_def addContact_def
  acceptContact_def rejectContact_def removeContact_def blockContact_def searchUsers_def
  startDM_def getDMs_def createGroup_def getTopicMeta_def updateTopicMeta_def

lemma json_prop_JNull [simp]: "json_prop JNull k = None"
  by (simp add: json_prop_def)

context coop_db
begin

lemma dom_sync:
  "dom (sub_row T (sm_syncFromRemote T cfg rems res e)) =
     remote_id ` set rems \<union> {k. \<exists>s. sub_row T e k = Some s \<and> s_internal s}"
proof (rule set_eqI)
  fix k
  have "find (\<lambda>r. remote_id r = k) rems = None \<longleftrightarrow> k \<notin> remote_id ` set rems"
    unfolding find_None_iff by blast
  then show "k \<in> dom (sub_row T (sm_syncFromRemote T cfg rems res e)) \<longleftrightarrow>
      k \<in> remote_id ` set rems \<union> {k. \<exists>s. sub_row T e k = Some s \<and> s_internal s}"
    by (cases "sub_row T e k") (auto simp: domIff sync_sub_row)
qed

lemma dom_apply_account:
  "json_prop account ''subscriptions'' = Some (JArr rems) \<Longrightarrow>
     dom (sub_row T (apply_account T cfg account d)) =
       remote_id ` set (map decode_remote rems) \<union> {k. \<exists>s. sub_row T d k = Some s \<and> s_internal s}"
  by (simp add: apply_account_def json_list_def dom_sync)

end

subsection \<open>Properties\<close>




text \<open>
  The billing tiers are fetched at most once: after a successful call with a non-empty answer,
  every later call returns the same tiers and sends no request.
\<close>

theorem billing_tiers_cached:
  assumes "billingTiers srv cfg tiers log = ((Inr j, tiers'), log')" and "json_truthy (Some j)"
  shows "billingTiers srv' cfg' tiers' log'' = ((Inr j, tiers'), log'')"
  using assms by (auto simp: billingTiers_def split: if_splits prod.splits sum.splits option.splits
      dest: arg_cong [of _ _ json_truthy])

theorem billing_tiers_cached_witness:
  "billingTiers (\<lambda>_ _. None) plain_config
     (snd (fst (billingTiers (\<lambda>_ _. Some \<lparr>rs_status = 200, rs_json = Some (JNum 1)\<rparr>) plain_config None []))) [] =
   ((Inr (JNum 1), Some (JNum 1)), [])"
proof -
  have "billingTiers (\<lambda>_ _. Some \<lparr>rs_status = 200, rs_json = Some (JNum 1)\<rparr>) plain_config None [] =
      ((Inr (JNum 1), Some (JNum 1)), [\<lparr>rq_method = ''GET'', rq_url = tiersUrl (base_url plain_config),
        rq_headers = [], rq_body = None\<rparr>])"
    by (simp add: billingTiers_def json_truthy_def call_json_def io_bind_def fetchOrThrow_unfold
        response_json_def io_return_def)
  then show ?thesis using billing_tiers_cached by (simp add: json_truthy_def)
qed

end
