(* ===== verification/Chat_Input.thy ===== *)
theory Chat_Input
  imports Http
begin

section \<open>Slash commands and the message field (app/SlashCommands.js, components/ChatInput.jsx)\<close>

text \<open>
  The table of commands with its parser and its completion, and the state of the message field: the
  text, the command palette with its highlighted entry, the reply, and the time of the last typing
  event. Every handler of the component is a function on that state; requests go to the server
  through the log of \<open>Http\<close>.
\<close>

subsection \<open>SlashCommands.js\<close>

record command =
  cmd_name :: string
  cmd_args :: "string option"
  cmd_description :: string
  cmd_serverSide :: bool

definition commands :: "command list" where
  "commands =
     [\<lparr>cmd_name = ''gurr'', cmd_args = None, cmd_description = ''Angurren (Nudge)'', cmd_serverSide = True\<rparr>,
      \<lparr>cmd_name = ''status'', cmd_args = Some ''<text>'', cmd_description = ''Status setzen'', cmd_serverSide = True\<rparr>,
      \<lparr>cmd_name = ''flieg'', cmd_args = None, cmd_description = ''Chat verlassen'', cmd_serverSide = True\<rparr>,
      \<lparr>cmd_name = ''mitglieder'', cmd_args = None, cmd_description = ''Mitgliederliste oeffnen'', cmd_serverSide = False\<rparr>]"

definition parseCommand :: "string \<Rightarrow> (command \<times> string) option" where
  "parseCommand text =
     (if \<not> starts_with text ''/'' then None
      else
        let parts = split_space (js_trim text);
            name = js_lower (drop 1 (hd parts));
            args = join '' '' (drop 1 parts)
        in map_option (\<lambda>c. (c, args)) (find (\<lambda>c. cmd_name c = name) commands))"

definition filterCommands :: "string \<Rightarrow> command list" where
  "filterCommands input =
     (if \<not> starts_with input ''/'' then []
      else filter (\<lambda>c. starts_with (cmd_name c) (js_lower (drop 1 input))) commands)"

text \<open>\<open>{ ...maybeWithBearerAuth({}, token), "Content-Type": ... }\<close>\<close>

definition json_headers :: "string option \<Rightarrow> headers" where
  "json_headers tok = AList.update ''Content-Type'' ''application/json'' (maybeWithBearerAuth [] tok)"

definition post_json :: "server \<Rightarrow> config \<Rightarrow> string option \<Rightarrow> string \<Rightarrow> (string \<times> json) list \<Rightarrow> response io" where
  "post_json srv cfg tok path body =
     fetch srv \<lparr>rq_method = ''POST'', rq_url = base_url cfg @ path, rq_headers = json_headers tok,
       rq_body = Some (JObj body)\<rparr>"

definition executeServerCommand ::
  "server \<Rightarrow> config \<Rightarrow> string option \<Rightarrow> string \<Rightarrow> string \<Rightarrow> string \<Rightarrow> json io" where
  "executeServerCommand srv cfg tok commandName topic args =
     io_bind (post_json srv cfg tok ''/v1/coop/commands''
         [(''command'', JStr commandName), (''topic'', JStr topic), (''args'', JStr args)])
       (\<lambda>rs. if \<not> rs_ok rs then
               (let err = coalesce (rs_json rs) (JObj []) in
                if err = JNull then io_throw TypeError
                else io_throw (OtherError (if json_truthy (json_prop err ''error'')
                  then json_text (coalesce (json_prop err ''error'') JNull) else ''Command failed'')))
             else response_json rs)"

subsection \<open>The message field\<close>

definition TYPING_INTERVAL :: int where "TYPING_INTERVAL = 3000"

record chat_input =
  ci_message :: string
  ci_error :: bool
  ci_sendSuccess :: bool
  ci_lastTyping :: int
  ci_replyTo :: "(string \<times> string \<times> string) option"
  ci_filtered :: "command list"
  ci_index :: nat

definition new_chat_input :: chat_input where
  "new_chat_input = \<lparr>ci_message = [], ci_error = False, ci_sendSuccess = False, ci_lastTyping = 0,
     ci_replyTo = None, ci_filtered = [], ci_index = 0\<rparr>"

text \<open>\<open>now\<close> is \<open>Date.now()\<close>; the request's failure is ignored.\<close>

definition sendTypingEvent ::
  "server \<Rightarrow> config \<Rightarrow> string option \<Rightarrow> string \<Rightarrow> int \<Rightarrow> chat_input \<Rightarrow> request list \<Rightarrow> chat_input \<times> request list" where
  "sendTypingEvent srv cfg tok topic now ci log =
     (if topic = [] then (ci, log)
      else if now - ci_lastTyping ci < TYPING_INTERVAL then (ci, log)
      else (ci\<lparr>ci_lastTyping := now\<rparr>,
            snd (post_json srv cfg tok ''/v1/coop/typing'' [(''topic'', JStr topic)] log)))"

text \<open>
  \<open>handleSend\<close>: the new state, the log, and the local commands run. The green frame disappears
  again after 400 ms (\<open>clearSendSuccess\<close>).
\<close>

definition handleSend ::
  "server \<Rightarrow> config \<Rightarrow> string option \<Rightarrow> string \<Rightarrow> (string \<Rightarrow> (string \<times> json) list \<Rightarrow> unit io) \<Rightarrow>
     chat_input \<Rightarrow> request list \<Rightarrow> (chat_input \<times> string list) \<times> request list" where
  "handleSend srv cfg tok topic onSend ci log =
     (let trimmed = js_trim (ci_message ci) in
      if trimmed = [] then ((ci, []), log)
      else
        (case parseCommand trimmed of
           Some (cmd, inputArgs) \<Rightarrow>
             let done = ci\<lparr>ci_message := [], ci_filtered := []\<rparr> in
             if cmd_serverSide cmd then
               (case executeServerCommand srv cfg tok (cmd_name cmd) topic inputArgs log of
                  (Inl e, log') \<Rightarrow> ((ci\<lparr>ci_error := True\<rparr>, []), log')
                | (Inr _, log') \<Rightarrow> ((done, []), log'))
             else ((done, if cmd_name cmd = ''mitglieder'' then [''mitglieder''] else []), log)
         | None \<Rightarrow>
             let options = (''markdown'', JBool True) #
                   (case ci_replyTo ci of None \<Rightarrow> [] | Some r \<Rightarrow> [(''reply_to'', JStr (fst r))])
             in (case onSend trimmed options log of
                   (Inl e, log') \<Rightarrow> ((ci\<lparr>ci_error := True\<rparr>, []), log')
                 | (Inr _, log') \<Rightarrow>
                     ((ci\<lparr>ci_message := [], ci_replyTo := None, ci_sendSuccess := True\<rparr>, []), log'))))"

definition clearSendSuccess :: "chat_input \<Rightarrow> chat_input" where
  "clearSendSuccess ci = ci\<lparr>ci_sendSuccess := False\<rparr>"

definition handleNudge :: "server \<Rightarrow> config \<Rightarrow> string option \<Rightarrow> string \<Rightarrow> request list \<Rightarrow> request list" where
  "handleNudge srv cfg tok topic log =
     (if topic = [] then log
      else snd (post_json srv cfg tok ''/v1/coop/nudge'' [(''topic'', JStr topic)] log))"

definition handleChange :: "string \<Rightarrow> chat_input \<Rightarrow> chat_input" where
  "handleChange val ci =
     (let ci' = ci\<lparr>ci_message := val\<rparr>
      in if starts_with val ''/'' then ci'\<lparr>ci_filtered := filterCommands val, ci_index := 0\<rparr>
         else ci'\<lparr>ci_filtered := []\<rparr>)"

datatype key_effect = KeyDone | KeySend | KeyTyping

definition complete_command :: "command \<Rightarrow> chat_input \<Rightarrow> chat_input" where
  "complete_command cmd ci = ci\<lparr>ci_message := ''/'' @ cmd_name cmd @ '' '', ci_filtered := []\<rparr>"

definition handleKeyDown :: "string \<Rightarrow> bool \<Rightarrow> chat_input \<Rightarrow> chat_input \<times> key_effect" where
  "handleKeyDown key shift ci =
     (let n = length (ci_filtered ci);
          rest = (ci, if key = ''Enter'' \<and> \<not> shift then KeySend else KeyTyping)
      in if n > 0 then
           (if key = ''ArrowDown'' then (ci\<lparr>ci_index := min (ci_index ci + 1) (n - 1)\<rparr>, KeyDone)
            else if key = ''ArrowUp'' then (ci\<lparr>ci_index := ci_index ci - 1\<rparr>, KeyDone)
            else if key = ''Tab'' \<or> (key = ''Enter'' \<and> \<not> shift \<and>
                length (split_space (js_trim (ci_message ci))) = 1) then
              (if ci_index ci < n then complete_command (ci_filtered ci ! ci_index ci) ci else ci, KeyDone)
            else rest)
         else rest)"

definition handleCommandSelect :: "command \<Rightarrow> chat_input \<Rightarrow> chat_input" where
  "handleCommandSelect cmd ci = complete_command cmd ci"

subsection \<open>Lemmas\<close>

lemma filterCommands_subset: "set (filterCommands v) \<subseteq> set commands"
  by (auto simp: filterCommands_def)

text \<open>
  What holds of the field in every state: the highlighted entry is one of the palette, and the
  palette offers commands of the table.
\<close>

definition palette_ok :: "chat_input \<Rightarrow> bool" where
  "palette_ok ci \<longleftrightarrow> (ci_filtered ci = [] \<or> ci_index ci < length (ci_filtered ci)) \<and>
     set (ci_filtered ci) \<subseteq> set commands"

inductive input_step :: "chat_input \<Rightarrow> chat_input \<Rightarrow> bool" where
  change: "input_step ci (handleChange v ci)"
| key: "input_step ci (fst (handleKeyDown k shift ci))"
| select: "cmd \<in> set (ci_filtered ci) \<Longrightarrow> input_step ci (handleCommandSelect cmd ci)"
| send: "input_step ci (fst (fst (handleSend srv cfg tok topic onSend ci log)))"
| typing: "input_step ci (fst (sendTypingEvent srv cfg tok topic now ci log))"
| faded: "input_step ci (clearSendSuccess ci)"

lemma palette_change: "palette_ok (handleChange v ci)"
  using filterCommands_subset by (auto simp: palette_ok_def handleChange_def Let_def)

lemma palette_key: "palette_ok ci \<Longrightarrow> palette_ok (fst (handleKeyDown k shift ci))"
  unfolding handleKeyDown_def Let_def
  by (simp add: palette_ok_def complete_command_def split del: if_split split: if_splits; linarith?)

lemma palette_send: "palette_ok ci \<Longrightarrow> palette_ok (fst (fst (handleSend srv cfg tok topic onSend ci log)))"
  by (auto simp: palette_ok_def handleSend_def Let_def split: option.split prod.split sum.split)

lemma palette_step: "input_step ci ci' \<Longrightarrow> palette_ok ci \<Longrightarrow> palette_ok ci'"
proof (induction rule: input_step.induct)
  case (change ci v)
  then show ?case by (simp add: palette_change)
next
  case (key ci k shift)
  then show ?case by (simp add: palette_key)
next
  case (select cmd ci)
  then show ?case by (simp add: palette_ok_def handleCommandSelect_def complete_command_def)
next
  case (send ci srv cfg tok topic onSend log)
  then show ?case by (simp add: palette_send)
qed (auto simp: palette_ok_def sendTypingEvent_def clearSendSuccess_def)

lemma palette_steps: "input_step\<^sup>*\<^sup>* new_chat_input ci \<Longrightarrow> palette_ok ci"
proof (induction rule: rtranclp_induct)
  case base
  then show ?case by (simp add: palette_ok_def new_chat_input_def)
next
  case (step y z)
  then show ?case by (blast intro: palette_step)
qed

lemma split_space_word: "list_all (\<lambda>c. \<not> is_space c) w \<Longrightarrow> split_space w = [w]"
proof -
  assume "list_all (\<lambda>c. \<not> is_space c) w"
  then have d: "dropWhile (\<lambda>c. \<not> is_space c) w = []" by (simp add: list_all_iff)
  show ?thesis by (subst split_space.simps, subst d) simp
qed

lemma split_space_two:
  assumes "list_all (\<lambda>c. \<not> is_space c) v" "is_space b" "list_all (\<lambda>c. \<not> is_space c) w" "w \<noteq> []"
  shows "split_space (v @ b # w) = [v, w]"
proof -
  have "dropWhile (\<lambda>c. \<not> is_space c) (v @ b # w) = b # w"
    using assms(1,2) by (induction v) auto
  moreover have "takeWhile (\<lambda>c. \<not> is_space c) (v @ b # w) = v"
    using assms(1,2) by (induction v) auto
  moreover have "dropWhile is_space w = w"
    using assms(3,4) by (cases w) auto
  ultimately show ?thesis
    using assms(3) by (subst split_space.simps) (simp add: split_space_word)
qed

lemma dropWhile_hd: "xs \<noteq> [] \<Longrightarrow> \<not> P (hd xs) \<Longrightarrow> dropWhile P xs = xs"
  by (cases xs) simp_all

lemma js_trim_ends: "s \<noteq> [] \<Longrightarrow> \<not> is_space (hd s) \<Longrightarrow> \<not> is_space (last s) \<Longrightarrow> js_trim s = s"
  by (simp add: js_trim_def dropWhile_hd hd_rev)

lemma js_trim_right: "s \<noteq> [] \<Longrightarrow> \<not> is_space (hd s) \<Longrightarrow> is_space b \<Longrightarrow>
    list_all (\<lambda>c. \<not> is_space c) s \<Longrightarrow> js_trim (s @ [b]) = s"
proof -
  assume s: "s \<noteq> []" "\<not> is_space (hd s)" "is_space b" "list_all (\<lambda>c. \<not> is_space c) s"
  then have "dropWhile is_space (s @ [b]) = s @ [b]" by (cases s) auto
  moreover have "dropWhile is_space (rev s) = rev s"
    using s(1,4) by (cases s rule: rev_cases) auto
  ultimately show ?thesis using s(3) by (simp add: js_trim_def)
qed

lemma command_names:
  assumes "cmd \<in> set commands"
  shows "list_all (\<lambda>c. \<not> is_space c) (cmd_name cmd) \<and> js_lower (cmd_name cmd) = cmd_name cmd \<and>
     cmd_name cmd \<noteq> [] \<and> find (\<lambda>c. cmd_name c = cmd_name cmd) commands = Some cmd"
proof -
  have "list_all (\<lambda>cmd. list_all (\<lambda>c. \<not> is_space c) (cmd_name cmd) \<and> js_lower (cmd_name cmd) = cmd_name cmd \<and>
     cmd_name cmd \<noteq> [] \<and> find (\<lambda>c. cmd_name c = cmd_name cmd) commands = Some cmd) commands"
    by code_simp
  then show ?thesis using assms unfolding list_all_iff by blast
qed

lemma parse_completed:
  assumes cmd: "cmd \<in> set commands" and w: "list_all (\<lambda>c. \<not> is_space c) w"
  shows "parseCommand (''/'' @ cmd_name cmd @ '' '' @ w) = Some (cmd, w)"
proof -
  let ?v = "''/'' @ cmd_name cmd"
  have v: "list_all (\<lambda>c. \<not> is_space c) ?v" "\<not> is_space (hd ?v)"
    using command_names [OF cmd] by (auto simp: is_space_def Let_def)
  have b: "is_space CHR '' ''" by (simp add: is_space_def Let_def)
  have parts: "split_space (js_trim (?v @ '' '' @ w)) = (if w = [] then [?v] else [?v, w])"
  proof (cases "w = []")
    case True
    have "js_trim (?v @ [CHR '' '']) = ?v"
      by (rule js_trim_right) (use v b in simp_all)
    then show ?thesis using v True by (simp add: split_space_word)
  next
    case False
    have "js_trim (?v @ '' '' @ w) = ?v @ '' '' @ w"
      by (rule js_trim_ends) (use v w False in \<open>auto simp: list_all_iff\<close>)
    then show ?thesis using split_space_two [OF v(1) b w False] False by simp
  qed
  then show ?thesis using command_names [OF cmd] by (simp add: parseCommand_def)
qed

text \<open>
  In every state of the message field that changes, keys, selections, sends and timers can
  reach, as long as the command palette is open the Tab key completes the text to a command of the
  palette: the text becomes the slash, its name and a space, the palette closes, and the text with
  any further word is parsed as that command with that word as its argument.
\<close>

theorem tab_completes_command:
  assumes "input_step\<^sup>*\<^sup>* new_chat_input ci" and "ci_filtered ci \<noteq> []"
    and "list_all (\<lambda>c. \<not> is_space c) w"
  shows "let cmd = ci_filtered ci ! ci_index ci; ci' = fst (handleKeyDown ''Tab'' shift ci) in
    cmd \<in> set commands \<and> ci_message ci' = ''/'' @ cmd_name cmd @ '' '' \<and> ci_filtered ci' = [] \<and>
    parseCommand (ci_message ci' @ w) = Some (cmd, w)"
proof -
  have ok: "ci_index ci < length (ci_filtered ci)" "ci_filtered ci ! ci_index ci \<in> set commands"
    using palette_steps [OF assms(1)] assms(2) by (auto simp: palette_ok_def)
  show ?thesis
    using ok parse_completed [OF ok(2) assms(3)]
    by (auto simp: handleKeyDown_def complete_command_def Let_def)
qed

lemma tab_completes_command_witness:
  "let cmd = ci_filtered (handleChange ''/s'' new_chat_input) ! ci_index (handleChange ''/s'' new_chat_input);
       ci' = fst (handleKeyDown ''Tab'' False (handleChange ''/s'' new_chat_input)) in
    cmd \<in> set commands \<and> ci_message ci' = ''/'' @ cmd_name cmd @ '' '' \<and> ci_filtered ci' = [] \<and>
    parseCommand (ci_message ci' @ ''away'') = Some (cmd, ''away'')"
proof (rule tab_completes_command)
  show "input_step\<^sup>*\<^sup>* new_chat_input (handleChange ''/s'' new_chat_input)"
    by (rule r_into_rtranclp) (rule input_step.change)
  show "ci_filtered (handleChange ''/s'' new_chat_input) \<noteq> []"
    by (simp add: handleChange_def filterCommands_def commands_def js_lower_def lower_char_def starts_with_def Let_def)
  show "list_all (\<lambda>c. \<not> is_space c) ''away''" by (simp add: is_space_def)
qed

subsection \<open>Typing events\<close>

text \<open>The key presses at the times \<open>nows\<close>, with the times at which an event is sent.\<close>

fun typing_run ::
  "server \<Rightarrow> config \<Rightarrow> string option \<Rightarrow> string \<Rightarrow> int list \<Rightarrow> chat_input \<Rightarrow> request list \<Rightarrow> int list \<times> request list" where
  "typing_run srv cfg tok topic [] ci log = ([], log)"
| "typing_run srv cfg tok topic (now # nows) ci log =
     (let (ci', log') = sendTypingEvent srv cfg tok topic now ci log;
          (sent, log'') = typing_run srv cfg tok topic nows ci' log'
      in (if length log' = length log then sent else now # sent, log''))"

lemma post_json_log [simp]: "\<exists>rq. snd (post_json srv cfg tok path body log) = log @ [rq] \<and>
    rq_url rq = base_url cfg @ path \<and> rq_body rq = Some (JObj body)"
  by (simp add: post_json_def fetch_def)

definition typing_requests :: "config \<Rightarrow> string \<Rightarrow> request list \<Rightarrow> bool" where
  "typing_requests cfg topic rqs \<longleftrightarrow> list_all (\<lambda>rq. rq_url rq = base_url cfg @ ''/v1/coop/typing'' \<and>
     rq_body rq = Some (JObj [(''topic'', JStr topic)])) rqs"

lemma typing_run_spaced:
  "\<exists>rqs. snd (typing_run srv cfg tok topic nows ci log) = log @ rqs \<and> typing_requests cfg topic rqs \<and>
     length rqs = length (fst (typing_run srv cfg tok topic nows ci log)) \<and>
     successively (\<lambda>t u. t + TYPING_INTERVAL \<le> u) (ci_lastTyping ci # fst (typing_run srv cfg tok topic nows ci log))"
proof (induction nows arbitrary: ci log)
  case Nil
  then show ?case by (simp add: typing_requests_def)
next
  case (Cons now nows)
  show ?case
  proof (cases "topic = [] \<or> now - ci_lastTyping ci < TYPING_INTERVAL")
    case True
    then have "sendTypingEvent srv cfg tok topic now ci log = (ci, log)"
      by (auto simp: sendTypingEvent_def)
    then show ?thesis using Cons.IH [of ci log] by (simp add: Let_def case_prod_beta)
  next
    case False
    obtain rq where rq: "snd (post_json srv cfg tok ''/v1/coop/typing'' [(''topic'', JStr topic)] log) = log @ [rq]"
      "rq_url rq = base_url cfg @ ''/v1/coop/typing''" "rq_body rq = Some (JObj [(''topic'', JStr topic)])"
      using post_json_log by blast
    have st: "sendTypingEvent srv cfg tok topic now ci log = (ci\<lparr>ci_lastTyping := now\<rparr>, log @ [rq])"
      using False rq(1) by (auto simp: sendTypingEvent_def)
    obtain rqs where "snd (typing_run srv cfg tok topic nows (ci\<lparr>ci_lastTyping := now\<rparr>) (log @ [rq])) = (log @ [rq]) @ rqs"
      "typing_requests cfg topic rqs"
      "length rqs = length (fst (typing_run srv cfg tok topic nows (ci\<lparr>ci_lastTyping := now\<rparr>) (log @ [rq])))"
      "successively (\<lambda>t u. t + TYPING_INTERVAL \<le> u)
        (now # fst (typing_run srv cfg tok topic nows (ci\<lparr>ci_lastTyping := now\<rparr>) (log @ [rq])))"
      using Cons.IH [of "ci\<lparr>ci_lastTyping := now\<rparr>" "log @ [rq]"] by auto
    then show ?thesis using st rq(2,3) False
      by (intro exI [where x = "rq # rqs"]) (simp add: typing_requests_def case_prod_beta Let_def)
  qed
qed

text \<open>
  Whatever keys are pressed at whatever times, the field sends only typing events of its
  topic, one request each, and any two of them in a row at least three seconds apart.
\<close>

theorem typing_throttled:
  "\<exists>rqs. snd (typing_run srv cfg tok topic nows ci log) = log @ rqs \<and> typing_requests cfg topic rqs \<and>
     length rqs = length (fst (typing_run srv cfg tok topic nows ci log)) \<and>
     successively (\<lambda>t u. t + 3000 \<le> u) (fst (typing_run srv cfg tok topic nows ci log))"
proof -
  have "successively P (a # xs) \<longrightarrow> successively P xs" for P and a :: int and xs
    by (cases xs) auto
  then show ?thesis
    using typing_run_spaced [of srv cfg tok topic nows ci log] by (auto simp: TYPING_INTERVAL_def)
qed

end
