(* ===== verification/Chat.thy ===== *)
theory Chat
  imports Subscriptions
begin

section \<open>The chat view (components/ChatView.jsx)\<close>

text \<open>
  What the chat view of a topic computes and keeps: the links it previews, the messages it shows
  and how it groups them into runs of a sender, the reactions with their optimistic update, the
  list of typing members with its timers, and the decision to scroll to a new message or to offer
  the button for it. Dates in the local time zone are an argument.
\<close>

subsection \<open>Links of a message\<close>

text \<open>A word character of \<open>\b\<close>.\<close>

definition word_char :: "char \<Rightarrow> bool" where
  "word_char c \<longleftrightarrow> (let n = of_char c :: nat
     in (48 \<le> n \<and> n \<le> 57) \<or> (65 \<le> n \<and> n \<le> 90) \<or> (97 \<le> n \<and> n \<le> 122) \<or> n = 95)"

definition scheme_length :: "string \<Rightarrow> nat option" where
  "scheme_length s =
     (if js_lower (take 8 s) = ''https://'' then Some 8
      else if js_lower (take 7 s) = ''http://'' then Some 7 else None)"

text \<open>
  The match of \<open>/\bhttps?:\/\/[^\s]{1,500}/i\<close> at the head of \<open>s\<close>, where the text before \<open>s\<close> ends in a
  word character or not.
\<close>

definition url_at :: "bool \<Rightarrow> string \<Rightarrow> string option" where
  "url_at after_word s =
     (if after_word then None
      else case scheme_length s of
        None \<Rightarrow> None
      | Some k \<Rightarrow>
          let rest = take 500 (takeWhile (\<lambda>c. \<not> is_space c) (drop k s))
          in if rest = [] then None else Some (take k s @ rest))"

lemma url_at_ne: "url_at w s = Some u \<Longrightarrow> u \<noteq> [] \<and> s \<noteq> []"
  by (auto simp: url_at_def scheme_length_def js_lower_def Let_def split: if_splits option.splits)

text \<open>The matches of the global expression, from the left, none overlapping another.\<close>

function match_urls :: "bool \<Rightarrow> string \<Rightarrow> string list" where
  "match_urls w s =
     (case url_at w s of
        Some u \<Rightarrow> u # match_urls (word_char (last u)) (drop (length u) s)
      | None \<Rightarrow> (case s of [] \<Rightarrow> [] | c # s' \<Rightarrow> match_urls (word_char c) s'))"
  by pat_completeness auto
termination
  by (relation "measure (\<lambda>(w, s). length s)") (auto dest!: url_at_ne simp: length_greater_0_conv)

declare match_urls.simps [simp del]

text \<open>\<open>[...new Set(xs)]\<close>: each value once, where it first occurs.\<close>

fun js_unique :: "'a list \<Rightarrow> 'a list" where
  "js_unique [] = []"
| "js_unique (x # xs) = x # filter (\<lambda>y. y \<noteq> x) (js_unique xs)"

definition extractUrls :: "string option \<Rightarrow> string list" where
  "extractUrls text = (if truthy text then take 3 (js_unique (match_urls False (coalesce text []))) else [])"

lemma set_js_unique [simp]: "set (js_unique xs) = set xs"
  by (induction xs) auto

lemma distinct_js_unique [simp]: "distinct (js_unique xs)"
  by (induction xs) auto

lemma extractUrls_bounds: "length (extractUrls text) \<le> 3" "distinct (extractUrls text)"
  by (simp_all add: extractUrls_def)

subsection \<open>The messages shown\<close>

definition allMessages :: "notification list \<Rightarrow> notification list" where
  "allMessages ns = filter (\<lambda>n. n_event n = ''message'' \<or> n_event n = ''coop_nudge'') ns"

definition messages :: "nat \<Rightarrow> notification list \<Rightarrow> notification list" where
  "messages maxCount ns =
     (let all' = allMessages ns
      in if length all' > maxCount then rev (take maxCount all') else rev all')"

definition GROUP_TIME_THRESHOLD :: int where "GROUP_TIME_THRESHOLD = 5 * 60"

text \<open>\<open>date_key\<close> is \<open>getDateKey\<close>: the local calendar day of a time.\<close>

definition showDateSep :: "(int \<Rightarrow> string) \<Rightarrow> notification list \<Rightarrow> nat \<Rightarrow> bool" where
  "showDateSep date_key ms i \<longleftrightarrow> i = 0 \<or> date_key (n_time (ms ! i)) \<noteq> date_key (n_time (ms ! (i - 1)))"

definition isSameGroupAsPrev :: "(int \<Rightarrow> string) \<Rightarrow> notification list \<Rightarrow> nat \<Rightarrow> bool" where
  "isSameGroupAsPrev date_key ms i \<longleftrightarrow> i > 0 \<and>
     (let n = ms ! i; p = ms ! (i - 1)
      in n_sender p = n_sender n \<and> n_event p = n_event n \<and> n_event n \<noteq> ''coop_nudge'' \<and>
         \<bar>n_time n - n_time p\<bar> < GROUP_TIME_THRESHOLD \<and> \<not> showDateSep date_key ms i)"

definition isSameGroupAsNext :: "(int \<Rightarrow> string) \<Rightarrow> notification list \<Rightarrow> nat \<Rightarrow> bool" where
  "isSameGroupAsNext date_key ms i \<longleftrightarrow> i + 1 < length ms \<and>
     (let n = ms ! i; x = ms ! (i + 1)
      in n_sender x = n_sender n \<and> n_event x = n_event n \<and> n_event n \<noteq> ''coop_nudge'' \<and>
         \<bar>n_time x - n_time n\<bar> < GROUP_TIME_THRESHOLD \<and> date_key (n_time n) = date_key (n_time x))"

text \<open>The sender's name is shown on the first bubble of a group of another user, the avatar on the last.\<close>

definition showSender :: "(int \<Rightarrow> string) \<Rightarrow> string option \<Rightarrow> notification list \<Rightarrow> nat \<Rightarrow> bool" where
  "showSender date_key me ms i \<longleftrightarrow> \<not> isSameGroupAsPrev date_key ms i \<and>
     n_sender (ms ! i) \<noteq> me \<and> truthy (n_sender (ms ! i))"

definition showAvatar :: "(int \<Rightarrow> string) \<Rightarrow> string option \<Rightarrow> notification list \<Rightarrow> nat \<Rightarrow> bool" where
  "showAvatar date_key me ms i \<longleftrightarrow> \<not> isSameGroupAsNext date_key ms i \<and>
     n_sender (ms ! i) \<noteq> me \<and> truthy (n_sender (ms ! i))"

lemma same_group_link:
  "i + 1 < length ms \<Longrightarrow> isSameGroupAsNext date_key ms i = isSameGroupAsPrev date_key ms (i + 1)"
  by (auto simp: isSameGroupAsNext_def isSameGroupAsPrev_def showDateSep_def Let_def abs_minus_commute)

subsection \<open>Reactions\<close>

text \<open>A missing user name (\<open>session.username()\<close> is \<open>null\<close>) is \<open>None\<close>.\<close>

record reaction =
  rc_emoji :: string
  rc_count :: int
  rc_users :: "string option list"
  rc_reacted :: bool

definition toggle_reaction :: "string option \<Rightarrow> string \<Rightarrow> reaction list \<Rightarrow> reaction list" where
  "toggle_reaction username emoji current =
     (case find (\<lambda>r. rc_emoji r = emoji) current of
        Some existing \<Rightarrow>
          if rc_reacted existing then
            let newCount = rc_count existing - 1
            in if newCount \<le> 0 then filter (\<lambda>r. rc_emoji r \<noteq> emoji) current
               else map (\<lambda>r. if rc_emoji r = emoji then
                   r\<lparr>rc_count := newCount, rc_reacted := False,
                     rc_users := filter (\<lambda>u. u \<noteq> username) (rc_users r)\<rparr> else r) current
          else map (\<lambda>r. if rc_emoji r = emoji then
                   r\<lparr>rc_count := rc_count r + 1, rc_reacted := True,
                     rc_users := rc_users r @ [username]\<rparr> else r) current
      | None \<Rightarrow> current @ [\<lparr>rc_emoji = emoji, rc_count = 1, rc_users = [username], rc_reacted = True\<rparr>])"

type_synonym reactions_map = "string \<rightharpoonup> reaction list"

text \<open>\<open>base\<close> is \<open>subscription.baseUrl\<close>; the update of the map comes first, the request's failure is ignored.\<close>

definition handleReactionToggle ::
  "base64_lib \<Rightarrow> server \<Rightarrow> user option \<Rightarrow> string option \<Rightarrow> string \<Rightarrow> string \<Rightarrow> string \<Rightarrow>
     reactions_map \<Rightarrow> request list \<Rightarrow> reactions_map \<times> request list" where
  "handleReactionToggle B srv user username base messageId emoji rm log =
     (rm(messageId \<mapsto> toggle_reaction username emoji (coalesce (rm messageId) [])),
      snd (fetch srv \<lparr>rq_method = ''POST'', rq_url = base @ ''/v1/coop/messages/'' @ messageId @ ''/reactions'',
        rq_headers = maybeWithAuth B [(''Content-Type'', ''application/json'')] user,
        rq_body = Some (JObj [(''emoji'', JStr emoji)])\<rparr> log))"

text \<open>
  Loading the reactions and the profiles of the topic's members: \<open>decode\<close> reads the parsed body as
  the list of keys and values; a failed request or a status that is not OK changes nothing.
\<close>

definition load_list_request :: "base64_lib \<Rightarrow> user option \<Rightarrow> string \<Rightarrow> string \<Rightarrow> string \<Rightarrow> request" where
  "load_list_request B user base what topic = \<lparr>rq_method = ''GET'',
     rq_url = base @ ''/v1/coop/'' @ what @ ''?topic='' @ encodeURIComponent topic,
     rq_headers = maybeWithAuth B [] user, rq_body = None\<rparr>"

definition load_map ::
  "server \<Rightarrow> request \<Rightarrow> (json \<Rightarrow> (string \<times> 'v) list option) \<Rightarrow> (string \<rightharpoonup> 'v) \<Rightarrow> request list \<Rightarrow>
     (string \<rightharpoonup> 'v) \<times> request list" where
  "load_map srv rq decode old log =
     (case fetch srv rq log of
        (Inr rs, log') \<Rightarrow>
          (if rs_ok rs then
             (case Option.bind (rs_json rs) decode of
                Some data \<Rightarrow> fold (\<lambda>(k, v) m. m(k \<mapsto> v)) data Map.empty
              | None \<Rightarrow> old)
           else old, log')
      | (Inl e, log') \<Rightarrow> (old, log'))"

definition loadReactions ::
  "base64_lib \<Rightarrow> server \<Rightarrow> user option \<Rightarrow> string \<Rightarrow> string \<Rightarrow> (json \<Rightarrow> (string \<times> reaction list) list option) \<Rightarrow>
     reactions_map \<Rightarrow> request list \<Rightarrow> reactions_map \<times> request list" where
  "loadReactions B srv user base topic decode rm log =
     load_map srv (load_list_request B user base ''reactions'' topic) decode rm log"

definition loadProfiles ::
  "base64_lib \<Rightarrow> server \<Rightarrow> user option \<Rightarrow> string \<Rightarrow> string \<Rightarrow> (json \<Rightarrow> (string \<times> 'p) list option) \<Rightarrow>
     (string \<rightharpoonup> 'p) \<Rightarrow> request list \<Rightarrow> (string \<rightharpoonup> 'p) \<times> request list" where
  "loadProfiles B srv user base topic decode cache log =
     load_map srv (load_list_request B user base ''profiles'' topic) decode cache log"

text \<open>What a list of reactions says: who reacted with which emoji.\<close>

definition reacted_by :: "reaction list \<Rightarrow> string \<Rightarrow> string option set" where
  "reacted_by rs emoji = (case find (\<lambda>r. rc_emoji r = emoji) rs of None \<Rightarrow> {} | Some r \<Rightarrow> set (rc_users r))"

definition reaction_ok :: "string option \<Rightarrow> reaction \<Rightarrow> bool" where
  "reaction_ok me r \<longleftrightarrow> distinct (rc_users r) \<and> rc_users r \<noteq> [] \<and> rc_count r = int (length (rc_users r)) \<and>
     (rc_reacted r \<longleftrightarrow> me \<in> set (rc_users r))"

definition reactions_ok :: "string option \<Rightarrow> reaction list \<Rightarrow> bool" where
  "reactions_ok me rs \<longleftrightarrow> distinct (map rc_emoji rs) \<and> list_all (reaction_ok me) rs"

lemma find_map_emoji:
  "(\<And>r. rc_emoji (f r) = rc_emoji r) \<Longrightarrow>
     find (\<lambda>r. rc_emoji r = x) (map f rs) = map_option f (find (\<lambda>r. rc_emoji r = x) rs)"
  by (induction rs) auto

lemma find_filter_emoji:
  "find (\<lambda>r. rc_emoji r = x) (filter (\<lambda>r. rc_emoji r \<noteq> e) rs) =
     (if x = e then None else find (\<lambda>r. rc_emoji r = x) rs)"
  by (induction rs) auto

lemma find_append_emoji:
  "find (\<lambda>r. rc_emoji r = x) (rs @ [a]) =
     (case find (\<lambda>r. rc_emoji r = x) rs of Some r \<Rightarrow> Some r
      | None \<Rightarrow> if rc_emoji a = x then Some a else None)"
  by (induction rs) auto

lemma find_emoji: "find (\<lambda>r. rc_emoji r = x) rs = Some r \<Longrightarrow> rc_emoji r = x"
  by (drule find_Some_mem) simp

lemma map_emoji: "(\<And>r. rc_emoji (f r) = rc_emoji r) \<Longrightarrow> map rc_emoji (map f rs) = map rc_emoji rs"
  by simp

lemma distinct_map_filter_emoji:
  "distinct (map rc_emoji rs) \<Longrightarrow> distinct (map rc_emoji (filter P rs))"
  by (simp add: distinct_map_filter)

lemma last_user_left:
  assumes "reaction_ok me r" and "rc_reacted r" and "rc_count r \<le> 1"
  shows "set (rc_users r) = {me}"
proof -
  have "length (rc_users r) \<le> 1" "me \<in> set (rc_users r)"
    using assms by (simp_all add: reaction_ok_def)
  then show ?thesis by (cases "rc_users r") auto
qed

lemma user_removed:
  assumes "reaction_ok me r" and "rc_reacted r" and "\<not> rc_count r \<le> 1"
  shows "reaction_ok me (r\<lparr>rc_count := rc_count r - 1, rc_reacted := False,
    rc_users := filter (\<lambda>u. u \<noteq> me) (rc_users r)\<rparr>)"
proof -
  let ?us = "filter (\<lambda>u. u \<noteq> me) (rc_users r)"
  have m: "me \<in> set (rc_users r)" and d: "distinct (rc_users r)" and c: "rc_count r = int (length (rc_users r))"
    using assms by (auto simp: reaction_ok_def)
  have "?us = remove1 me (rc_users r)"
    using d by (simp add: distinct_remove1_removeAll removeAll_filter_not_eq eq_commute)
  then have "length ?us = length (rc_users r) - 1" using m by (simp add: length_remove1)
  moreover have "length (rc_users r) > 1" using c assms(3) by simp
  ultimately have l: "rc_count r - 1 = int (length ?us)" "?us \<noteq> []" using c by (simp_all flip: length_greater_0_conv)
  then show ?thesis using d by (simp add: reaction_ok_def)
qed

lemma user_added:
  assumes "reaction_ok me r" and "\<not> rc_reacted r"
  shows "reaction_ok me (r\<lparr>rc_count := rc_count r + 1, rc_reacted := True, rc_users := rc_users r @ [me]\<rparr>)"
  using assms by (auto simp: reaction_ok_def)

lemma list_all_filterI: "list_all P xs \<Longrightarrow> list_all P (filter Q xs)"
  by (simp add: list_all_iff)

lemma list_all_update:
  assumes "distinct (map rc_emoji rs)" "find (\<lambda>r. rc_emoji r = e) rs = Some r" "list_all P rs" "P (f r)"
  shows "list_all P (map (\<lambda>r. if rc_emoji r = e then f r else r) rs)"
proof -
  have "x = r" if "x \<in> set rs" "rc_emoji x = e" for x
    using that assms(1) find_Some_mem [OF assms(2)] by (auto simp: distinct_map dest: inj_onD)
  then show ?thesis using assms(3,4) by (auto simp: list_all_iff)
qed

lemma reacted_by_update:
  assumes "find (\<lambda>r. rc_emoji r = e) rs = Some r" and "\<And>y. rc_emoji (f y) = rc_emoji y"
  shows "reacted_by (map (\<lambda>x. if rc_emoji x = e then f x else x) rs) = (reacted_by rs)(e := set (rc_users (f r)))"
proof (rule ext)
  fix x
  let ?g = "\<lambda>x. if rc_emoji x = e then f x else x"
  have m: "find (\<lambda>r. rc_emoji r = x) (map ?g rs) = map_option ?g (find (\<lambda>r. rc_emoji r = x) rs)"
    by (rule find_map_emoji) (simp add: assms(2))
  show "reacted_by (map ?g rs) x = ((reacted_by rs)(e := set (rc_users (f r)))) x"
  proof (cases "x = e")
    case True
    then show ?thesis using assms(1) find_emoji [OF assms(1)] m by (simp add: reacted_by_def)
  next
    case False
    show ?thesis
    proof (cases "find (\<lambda>r. rc_emoji r = x) rs")
      case None
      then show ?thesis using m False by (simp add: reacted_by_def)
    next
      case (Some y)
      have "rc_emoji y = x" by (rule find_emoji [OF Some])
      then show ?thesis using m Some False by (simp add: reacted_by_def)
    qed
  qed
qed

lemma toggle_removes:
  assumes "reactions_ok me rs" "find (\<lambda>r. rc_emoji r = e) rs = Some r" "rc_reacted r"
  shows "reactions_ok me (toggle_reaction me e rs) \<and>
    reacted_by (toggle_reaction me e rs) = (reacted_by rs)(e := reacted_by rs e - {me})"
proof -
  have r: "reaction_ok me r"
    using assms(1) find_Some_mem [OF assms(2)] by (auto simp: reactions_ok_def list_all_iff)
  have d: "distinct (map rc_emoji rs)" and l: "list_all (reaction_ok me) rs"
    using assms(1) by (simp_all add: reactions_ok_def)
  show ?thesis
  proof (cases "rc_count r \<le> 1")
    case True
    then have t: "toggle_reaction me e rs = filter (\<lambda>r. rc_emoji r \<noteq> e) rs"
      using assms(2,3) by (simp add: toggle_reaction_def Let_def)
    have "reacted_by (filter (\<lambda>r. rc_emoji r \<noteq> e) rs) = (reacted_by rs)(e := {})"
      by (rule ext) (simp add: reacted_by_def find_filter_emoji)
    moreover have none: "reacted_by rs e - {me} = {}"
      using last_user_left [OF r assms(3) True] assms(2) by (simp add: reacted_by_def)
    ultimately show ?thesis
      using d l unfolding t none by (simp add: reactions_ok_def distinct_map_filter_emoji list_all_filterI)
  next
    case False
    define f where "f = (\<lambda>r :: reaction. r\<lparr>rc_count := rc_count r - 1, rc_reacted := False,
      rc_users := filter (\<lambda>u. u \<noteq> me) (rc_users r)\<rparr>)"
    let ?g = "\<lambda>x. if rc_emoji x = e then f x else x"
    have e: "rc_emoji (?g x) = rc_emoji x" for x by (simp add: f_def)
    have t: "toggle_reaction me e rs = map ?g rs"
    proof -
      have "toggle_reaction me e rs = map (\<lambda>x. if rc_emoji x = e then x\<lparr>rc_count := rc_count r - 1,
          rc_reacted := False, rc_users := filter (\<lambda>u. u \<noteq> me) (rc_users x)\<rparr> else x) rs"
        using assms(2,3) False by (simp add: toggle_reaction_def Let_def)
      also have "\<dots> = map ?g rs"
      proof (rule map_cong)
        fix x assume "x \<in> set rs"
        then have "x = r" if "rc_emoji x = e"
          using that d find_Some_mem [OF assms(2)] by (auto simp: distinct_map dest: inj_onD)
        then show "(if rc_emoji x = e then x\<lparr>rc_count := rc_count r - 1, rc_reacted := False,
          rc_users := filter (\<lambda>u. u \<noteq> me) (rc_users x)\<rparr> else x) = ?g x" by (auto simp: f_def)
      qed simp
      finally show ?thesis .
    qed
    have "list_all (reaction_ok me) (map ?g rs)"
      by (rule list_all_update [OF d assms(2) l]) (use user_removed [OF r assms(3) False] in \<open>simp add: f_def\<close>)
    moreover have "set (rc_users (f r)) = reacted_by rs e - {me}"
      using assms(2) by (auto simp: reacted_by_def f_def)
    then have "reacted_by (map ?g rs) = (reacted_by rs)(e := reacted_by rs e - {me})"
      using reacted_by_update [OF assms(2), of f] by (simp add: f_def)
    ultimately show ?thesis using t d by (simp add: reactions_ok_def map_emoji [OF e] del: map_map)
  qed
qed

lemma toggle_adds:
  assumes "reactions_ok me rs" "find (\<lambda>r. rc_emoji r = e) rs = Some r" "\<not> rc_reacted r"
  shows "reactions_ok me (toggle_reaction me e rs) \<and>
    reacted_by (toggle_reaction me e rs) = (reacted_by rs)(e := insert me (reacted_by rs e))"
proof -
  have r: "reaction_ok me r"
    using assms(1) find_Some_mem [OF assms(2)] by (auto simp: reactions_ok_def list_all_iff)
  have d: "distinct (map rc_emoji rs)" and l: "list_all (reaction_ok me) rs"
    using assms(1) by (simp_all add: reactions_ok_def)
  define f where "f = (\<lambda>r :: reaction. r\<lparr>rc_count := rc_count r + 1, rc_reacted := True, rc_users := rc_users r @ [me]\<rparr>)"
  let ?g = "\<lambda>x. if rc_emoji x = e then f x else x"
  have e: "rc_emoji (?g x) = rc_emoji x" for x by (simp add: f_def)
  have t: "toggle_reaction me e rs = map ?g rs"
    using assms(2,3) by (simp add: toggle_reaction_def f_def)
  have "list_all (reaction_ok me) (map ?g rs)"
    by (rule list_all_update [OF d assms(2) l]) (use user_added [OF r assms(3)] in \<open>simp add: f_def\<close>)
  moreover have "set (rc_users (f r)) = insert me (reacted_by rs e)"
    using assms(2) by (auto simp: reacted_by_def f_def)
  then have "reacted_by (map ?g rs) = (reacted_by rs)(e := insert me (reacted_by rs e))"
    using reacted_by_update [OF assms(2), of f] by (simp add: f_def)
  ultimately show ?thesis using t d by (simp add: reactions_ok_def map_emoji [OF e] del: map_map)
qed

lemma toggle_first:
  assumes "reactions_ok me rs" "find (\<lambda>r. rc_emoji r = e) rs = None"
  shows "reactions_ok me (toggle_reaction me e rs) \<and>
    reacted_by (toggle_reaction me e rs) = (reacted_by rs)(e := {me})"
proof -
  have "e \<notin> rc_emoji ` set rs" using assms(2) by (auto simp: find_None_iff)
  moreover have "reaction_ok me \<lparr>rc_emoji = e, rc_count = 1, rc_users = [me], rc_reacted = True\<rparr>"
    by (simp add: reaction_ok_def)
  ultimately show ?thesis using assms
    by (auto simp: toggle_reaction_def reactions_ok_def reacted_by_def find_append_emoji fun_eq_iff
        split: option.split)
qed

text \<open>
  C18: Toggling a reaction keeps the list of reactions of a message well-formed (each emoji once, with
  at least one user, its count the number of its users, and marked as reacted exactly when the
  user is one of them) and does to the set of users of each emoji what it should: it adds the
  user to the emoji's users or removes him, and leaves every other emoji alone.
\<close>

theorem reaction_toggled:
  assumes "reactions_ok me rs"
  shows "reactions_ok me (toggle_reaction me e rs) \<and>
    reacted_by (toggle_reaction me e rs) = (reacted_by rs)(e :=
      (if me \<in> reacted_by rs e then reacted_by rs e - {me} else insert me (reacted_by rs e)))"
proof (cases "find (\<lambda>r. rc_emoji r = e) rs")
  case None
  then have "reacted_by rs e = {}" by (simp add: reacted_by_def)
  then show ?thesis using toggle_first [OF assms None] by simp
next
  case (Some r)
  have "rc_reacted r \<longleftrightarrow> me \<in> reacted_by rs e"
    using assms find_Some_mem [OF Some] Some
    by (auto simp: reactions_ok_def list_all_iff reaction_ok_def reacted_by_def)
  then show ?thesis using toggle_removes [OF assms Some] toggle_adds [OF assms Some] by auto
qed

lemma reaction_toggled_witness:
  "let rs = [\<lparr>rc_emoji = ''+1'', rc_count = 2, rc_users = [Some ''ann'', Some ''bob''], rc_reacted = True\<rparr>];
       rs' = toggle_reaction (Some ''bob'') ''+1'' rs
   in reactions_ok (Some ''bob'') rs' \<and> reacted_by rs' = (reacted_by rs)(''+1'' :=
      (if Some ''bob'' \<in> reacted_by rs ''+1'' then reacted_by rs ''+1'' - {Some ''bob''}
       else insert (Some ''bob'') (reacted_by rs ''+1'')))"
  unfolding Let_def by (rule reaction_toggled) (simp add: reactions_ok_def reaction_ok_def)

subsection \<open>Groups of messages\<close>

lemma count_upt_Suc: "length (filter P [0..<Suc m]) = length (filter P [0..<m]) + of_bool (P m)"
  by simp

lemma groups_telescope:
  assumes "m < length ms"
  shows "length (filter (showSender dk me ms) [0..<Suc m]) =
    length (filter (showAvatar dk me ms) [0..<m]) + of_bool (n_sender (ms ! m) \<noteq> me \<and> truthy (n_sender (ms ! m)))"
  using assms
proof (induction m)
  case 0
  then show ?case by (simp add: showSender_def isSameGroupAsPrev_def)
next
  case (Suc m)
  let ?P = "\<lambda>i. n_sender (ms ! i) \<noteq> me \<and> truthy (n_sender (ms ! i))"
  have link: "isSameGroupAsNext dk ms m = isSameGroupAsPrev dk ms (Suc m)"
    using same_group_link [of m ms dk] Suc.prems by simp
  have same: "isSameGroupAsPrev dk ms (Suc m) \<Longrightarrow> ?P (Suc m) = ?P m"
    by (simp add: isSameGroupAsPrev_def Let_def)
  have "length (filter (showSender dk me ms) [0..<Suc (Suc m)]) =
      length (filter (showAvatar dk me ms) [0..<m]) + of_bool (?P m) + of_bool (showSender dk me ms (Suc m))"
    using Suc.IH Suc.prems by (simp only: count_upt_Suc [where m = "Suc m"] Suc_lessD)
  also have "\<dots> = length (filter (showAvatar dk me ms) [0..<m]) + of_bool (showAvatar dk me ms m) + of_bool (?P (Suc m))"
    using link same by (auto simp: showSender_def showAvatar_def)
  finally show ?case by (simp only: count_upt_Suc [where m = m])
qed

text \<open>
  In the shown messages a group ends exactly where the next one begins, and as many groups of
  other users have a name above them as have an avatar beside them.
\<close>

theorem message_groups:
  "let ms = messages maxCount ns; n = length ms in
     map (\<lambda>i. \<not> isSameGroupAsNext dk ms i) [0..<n] =
       (if n = 0 then [] else map (\<lambda>i. \<not> isSameGroupAsPrev dk ms i) [1..<n] @ [True]) \<and>
     length (filter (showSender dk me ms) [0..<n]) = length (filter (showAvatar dk me ms) [0..<n])"
proof -
  define ms where "ms = messages maxCount ns"
  have "map (\<lambda>i. \<not> isSameGroupAsNext dk ms i) [0..<Suc m] =
      map (\<lambda>i. \<not> isSameGroupAsPrev dk ms i) [1..<Suc m] @ [True] \<and>
      length (filter (showSender dk me ms) [0..<Suc m]) = length (filter (showAvatar dk me ms) [0..<Suc m])"
    if m: "length ms = Suc m" for m
  proof -
    have "map (\<lambda>i. \<not> isSameGroupAsNext dk ms i) [0..<m] = map (\<lambda>i. \<not> isSameGroupAsPrev dk ms i) [1..<Suc m]"
    proof -
      have "map (\<lambda>i. \<not> isSameGroupAsPrev dk ms i) [1..<Suc m] = map (\<lambda>i. \<not> isSameGroupAsPrev dk ms (Suc i)) [0..<m]"
        by (simp add: map_Suc_upt [symmetric] del: map_Suc_upt upt_Suc)
      then show ?thesis using m same_group_link [of _ ms dk] by simp
    qed
    moreover have "\<not> isSameGroupAsNext dk ms m" using m by (simp add: isSameGroupAsNext_def)
    moreover have "length (filter (showAvatar dk me ms) [0..<Suc m]) =
      length (filter (showAvatar dk me ms) [0..<m]) + of_bool (n_sender (ms ! m) \<noteq> me \<and> truthy (n_sender (ms ! m)))"
      using \<open>\<not> isSameGroupAsNext dk ms m\<close> by (simp add: showAvatar_def)
    ultimately show ?thesis using groups_telescope [of m ms dk me] m by simp
  qed
  then show ?thesis
    unfolding Let_def ms_def [symmetric] by (cases "length ms") auto
qed

subsection \<open>Who is typing\<close>

text \<open>
  The list shown, the timer of each sender (a plain object), and the pending timers with their
  sender and the time they are due.
\<close>

record typing =
  ty_users :: "string list"
  ty_timers :: "nat js_obj"
  ty_pending :: "(nat \<times> string \<times> int) list"
  ty_next :: nat

definition new_typing :: typing where
  "new_typing = \<lparr>ty_users = [], ty_timers = [], ty_pending = [], ty_next = 1\<rparr>"

definition typing_handler :: "string option \<Rightarrow> string \<Rightarrow> int \<Rightarrow> notification \<Rightarrow> typing \<Rightarrow> typing" where
  "typing_handler me topic now event st =
     (if n_event event \<noteq> ''coop_typing'' then st
      else if n_topic event \<noteq> topic then st
      else case n_sender event of
        None \<Rightarrow> st
      | Some sender \<Rightarrow>
          if sender = [] \<or> Some sender = me then st
          else
            let pending = (case map_of (ty_timers st) sender of
                  Some i \<Rightarrow> filter (\<lambda>p. fst p \<noteq> i) (ty_pending st) | None \<Rightarrow> ty_pending st)
            in \<lparr>ty_users = (if sender \<in> set (ty_users st) then ty_users st else ty_users st @ [sender]),
                ty_timers = obj_set (ty_timers st) sender (ty_next st),
                ty_pending = pending @ [(ty_next st, sender, now + 5000)],
                ty_next = ty_next st + 1\<rparr>)"

definition typing_timeout :: "nat \<times> string \<times> int \<Rightarrow> typing \<Rightarrow> typing" where
  "typing_timeout p st =
     (if p \<notin> set (ty_pending st) then st
      else st\<lparr>ty_users := filter (\<lambda>u. u \<noteq> fst (snd p)) (ty_users st),
              ty_timers := AList.delete (fst (snd p)) (ty_timers st),
              ty_pending := filter (\<lambda>q. fst q \<noteq> fst p) (ty_pending st)\<rparr>)"

text \<open>The effect's clean-up, when the topic changes: the list of users stays.\<close>

definition typing_cleanup :: "typing \<Rightarrow> typing" where
  "typing_cleanup st =
     st\<lparr>ty_timers := [], ty_pending := filter (\<lambda>p. fst p \<notin> snd ` set (ty_timers st)) (ty_pending st)\<rparr>"

inductive typing_step ::
  "(notification \<Rightarrow> bool) \<Rightarrow> string option \<Rightarrow> string \<Rightarrow> int \<times> typing \<Rightarrow> int \<times> typing \<Rightarrow> bool"
  for P me topic where
  event: "P n \<Longrightarrow> now \<le> now' \<Longrightarrow>
    typing_step P me topic (now, st) (now', typing_handler me topic now' n st)"
| timeout: "p \<in> set (ty_pending st) \<Longrightarrow> snd (snd p) \<le> now' \<Longrightarrow> now \<le> now' \<Longrightarrow>
    typing_step P me topic (now, st) (now', typing_timeout p st)"

text \<open>
  What holds between the list and the timers as long as the topic does not change: each listed user
  has a pending timer, due within five seconds, and the object has the timer of each sender (a user
  called \<open>__proto__\<close> has none there).
\<close>

definition typing_ok :: "int \<Rightarrow> typing \<Rightarrow> bool" where
  "typing_ok now st \<longleftrightarrow>
     distinct (ty_users st) \<and> distinct (map fst (ty_pending st)) \<and>
     (\<forall>i s d. (i, s, d) \<in> set (ty_pending st) \<longrightarrow>
        i < ty_next st \<and> d \<le> now + 5000 \<and> (s = ''__proto__'' \<or> map_of (ty_timers st) s = Some i)) \<and>
     (\<forall>s i. map_of (ty_timers st) s = Some i \<longrightarrow> s \<noteq> ''__proto__'' \<and> (\<exists>d. (i, s, d) \<in> set (ty_pending st))) \<and>
     (\<forall>u \<in> set (ty_users st). \<exists>i d. (i, u, d) \<in> set (ty_pending st))"

lemma typing_okI:
  assumes "distinct (ty_users st)" "distinct (map fst (ty_pending st))"
    and "\<And>i s d. (i, s, d) \<in> set (ty_pending st) \<Longrightarrow>
        i < ty_next st \<and> d \<le> now + 5000 \<and> (s = ''__proto__'' \<or> map_of (ty_timers st) s = Some i)"
    and "\<And>s i. map_of (ty_timers st) s = Some i \<Longrightarrow> s \<noteq> ''__proto__'' \<and> (\<exists>d. (i, s, d) \<in> set (ty_pending st))"
    and "\<And>u. u \<in> set (ty_users st) \<Longrightarrow> \<exists>i d. (i, u, d) \<in> set (ty_pending st)"
  shows "typing_ok now st"
  using assms unfolding typing_ok_def by blast

lemma typing_okD:
  assumes "typing_ok now st"
  shows "distinct (ty_users st)" "distinct (map fst (ty_pending st))"
    and "(i, s, d) \<in> set (ty_pending st) \<Longrightarrow>
        i < ty_next st \<and> d \<le> now + 5000 \<and> (s = ''__proto__'' \<or> map_of (ty_timers st) s = Some i)"
    and "map_of (ty_timers st) s = Some i \<Longrightarrow> s \<noteq> ''__proto__'' \<and> (\<exists>d. (i, s, d) \<in> set (ty_pending st))"
    and "u \<in> set (ty_users st) \<Longrightarrow> \<exists>i d. (i, u, d) \<in> set (ty_pending st)"
  using assms unfolding typing_ok_def by blast+

text \<open>The pending timers a new event of a sender leaves: those of the others.\<close>

definition others_pending :: "typing \<Rightarrow> string \<Rightarrow> (nat \<times> string \<times> int) list" where
  "others_pending st sender =
     (case map_of (ty_timers st) sender of
        Some i \<Rightarrow> filter (\<lambda>p. fst p \<noteq> i) (ty_pending st) | None \<Rightarrow> ty_pending st)"

lemma same_timer: "distinct (map fst ps) \<Longrightarrow> p \<in> set ps \<Longrightarrow> q \<in> set ps \<Longrightarrow> fst p = fst q \<Longrightarrow> p = q"
  by (auto simp: distinct_map dest: inj_onD)

lemma others_pending_iff:
  assumes "typing_ok now st"
  shows "(i, s, d) \<in> set (others_pending st sender) \<longleftrightarrow>
    (i, s, d) \<in> set (ty_pending st) \<and> (s \<noteq> sender \<or> s = ''__proto__'')"
proof (cases "map_of (ty_timers st) sender")
  case None
  then show ?thesis using typing_okD(3) [OF assms, of i s d] by (auto simp: others_pending_def)
next
  case (Some j)
  obtain e where j: "sender \<noteq> ''__proto__''" "(j, sender, e) \<in> set (ty_pending st)"
    using typing_okD(4) [OF assms Some] by blast
  have "i \<noteq> j \<longleftrightarrow> s \<noteq> sender" if m: "(i, s, d) \<in> set (ty_pending st)"
  proof
    assume "i \<noteq> j" then show "s \<noteq> sender" using typing_okD(3) [OF assms m] Some j(1) by auto
  next
    assume "s \<noteq> sender" then show "i \<noteq> j" using same_timer [OF typing_okD(2) [OF assms] m j(2)] by auto
  qed
  then show ?thesis using Some j(1) by (auto simp: others_pending_def)
qed

lemma distinct_others_pending:
  "typing_ok now st \<Longrightarrow> distinct (map fst (others_pending st sender))"
  by (auto simp: others_pending_def distinct_map_filter dest: typing_okD(2) split: option.split)

definition typing_seen :: "typing \<Rightarrow> string \<Rightarrow> int \<Rightarrow> typing" where
  "typing_seen st sender now =
     \<lparr>ty_users = (if sender \<in> set (ty_users st) then ty_users st else ty_users st @ [sender]),
      ty_timers = obj_set (ty_timers st) sender (ty_next st),
      ty_pending = others_pending st sender @ [(ty_next st, sender, now + 5000)],
      ty_next = ty_next st + 1\<rparr>"

lemma typing_handler_cases:
  "typing_handler me topic now n st = st \<or>
   (\<exists>s. n_sender n = Some s \<and> typing_handler me topic now n st = typing_seen st s now)"
proof (cases "n_sender n")
  case None
  then show ?thesis by (simp add: typing_handler_def)
next
  case (Some s)
  then have "typing_handler me topic now n st =
      (if n_event n \<noteq> ''coop_typing'' \<or> n_topic n \<noteq> topic \<or> s = [] \<or> Some s = me then st
       else typing_seen st s now)"
    by (simp add: typing_handler_def typing_seen_def others_pending_def Let_def)
  then show ?thesis using Some by (metis (full_types))
qed

lemma typing_ok_later: "typing_ok now st \<Longrightarrow> now \<le> now' \<Longrightarrow> typing_ok now' st"
  unfolding typing_ok_def by (meson add_mono order_refl order_trans)

lemma typing_ok_seen:
  assumes ok: "typing_ok now st"
  shows "typing_ok now (typing_seen st s now)"
proof (rule typing_okI)
  show "distinct (ty_users (typing_seen st s now))"
    using typing_okD(1) [OF ok] by (simp add: typing_seen_def)
  have "ty_next st \<notin> fst ` set (others_pending st s)"
    using others_pending_iff [OF ok] typing_okD(3) [OF ok] by fastforce
  then show "distinct (map fst (ty_pending (typing_seen st s now)))"
    using distinct_others_pending [OF ok] by (simp add: typing_seen_def)
next
  fix i t d assume "(i, t, d) \<in> set (ty_pending (typing_seen st s now))"
  then consider "i = ty_next st" "t = s" "d = now + 5000" | "(i, t, d) \<in> set (others_pending st s)"
    by (auto simp: typing_seen_def)
  then show "i < ty_next (typing_seen st s now) \<and> d \<le> now + 5000 \<and>
      (t = ''__proto__'' \<or> map_of (ty_timers (typing_seen st s now)) t = Some i)"
  proof cases
    case 1 then show ?thesis by (simp add: typing_seen_def)
  next
    case 2
    then have m: "(i, t, d) \<in> set (ty_pending st)" and "t \<noteq> s \<or> t = ''__proto__''"
      using others_pending_iff [OF ok] by auto
    then show ?thesis using typing_okD(3) [OF ok m] by (auto simp: typing_seen_def)
  qed
next
  fix t i assume t: "map_of (ty_timers (typing_seen st s now)) t = Some i"
  have "map_of (ty_timers (typing_seen st s now)) t =
      (if s \<noteq> ''__proto__'' \<and> t = s then Some (ty_next st) else map_of (ty_timers st) t)"
    by (simp add: typing_seen_def)
  with t consider "t = s" "i = ty_next st" "s \<noteq> ''__proto__''" | "map_of (ty_timers st) t = Some i" "t \<noteq> s \<or> s = ''__proto__''"
    by (cases "s \<noteq> ''__proto__'' \<and> t = s") auto
  then show "t \<noteq> ''__proto__'' \<and> (\<exists>d. (i, t, d) \<in> set (ty_pending (typing_seen st s now)))"
  proof cases
    case 1 then show ?thesis by (auto simp: typing_seen_def)
  next
    case 2
    obtain d where "t \<noteq> ''__proto__''" "(i, t, d) \<in> set (ty_pending st)"
      using typing_okD(4) [OF ok 2(1)] by blast
    moreover have "t \<noteq> s" using 2(2) \<open>t \<noteq> ''__proto__''\<close> by auto
    ultimately have "t \<noteq> ''__proto__'' \<and> (i, t, d) \<in> set (others_pending st s)"
      using others_pending_iff [OF ok, of i t d s] by simp
    then show ?thesis by (auto simp: typing_seen_def)
  qed
next
  fix u assume "u \<in> set (ty_users (typing_seen st s now))"
  then consider "u = s" | "u \<in> set (ty_users st)" "u \<noteq> s" by (auto simp: typing_seen_def split: if_splits)
  then show "\<exists>i d. (i, u, d) \<in> set (ty_pending (typing_seen st s now))"
  proof cases
    case 1 then show ?thesis by (auto simp: typing_seen_def)
  next
    case 2
    obtain i d where "(i, u, d) \<in> set (ty_pending st)" using typing_okD(5) [OF ok 2(1)] by blast
    then have "(i, u, d) \<in> set (others_pending st s)" using others_pending_iff [OF ok, of i u d s] 2(2) by simp
    then show ?thesis by (auto simp: typing_seen_def)
  qed
qed

lemma typing_ok_timeout:
  assumes ok: "typing_ok now st" and p: "p \<in> set (ty_pending st)"
  shows "typing_ok now (typing_timeout p st)"
proof -
  obtain j v e where pe: "p = (j, v, e)" by (cases p)
  let ?st = "typing_timeout p st"
  have u: "ty_users ?st = filter (\<lambda>u. u \<noteq> v) (ty_users st)"
    and t: "ty_timers ?st = AList.delete v (ty_timers st)"
    and q: "ty_pending ?st = filter (\<lambda>q. fst q \<noteq> j) (ty_pending st)"
    and n: "ty_next ?st = ty_next st"
    using p pe by (simp_all add: typing_timeout_def)
  have only: "s = ''__proto__'' \<or> s \<noteq> v" if m: "(i, s, d) \<in> set (ty_pending st)" and i: "i \<noteq> j" for i s d
    using typing_okD(3) [OF ok m] typing_okD(3) [OF ok p [unfolded pe]] i by auto
  show ?thesis
  proof (rule typing_okI)
    show "distinct (ty_users ?st)" using typing_okD(1) [OF ok] u by simp
    show "distinct (map fst (ty_pending ?st))" using typing_okD(2) [OF ok] q by (simp add: distinct_map_filter)
  next
    fix i s d assume "(i, s, d) \<in> set (ty_pending ?st)"
    then have m: "(i, s, d) \<in> set (ty_pending st)" and i: "i \<noteq> j" using q by auto
    show "i < ty_next ?st \<and> d \<le> now + 5000 \<and> (s = ''__proto__'' \<or> map_of (ty_timers ?st) s = Some i)"
      using typing_okD(3) [OF ok m] only [OF m i] n t by (auto simp: delete_conv')
  next
    fix s i assume "map_of (ty_timers ?st) s = Some i"
    then have m: "map_of (ty_timers st) s = Some i" and s: "s \<noteq> v"
      using t by (auto simp: delete_conv' split: if_splits)
    obtain d where d: "s \<noteq> ''__proto__''" "(i, s, d) \<in> set (ty_pending st)" using typing_okD(4) [OF ok m] by blast
    have "i \<noteq> j" using same_timer [OF typing_okD(2) [OF ok] d(2) p [unfolded pe]] s by auto
    then show "s \<noteq> ''__proto__'' \<and> (\<exists>d. (i, s, d) \<in> set (ty_pending ?st))" using d q by auto
  next
    fix w assume "w \<in> set (ty_users ?st)"
    then have w: "w \<in> set (ty_users st)" "w \<noteq> v" using u by auto
    obtain i d where m: "(i, w, d) \<in> set (ty_pending st)" using typing_okD(5) [OF ok w(1)] by blast
    have "i \<noteq> j" using same_timer [OF typing_okD(2) [OF ok] m p [unfolded pe]] w(2) by auto
    then show "\<exists>i d. (i, w, d) \<in> set (ty_pending ?st)" using m q by auto
  qed
qed

lemma typing_ok_step: "typing_step P me topic a b \<Longrightarrow> typing_ok (fst a) (snd a) \<Longrightarrow> typing_ok (fst b) (snd b)"
proof (induction rule: typing_step.induct)
  case (event n now now' st)
  then have ok: "typing_ok now' st" using typing_ok_later by simp
  then show ?case using typing_handler_cases [of me topic now' n st] typing_ok_seen by auto
next
  case (timeout p st now' now)
  then show ?case using typing_ok_later [of now st now'] typing_ok_timeout by simp
qed

lemma typing_ok_run: "(typing_step P me topic)\<^sup>*\<^sup>* a b \<Longrightarrow> typing_ok (fst a) (snd a) \<Longrightarrow> typing_ok (fst b) (snd b)"
  by (induction rule: rtranclp_induct) (blast intro: typing_ok_step)+

lemma typing_ok_new: "typing_ok now new_typing"
  by (simp add: typing_ok_def new_typing_def)

lemma timeouts_remove:
  "distinct (map fst ps) \<Longrightarrow> set ps \<subseteq> set (ty_pending st) \<Longrightarrow>
     ty_users (fold typing_timeout ps st) = filter (\<lambda>u. u \<notin> (fst \<circ> snd) ` set ps) (ty_users st)"
proof (induction ps arbitrary: st)
  case Nil
  then show ?case by simp
next
  case (Cons p ps)
  have "ty_pending (typing_timeout p st) = filter (\<lambda>q. fst q \<noteq> fst p) (ty_pending st)"
    and u: "ty_users (typing_timeout p st) = filter (\<lambda>u. u \<noteq> fst (snd p)) (ty_users st)"
    using Cons.prems by (simp_all add: typing_timeout_def)
  moreover have "fst p \<notin> fst ` set ps" using Cons.prems(1) by simp
  ultimately have "set ps \<subseteq> set (ty_pending (typing_timeout p st))"
    using Cons.prems(2) by (auto simp: image_iff)
  then show ?case using Cons u by (simp add: conj_commute)
qed

text \<open>
  C21: From an empty list, after any sequence of typing events and timeouts in one topic, each user
  is listed once, every pending timer is due within five seconds, and once the pending timers have
  run nobody is listed any more.
\<close>

theorem typing_expires:
  assumes "(typing_step (\<lambda>_. True) me topic)\<^sup>*\<^sup>* (t, new_typing) (now, st)"
  shows "distinct (ty_users st) \<and> list_all (\<lambda>p. snd (snd p) \<le> now + 5000) (ty_pending st) \<and>
    ty_users (fold typing_timeout (ty_pending st) st) = []"
proof -
  have ok: "typing_ok now st" using typing_ok_run [OF assms] typing_ok_new by simp
  have "ty_users (fold typing_timeout (ty_pending st) st) =
      filter (\<lambda>u. u \<notin> (fst \<circ> snd) ` set (ty_pending st)) (ty_users st)"
    by (rule timeouts_remove) (use typing_okD(2) [OF ok] in auto)
  also have "\<dots> = []" using typing_okD(5) [OF ok] by (force simp: filter_empty_conv)
  finally show ?thesis using typing_okD(1,3) [OF ok] by (force simp: list_all_iff)
qed

definition typing_message :: "string \<Rightarrow> string \<Rightarrow> notification" where
  "typing_message topic sender =
     (plain_message ''i'' 1 ''coop_typing'')\<lparr>n_topic := topic, n_sender := Some sender\<rparr>"

lemma typing_expires_witness:
  "let st = typing_handler (Some ''ann'') ''room'' 7 (typing_message ''room'' ''bob'') new_typing
   in distinct (ty_users st) \<and> list_all (\<lambda>p. snd (snd p) \<le> 7 + 5000) (ty_pending st) \<and>
    ty_users (fold typing_timeout (ty_pending st) st) = []"
  unfolding Let_def
proof (rule typing_expires)
  show "(typing_step (\<lambda>_. True) (Some ''ann'') ''room'')\<^sup>*\<^sup>* (0, new_typing)
    (7, typing_handler (Some ''ann'') ''room'' 7 (typing_message ''room'' ''bob'') new_typing)"
    by (rule r_into_rtranclp) (rule typing_step.event; simp)
qed

text \<open>No timer of the sender \<open>u\<close> is pending: only a new event of that sender makes one.\<close>

lemma no_timer_stays:
  assumes "(typing_step (\<lambda>n. n_sender n \<noteq> Some u) me topic)\<^sup>*\<^sup>* a b"
    and "u \<in> set (ty_users (snd a))" and "u \<notin> (fst \<circ> snd) ` set (ty_pending (snd a))"
  shows "u \<in> set (ty_users (snd b)) \<and> u \<notin> (fst \<circ> snd) ` set (ty_pending (snd b))"
  using assms
proof (induction rule: rtranclp_induct)
  case (step b c)
  from step.hyps(2) step.IH step.prems show ?case
  proof (induction rule: typing_step.induct)
    case (event n now now' st)
    have sub: "set (others_pending st s) \<subseteq> set (ty_pending st)" for s
      by (auto simp: others_pending_def split: option.split)
    show ?case using typing_handler_cases [of me topic now' n st] event sub by (fastforce simp: typing_seen_def)
  next
    case (timeout p st now' now)
    then show ?case by (auto simp: typing_timeout_def)
  qed
qed simp

text \<open>
  When the view changes to another topic while a user is typing, the timers are cleared but
  the list is not: the user stays listed in the new topic until he types there himself.
\<close>

theorem typing_user_stuck:
  assumes "(typing_step (\<lambda>_. True) me topic)\<^sup>*\<^sup>* (t, new_typing) (now, st)"
    and "u \<in> set (ty_users st)" and "u \<noteq> ''__proto__''"
    and "(typing_step (\<lambda>n. n_sender n \<noteq> Some u) me topic')\<^sup>*\<^sup>* (now, typing_cleanup st) (now', st')"
  shows "u \<in> set (ty_users st')"
proof -
  have ok: "typing_ok now st" using typing_ok_run [OF assms(1)] typing_ok_new by simp
  have "i \<in> snd ` set (ty_timers st)" if "(i, u, d) \<in> set (ty_pending st)" for i d
    using typing_okD(3) [OF ok that] assms(3) by (force dest: map_of_SomeD)
  then have "u \<notin> (fst \<circ> snd) ` set (ty_pending (typing_cleanup st))"
    by (auto simp: typing_cleanup_def)
  then show ?thesis using no_timer_stays [OF assms(4)] assms(2) by (simp add: typing_cleanup_def)
qed

lemma typing_user_stuck_witness:
  "let st = typing_handler (Some ''ann'') ''room'' 7 (typing_message ''room'' ''bob'') new_typing
   in ''bob'' \<in> set (ty_users (typing_handler (Some ''ann'') ''other'' 9000 (typing_message ''other'' ''cat'') (typing_cleanup st)))"
  unfolding Let_def
proof (rule typing_user_stuck)
  let ?st = "typing_handler (Some ''ann'') ''room'' 7 (typing_message ''room'' ''bob'') new_typing"
  show "(typing_step (\<lambda>_. True) (Some ''ann'') ''room'')\<^sup>*\<^sup>* (0, new_typing) (7, ?st)"
    by (rule r_into_rtranclp) (rule typing_step.event; simp)
  show "''bob'' \<in> set (ty_users ?st)"
    by (simp add: typing_handler_def typing_message_def plain_message_def new_typing_def)
  show "''bob'' \<noteq> ''__proto__''" by simp
  show "(typing_step (\<lambda>n. n_sender n \<noteq> Some ''bob'') (Some ''ann'') ''other'')\<^sup>*\<^sup>* (7, typing_cleanup ?st)
    (9000, typing_handler (Some ''ann'') ''other'' 9000 (typing_message ''other'' ''cat'') (typing_cleanup ?st))"
    by (rule r_into_rtranclp) (rule typing_step.event; simp add: typing_message_def)
qed

subsection \<open>Scrolling to new messages\<close>

text \<open>
  The references of the effect: whether the view was near its end, the number of messages at the
  last run, and the dependency \<open>[messages.length]\<close> of the last run (the effect runs only when it
  changes); and whether the button for new messages is shown.
\<close>

record scroll =
  sc_nearBottom :: bool
  sc_prevCount :: nat
  sc_button :: bool
  sc_deps :: "nat option"

definition new_scroll :: scroll where
  "new_scroll = \<lparr>sc_nearBottom = True, sc_prevCount = 0, sc_button = False, sc_deps = None\<rparr>"

definition SCROLL_THRESHOLD :: int where "SCROLL_THRESHOLD = 150"

text \<open>\<open>isNearBottom\<close> on \<open>(scrollHeight, scrollTop, clientHeight)\<close> of the container, if there is one.\<close>

definition isNearBottom :: "(int \<times> int \<times> int) option \<Rightarrow> bool" where
  "isNearBottom container =
     (case container of None \<Rightarrow> True | Some (scrollHeight, scrollTop, clientHeight) \<Rightarrow> scrollHeight - scrollTop - clientHeight < SCROLL_THRESHOLD)"

definition handleScroll :: "(int \<times> int \<times> int) option \<Rightarrow> scroll \<Rightarrow> scroll" where
  "handleScroll container st =
     (if container = None then st
      else let near = isNearBottom container
           in st\<lparr>sc_nearBottom := near, sc_button := sc_button st \<and> \<not> near\<rparr>)"

definition scrollToBottom :: "scroll \<Rightarrow> scroll" where
  "scrollToBottom st = st\<lparr>sc_button := False\<rparr>"

text \<open>The effect on rendering \<open>ms\<close>, with whether it scrolls to the end.\<close>

definition scroll_effect :: "string option \<Rightarrow> notification list \<Rightarrow> scroll \<Rightarrow> scroll \<times> bool" where
  "scroll_effect me ms st0 =
     (if sc_deps st0 = Some (length ms) then (st0, False)
      else let st = st0\<lparr>sc_deps := Some (length ms)\<rparr> in
        if ms = [] then (st, False)
        else let st' = st\<lparr>sc_prevCount := length ms\<rparr> in
          if length ms \<le> sc_prevCount st then (st', False)
          else let isOwnMessage = (n_sender (last ms) \<noteq> None \<and> n_sender (last ms) = me) in
            if isOwnMessage \<or> sc_nearBottom st' then (st', True)
            else (st'\<lparr>sc_button := True\<rparr>, False))"

text \<open>\<open>handleReply\<close>: what the message field quotes.\<close>

definition handleReply :: "notification \<Rightarrow> string \<times> string \<times> string" where
  "handleReply n = (n_id n, js_substring 0 100 (coalesce (n_message n) []), coalesce (n_sender n) [])"

lemma messages_snoc:
  assumes "n_event n = ''message'' \<or> n_event n = ''coop_nudge''" and "length (allMessages ns) < k"
  shows "messages k (n # ns) = messages k ns @ [n]"
  using assms by (auto simp: messages_def allMessages_def Let_def)

lemma messages_capped:
  assumes "n_event n = ''message'' \<or> n_event n = ''coop_nudge''" and "length (allMessages ns) \<ge> k" and "k > 0"
  shows "messages k (n # ns) = rev (n # take (k - 1) (allMessages ns))" and "length (messages k ns) = k"
    and "length (messages k (n # ns)) = k"
  using assms by (auto simp: messages_def allMessages_def Let_def take_Cons')

text \<open>
  A new message that the view renders after the former ones is scrolled to, or announced with
  the button, as long as fewer messages are stored than the view shows at most; from then on, as
  the number shown no longer changes, a new message is shown but neither scrolled to nor announced.
\<close>

theorem new_message_noticed:
  assumes "n_event n = ''message'' \<or> n_event n = ''coop_nudge''" and "k > 0"
    and "sc_deps st = Some (length (messages k ns))" and "sc_prevCount st = length (messages k ns)"
  shows "let (st', scrolled) = scroll_effect me (messages k (n # ns)) st in
    last (messages k (n # ns)) = n \<and>
    (if length (allMessages ns) < k
     then scrolled = ((n_sender n \<noteq> None \<and> n_sender n = me) \<or> sc_nearBottom st) \<and> (scrolled \<or> sc_button st')
     else \<not> scrolled \<and> st' = st)"
proof (cases "length (allMessages ns) < k")
  case True
  then show ?thesis using assms messages_snoc [OF assms(1) True]
    by (simp add: scroll_effect_def Let_def)
next
  case False
  then have "k \<le> length (allMessages ns)" by simp
  note c = messages_capped [OF assms(1) this assms(2)]
  have "scroll_effect me (messages k (n # ns)) st = (st, False)"
    using assms(3) c(2,3) by (simp add: scroll_effect_def)
  moreover have "last (messages k (n # ns)) = n" by (simp add: c(1))
  ultimately show ?thesis using False by simp
qed

lemma new_message_noticed_witness:
  "let (st', scrolled) = scroll_effect None
       (messages 1 (plain_message ''n'' 6 ''message'' # [plain_message ''m'' 5 ''message'']))
       (new_scroll\<lparr>sc_deps := Some 1, sc_prevCount := 1\<rparr>)
   in \<not> scrolled \<and> st' = new_scroll\<lparr>sc_deps := Some 1, sc_prevCount := 1\<rparr>"
  using new_message_noticed [where n = "plain_message ''n'' 6 ''message''" and k = 1
      and st = "new_scroll\<lparr>sc_deps := Some 1, sc_prevCount := 1\<rparr>"
      and ns = "[plain_message ''m'' 5 ''message'']" and me = None]
  by (simp add: plain_message_def messages_def allMessages_def case_prod_beta Let_def)

end
