(* ===== verification/Browser.thy ===== *)
theory Browser
  imports Notifier
begin

section \<open>Browser-facing helpers (app/utils.js, app/Notifier.js, app/Api.js, registerSW.js)\<close>

text \<open>
  The parts of the client that prepare data for the browser or ask it for something: the decoding
  of the Web Push key, the texts of numbers and prices, opening pages and copying texts, the sounds,
  the icon with the dot for unread messages, the permission dialog, an upload with progress, and
  the hourly update of the service worker. What the browser answers is an argument, what the code
  asks for is listed.
\<close>

subsection \<open>urlB64ToUint8Array\<close>

text \<open>\<open>window.atob\<close>: the value of a digit, the bytes of the digits, and the forgiving decoding.\<close>

definition b64_value :: "char \<Rightarrow> nat option" where
  "b64_value c =
     (let n = of_char c :: nat
      in if 65 \<le> n \<and> n \<le> 90 then Some (n - 65)
         else if 97 \<le> n \<and> n \<le> 122 then Some (n - 71)
         else if 48 \<le> n \<and> n \<le> 57 then Some (n + 4)
         else if c = CHR ''+'' then Some 62
         else if c = CHR ''/'' then Some 63 else None)"

fun b64_bytes :: "nat list \<Rightarrow> nat list" where
  "b64_bytes (a # b # c # d # r) =
     [a * 4 + b div 16, (b mod 16) * 16 + c div 4, (c mod 4) * 64 + d] @ b64_bytes r"
| "b64_bytes [a, b, c] = [a * 4 + b div 16, (b mod 16) * 16 + c div 4]"
| "b64_bytes [a, b] = [a * 4 + b div 16]"
| "b64_bytes _ = []"

definition b64_unpad :: "string \<Rightarrow> string" where
  "b64_unpad s =
     (if length s mod 4 \<noteq> 0 then s
      else if ends_with s ''=='' then take (length s - 2) s
      else if ends_with s ''='' then take (length s - 1) s else s)"

definition atob :: "string \<Rightarrow> nat list option" where
  "atob s =
     (let t = b64_unpad (filter (\<lambda>c. (of_char c :: nat) \<notin> {9, 10, 12, 13, 32}) s);
          vs = map b64_value t
      in if length t mod 4 = 1 \<or> None \<in> set vs then None else Some (b64_bytes (map the vs)))"

definition urlB64ToUint8Array :: "string \<Rightarrow> 8 word list option" where
  "urlB64ToUint8Array base64String =
     (let padding = replicate ((4 - length base64String mod 4) mod 4) CHR ''='';
          base64 = map (\<lambda>c. if c = CHR ''_'' then CHR ''/'' else c)
            (map (\<lambda>c. if c = CHR ''-'' then CHR ''+'' else c) (base64String @ padding))
      in map_option (map of_nat) (atob base64))"

subsection \<open>The encoding it inverts\<close>

text \<open>Base64 for addresses without padding (RFC 4648, section 5), as Web Push keys are written.\<close>

fun b64_digits :: "nat list \<Rightarrow> nat list" where
  "b64_digits (x # y # z # r) =
     [x div 4, (x mod 4) * 16 + y div 16, (y mod 16) * 4 + z div 64, z mod 64] @ b64_digits r"
| "b64_digits [x, y] = [x div 4, (x mod 4) * 16 + y div 16, (y mod 16) * 4]"
| "b64_digits [x] = [x div 4, (x mod 4) * 16]"
| "b64_digits [] = []"

definition b64url_alphabet :: string where
  "b64url_alphabet = ''ABCDEFGHIJKLMNOPQRSTUVWXYZabcdefghijklmnopqrstuvwxyz0123456789-_''"

definition b64url_encode :: "8 word list \<Rightarrow> string" where
  "b64url_encode ws = map (\<lambda>d. b64url_alphabet ! d) (b64_digits (map unat ws))"

lemma b64_parts: "(x::nat) < 256 \<Longrightarrow> x div 4 < 64" "(x::nat) < 256 \<Longrightarrow> x div 16 < 16"
    "(x::nat) < 256 \<Longrightarrow> x div 64 < 4" "(x::nat) mod 4 < 4" "(x::nat) mod 16 < 16" "(x::nat) mod 64 < 64"
  by (simp_all add: less_mult_imp_div_less)

lemma b64_join: "(v::nat) < 16 \<Longrightarrow> x mod 4 * 16 + v < 64" "(v::nat) < 4 \<Longrightarrow> x mod 16 * 4 + v < 64"
  using b64_parts(4,5) [of x] by linarith+

lemma b64_digits_less: "list_all (\<lambda>x. x < 256) xs \<Longrightarrow> list_all (\<lambda>d. d < 64) (b64_digits xs)"
proof (induction xs rule: b64_digits.induct)
  case (1 x y z r)
  then show ?case using b64_parts [of x] b64_parts [of y] b64_parts [of z] by (simp add: b64_join)
next
  case (2 x y)
  then show ?case using b64_parts [of x] b64_parts [of y] by simp
next
  case (3 x)
  then show ?case using b64_parts [of x] by simp
qed simp

lemma b64_bytes_digits: "list_all (\<lambda>x. x < 256) xs \<Longrightarrow> b64_bytes (b64_digits xs) = xs"
proof (induction xs rule: b64_digits.induct)
  case (1 x y z r)
  then show ?case using b64_parts [of y] b64_parts [of z] by simp
next
  case (2 x y)
  then show ?case using b64_parts [of y] by simp
qed simp_all

lemma b64_digits_length: "length (b64_digits xs) mod 4 \<noteq> 1"
  by (induction xs rule: b64_digits.induct) auto

text \<open>A digit of the address alphabet becomes one of the standard alphabet, with its value.\<close>

definition std_char :: "char \<Rightarrow> char" where
  "std_char c = (let c' = if c = CHR ''-'' then CHR ''+'' else c in if c' = CHR ''_'' then CHR ''/'' else c')"

lemma alphabet_values:
  assumes "d < 64"
  shows "b64_value (std_char (b64url_alphabet ! d)) = Some d \<and> std_char (b64url_alphabet ! d) \<noteq> CHR ''='' \<and>
    (of_char (std_char (b64url_alphabet ! d)) :: nat) \<notin> {9, 10, 12, 13, 32}"
proof -
  have "\<forall>d \<in> set [0..<64]. b64_value (std_char (b64url_alphabet ! d)) = Some d \<and>
      std_char (b64url_alphabet ! d) \<noteq> CHR ''='' \<and>
      (of_char (std_char (b64url_alphabet ! d)) :: nat) \<notin> {9, 10, 12, 13, 32}"
    by (simp add: b64url_alphabet_def std_char_def b64_value_def Let_def upt_conv_Cons del: upt_Suc set_upt)
  then show ?thesis using assms by simp
qed

lemma pad_length:
  assumes "(m::nat) mod 4 \<noteq> 1"
  shows "(4 - m mod 4) mod 4 \<le> 2 \<and> (m + (4 - m mod 4) mod 4) mod 4 = 0"
proof -
  have "m mod 4 < 4" by simp
  then consider "m mod 4 = 0" | "m mod 4 = 2" | "m mod 4 = 3" using assms by linarith
  then show ?thesis by cases (simp; presburger?)+
qed

lemma ends_with_replicate:
  assumes "CHR ''='' \<notin> set s" and "(length s + n) mod 4 = 0" and "n \<le> 2"
  shows "b64_unpad (s @ replicate n CHR ''='') = s"
proof -
  consider "n = 0" | "n = 1" | "n = 2" using assms(3) by linarith
  then show ?thesis
  proof cases
    case 1
    then show ?thesis using assms
      by (cases s rule: rev_cases) (auto simp: b64_unpad_def ends_with_def starts_with_def)
  next
    case 2
    then show ?thesis using assms
      by (cases s rule: rev_cases) (auto simp: b64_unpad_def ends_with_def starts_with_def)
  next
    case 3
    then show ?thesis using assms
      by (simp add: b64_unpad_def ends_with_def starts_with_def numeral_2_eq_2)
  qed
qed

lemma atob_digits:
  assumes "b64_unpad (filter (\<lambda>c. (of_char c :: nat) \<notin> {9, 10, 12, 13, 32}) s) = t"
    and "map b64_value t = map Some ds" and "length ds mod 4 \<noteq> 1"
  shows "atob s = Some (b64_bytes ds)"
proof -
  have "length t = length ds" using arg_cong [OF assms(2), of length] by simp
  moreover have "map the (map b64_value t) = ds" "None \<notin> set (map b64_value t)"
    unfolding assms(2) by (auto simp: comp_def)
  ultimately show ?thesis unfolding atob_def assms(1) Let_def using assms(3) by simp
qed

text \<open>
  Decoding a Web Push key gives back the bytes it was written from, whatever their number.
\<close>

theorem push_key_round_trip: "urlB64ToUint8Array (b64url_encode ws) = Some ws"
proof -
  let ?xs = "map unat ws" and ?ds = "b64_digits (map unat ws)"
  have "unat w < 256" for w :: "8 word" using unsigned_less [of w] by simp
  then have xs: "list_all (\<lambda>x. x < 256) ?xs" by (simp add: list_all_iff)
  have ds: "list_all (\<lambda>d. d < 64) ?ds" by (rule b64_digits_less [OF xs])
  let ?n = "(4 - length ?ds mod 4) mod 4"
  let ?t = "map (\<lambda>d. std_char (b64url_alphabet ! d)) ?ds"
  have n: "?n \<le> 2" "(length ?t + ?n) mod 4 = 0" using pad_length [OF b64_digits_length [of ?xs]] by simp_all
  have val: "b64_value (std_char (b64url_alphabet ! d)) = Some d" "std_char (b64url_alphabet ! d) \<noteq> CHR ''=''"
    "(of_char (std_char (b64url_alphabet ! d)) :: nat) \<notin> {9, 10, 12, 13, 32}" if "d \<in> set ?ds" for d
    using alphabet_values [of d] ds that unfolding list_all_iff by blast+
  have eqs: "CHR ''='' \<notin> set ?t" "map b64_value ?t = map Some ?ds"
    using val(1,2) by force+
  have eq2: "filter (\<lambda>c. (of_char c :: nat) \<notin> {9, 10, 12, 13, 32}) ?t = ?t"
    by (rule filter_True) (use val(3) in fastforce)
  have base: "map (\<lambda>c. if c = CHR ''_'' then CHR ''/'' else c) (map (\<lambda>c. if c = CHR ''-'' then CHR ''+'' else c)
      (b64url_encode ws @ replicate ?n CHR ''='')) = ?t @ replicate ?n CHR ''=''"
    by (auto simp: b64url_encode_def std_char_def)
  have "filter (\<lambda>c. (of_char c :: nat) \<notin> {9, 10, 12, 13, 32}) (?t @ replicate ?n CHR ''='') = ?t @ replicate ?n CHR ''=''"
    unfolding filter_append eq2 by simp
  then have "b64_unpad (filter (\<lambda>c. (of_char c :: nat) \<notin> {9, 10, 12, 13, 32}) (?t @ replicate ?n CHR ''='')) = ?t"
    using ends_with_replicate [OF eqs(1) n(2,1)] by (simp only:)
  then have "atob (?t @ replicate ?n CHR ''='') = Some (b64_bytes ?ds)"
    by (rule atob_digits [OF _ eqs(2) b64_digits_length])
  moreover have "length (b64url_encode ws) = length ?ds" by (simp add: b64url_encode_def)
  moreover have "map of_nat ?xs = ws" by (simp add: comp_def)
  ultimately show ?thesis
    unfolding urlB64ToUint8Array_def Let_def using base b64_bytes_digits [OF xs] by (simp only: option.map)
qed

subsection \<open>Texts of dates, numbers and prices\<close>

text \<open>The browser's formatting of a date, a number and a fraction is an argument.\<close>

definition formatShortDateTime :: "(string \<Rightarrow> int \<Rightarrow> string) \<Rightarrow> int \<Rightarrow> string \<Rightarrow> string" where
  "formatShortDateTime short_date_time timestamp language =
     short_date_time (getKebabCaseLangStr language) (timestamp * 1000)"

definition formatShortDate :: "(string \<Rightarrow> int \<Rightarrow> string) \<Rightarrow> int \<Rightarrow> string \<Rightarrow> string" where
  "formatShortDate short_date timestamp language =
     short_date (getKebabCaseLangStr language) (timestamp * 1000)"

text \<open>Zero is returned as the number, and is shown as its digit.\<close>

definition formatNumber :: "(int \<Rightarrow> string) \<Rightarrow> int \<Rightarrow> string" where
  "formatNumber toLocaleString n =
     (if n = 0 then ''0''
      else if n mod 1000 = 0 then int_str (n div 1000) @ ''k'' else toLocaleString n)"

text \<open>\<open>toPrecision2 n\<close> is \<open>(n / 100).toPrecision(2)\<close>.\<close>

definition formatPrice :: "(int \<Rightarrow> string) \<Rightarrow> int \<Rightarrow> string" where
  "formatPrice toPrecision2 n =
     (if n mod 100 = 0 then ''$'' @ int_str (n div 100) else ''$'' @ toPrecision2 n)"

subsection \<open>Pages, the clipboard and sounds\<close>

datatype page_call =
    OpenWindow string string string
  | ClipboardWrite string
  | AddTextarea string
  | SelectTextarea
  | ExecCommandCopy
  | RemoveTextarea

definition openUrl :: "string \<Rightarrow> page_call list" where
  "openUrl url = [OpenWindow url ''_blank'' ''noopener,noreferrer'']"

definition copyToClipboard :: "bool \<Rightarrow> bool \<Rightarrow> string \<Rightarrow> page_call list" where
  "copyToClipboard has_clipboard secure text =
     (if has_clipboard \<and> secure then [ClipboardWrite text]
      else [AddTextarea text, SelectTextarea, ExecCommandCopy, RemoveTextarea])"

text \<open>The file and the label of each sound.\<close>

definition sounds :: "(string \<times> string \<times> string) list" where
  "sounds =
     [(''ding'', ''ding'', ''Ding''), (''juntos'', ''juntos'', ''Juntos''),
      (''pristine'', ''pristine'', ''Pristine''), (''dadum'', ''dadum'', ''Dadum''),
      (''pop'', ''pop'', ''Pop''), (''pop-swoosh'', ''popSwoosh'', ''Pop swoosh''),
      (''beep'', ''beep'', ''Beep'')]"

text \<open>
  The file played; an unknown name throws, the name of an inherited property plays an element
  without a source.
\<close>

definition playSound :: "string \<Rightarrow> app_error + string option" where
  "playSound i =
     (case map_of sounds i of
        Some (file, _) \<Rightarrow> Inr (Some file)
      | None \<Rightarrow> if inherited i then Inr None else Inl TypeError)"

subsection \<open>The icon\<close>

datatype draw =
    ClearRect nat
  | DrawImage nat
  | EraseDot nat nat nat
  | FillDot nat nat nat string

record favicon =
  fav_icon :: bool
  fav_canvas :: bool
  fav_href :: "draw list option"

text \<open>\<open>loads\<close>: the image loads when it is asked for, which happens only while none is kept.\<close>

definition loadFaviconIcon :: "bool \<Rightarrow> favicon \<Rightarrow> favicon \<times> bool" where
  "loadFaviconIcon loads st =
     (if fav_icon st then (st, True) else if loads then (st\<lparr>fav_icon := True\<rparr>, True) else (st, False))"

definition updateFavicon :: "bool \<Rightarrow> bool \<Rightarrow> int \<Rightarrow> favicon \<Rightarrow> favicon" where
  "updateFavicon loads has_link unread st =
     (let sz = 32; (st, img) = loadFaviconIcon loads st
      in if \<not> img then st
         else
           let dotRadius = 5; borderWidth = 2;
               dotX = sz - dotRadius - borderWidth + 1; dotY = sz - dotRadius - borderWidth + 1;
               drawn = [ClearRect sz, DrawImage sz] @
                 (if unread > 0 then [EraseDot dotX dotY (dotRadius + borderWidth), FillDot dotX dotY dotRadius ''#dc3545'']
                  else []);
               st = st\<lparr>fav_canvas := True\<rparr>
           in if has_link then st\<lparr>fav_href := Some drawn\<rparr> else st)"

lemma favicon_dot:
  "fav_icon st \<or> loads \<Longrightarrow>
     fav_href (updateFavicon loads True unread st) =
       Some ([ClearRect 32, DrawImage 32] @ (if unread > 0 then [EraseDot 26 26 7, FillDot 26 26 5 ''#dc3545''] else []))"
  by (auto simp: updateFavicon_def loadFaviconIcon_def Let_def)

subsection \<open>Permission, uploads and updates of the service worker\<close>

text \<open>\<open>answer\<close> is what the dialog delivers, \<open>None\<close> that it is not shown.\<close>

definition maybeRequestPermission :: "browser \<Rightarrow> string \<Rightarrow> bool \<times> string option" where
  "maybeRequestPermission br answer =
     (if \<not> supported br then (False, None) else (answer = ''granted'', Some answer))"

datatype xhr_call =
    XhrOpen string string
  | XhrOverrideMimeType string
  | XhrSetHeader string string
  | XhrOnProgress
  | XhrOnReady
  | XhrSend

definition publishXHR :: "string \<Rightarrow> string option \<Rightarrow> headers \<Rightarrow> xhr_call list" where
  "publishXHR url body_type hs =
     XhrOpen ''PUT'' url #
     (if truthy body_type then [XhrOverrideMimeType (coalesce body_type [])] else []) @
     map (\<lambda>(k, v). XhrSetHeader k v) (obj_entries hs) @
     [XhrOnProgress, XhrOnReady, XhrSend]"

text \<open>
  \<open>registerSW\<close> starts the hourly interval when the browser has service workers and registers one;
  a run of it (\<open>sw_update_tick\<close>) fetches the worker and updates it when the fetch succeeds.
\<close>

definition registerSW :: "browser \<Rightarrow> bool \<Rightarrow> int option" where
  "registerSW br registration =
     (if \<not> has_service_worker br then None
      else if \<not> registration then None else Some (60 * 60 * 1000))"

definition sw_update_tick :: "server \<Rightarrow> string \<Rightarrow> bool \<Rightarrow> bool option \<Rightarrow> bool io" where
  "sw_update_tick srv swUrl installing onLine =
     (if installing \<or> onLine = Some False then io_return False
      else io_bind (fetch srv \<lparr>rq_method = ''GET'', rq_url = swUrl,
          rq_headers = [(''cache'', ''no-store''), (''cache-control'', ''no-cache'')], rq_body = None\<rparr>)
        (\<lambda>rs. io_return (rs_status rs = 200)))"

end
