(* ===== verification/Hooks.thy ===== *)
theory Hooks
  imports Messages Account_Api Workers
begin

section \<open>Effects of the page (components/hooks.js)\<close>

text \<open>
  The effects React runs when the page is mounted or a value they depend on changes, as functions
  on the state the hook keeps between runs: the automatic subscription of a topic opened by its
  address, the registration of the topics for Web Push, the watched permission and display mode,
  and the listeners and workers started on mounting and stopped on unmounting.
\<close>

subsection \<open>useAutoSubscribe\<close>

text \<open>
  One run of the effect: whether it has run, the database, the session, and the requests. The
  subscription is added locally, then to the account if there is one, then polled.
\<close>

record auto_target =
  at_baseUrl :: "string option"
  at_topic :: "string option"

definition useAutoSubscribe ::
  "('s, 'n, 'p, 'u) db_ops \<Rightarrow> (string \<Rightarrow> string \<Rightarrow> string option \<Rightarrow> app_error + notification list) \<Rightarrow>
     server \<Rightarrow> config \<Rightarrow> 'kv \<Rightarrow> int \<Rightarrow> auto_target \<Rightarrow> bool \<Rightarrow> bool \<Rightarrow>
     bool \<Rightarrow> ('s, 'n, 'p, 'u) db \<Rightarrow> 'kv session \<Rightarrow> request list \<Rightarrow>
     bool \<times> ('s, 'n, 'p, 'u) db \<times> 'kv session \<times> request list" where
  "useAutoSubscribe T api srv cfg fresh now params loaded selected hasRun d ses log =
     (if \<not> loaded \<or> hasRun then (hasRun, d, ses, log)
      else case autoSubscribeTarget cfg loaded hasRun selected (at_baseUrl params) (at_topic params) of
        None \<Rightarrow> (True, d, ses, log)
      | Some (b, topic) \<Rightarrow>
          let (d', sub) = sm_add T b topic no_opts d;
              (ses', log') =
                (if session_exists ses then
                   (case account_addSubscription srv cfg (session_token ses) b topic log of
                      (Inl e, log') \<Rightarrow>
                        (if e = UnauthorizedError then resetAndRedirect fresh ''/login'' ses else ses, log')
                    | (Inr _, log') \<Rightarrow> (ses, log'))
                 else (ses, log))
          in (True, pollInBackground T api now sub d', ses', log'))"

subsection \<open>Web Push\<close>

text \<open>\<open>useNotificationPermissionListener\<close>: the kept answer, refreshed when the permission changes.\<close>

definition permission_listener :: "bool \<Rightarrow> bool \<Rightarrow> bool option \<Rightarrow> bool" where
  "permission_listener query changed result =
     (case result of None \<Rightarrow> query | Some r \<Rightarrow> if changed then query else r)"

text \<open>
  \<open>useWebPushListener\<close>: the last update that succeeded is kept; \<open>update\<close> is
  \<open>subscriptionManager.updateWebPushSubscriptions\<close>.
\<close>

type_synonym push_update = "string list \<times> bool"

definition useWebPushListener ::
  "(string list \<Rightarrow> unit io) \<Rightarrow> string list option \<Rightarrow> bool \<Rightarrow> push_update option \<Rightarrow> request list \<Rightarrow>
     push_update option \<times> request list" where
  "useWebPushListener update topics push_possible prevUpdate log =
     (case topics of
        None \<Rightarrow> (prevUpdate, log)
      | Some ts \<Rightarrow>
          if prevUpdate = Some (ts, push_possible) then (prevUpdate, log)
          else (case update ts log of
                  (Inl e, log') \<Rightarrow> (prevUpdate, log')
                | (Inr _, log') \<Rightarrow> (Some (ts, push_possible), log')))"

text \<open>A message of the service worker's channel plays the sound, which a worker cannot.\<close>

definition web_push_broadcast :: "string \<Rightarrow> effect list" where
  "web_push_broadcast sound = notifier_playSound sound"

definition useWebPushTopics ::
  "('s, 'n, 'p, 'u) db_ops \<Rightarrow> config \<Rightarrow> bool \<Rightarrow> ('s, 'n, 'p, 'u) db \<Rightarrow> string list" where
  "useWebPushTopics T cfg push_possible d = sm_webPushTopics T cfg push_possible d"

subsection \<open>Standalone mode\<close>

text \<open>\<open>useIsLaunchedPWA\<close> on the kept state and an event, and what it returns.\<close>

definition pwa_handler :: "bool \<Rightarrow> bool \<Rightarrow> bool \<Rightarrow> bool" where
  "pwa_handler isIOSStandalone evt_matches isStandalone = (if isIOSStandalone then isStandalone else evt_matches)"

definition useIsLaunchedPWA :: "bool \<Rightarrow> bool \<Rightarrow> bool" where
  "useIsLaunchedPWA isIOSStandalone isStandalone \<longleftrightarrow> isIOSStandalone \<or> isStandalone"

definition useStandaloneWebPushAutoSubscribe :: "'p pref_ops \<Rightarrow> bool \<Rightarrow> 'p \<Rightarrow> 'p" where
  "useStandaloneWebPushAutoSubscribe P isLaunchedPWA t =
     (if isLaunchedPWA then prefs_setWebPushEnabled P True t else t)"

subsection \<open>Mounting and unmounting\<close>

text \<open>\<open>useBackgroundProcesses\<close> mounts with \<open>True\<close> and unmounts with \<open>False\<close>.\<close>

definition useBackgroundProcesses :: "string option \<Rightarrow> bool \<Rightarrow> app_workers \<Rightarrow> app_workers" where
  "useBackgroundProcesses hash mount a = (if mount then startWorkers hash a else stopWorkers a)"

text \<open>
  \<open>useAccountListener\<close> on mounting registers the listener, syncs the account and hands an account
  that was read to the listener.
\<close>

definition useAccountListener ::
  "('s, 'n, 'p, 'u) db_ops \<Rightarrow> server \<Rightarrow> config \<Rightarrow> 'kv \<Rightarrow> bool \<Rightarrow> 'kv session \<Rightarrow> ('s, 'n, 'p, 'u) db \<Rightarrow>
     request list \<Rightarrow> bool \<times> (json option \<times> ('s, 'n, 'p, 'u) db \<times> 'kv session) \<times> request list" where
  "useAccountListener T srv cfg fresh mount ses d log =
     (if mount then (True, account_sync T srv cfg fresh ses d log)
      else (False, (None, d, ses), log))"

definition useVersionChangeListener :: "bool \<Rightarrow> version_checker \<Rightarrow> version_checker" where
  "useVersionChangeListener mount v = (if mount then version_registerListener v else version_resetListener v)"

subsection \<open>Lemmas\<close>

text \<open>The automatic subscription happens at most once, whatever changes afterwards.\<close>

lemma autoSubscribe_once:
  "useAutoSubscribe T api srv cfg fresh now params True selected hasRun d ses log = (h, d', ses', log') \<Longrightarrow>
     h \<and> useAutoSubscribe T api srv' cfg fresh now' params' loaded' selected' h d' ses' log' = (h, d', ses', log')"
  by (auto simp: useAutoSubscribe_def Let_def split: if_splits option.splits prod.splits)

text \<open>Topics once told to the server are not told again until they or the permission change.\<close>

lemma web_push_told_once:
  "useWebPushListener update (Some ts) pp prev log = (Some (ts, pp), log') \<Longrightarrow>
     useWebPushListener update (Some ts) pp (Some (ts, pp)) log' = (Some (ts, pp), log')"
  by (simp add: useWebPushListener_def)

lemma web_push_update_fails:
  "fst (update ts log) = Inl e \<Longrightarrow> fst (useWebPushListener update (Some ts) pp prev log) = prev"
  by (auto simp: useWebPushListener_def split: prod.split)

end
