(* ===== verification/Notification_View.thy ===== *)
theory Notification_View
  imports Service_Worker Chat Browser
begin

section \<open>The notification list and its actions (components/Notifications.jsx)\<close>

text \<open>
  What the list of notifications and the start page compute from the rows (greeting, previews,
  paging, links in texts, attachment boxes, which buttons are shown), and the user actions: the
  status of an action kept in the stored row, the HTTP action around its request, and what marks
  the notification as read.
\<close>

subsection \<open>The start page\<close>

definition getGreeting :: "nat \<Rightarrow> string" where
  "getGreeting hour =
     (if hour < 12 then ''welcome_greeting_morning''
      else if hour < 18 then ''welcome_greeting_afternoon''
      else ''welcome_greeting_evening'')"

definition lastNotification :: "notification list \<Rightarrow> notification option" where
  "lastNotification ns =
     (let ms = filter (\<lambda>n. n_event n = ''message'') ns
      in if ms \<noteq> [] then Some (ms ! 0) else None)"

definition previewText :: "string \<Rightarrow> notification option \<Rightarrow> string" where
  "previewText no_messages lastN =
     (case lastN of
        Some n \<Rightarrow>
          (if truthy (n_sender n) then coalesce (n_sender n) [] @ '': '' else []) @
          js_substring 0 60 (coalesce (n_message n) [])
      | None \<Rightarrow> no_messages)"

definition badge_text :: "nat \<Rightarrow> string option" where
  "badge_text unread =
     (if unread > 0 then Some (if unread \<le> 99 then nat_str unread else ''99+'') else None)"

subsection \<open>Paging\<close>

definition pageSize :: nat where "pageSize = 20"

definition list_count :: "notification list \<Rightarrow> nat \<Rightarrow> nat" where
  "list_count ns maxCount = min (length ns) maxCount"

definition hasMore :: "notification list \<Rightarrow> nat \<Rightarrow> bool" where
  "hasMore ns maxCount \<longleftrightarrow> list_count ns maxCount < length ns"

definition list_shown :: "notification list \<Rightarrow> nat \<Rightarrow> notification list" where
  "list_shown ns maxCount = take (list_count ns maxCount) ns"

definition list_next :: "nat \<Rightarrow> nat" where
  "list_next maxCount = maxCount + pageSize"

subsection \<open>Links in a text\<close>

text \<open>
  A link is (but for one character beyond Latin-1) \<open>/\bhttps?:\/\/[-A-Z0-9+&@#\/%?=()~_|!:,.;]*[-A-Z0-9+&@#\/%=~()_|]\b/i\<close>: the longest run of
  link characters that ends in one of the second set at a word boundary.
\<close>

definition link_end_char :: "char \<Rightarrow> bool" where
  "link_end_char c \<longleftrightarrow> word_char c \<or> c \<in> set ''-+&@#/%=~()|''"

definition link_char :: "char \<Rightarrow> bool" where
  "link_char c \<longleftrightarrow> link_end_char c \<or> c \<in> set ''?!:,.;''"

definition at_word :: "string \<Rightarrow> bool" where
  "at_word s \<longleftrightarrow> s \<noteq> [] \<and> word_char (hd s)"

text \<open>The longest length up to \<open>n\<close> at which the link may end, in the text after the scheme.\<close>

fun link_length :: "string \<Rightarrow> nat \<Rightarrow> nat option" where
  "link_length s 0 = None"
| "link_length s (Suc n) =
     (if link_end_char (s ! n) \<and> word_char (s ! n) \<noteq> at_word (drop (Suc n) s) then Some (Suc n)
      else link_length s n)"

definition link_at :: "bool \<Rightarrow> string \<Rightarrow> nat option" where
  "link_at after_word s =
     (if after_word then None
      else case scheme_length s of
        None \<Rightarrow> None
      | Some k \<Rightarrow>
          map_option (\<lambda>n. k + n) (link_length (drop k s) (length (takeWhile link_char (drop k s)))))"

lemma link_length_bound: "link_length s n = Some m \<Longrightarrow> 0 < m \<and> m \<le> n"
  by (induction n) (auto split: if_splits)

lemma link_at_bound:
  assumes "link_at w s = Some n"
  shows "0 < n \<and> n \<le> length s"
proof -
  obtain k m where k: "scheme_length s = Some k" and n: "n = k + m"
    and m: "link_length (drop k s) (length (takeWhile link_char (drop k s))) = Some m"
    using assms by (auto simp: link_at_def split: if_splits option.splits)
  have "m \<le> length (takeWhile link_char (drop k s))" "0 < m" using link_length_bound [OF m] by simp_all
  moreover have "length (takeWhile link_char (drop k s)) \<le> length (drop k s)" by (rule length_takeWhile_le)
  ultimately show ?thesis using n by simp
qed

text \<open>
  \<open>s.split(/(...)/)\<close>: the texts around the links and the links, alternating; \<open>acc\<close> is the text read
  since the last link, reversed.
\<close>

function split_links :: "bool \<Rightarrow> string \<Rightarrow> string \<Rightarrow> string list" where
  "split_links w acc s =
     (case link_at w s of
        Some n \<Rightarrow> rev acc # take n s # split_links (word_char (s ! (n - 1))) [] (drop n s)
      | None \<Rightarrow> (case s of [] \<Rightarrow> [rev acc] | c # s' \<Rightarrow> split_links (word_char c) (c # acc) s'))"
  by pat_completeness auto
termination
proof (relation "measure (\<lambda>(w, acc, s). length s)")
  fix w :: bool and acc s :: string and n
  assume "link_at w s = Some n"
  then have "0 < n \<and> n \<le> length s" by (rule link_at_bound)
  then show "((word_char (s ! (n - 1)), [], drop n s), w, acc, s) \<in> measure (\<lambda>(w, acc, s). length s)" by auto
qed auto

declare split_links.simps [simp del]

datatype text_part = Plain string | Anchor string string

fun link_parts :: "string list \<Rightarrow> text_part list" where
  "link_parts (t # u # ps) = Plain t # Anchor u (shortUrl u) # link_parts ps"
| "link_parts [t] = [Plain t]"
| "link_parts [] = []"

definition autolink :: "string \<Rightarrow> text_part list" where
  "autolink s = link_parts (split_links False [] s)"

text \<open>\<open>NotificationBody\<close>: Markdown is rendered by a library, another text is linked.\<close>

datatype body = Markdown string | Linked "text_part list"

definition NotificationBody :: "string js_obj \<Rightarrow> notification \<Rightarrow> body" where
  "NotificationBody emojis n =
     (if n_content_type n = Some ''text/markdown'' then Markdown (formatMessage emojis n)
      else Linked (autolink (formatMessage emojis n)))"

subsection \<open>One notification and its attachment\<close>

definition attachment_expired :: "int \<Rightarrow> attachment \<Rightarrow> bool" where
  "attachment_expired now a \<longleftrightarrow> (case att_expires a of Some e \<Rightarrow> e \<noteq> 0 \<and> e * 1000 < now | None \<Rightarrow> False)"

definition attachment_expires :: "int \<Rightarrow> attachment \<Rightarrow> bool" where
  "attachment_expires now a \<longleftrightarrow> (case att_expires a of Some e \<Rightarrow> e \<noteq> 0 \<and> e * 1000 > now | None \<Rightarrow> False)"

record item_flags =
  if_attachment :: bool
  if_click :: bool
  if_actions :: bool

definition showActions :: "int \<Rightarrow> notification \<Rightarrow> item_flags" where
  "showActions now n = \<lparr>
     if_attachment = (case n_attachment n of None \<Rightarrow> False | Some a \<Rightarrow> \<not> attachment_expired now a),
     if_click = truthy (n_click n),
     if_actions = (case n_actions n of None \<Rightarrow> False | Some as \<Rightarrow> as \<noteq> [])\<rparr>"

text \<open>\<open>AttachmentIcon\<close>: the picture and the text key of the label for a type of file.\<close>

datatype file_icon = FileDocument | FileImage | FileVideo | FileAudio | FileApp

definition AttachmentIcon :: "string option \<Rightarrow> file_icon \<times> string" where
  "AttachmentIcon ty =
     (let t = coalesce ty []
      in if \<not> truthy ty then (FileDocument, ''notifications_attachment_file_image'')
         else if starts_with t ''image/'' then (FileImage, ''notifications_attachment_file_video'')
         else if starts_with t ''video/'' then (FileVideo, ''notifications_attachment_file_video'')
         else if starts_with t ''audio/'' then (FileAudio, ''notifications_attachment_file_audio'')
         else if t = ''application/vnd.android.package-archive'' then (FileApp, ''notifications_attachment_file_app'')
         else (FileDocument, ''notifications_attachment_file_document''))"

text \<open>
  \<open>Attachment\<close>: a picture with its address; else a box with an icon, the name and the information
  texts, a link to the address unless expired. Sizes, dates and texts are formatted by the arguments.
\<close>

datatype attachment_view =
    ImageView "string option"
  | InfoBox "file_icon \<times> string" "string option" "string list"
  | LinkBox "string option" "file_icon \<times> string" "string option" "string list"

definition Attachment ::
  "(int \<Rightarrow> string) \<Rightarrow> (int \<Rightarrow> string) \<Rightarrow> string \<Rightarrow> int \<Rightarrow> attachment \<Rightarrow> attachment_view" where
  "Attachment bytes link_expires link_expired now a =
     (let expired = attachment_expired now a;
          infos =
            (case att_size a of Some k \<Rightarrow> if k \<noteq> 0 then [bytes k] else [] | None \<Rightarrow> []) @
            (if attachment_expires now a then [link_expires (coalesce (att_expires a) 0)] else []) @
            (if expired then [link_expired] else [])
      in if \<not> expired \<and> isImage (Some a) then ImageView (att_url a)
         else if expired then InfoBox (AttachmentIcon (att_type a)) (att_name a) infos
         else LinkBox (att_url a) (AttachmentIcon (att_type a)) (att_name a) infos)"

text \<open>
  \<open>ChatAttachment\<close> of the chat view shows the same attachment by its kind: a picture with its
  alternative text, a player, or a link with the name and the size.
\<close>

datatype chat_attachment =
    ExpiredText
  | ChatImage "string option" string
  | ChatVideo "string option"
  | ChatAudio "string option"
  | FileLink "string option" "string option" "string option"

definition ChatAttachment :: "(int \<Rightarrow> string) \<Rightarrow> string \<Rightarrow> int \<Rightarrow> attachment \<Rightarrow> chat_attachment" where
  "ChatAttachment bytes image_text now a =
     (if attachment_expired now a then ExpiredText
      else if isImage (Some a) then
        ChatImage (att_url a) (if truthy (att_name a) then coalesce (att_name a) [] else image_text)
      else if starts_with (coalesce (att_type a) []) ''video/'' then ChatVideo (att_url a)
      else if starts_with (coalesce (att_type a) []) ''audio/'' then ChatAudio (att_url a)
      else FileLink (att_url a) (att_name a)
        (case att_size a of Some k \<Rightarrow> if k > 0 then Some (bytes k) else None | None \<Rightarrow> None))"

text \<open>
  The pages: what is shown for a selected subscription and for all of them, by what is loaded.
\<close>

datatype list_page =
    PageLoading
  | PageNoSubscriptions
  | PageNoNotifications
  | PageList "notification list"
  | PageChat subscription "notification list"

definition SingleSubscription :: "subscription option \<Rightarrow> (string \<Rightarrow> notification list option) \<Rightarrow> list_page" where
  "SingleSubscription selected loaded =
     (case selected of
        None \<Rightarrow> PageLoading
      | Some s \<Rightarrow>
          (case loaded (s_id s) of
             None \<Rightarrow> PageLoading
           | Some ns \<Rightarrow> if ns = [] then PageNoNotifications else PageChat s ns))"

definition AllSubscriptionsList :: "subscription list \<Rightarrow> notification list option \<Rightarrow> list_page" where
  "AllSubscriptionsList ss loaded =
     (case loaded of
        None \<Rightarrow> PageLoading
      | Some ns \<Rightarrow> if ss = [] then PageNoSubscriptions else if ns = [] then PageNoNotifications else PageList ns)"

lemma split_links_Nil [simp]: "split_links w acc [] = [rev acc]"
  by (subst split_links.simps) (auto simp: link_at_def scheme_length_def js_lower_def split: option.split)

lemma split_links_Cons:
  "split_links w acc (c # s) =
     (case link_at w (c # s) of
        Some n \<Rightarrow> rev acc # take n (c # s) # split_links (word_char ((c # s) ! (n - 1))) [] (drop n (c # s))
      | None \<Rightarrow> split_links (word_char c) (c # acc) s)"
  by (subst split_links.simps) (simp split: option.split)

lemma split_links_concat: "concat (split_links w acc s) = rev acc @ s"
proof (induction w acc s rule: split_links.induct)
  case (1 w acc s)
  show ?case
  proof (cases s)
    case Nil
    then show ?thesis by simp
  next
    case (Cons c s')
    then show ?thesis using 1(2) 1(1) [OF _ Cons]
      by (cases "link_at w s") (simp_all add: split_links_Cons)
  qed
qed

fun part_text :: "text_part \<Rightarrow> string" where
  "part_text (Plain t) = t"
| "part_text (Anchor u l) = u"

lemma link_parts_text: "concat (map part_text (link_parts ps)) = concat ps"
  by (induction ps rule: link_parts.induct) simp_all

text \<open>
  What a link must be: it starts with one of the two schemes, has no white space, and its last unit
  is one a link may end with.
\<close>

definition link_ok :: "string \<Rightarrow> bool" where
  "link_ok u \<longleftrightarrow> (starts_with (js_lower u) ''http://'' \<or> starts_with (js_lower u) ''https://'') \<and>
     list_all (\<lambda>c. \<not> is_space c) u \<and> u \<noteq> [] \<and> link_end_char (last u)"

lemma link_char_no_space: "link_char c \<Longrightarrow> \<not> is_space c"
  by (auto simp: link_char_def link_end_char_def word_char_def is_space_def Let_def)

lemma link_length_end: "link_length s n = Some m \<Longrightarrow> link_end_char (s ! (m - 1))"
  by (induction n) (auto split: if_splits)

lemma js_lower_no_space:
  assumes "list_all (\<lambda>c. \<not> is_space c) (js_lower x)"
  shows "list_all (\<lambda>c. \<not> is_space c) x"
proof -
  have "is_space c \<Longrightarrow> is_space (lower_char c)" for c
    by (auto simp: is_space_def lower_char_def Let_def)
  then show ?thesis using assms by (auto simp: js_lower_def list_all_iff)
qed

lemma scheme_lengthD:
  assumes "scheme_length s = Some k"
  shows "k \<le> length s" "list_all (\<lambda>c. \<not> is_space c) (take k s)"
    "js_lower (take k s) = ''http://'' \<or> js_lower (take k s) = ''https://''"
proof -
  have j: "(k = 8 \<and> js_lower (take k s) = ''https://'') \<or> (k = 7 \<and> js_lower (take k s) = ''http://'')"
    using assms by (auto simp: scheme_length_def split: if_splits)
  then have "length (js_lower (take k s)) = k" by (elim disjE conjE) simp_all
  then have "length (take k s) = k" by (simp only: js_lower_def length_map)
  then show "k \<le> length s" by simp
  show "js_lower (take k s) = ''http://'' \<or> js_lower (take k s) = ''https://''" using j by auto
  have "list_all (\<lambda>c. \<not> is_space c) (js_lower (take k s))" using j by (auto simp: is_space_def)
  then show "list_all (\<lambda>c. \<not> is_space c) (take k s)" by (rule js_lower_no_space)
qed

lemma link_at_ok:
  assumes "link_at w s = Some n"
  shows "link_ok (take n s)"
proof -
  obtain k m where k: "scheme_length s = Some k" and n: "n = k + m"
    and m: "link_length (drop k s) (length (takeWhile link_char (drop k s))) = Some m"
    using assms by (auto simp: link_at_def split: if_splits option.splits)
  have mb: "0 < m" "m \<le> length (takeWhile link_char (drop k s))" using link_length_bound [OF m] by simp_all
  have ml: "m \<le> length (drop k s)" using mb(2) length_takeWhile_le [of link_char "drop k s"] by simp
  have u: "take n s = take k s @ take m (drop k s)" using n by (simp add: take_add)
  have "take m (drop k s) = take m (takeWhile link_char (drop k s))"
    using mb(2) by (metis append_take_drop_id take_append takeWhile_eq_take take_all_iff length_take min.absorb2 diff_is_0_eq take_eq_Nil append_Nil2)
  then have "set (take m (drop k s)) \<subseteq> {c. link_char c}"
    using set_take_subset [of m "takeWhile link_char (drop k s)"] by (auto dest: set_takeWhileD)
  then have t: "list_all (\<lambda>c. \<not> is_space c) (take m (drop k s))"
    using link_char_no_space unfolding list_all_iff by blast
  have "last (take m (drop k s)) = drop k s ! (m - 1)"
    using mb(1) ml by (subst last_conv_nth) auto
  then have "link_end_char (last (take n s))"
    using link_length_end [OF m] mb(1) ml u by simp
  moreover have "take m (drop k s) \<noteq> []" using mb(1) ml by auto
  moreover have "js_lower (take n s) = js_lower (take k s) @ js_lower (take m (drop k s))"
    unfolding u js_lower_def by simp
  ultimately show ?thesis
    using scheme_lengthD(2,3) [OF k] t u by (auto simp: link_ok_def)
qed

lemma link_parts_ok:
  "list_all (\<lambda>p. case p of Plain t \<Rightarrow> True | Anchor u l \<Rightarrow> link_ok u \<and> l = shortUrl u) (link_parts (split_links w acc s))"
proof (induction w acc s rule: split_links.induct)
  case (1 w acc s)
  show ?case
  proof (cases s)
    case (Cons c s')
    then show ?thesis using 1(2) 1(1) [OF _ Cons] link_at_ok [of w s]
      by (cases "link_at w s") (simp_all add: split_links_Cons)
  qed simp
qed

text \<open>
  C25: Linking a text loses and adds nothing: the texts and addresses of its parts make up the text
  again; and whatever the text is, every link made of it is an http or https address without white
  space, shown under its short form.
\<close>

theorem autolink_safe:
  "concat (map part_text (autolink s)) = s \<and>
   list_all (\<lambda>p. case p of Plain t \<Rightarrow> True | Anchor u l \<Rightarrow> link_ok u \<and> l = shortUrl u) (autolink s)"
  using link_parts_ok [of False "[]" s] by (simp add: autolink_def link_parts_text split_links_concat)

end
