(* ===== verification/Actions.thy ===== *)
theory Actions
  imports Notification_View
begin

section \<open>User actions (components/Notifications.jsx)\<close>

text \<open>
  The status of an action is kept in the stored row of its notification: the page writes a copy of
  the notification it was rendered with, changed in that action. An HTTP action writes it before
  and after its request; what happens to the database in between is the argument \<open>between\<close>.
\<close>

definition with_status :: "action \<Rightarrow> progress \<Rightarrow> string option \<Rightarrow> notification \<Rightarrow> notification" where
  "with_status a p err n = n\<lparr>n_actions := map_option
     (map (\<lambda>x. if act_id x = act_id a then x\<lparr>act_progress := Some p, act_error := err\<rparr> else x)) (n_actions n)\<rparr>"

definition updateActionStatus ::
  "('s, 'n, 'p, 'u) db_ops \<Rightarrow> notification \<Rightarrow> action \<Rightarrow> progress \<Rightarrow> string option \<Rightarrow>
     ('s, 'n, 'p, 'u) db \<Rightarrow> ('s, 'n, 'p, 'u) db" where
  "updateActionStatus T n a p err d = fst (sm_updateNotification T (with_status a p err n) d)"

text \<open>A row has its subscription's id; asking the database for no key throws.\<close>

definition clearNotification ::
  "('s, 'n, 'p, 'u) db_ops \<Rightarrow> browser \<Rightarrow> notification \<Rightarrow> ('s, 'n, 'p, 'u) db \<Rightarrow>
     app_error + ('s, 'n, 'p, 'u) db \<times> effect list" where
  "clearNotification T br n d =
     (case n_subscriptionId n of
        None \<Rightarrow> Inl (OtherError ''DataError'')
      | Some sid \<Rightarrow>
          Inr (sm_markNotificationRead T (n_id n) d,
               case sm_get T d sid of Some s \<Rightarrow> notifier_cancel br s n | None \<Rightarrow> []))"

text \<open>\<open>show_error e\<close> is the text of a caught error.\<close>

definition failed_text :: "action \<Rightarrow> int \<Rightarrow> string" where
  "failed_text a status = act_label a @ '': Unexpected response HTTP '' @ int_str status"

definition caught_text :: "(app_error \<Rightarrow> string) \<Rightarrow> action \<Rightarrow> app_error \<Rightarrow> string" where
  "caught_text show_error a e = act_label a @ '': '' @ show_error e @ '' Check developer console for details.''"

definition performHttpAction ::
  "('s, 'n, 'p, 'u) db_ops \<Rightarrow> browser \<Rightarrow> server \<Rightarrow> (app_error \<Rightarrow> string) \<Rightarrow>
     (('s, 'n, 'p, 'u) db \<Rightarrow> ('s, 'n, 'p, 'u) db) \<Rightarrow> notification \<Rightarrow> action \<Rightarrow>
     ('s, 'n, 'p, 'u) db \<Rightarrow> request list \<Rightarrow> (('s, 'n, 'p, 'u) db \<times> effect list) \<times> request list" where
  "performHttpAction T br srv show_error between n a d log =
     (let (result, log') = fetch srv (action_request a) log;
          d' = between (updateActionStatus T n a Ongoing None d)
      in (case result of
            Inl e \<Rightarrow> (updateActionStatus T n a Failed (Some (caught_text show_error a e)) d', [])
          | Inr rs \<Rightarrow>
              if rs_ok rs then
                let d'' = updateActionStatus T n a Success None d'
                in if act_clear a then
                     (case clearNotification T br n d'' of
                        Inl e \<Rightarrow> (updateActionStatus T n a Failed (Some (caught_text show_error a e)) d'', [])
                      | Inr r \<Rightarrow> r)
                   else (d'', [])
              else (updateActionStatus T n a Failed (Some (failed_text a (rs_status rs))) d', []), log'))"

text \<open>
  \<open>UserAction\<close>: the button of an action with its label, and its tool tip by text key and address;
  \<open>suffix\<close> is \<open>ACTION_LABEL_SUFFIX\<close>, a sign for each progress.
\<close>

datatype action_button =
    DisabledButton string
  | ViewButton string string
  | HttpButton string string string
  | CopyButton string

definition UserAction :: "(progress \<Rightarrow> string) \<Rightarrow> action \<Rightarrow> action_button option" where
  "UserAction suffix a =
     (if act_action a = ACTION_BROADCAST then Some (DisabledButton (act_label a))
      else if act_action a = ACTION_VIEW then Some (ViewButton (act_url a) (act_label a))
      else if act_action a = ACTION_HTTP then
        Some (HttpButton (coalesce (act_method a) ''POST'') (act_url a) (act_label a @
          (case act_progress a of None \<Rightarrow> [] | Some p \<Rightarrow> suffix p)))
      else if act_action a = ACTION_COPY then Some (CopyButton (act_label a))
      else None)"

definition viewAction ::
  "('s, 'n, 'p, 'u) db_ops \<Rightarrow> browser \<Rightarrow> notification \<Rightarrow> action \<Rightarrow> ('s, 'n, 'p, 'u) db \<Rightarrow>
     page_call list \<times> (app_error + ('s, 'n, 'p, 'u) db \<times> effect list)" where
  "viewAction T br n a d =
     (openUrl (act_url a), if act_clear a then clearNotification T br n d else Inr (d, []))"

definition copyAction ::
  "('s, 'n, 'p, 'u) db_ops \<Rightarrow> browser \<Rightarrow> bool \<Rightarrow> bool \<Rightarrow> notification \<Rightarrow> action \<Rightarrow> ('s, 'n, 'p, 'u) db \<Rightarrow>
     page_call list \<times> (app_error + ('s, 'n, 'p, 'u) db \<times> effect list)" where
  "copyAction T br has_clipboard secure n a d =
     (copyToClipboard has_clipboard secure (coalesce (act_value a) ''undefined''),
      if act_clear a then clearNotification T br n d else Inr (d, []))"

definition handleDelete where "handleDelete T n d = sm_deleteNotification T (n_id n) d"
definition handleMarkRead where "handleMarkRead T n d = sm_markNotificationRead T (n_id n) d"

subsection \<open>Rows\<close>

lemma with_status_simps [simp]:
  "n_id (with_status a p err n) = n_id n" "n_new (with_status a p err n) = n_new n"
  "n_subscriptionId (with_status a p err n) = n_subscriptionId n"
  by (simp_all add: with_status_def)

context coop_db
begin

lemma notif_row_status:
  "notif_row T (updateActionStatus T n a p err d) i =
     (if i = n_id n \<and> notif_row T d i \<noteq> None then Some (with_status a p err n) else notif_row T d i)"
  by (simp add: updateActionStatus_def sm_updateNotification_def notifs.lookup_put)

end

subsection \<open>Properties\<close>

definition http_final :: "(app_error \<Rightarrow> string) \<Rightarrow> action \<Rightarrow> response option \<Rightarrow> notification \<Rightarrow> notification" where
  "http_final show_error a result n =
     (case result of
        None \<Rightarrow> with_status a Failed (Some (caught_text show_error a NetworkError)) n
      | Some rs \<Rightarrow>
          if rs_ok rs then (if act_clear a then set_new 0 (with_status a Success None n) else with_status a Success None n)
          else with_status a Failed (Some (failed_text a (rs_status rs))) n)"

text \<open>The row after an HTTP action: the page's copy with the outcome, if there was a row to write.\<close>

lemma http_action_row:
  assumes "coop_db T" and "n_subscriptionId n = Some sid"
    and "notif_row T (between (updateActionStatus T n a Ongoing None d)) (n_id n) \<noteq> None"
  shows "notif_row T (fst (fst (performHttpAction T br srv show_error between n a d log))) (n_id n) =
      Some (http_final show_error a (srv log (action_request a)) n)"
proof -
  note rows = coop_db.notif_row_status [OF assms(1)] coop_db.notif_row_marks(1) [OF assms(1)]
  show ?thesis
    using assms(2,3)
    by (simp add: performHttpAction_def fetch_def rows clearNotification_def http_final_def Let_def
        split: option.split)
qed

text \<open>
  C24: An HTTP action of a stored notification sends its one request and leaves in the stored row the
  outcome of the request as the status of that action: success when the server answers with a
  status of 200 to 299, in which case the row is also marked read when the action asks for it,
  failed with the text of the failure otherwise.
\<close>

theorem http_action_outcome:
  assumes "coop_db T" and "n_subscriptionId n = Some sid" and "notif_row T d (n_id n) \<noteq> None"
  shows "let r = performHttpAction T br srv show_error (\<lambda>d. d) n a d log in
    snd r = log @ [action_request a] \<and>
    notif_row T (fst (fst r)) (n_id n) = Some (http_final show_error a (srv log (action_request a)) n)"
proof -
  have "notif_row T (updateActionStatus T n a Ongoing None d) (n_id n) \<noteq> None"
    using assms(3) by (simp add: coop_db.notif_row_status [OF assms(1)])
  then show ?thesis
    using http_action_row [OF assms(1,2), of "\<lambda>d. d"] by (simp add: performHttpAction_def fetch_def Let_def)
qed

text \<open>
  The page writes back the copy it was rendered with: a notification that is marked read while
  the request of one of its actions is under way is unread again after it, unless the action
  itself clears it.
\<close>

theorem http_action_reverts_read:
  assumes "coop_db T" and "n_subscriptionId n = Some sid" and "notif_row T d (n_id n) \<noteq> None"
    and "\<not> act_clear a"
  shows "map_option n_new (notif_row T (fst (fst (performHttpAction T br srv show_error
    (sm_markNotificationRead T (n_id n)) n a d log))) (n_id n)) = Some (n_new n)"
proof -
  have "notif_row T (sm_markNotificationRead T (n_id n) (updateActionStatus T n a Ongoing None d)) (n_id n) \<noteq> None"
    using assms(3) by (simp add: coop_db.notif_row_status [OF assms(1)] coop_db.notif_row_marks(1) [OF assms(1)])
  then show ?thesis
    using http_action_row [OF assms(1,2), of "sm_markNotificationRead T (n_id n)"] assms(4)
    by (simp add: http_final_def split: option.split)
qed

definition sample_row :: notification where
  "sample_row = (plain_message ''m1'' 10 EVENT_MESSAGE)\<lparr>n_subscriptionId := Some ''https://c/a'', n_new := Some 1\<rparr>"

definition sample_action :: action where
  "sample_action = \<lparr>act_id = ''a1'', act_action = ACTION_HTTP, act_label = ''Open'', act_url = ''https://d/'',
     act_clear = False, act_method = None, act_headers = None, act_body = None, act_value = None,
     act_progress = None, act_error = None\<rparr>"

lemma sample_row_stored:
  "n_subscriptionId sample_row = Some ''https://c/a''"
  "notif_row mem_db_ops (mem_db [] [sample_row]) (n_id sample_row) \<noteq> None" "\<not> act_clear sample_action"
  by (simp_all add: sample_row_def sample_action_def plain_message_def mem_db_ops_def mem_db_def
      mem_dexie_def mem_get_def)

lemma http_action_outcome_witness:
  "let r = performHttpAction mem_db_ops plain_browser (\<lambda>_ _. None) (\<lambda>_. []) (\<lambda>d. d) sample_row sample_action
      (mem_db [] [sample_row]) []
   in snd r = [] @ [action_request sample_action] \<and>
    notif_row mem_db_ops (fst (fst r)) (n_id sample_row) =
      Some (http_final (\<lambda>_. []) sample_action None sample_row)"
  by (rule http_action_outcome [OF coop_db_mem sample_row_stored(1,2)])

lemma http_action_reverts_read_witness:
  "map_option n_new (notif_row mem_db_ops (fst (fst (performHttpAction mem_db_ops plain_browser (\<lambda>_ _. None) (\<lambda>_. [])
    (sm_markNotificationRead mem_db_ops (n_id sample_row)) sample_row sample_action (mem_db [] [sample_row]) [])))
    (n_id sample_row)) = Some (Some 1)"
  using http_action_reverts_read [where br = plain_browser and srv = "\<lambda>_ _. None" and show_error = "\<lambda>_. []" and log = "[]",
      OF coop_db_mem sample_row_stored]
  by (simp add: sample_row_def)

end
