(* ===== verification/App_Shell.thy ===== *)
theory App_Shell
  imports Actions Hooks Js_Sort
begin

section \<open>The page around the views (components/App.jsx, components/Navigation.jsx)\<close>

text \<open>
  The colours of the theme, the redirect to the login page, the subscription an address selects,
  the unread count in the title, and the side bar with its order of subscriptions and its alerts.
\<close>

subsection \<open>Colours\<close>

definition hex_value :: "char \<Rightarrow> nat option" where
  "hex_value c =
     (let n = of_char c :: nat
      in if 48 \<le> n \<and> n \<le> 57 then Some (n - 48)
         else if 97 \<le> n \<and> n \<le> 102 then Some (n - 87)
         else if 65 \<le> n \<and> n \<le> 70 then Some (n - 55) else None)"

text \<open>The number read from the longest prefix of hexadecimal digits; \<open>None\<close> if there is no digit.\<close>

fun hex_prefix :: "int option \<Rightarrow> string \<Rightarrow> int option" where
  "hex_prefix acc [] = acc"
| "hex_prefix acc (c # cs) =
     (case hex_value c of None \<Rightarrow> acc | Some d \<Rightarrow> hex_prefix (Some (16 * coalesce acc 0 + int d)) cs)"

text \<open>\<open>parseInt(s, 16)\<close>; a number above \<open>2 ^ 53\<close> is not rounded as a float would be.\<close>

definition parseInt16 :: "string \<Rightarrow> int option" where
  "parseInt16 s =
     (let t = dropWhile is_space s;
          neg = starts_with t ''-'';
          u = (if neg \<or> starts_with t ''+'' then drop 1 t else t);
          v = (if starts_with (js_lower u) ''0x'' then drop 2 u else u)
      in map_option (\<lambda>n. if neg then - n else n) (hex_prefix None v))"

definition to_int32 :: "int \<Rightarrow> int" where "to_int32 n = signed_take_bit 31 n"

definition hex_char :: "nat \<Rightarrow> char" where
  "hex_char n = ''0123456789abcdef'' ! n"

fun hex_str :: "nat \<Rightarrow> string" where
  "hex_str n = (if n < 16 then [hex_char n] else hex_str (n div 16) @ [hex_char (n mod 16)])"

declare hex_str.simps [simp del]

definition padStart :: "nat \<Rightarrow> char \<Rightarrow> string \<Rightarrow> string" where
  "padStart n c s = replicate (n - length s) c @ s"

definition darkenColor :: "string \<Rightarrow> int \<Rightarrow> string" where
  "darkenColor hex amount =
     (let num = to_int32 (coalesce (parseInt16 (remove1 CHR ''#'' hex)) 0);
          r = max 0 (num div 2 ^ 16 - amount);
          g = max 0 (num div 2 ^ 8 mod 256 - amount);
          b = max 0 (num mod 256 - amount);
          v = to_int32 (or (or (push_bit 16 r) (push_bit 8 g)) b)
      in ''#'' @ padStart 6 CHR ''0'' (if v < 0 then CHR ''-'' # hex_str (nat (- v)) else hex_str (nat v)))"

definition accentPresets :: "(string \<times> string \<times> string) list" where
  "accentPresets =
     [(''earth'', ''#C4A265'', ''#8B9A6B''), (''khaki'', ''#B8A88A'', ''#6B8E6B''),
      (''olive'', ''#A89272'', ''#7D8B69''), (''gold'', ''#FFD700'', ''#FFD700'')]"

text \<open>The name of an inherited property finds a function, which has no colours.\<close>

definition getAccentColor :: "bool \<Rightarrow> string \<Rightarrow> string option \<Rightarrow> string option \<Rightarrow> string option" where
  "getAccentColor prefersDarkMode themePreference accentPref customAccent =
     (let isDark = darkModeEnabled prefersDarkMode themePreference;
          light_dark = (\<lambda>(light, dark). Some (if isDark then dark else light))
      in if accentPref = Some ''custom'' \<and> truthy customAccent then customAccent
         else case Option.bind accentPref (map_of accentPresets) of
           Some preset \<Rightarrow> light_dark preset
         | None \<Rightarrow>
             if (case accentPref of Some p \<Rightarrow> inherited p | None \<Rightarrow> False) then None
             else Option.bind (map_of accentPresets ''earth'') light_dark)"

subsection \<open>The page\<close>

definition login_redirect :: "config \<Rightarrow> 'kv session \<Rightarrow> string \<Rightarrow> string option" where
  "login_redirect cfg ses path =
     (let isPublicRoute = path = ''/login'' \<or> path = ''/signup'' \<or> starts_with path ''/invite/''
      in if \<not> session_exists ses \<and> require_login cfg \<and> \<not> isPublicRoute then Some ''/login'' else None)"

text \<open>The rows of \<open>sm_all\<close> carry their number of unread notifications.\<close>

definition withoutInternal :: "(subscription \<times> nat) list \<Rightarrow> (subscription \<times> nat) list" where
  "withoutInternal ss = filter (\<lambda>(s, _). \<not> s_internal s) ss"

definition newNotificationsCount :: "(subscription \<times> nat) list option \<Rightarrow> nat" where
  "newNotificationsCount ss =
     (case ss of None \<Rightarrow> 0 | Some ss \<Rightarrow> fold (\<lambda>(_, unread) prev. prev + unread) (withoutInternal ss) 0)"

definition updateTitle :: "nat \<Rightarrow> string" where
  "updateTitle unread = (if unread > 0 then ''('' @ nat_str unread @ '') Coop'' else ''Coop'')"

definition selectSubscription ::
  "config \<Rightarrow> string option \<Rightarrow> string option \<Rightarrow> (subscription \<times> nat) list option \<Rightarrow> subscription option" where
  "selectSubscription cfg param_baseUrl param_topic ss =
     map_option fst (find (\<lambda>(s, _).
       (truthy param_baseUrl \<and> s_baseUrl s \<in> set (expandUrl (coalesce param_baseUrl [])) \<and> param_topic = Some (s_topic s)) \<or>
       (base_url cfg = s_baseUrl s \<and> param_topic = Some (s_topic s)))
       (case ss of None \<Rightarrow> [] | Some ss \<Rightarrow> withoutInternal ss))"

subsection \<open>The side bar\<close>

definition lastMessageTime ::
  "('s, 'n, 'p, 'u) db_ops \<Rightarrow> ('s, 'n, 'p, 'u) db \<Rightarrow> string \<Rightarrow> int" where
  "lastMessageTime T d sid =
     (case filter (\<lambda>n. n_event n = ''message'') (sm_getNotifications T d sid) of
        [] \<Rightarrow> 0 | m # _ \<Rightarrow> n_time m)"

definition compareSubscriptions :: "(string \<Rightarrow> int option) \<Rightarrow> subscription \<Rightarrow> subscription \<Rightarrow> int" where
  "compareSubscriptions lastMessageTimes a b =
     (let timeA = coalesce (lastMessageTimes (s_id a)) 0; timeB = coalesce (lastMessageTimes (s_id b)) 0
      in if timeA \<noteq> timeB then timeB - timeA
         else if topicUrl (s_baseUrl a) (s_topic a) < topicUrl (s_baseUrl b) (s_topic b) then - 1 else 1)"

definition sortedSubscriptions :: "(string \<Rightarrow> int option) \<Rightarrow> subscription list \<Rightarrow> subscription list" where
  "sortedSubscriptions lastMessageTimes ss =
     js_sort (compareSubscriptions lastMessageTimes) (filter (\<lambda>s. \<not> s_internal s) ss)"

text \<open>\<open>SubscriptionItem\<close>: the preview, and a click on it: the address, the database, the drawer.\<close>

definition item_preview :: "notification option \<Rightarrow> string option" where
  "item_preview lastN = map_option (\<lambda>n.
     (if truthy (n_sender n) then coalesce (n_sender n) [] @ '': '' else []) @
     js_substring 0 40 (coalesce (n_message n) [])) lastN"

definition item_click ::
  "('s, 'n, 'p, 'u) db_ops \<Rightarrow> config \<Rightarrow> int \<Rightarrow> subscription \<Rightarrow> ('s, 'n, 'p, 'u) db \<Rightarrow>
     string \<times> ('s, 'n, 'p, 'u) db \<times> bool" where
  "item_click T cfg innerWidth s d =
     (forSubscription cfg s, sm_markNotificationsRead T (s_id s) d, innerWidth < 600)"

record nav_alerts =
  na_permissionRequired :: bool
  na_permissionDenied :: bool
  na_iosInstall :: bool
  na_browserNotSupported :: bool
  na_contextNotSupported :: bool

definition nav_alerts_of :: "config \<Rightarrow> browser \<Rightarrow> nav_alerts" where
  "nav_alerts_of cfg br =
     (let ios = iosSupportedButInstallRequired cfg br in \<lparr>
        na_permissionRequired = notRequested br,
        na_permissionDenied = denied br,
        na_iosInstall = ios,
        na_browserNotSupported = (\<not> ios \<and> \<not> browserSupported br),
        na_contextNotSupported = (browserSupported br \<and> \<not> contextSupported br)\<rparr>)"

definition alertVisible :: "bool \<Rightarrow> nav_alerts \<Rightarrow> bool" where
  "alertVisible versionChanged na \<longleftrightarrow> versionChanged \<or> na_permissionRequired na \<or> na_permissionDenied na \<or>
     na_iosInstall na \<or> na_browserNotSupported na \<or> na_contextNotSupported na"

definition showUpgradeBanner :: "config \<Rightarrow> string option \<Rightarrow> bool \<Rightarrow> bool" where
  "showUpgradeBanner cfg role paid \<longleftrightarrow> enable_payments cfg \<and> role \<noteq> Some ''admin'' \<and> \<not> paid"

text \<open>\<open>onStartDM\<close> and \<open>onCreated\<close>: subscribe to the topic at the home server and go there.\<close>

definition open_own_topic ::
  "('s, 'n, 'p, 'u) db_ops \<Rightarrow> config \<Rightarrow> string \<Rightarrow> ('s, 'n, 'p, 'u) db \<Rightarrow> ('s, 'n, 'p, 'u) db \<times> string" where
  "open_own_topic T cfg topic d =
     (let (d', s) = sm_add T (base_url cfg) topic no_opts d in (d', forSubscription cfg s))"

subsection \<open>Lemmas\<close>

definition activity_order :: "(string \<Rightarrow> int option) \<Rightarrow> subscription \<Rightarrow> subscription \<Rightarrow> bool" where
  "activity_order mt a b \<longleftrightarrow>
     (let ta = coalesce (mt (s_id a)) 0; tb = coalesce (mt (s_id b)) 0
      in tb < ta \<or> (ta = tb \<and> topicUrl (s_baseUrl a) (s_topic a) \<le> topicUrl (s_baseUrl b) (s_topic b)))"

interpretation activity: comparator "compareSubscriptions mt" "activity_order mt" for mt
  by unfold_locales (auto simp: activity_order_def compareSubscriptions_def Let_def split: if_splits)

text \<open>
  The side bar lists every subscription that is not internal exactly as often as it is stored,
  the one with the newest message first and those of the same time by their address.
\<close>

theorem subscriptions_by_activity:
  "mset (sortedSubscriptions mt ss) = filter_mset (\<lambda>s. \<not> s_internal s) (mset ss) \<and>
   sorted_wrt (activity_order mt) (sortedSubscriptions mt ss)"
  by (simp add: sortedSubscriptions_def activity.sorted_js_sort)

text \<open>
  An address that names a server selects the subscription of the home server with the same topic
  name when that comes first in the list.
\<close>

lemma external_address_selects_home:
  assumes "truthy pb" and "base_url cfg \<notin> set (expandUrl (coalesce pb []))"
    and "s_baseUrl s = base_url cfg" and "s_topic s = topic" and "\<not> s_internal s"
  shows "selectSubscription cfg pb (Some topic) (Some ((s, k) # ss)) = Some s"
  using assms by (simp add: selectSubscription_def withoutInternal_def)

lemma external_address_selects_home_witness:
  "selectSubscription plain_config (Some ''other.org'') (Some ''news'')
     (Some [(new_subscription ''https://c'' ''news'' no_opts, 0), (new_subscription ''https://other.org'' ''news'' no_opts, 3)]) =
   Some (new_subscription ''https://c'' ''news'' no_opts)"
  by (rule external_address_selects_home)
    (simp_all add: plain_config_def new_subscription_def no_opts_def expandUrl_def)

lemma newNotificationsCount_sum:
  "newNotificationsCount (Some ss) = sum_list (map snd (withoutInternal ss))"
proof -
  have "fold (\<lambda>(_, k) prev. prev + k) xs n = n + sum_list (map snd xs)" for xs :: "(subscription \<times> nat) list" and n
    by (induction xs arbitrary: n) auto
  then show ?thesis by (simp add: newNotificationsCount_def)
qed

subsection \<open>Darkening a colour\<close>

text \<open>The \<open>k\<close> hexadecimal digits of a number.\<close>

fun hex_digits :: "nat \<Rightarrow> nat \<Rightarrow> string" where
  "hex_digits 0 n = []"
| "hex_digits (Suc k) n = hex_digits k (n div 16) @ [hex_char (n mod 16)]"

lemma length_hex_digits [simp]: "length (hex_digits k n) = k"
  by (induction k arbitrary: n) auto

lemma hex_char_facts:
  assumes "d < 16"
  shows "hex_value (hex_char d) = Some d" "lower_char (hex_char d) \<noteq> CHR ''x''" "\<not> is_space (hex_char d)"
    "hex_char d \<noteq> CHR ''-''" "hex_char d \<noteq> CHR ''+''" "hex_char d \<noteq> CHR ''#''"
proof -
  have "d \<in> set [0..<16]" using assms by simp
  moreover have "\<forall>d \<in> set [0..<16]. hex_value (hex_char d) = Some d \<and> lower_char (hex_char d) \<noteq> CHR ''x'' \<and>
      \<not> is_space (hex_char d) \<and> hex_char d \<noteq> CHR ''-'' \<and> hex_char d \<noteq> CHR ''+'' \<and> hex_char d \<noteq> CHR ''#''"
    by (simp add: hex_value_def hex_char_def lower_char_def is_space_def Let_def upt_conv_Cons del: upt_Suc set_upt)
  ultimately show "hex_value (hex_char d) = Some d" "lower_char (hex_char d) \<noteq> CHR ''x''" "\<not> is_space (hex_char d)"
    "hex_char d \<noteq> CHR ''-''" "hex_char d \<noteq> CHR ''+''" "hex_char d \<noteq> CHR ''#''"
    by blast+
qed

lemma set_hex_digits: "c \<in> set (hex_digits k n) \<Longrightarrow> \<exists>d < 16. c = hex_char d"
proof (induction k arbitrary: n)
  case (Suc k)
  then consider "c \<in> set (hex_digits k (n div 16))" | "c = hex_char (n mod 16)" by auto
  then show ?case
  proof cases
    case 1
    then show ?thesis by (rule Suc.IH)
  next
    case 2
    then show ?thesis by (intro exI [where x = "n mod 16"]) simp
  qed
qed simp

lemma hex_prefix_digits:
  "n < 16 ^ k \<Longrightarrow> 0 < k \<Longrightarrow> hex_prefix acc (hex_digits k n @ s) = hex_prefix (Some (16 ^ k * coalesce acc 0 + int n)) s"
proof (induction k arbitrary: n s)
  case (Suc k)
  have d: "n div 16 < 16 ^ k" using Suc.prems(1) by (simp add: less_mult_imp_div_less mult.commute)
  have m: "hex_value (hex_char (n mod 16)) = Some (n mod 16)" by (rule hex_char_facts) simp
  have split: "int n = 16 * int (n div 16) + int (n mod 16)"
    using arg_cong [OF mult_div_mod_eq [of 16 n, symmetric], of int] by (simp only: of_nat_add of_nat_mult of_nat_numeral)
  show ?case
  proof (cases "k = 0")
    case True
    then show ?thesis using Suc.prems m by simp
  next
    case False
    then show ?thesis using Suc.IH [OF d] m split by (simp add: algebra_simps)
  qed
qed simp

lemma hex_digits_zero: "hex_digits k 0 = replicate k (hex_char 0)"
  by (induction k) (simp_all add: replicate_append_same)

lemma hex_str_digits: "n < 16 ^ k \<Longrightarrow> 0 < k \<Longrightarrow> padStart k (hex_char 0) (hex_str n) = hex_digits k n"
proof (induction k arbitrary: n)
  case (Suc k)
  show ?case
  proof (cases "n < 16")
    case True
    then show ?thesis by (simp add: hex_str.simps padStart_def hex_digits_zero)
  next
    case False
    have d: "n div 16 < 16 ^ k" using Suc.prems(1) by (simp add: less_mult_imp_div_less mult.commute)
    have "0 < k" using False Suc.prems(1) by (cases k) auto
    then have "padStart k (hex_char 0) (hex_str (n div 16)) = hex_digits k (n div 16)" by (rule Suc.IH [OF d])
    then show ?thesis using False by (subst hex_str.simps) (simp add: padStart_def)
  qed
qed simp

definition rgb :: "nat \<Rightarrow> nat \<Rightarrow> nat \<Rightarrow> nat" where "rgb r g b = r * 65536 + g * 256 + b"

lemma rgb_bound: "r < 256 \<Longrightarrow> g < 256 \<Longrightarrow> b < 256 \<Longrightarrow> rgb r g b < 16 ^ 6"
  by (simp add: rgb_def)

lemma rgb_parts:
  assumes "g < 256" and "b < 256"
  shows "rgb r g b div 65536 = r" "rgb r g b div 256 = r * 256 + g" "rgb r g b mod 256 = b"
proof -
  have e: "rgb r g b = (g * 256 + b) + r * 65536" and f: "rgb r g b = b + (r * 256 + g) * 256"
    by (simp_all add: rgb_def algebra_simps)
  have "g * 256 + b < 65536" using assms by linarith
  then show "rgb r g b div 65536 = r" unfolding e by simp
  show "rgb r g b div 256 = r * 256 + g" unfolding f using assms by simp
  have "(b + (r * 256 + g) * 256) mod 256 = b mod 256" by (rule mod_mult_self1)
  then show "rgb r g b mod 256 = b" unfolding f using assms by simp
qed

lemma parse_rgb: "n < 16 ^ 6 \<Longrightarrow> parseInt16 (hex_digits 6 n) = Some (int n)"
proof -
  assume n: "n < 16 ^ 6"
  obtain c1 c2 s where cs: "hex_digits 6 n = c1 # c2 # s"
    using length_hex_digits [of 6 n] by (cases "hex_digits 6 n"; cases "tl (hex_digits 6 n)") auto
  obtain d1 d2 where d: "d1 < 16" "d2 < 16" "c1 = hex_char d1" "c2 = hex_char d2"
    using set_hex_digits [of c1 6 n] set_hex_digits [of c2 6 n] cs by auto
  have p: "hex_prefix None (hex_digits 6 n) = Some (int n)"
    using hex_prefix_digits [OF n, of None "[]"] by simp
  show ?thesis
    using p hex_char_facts [OF d(1)] hex_char_facts [OF d(2)]
    by (simp add: parseInt16_def cs d(3,4) Let_def starts_with_def js_lower_def)
qed

lemma or_shifted: "0 \<le> b \<Longrightarrow> b < 2 ^ n \<Longrightarrow> or (push_bit n a) b = push_bit n a + (b :: int)"
proof -
  assume "0 \<le> b" "b < 2 ^ n"
  then have "take_bit n b = b" by (simp add: take_bit_int_eq_self)
  then show ?thesis using concat_bit_def [of n b a] concat_bit_eq [of n b a] by (simp add: or.commute add.commute)
qed

text \<open>
  The darker shade of a colour of three bytes takes the amount from each of them, not below zero,
  and is written with six digits again.
\<close>

theorem darken_color:
  assumes "r < 256" and "g < 256" and "b < 256"
  shows "darkenColor (''#'' @ hex_digits 6 (rgb r g b)) (int a) = ''#'' @ hex_digits 6 (rgb (r - a) (g - a) (b - a))"
proof -
  let ?n = "int (rgb r g b)"
  have n: "rgb r g b < 16 ^ 6" "rgb (r - a) (g - a) (b - a) < 16 ^ 6"
    using rgb_bound assms by (meson less_imp_diff_less)+
  have small: "to_int32 (int m) = int m" if "m < 16 ^ 6" for m
    using that by (simp add: to_int32_def signed_take_bit_int_eq_self)
  have parts: "?n div 2 ^ 16 = int r" "?n div 2 ^ 8 mod 256 = int g" "?n mod 256 = int b"
    using rgb_parts [OF assms(2,3), of r] assms(2) arg_cong [OF rgb_parts(1) [OF assms(2,3), of r], of int]
      arg_cong [OF rgb_parts(2) [OF assms(2,3), of r], of int] arg_cong [OF rgb_parts(3) [OF assms(2,3), of r], of int]
    by (simp_all add: zdiv_int zmod_int)
  have ch: "max 0 (int x - int a) = int (x - a)" for x by simp
  have "or (push_bit 16 (int (r - a))) (push_bit 8 (int (g - a))) = push_bit 8 (256 * int (r - a) + int (g - a))"
    using or_shifted [of "push_bit 8 (int (g - a))" 16 "int (r - a)"] assms(2) by (simp add: push_bit_eq_mult)
  then have v: "or (or (push_bit 16 (int (r - a))) (push_bit 8 (int (g - a)))) (int (b - a)) = int (rgb (r - a) (g - a) (b - a))"
    using or_shifted [of "int (b - a)" 8 "256 * int (r - a) + int (g - a)"] assms(3)
    by (simp add: push_bit_eq_mult rgb_def algebra_simps)
  have zero: "CHR ''0'' = hex_char 0" by (simp add: hex_char_def)
  have num: "coalesce (parseInt16 (remove1 CHR ''#'' (''#'' @ hex_digits 6 (rgb r g b)))) 0 = ?n"
    by (simp add: parse_rgb [OF n(1)])
  show ?thesis
    unfolding darkenColor_def Let_def num small [OF n(1)] parts ch v small [OF n(2)] zero
    using hex_str_digits [OF n(2)] by simp
qed

lemma darken_color_witness:
  "darkenColor (''#'' @ hex_digits 6 (rgb 196 162 10)) (int 30) = ''#'' @ hex_digits 6 (rgb 166 132 0)"
  using darken_color [of 196 162 10 30] by simp

end
