(* ===== verification/Dialogs.thy ===== *)
theory Dialogs
  imports App_Shell
begin

section \<open>Subscribing, unsubscribing, and the dialogs of a subscription\<close>

text \<open>
  The dialog that subscribes to a topic (components/SubscribeDialog.jsx), the menu of a subscription
  (components/SubscriptionPopup.jsx), the reservation dialogs (components/ReserveDialogs.jsx), and
  the login and signup forms (components/Login.jsx, components/Signup.jsx). A change is made locally
  first and then on the account, if there is a session; a request the server refuses as
  unauthorized ends the session.
\<close>

subsection \<open>Errors\<close>

text \<open>\<open>e.message\<close>; the text of a failed connection or parse is the browser's.\<close>

definition error_message :: "(app_error \<Rightarrow> string) \<Rightarrow> app_error \<Rightarrow> string" where
  "error_message browser_text e =
     (case e of
        UnauthorizedError \<Rightarrow> ''Unauthorized''
      | UserExistsError \<Rightarrow> ''Username already exists''
      | TopicReservedError \<Rightarrow> ''Topic already reserved''
      | AccountCreateLimitReachedError \<Rightarrow> ''Account creation limit reached''
      | IncorrectPasswordError \<Rightarrow> ''Password incorrect''
      | OtherError s \<Rightarrow> s
      | _ \<Rightarrow> browser_text e)"

text \<open>
  \<open>if (e instanceof UnauthorizedError) await session.resetAndRedirect(routes.login)\<close>: the reset
  empties the browser's storage (\<open>fresh\<close>).
\<close>

definition auth_guard :: "'kv \<Rightarrow> 'kv session \<Rightarrow> app_error \<Rightarrow> 'kv session" where
  "auth_guard fresh ses e = (if e = UnauthorizedError then resetAndRedirect fresh ''/login'' ses else ses)"

datatype dialog_end = DialogClosed | DialogError string

definition submit_dialog ::
  "'kv \<Rightarrow> (app_error \<Rightarrow> string) \<Rightarrow> 'a io \<Rightarrow> 'kv session \<Rightarrow> request list \<Rightarrow>
     ('kv session \<times> dialog_end) \<times> request list" where
  "submit_dialog fresh text call ses log =
     (case call log of
        (Inr _, log') \<Rightarrow> ((ses, DialogClosed), log')
      | (Inl e, log') \<Rightarrow>
          ((auth_guard fresh ses e, if e = UnauthorizedError then DialogClosed else DialogError (text e)), log'))"

subsection \<open>SubscribeDialog.jsx\<close>

definition subscribeTopic ::
  "('s, 'n, 'p, 'u) db_ops \<Rightarrow> server \<Rightarrow> config \<Rightarrow> 'kv \<Rightarrow> string \<Rightarrow> string \<Rightarrow> sub_opts \<Rightarrow>
     'kv session \<Rightarrow> ('s, 'n, 'p, 'u) db \<Rightarrow> request list \<Rightarrow>
     (subscription \<times> 'kv session \<times> ('s, 'n, 'p, 'u) db) \<times> request list" where
  "subscribeTopic T srv cfg fresh b topic opts ses d log =
     (let (d', subscription) = sm_add T b topic opts d
      in if session_exists ses then
           (let tok = session_token ses;
                call = io_bind (account_addSubscription srv cfg tok b topic) (\<lambda>_.
                  if truthy (o_displayName opts) then
                    account_updateSubscription srv cfg tok b topic
                      [(''display_name'', JStr (coalesce (o_displayName opts) []))]
                  else io_return JNull)
            in case call log of
                 (Inr _, log') \<Rightarrow> ((subscription, ses, d'), log')
               | (Inl e, log') \<Rightarrow> ((subscription, auth_guard fresh ses e, d'), log'))
         else ((subscription, ses, d'), log))"

definition subscribe_opts :: "string \<Rightarrow> sub_opts" where
  "subscribe_opts displayName =
     (if js_trim displayName \<noteq> [] then no_opts\<lparr>o_displayName := Some (js_trim displayName)\<rparr> else no_opts)"

text \<open>\<open>handleSuccess\<close>: subscribe, poll in the background, tell the caller.\<close>

definition subscribe_handleSuccess ::
  "('s, 'n, 'p, 'u) db_ops \<Rightarrow> (string \<Rightarrow> string \<Rightarrow> string option \<Rightarrow> app_error + notification list) \<Rightarrow>
     int \<Rightarrow> server \<Rightarrow> config \<Rightarrow> 'kv \<Rightarrow> string \<Rightarrow> string \<Rightarrow> string \<Rightarrow>
     'kv session \<Rightarrow> ('s, 'n, 'p, 'u) db \<Rightarrow> request list \<Rightarrow>
     (subscription \<times> 'kv session \<times> ('s, 'n, 'p, 'u) db) \<times> request list" where
  "subscribe_handleSuccess T api now srv cfg fresh b topic displayName ses d log =
     (let ((s, ses', d'), log') =
        subscribeTopic T srv cfg fresh (if b = [] then base_url cfg else b) topic (subscribe_opts displayName) ses d log
      in ((s, ses', pollInBackground T api now s d'), log'))"

text \<open>What the pages do after the server was asked for access; the request may throw.\<close>

datatype access_outcome =
    AccessGranted
  | NotAuthorized
  | NeedsLogin
  | OfferJoinRequest
  | AccessThrows app_error

definition create_handleSubscribe ::
  "base64_lib \<Rightarrow> server \<Rightarrow> config \<Rightarrow> string \<Rightarrow> user option \<Rightarrow> request list \<Rightarrow> access_outcome \<times> request list" where
  "create_handleSubscribe B srv cfg topic user log =
     (case api_topicAuth B srv (base_url cfg) topic user log of
        (Inl e, log') \<Rightarrow> (AccessThrows e, log')
      | (Inr success, log') \<Rightarrow>
          (if success then AccessGranted else if user \<noteq> None then NotAuthorized else NeedsLogin, log'))"

definition join_handleJoin ::
  "base64_lib \<Rightarrow> server \<Rightarrow> config \<Rightarrow> string \<Rightarrow> user option \<Rightarrow> bool \<Rightarrow> request list \<Rightarrow> access_outcome \<times> request list" where
  "join_handleJoin B srv cfg topic user logged_in log =
     (case api_topicAuth B srv (base_url cfg) topic user log of
        (Inl e, log') \<Rightarrow> (AccessThrows e, log')
      | (Inr success, log') \<Rightarrow>
          (if success then AccessGranted
           else if user \<noteq> None then (if logged_in then OfferJoinRequest else NotAuthorized)
           else NeedsLogin, log'))"

text \<open>The button is enabled for a valid topic that is not subscribed yet (at the home server).\<close>

definition subscribeButtonEnabled :: "config \<Rightarrow> subscription list \<Rightarrow> string \<Rightarrow> bool" where
  "subscribeButtonEnabled cfg ss topic \<longleftrightarrow> validTopic cfg topic \<and>
     topicUrl (base_url cfg) topic \<notin> set (map (\<lambda>s. topicUrl (s_baseUrl s) (s_topic s)) ss)"

text \<open>The first effects of the pages: a generated id for a new chat, none to join one.\<close>

definition create_topic :: "(nat \<Rightarrow> nat) \<Rightarrow> string \<Rightarrow> string" where
  "create_topic rnd topic = (if topic = [] then randomAlphanumericString rnd 16 else topic)"

definition join_topic :: "string \<Rightarrow> string" where
  "join_topic topic =
     (if length topic = 16 \<and> list_all (\<lambda>c. word_char c \<and> c \<noteq> CHR ''_'') topic then [] else topic)"

text \<open>\<open>handleSendJoinRequest\<close>: the text of a failure, or that the request was sent.\<close>

definition handleSendJoinRequest ::
  "server \<Rightarrow> config \<Rightarrow> string option \<Rightarrow> string \<Rightarrow> string \<Rightarrow> request list \<Rightarrow> (string + unit) \<times> request list" where
  "handleSendJoinRequest srv cfg tok topic fallback log =
     (case fetch srv \<lparr>rq_method = ''POST'', rq_url = base_url cfg @ ''/v1/join-requests'',
         rq_headers = [(''Content-Type'', ''application/json''), (''Authorization'', ''Bearer '' @ coalesce tok ''null'')],
         rq_body = Some (JObj [(''topic'', JStr topic)])\<rparr> log of
        (Inl e, log') \<Rightarrow> (Inl fallback, log')
      | (Inr rs, log') \<Rightarrow>
          (if rs_ok rs then Inr ()
           else let err = json_prop (coalesce (rs_json rs) (JObj [])) ''error''
                in Inl (if json_truthy err then json_text (coalesce err JNull) else fallback), log'))"

text \<open>\<open>LoginPage\<close> tries the credentials at the server and keeps them.\<close>

definition page_handleLogin ::
  "'u user_ops \<Rightarrow> base64_lib \<Rightarrow> server \<Rightarrow> config \<Rightarrow> 'kv session \<Rightarrow> string \<Rightarrow> string \<Rightarrow> string \<Rightarrow> string \<Rightarrow>
     'u \<Rightarrow> request list \<Rightarrow> (access_outcome \<times> 'u) \<times> request list" where
  "page_handleLogin U B srv cfg ses prop_baseUrl topic username password t log =
     (let b = (if prop_baseUrl = [] then base_url cfg else prop_baseUrl);
          user = \<lparr>u_baseUrl = b, u_username = username, u_password = Some password, u_token = None\<rparr>
      in case api_topicAuth B srv b topic (Some user) log of
           (Inl e, log') \<Rightarrow> ((AccessThrows e, t), log')
         | (Inr success, log') \<Rightarrow>
             (if success then (AccessGranted, users_save U cfg ses user t) else (NotAuthorized, t), log'))"

subsection \<open>SubscriptionPopup.jsx\<close>

record reservation_flags =
  rf_add :: bool
  rf_addDisabled :: bool
  rf_edit :: bool
  rf_delete :: bool

text \<open>\<open>remaining\<close> is \<open>account?.stats.reservations_remaining\<close>.\<close>

definition reservation_menu :: "config \<Rightarrow> subscription \<Rightarrow> int option \<Rightarrow> reservation_flags" where
  "reservation_menu cfg s remaining =
     (let showAdd = (enable_reservations cfg \<and> s_reservation s = None \<and> (case remaining of Some k \<Rightarrow> k > 0 | None \<Rightarrow> False)) in \<lparr>
        rf_add = showAdd,
        rf_addDisabled = (\<not> showAdd \<and> enable_reservations cfg \<and> s_reservation s = None \<and>
          (enable_payments cfg \<or> remaining = Some 0)),
        rf_edit = (enable_reservations cfg \<and> s_reservation s \<noteq> None),
        rf_delete = (enable_reservations cfg \<and> s_reservation s \<noteq> None)\<rparr>)"

text \<open>\<open>handleShareChatId\<close>: sharing where the browser can, the clipboard otherwise or on an error.\<close>

datatype share_result = Shared | ShareAborted | ShareFailed

definition handleShareChatId ::
  "bool \<Rightarrow> bool \<Rightarrow> share_result option \<Rightarrow> subscription \<Rightarrow> page_call list \<times> bool" where
  "handleShareChatId has_clipboard secure share s =
     (let copied = (copyToClipboard has_clipboard secure (s_topic s), True)
      in case share of
           None \<Rightarrow> copied
         | Some r \<Rightarrow> if r = ShareFailed then copied else ([], False))"

text \<open>
  \<open>handleSendTestMessage\<close>: the four \<open>pick\<close> functions are the random choices of the shuffles, \<open>k\<close> is
  \<open>Math.round(Math.random() * 4)\<close>, \<open>clock\<close> the formatted time. The result is \<open>showPublishError\<close>.
\<close>

definition test_tags :: "string list" where
  "test_tags = [''grinning'', ''octopus'', ''upside_down_face'', ''palm_tree'', ''maple_leaf'', ''apple'', ''skull'',
     ''warning'', ''jack_o_lantern'', ''de-server-1'', ''backups'', ''cron-script'', ''script-error'',
     ''team-updates'', ''mouse'', ''go-rocks'', ''hi-ben'']"

definition test_titles :: "string list" where
  "test_titles = [[], [], [],
     ''Oh my, another test message?'',
     ''Titles are optional, did you know that?'',
     ''Coop ist Open Source und wird immer kostenlos bleiben!'',
     ''I don't really like apples'',
     ''My favorite TV show is The Wire. You should watch it!'',
     ''You can attach files and URLs to messages too'',
     ''You can delay messages up to 3 days'']"

definition test_messages :: "string \<Rightarrow> string list" where
  "test_messages clock = [
     ''Hey! Das ist eine Testnachricht von Coop. Es ist gerade '' @ clock @ ''. Alles klar bei dir?'',
     ''Coop ist Open Source - wenn es dir gefaellt, gib uns einen Stern auf GitHub!'',
     ''Das ist eine Testnachricht. Coop laeuft auf deinem eigenen Server - keine Daten verlassen deine Infrastruktur.'',
     ''Es ist schon '' @ clock @ '' - wo ist die Zeit geblieben? Hoffe dir geht's gut!'',
     ''Wusstest du? Du kannst Dateien und Bilder an Nachrichten anhaengen.'',
     ''Coop unterstuetzt Markdown, Tags, Prioritaeten und zeitversetzte Nachrichten.'',
     ''Tipp: Enter sendet die Nachricht, Shift+Enter macht einen Zeilenumbruch.'']"

definition handleSendTestMessage ::
  "base64_lib \<Rightarrow> server \<Rightarrow> user option \<Rightarrow> (nat \<Rightarrow> nat) \<Rightarrow> nat \<Rightarrow> (nat \<Rightarrow> nat) \<Rightarrow> (nat \<Rightarrow> nat) \<Rightarrow> (nat \<Rightarrow> nat) \<Rightarrow>
     string \<Rightarrow> subscription \<Rightarrow> request list \<Rightarrow> bool \<times> request list" where
  "handleSendTestMessage B srv user pick1 k pick2 pick3 pick4 clock s log =
     (let tags = take k (shuffle pick1 test_tags);
          priority = shuffle pick2 [1, 2, 3, 4, 5] ! 0;
          title = shuffle pick3 test_titles ! 0;
          message = shuffle pick4 (test_messages clock) ! 0
      in case api_publish B srv user (s_baseUrl s) (s_topic s) message
           [(''title'', JStr title), (''priority'', JNum priority), (''tags'', JArr (map JStr tags))] log of
           (Inr _, log') \<Rightarrow> (False, log')
         | (Inl _, log') \<Rightarrow> (True, log'))"

definition handleClearAll where
  "handleClearAll T s d = sm_deleteNotifications T (s_id s) d"

definition handleSetMutedUntil where
  "handleSetMutedUntil T s mutedUntil d = sm_setMutedUntil T (s_id s) mutedUntil d"

definition handleUnsubscribe ::
  "('s, 'n, 'p, 'u) db_ops \<Rightarrow> server \<Rightarrow> config \<Rightarrow> 'kv \<Rightarrow> subscription \<Rightarrow> 'kv session \<Rightarrow> ('s, 'n, 'p, 'u) db \<Rightarrow>
     request list \<Rightarrow> (string \<times> 'kv session \<times> ('s, 'n, 'p, 'u) db) \<times> request list" where
  "handleUnsubscribe T srv cfg fresh s ses d log =
     (let d' = sm_remove T s d;
          (ses', log') =
            (if session_exists ses \<and> \<not> s_internal s then
               (case account_deleteSubscription srv cfg (session_token ses) (s_baseUrl s) (s_topic s) log of
                  (Inr _, log') \<Rightarrow> (ses, log')
                | (Inl e, log') \<Rightarrow> (auth_guard fresh ses e, log'))
             else (ses, log));
          target = (case sm_first T d' of
              Some x \<Rightarrow> if \<not> s_internal x then forSubscription cfg x else app_root cfg
            | None \<Rightarrow> app_root cfg)
      in ((target, ses', d'), log'))"

text \<open>\<open>DisplayNameDialog\<close>: the name is stored locally, then on the account.\<close>

definition displayName_handleSave ::
  "('s, 'n, 'p, 'u) db_ops \<Rightarrow> server \<Rightarrow> config \<Rightarrow> 'kv \<Rightarrow> (app_error \<Rightarrow> string) \<Rightarrow> subscription \<Rightarrow> string \<Rightarrow>
     'kv session \<Rightarrow> ('s, 'n, 'p, 'u) db \<Rightarrow> request list \<Rightarrow>
     (('kv session \<times> dialog_end) \<times> ('s, 'n, 'p, 'u) db) \<times> request list" where
  "displayName_handleSave T srv cfg fresh text s displayName ses d log =
     (let d' = sm_setDisplayName T (s_id s) (Some displayName) d
      in if session_exists ses \<and> \<not> s_internal s then
           (let (r, log') = submit_dialog fresh text
              (account_updateSubscription srv cfg (session_token ses) (s_baseUrl s) (s_topic s)
                 [(''display_name'', JStr displayName)]) ses log
            in ((r, d'), log'))
         else (((ses, DialogClosed), d'), log))"

datatype limit_chip = NoChip | LimitReachedChip | ProChip

text \<open>\<open>ReserveLimitChip\<close> on the account's role, remaining reservations and limit.\<close>

definition ReserveLimitChip :: "config \<Rightarrow> (string \<times> int \<times> int) option \<Rightarrow> limit_chip" where
  "ReserveLimitChip cfg account =
     (case account of
        Some (role, remaining, limit) \<Rightarrow>
          if role = ''admin'' \<or> remaining > 0 then NoChip
          else if enable_payments cfg then (if limit > 0 then LimitReachedChip else ProChip)
          else LimitReachedChip
      | None \<Rightarrow> if enable_payments cfg then ProChip else NoChip)"

subsection \<open>ReserveDialogs.jsx\<close>

definition reserve_submitEnabled :: "config \<Rightarrow> reservation list \<Rightarrow> string \<Rightarrow> bool" where
  "reserve_submitEnabled cfg rs topic \<longleftrightarrow> validTopic cfg topic \<and> filter (\<lambda>r. r_topic r = topic) rs = []"

definition reserveAdd_handleSubmit where
  "reserveAdd_handleSubmit srv cfg fresh text already_reserved topic everyone ses log =
     submit_dialog fresh (\<lambda>e. if e = TopicReservedError then already_reserved else text e)
       (account_upsertReservation srv cfg (session_token ses) topic everyone) ses log"

definition reserveEdit_handleSubmit where
  "reserveEdit_handleSubmit srv cfg fresh text topic everyone ses log =
     submit_dialog fresh text (account_upsertReservation srv cfg (session_token ses) topic everyone) ses log"

definition reserveDelete_handleSubmit where
  "reserveDelete_handleSubmit srv cfg fresh text topic deleteMessages ses log =
     submit_dialog fresh text (account_deleteReservation srv cfg (session_token ses) topic deleteMessages) ses log"

subsection \<open>Login.jsx and Signup.jsx\<close>

text \<open>
  A login stores the session and leaves for the app; the text of a failure otherwise. The token is
  stored as a text.
\<close>

definition login_handleSubmit ::
  "'kv kv_ops \<Rightarrow> base64_lib \<Rightarrow> server \<Rightarrow> config \<Rightarrow> (app_error \<Rightarrow> string) \<Rightarrow> string \<Rightarrow> string \<Rightarrow> string \<Rightarrow>
     'kv session \<Rightarrow> request list \<Rightarrow> (string + 'kv session) \<times> request list" where
  "login_handleSubmit KV B srv cfg text invalid username password ses log =
     (case account_login B srv cfg
         \<lparr>u_baseUrl = [], u_username = username, u_password = Some password, u_token = None\<rparr> log of
        (Inr tok, log') \<Rightarrow> (Inr ((session_store KV username (json_text tok) ses)\<lparr>href := Some (app_root cfg)\<rparr>), log')
      | (Inl e, log') \<Rightarrow> (Inl (if e = UnauthorizedError then invalid else text e), log'))"

text \<open>\<open>taken\<close> is the text for a name in use (its \<open>e.username\<close> is undefined), \<open>limit\<close> for too many accounts.\<close>

definition signup_handleSubmit ::
  "'kv kv_ops \<Rightarrow> base64_lib \<Rightarrow> server \<Rightarrow> config \<Rightarrow> (app_error \<Rightarrow> string) \<Rightarrow> (string \<Rightarrow> string) \<Rightarrow> string \<Rightarrow>
     string \<Rightarrow> string \<Rightarrow> 'kv session \<Rightarrow> request list \<Rightarrow> (string + 'kv session) \<times> request list" where
  "signup_handleSubmit KV B srv cfg text taken limit username password ses log =
     (case io_bind (account_create srv cfg username password) (\<lambda>_. account_login B srv cfg
         \<lparr>u_baseUrl = [], u_username = username, u_password = Some password, u_token = None\<rparr>) log of
        (Inr tok, log') \<Rightarrow> (Inr ((session_store KV username (json_text tok) ses)\<lparr>href := Some (app_root cfg)\<rparr>), log')
      | (Inl e, log') \<Rightarrow>
          (Inl (if e = UserExistsError then taken ''undefined''
                else if e = AccountCreateLimitReachedError then limit else text e), log'))"

definition signupEnabled :: "string \<Rightarrow> string \<Rightarrow> string \<Rightarrow> bool" where
  "signupEnabled username password confirm \<longleftrightarrow> username \<noteq> [] \<and> password \<noteq> [] \<and> password = confirm"

subsection \<open>Properties\<close>

definition delete_request :: "config \<Rightarrow> string option \<Rightarrow> subscription \<Rightarrow> request" where
  "delete_request cfg tok s = \<lparr>rq_method = ''DELETE'', rq_url = accountSubscriptionUrl (base_url cfg),
     rq_headers = bearer tok [(''X-BaseURL'', s_baseUrl s), (''X-Topic'', s_topic s)], rq_body = None\<rparr>"

lemma unsubscribe_parts:
  "snd (snd (fst (handleUnsubscribe T srv cfg fresh s ses d log))) = sm_remove T s d"
  "snd (handleUnsubscribe T srv cfg fresh s ses d log) =
     (if session_exists ses \<and> \<not> s_internal s then log @ [delete_request cfg (session_token ses) s] else log)"
  by (simp_all add: handleUnsubscribe_def Let_def case_prod_beta account_deleteSubscription_def call_unit_def
      delete_request_def io_defs fetchOrThrow_unfold split: option.split)

lemma subscribe_parts:
  "snd (snd (fst (subscribeTopic T srv cfg fresh b topic opts ses d log))) = fst (sm_add T b topic opts d)"
  "fst (fst (subscribeTopic T srv cfg fresh b topic opts ses d log)) = snd (sm_add T b topic opts d)"
  by (auto simp: subscribeTopic_def Let_def case_prod_beta split: sum.split prod.split)

context coop_db
begin

lemma sm_first_row: "sm_first T d = Some x \<Longrightarrow> sub_row T d (s_id x) = Some x"
  by (auto simp: sm_first_def simp flip: subs.mem_to_array split: list.splits)

end

text \<open>
  C23: Unsubscribing removes exactly the subscription's row and its notifications from the database,
  tells the account once, and only if there is a session and the subscription is not internal, and
  leaves for a visible remaining subscription or the start page.
\<close>

theorem unsubscribe_complete:
  assumes "coop_db T"
  shows "let r = handleUnsubscribe T srv cfg fresh s ses d log; d' = snd (snd (fst r)) in
    sub_row T d' = (sub_row T d)(s_id s := None) \<and>
    (\<forall>i. notif_row T d' i = (case notif_row T d i of None \<Rightarrow> None | Some n \<Rightarrow> if in_sub (s_id s) n then None else Some n)) \<and>
    snd r = (if session_exists ses \<and> \<not> s_internal s then log @ [delete_request cfg (session_token ses) s] else log) \<and>
    (fst (fst r) = app_root cfg \<or> (\<exists>x. fst (fst r) = forSubscription cfg x \<and> sub_row T d' (s_id x) = Some x \<and> \<not> s_internal x))"
proof -
  let ?d' = "sm_remove T s d"
  have "fst (fst (handleUnsubscribe T srv cfg fresh s ses d log)) =
      (case sm_first T ?d' of Some x \<Rightarrow> if \<not> s_internal x then forSubscription cfg x else app_root cfg | None \<Rightarrow> app_root cfg)"
    by (simp add: handleUnsubscribe_def Let_def case_prod_beta)
  then have "fst (fst (handleUnsubscribe T srv cfg fresh s ses d log)) = app_root cfg \<or>
      (\<exists>x. fst (fst (handleUnsubscribe T srv cfg fresh s ses d log)) = forSubscription cfg x \<and>
        sub_row T ?d' (s_id x) = Some x \<and> \<not> s_internal x)"
    using coop_db.sm_first_row [OF assms] by (auto split: option.splits if_splits)
  then show ?thesis
    using coop_db.remove_rows [OF assms, of s d] by (simp add: unsubscribe_parts Let_def fun_eq_iff)
qed

lemma unsubscribe_complete_witness:
  "let s = new_subscription ''https://c'' ''a'' no_opts; ses = \<lparr>local_storage = Map.empty, kv_store = (), href = None\<rparr>;
       r = handleUnsubscribe mem_db_ops (\<lambda>_ _. None) plain_config () s ses (mem_db [s] []) []; d' = snd (snd (fst r)) in
    sub_row mem_db_ops d' = (sub_row mem_db_ops (mem_db [s] []))(s_id s := None) \<and> snd r = []"
proof -
  have "\<not> session_exists \<lparr>local_storage = Map.empty, kv_store = (), href = None\<rparr>"
    by (simp add: session_defs)
  then show ?thesis
    using unsubscribe_complete [where srv = "\<lambda>_ _. None" and cfg = plain_config and fresh = "()"
        and s = "new_subscription ''https://c'' ''a'' no_opts" and ses = "\<lparr>local_storage = Map.empty, kv_store = (), href = None\<rparr>"
        and d = "mem_db [new_subscription ''https://c'' ''a'' no_opts] []" and log = "[]", OF coop_db_mem]
    by (simp add: Let_def)
qed



end
