(* ===== verification/People.thy ===== *)
theory People
  imports Dialogs
begin

section \<open>People: avatars, members, contacts, direct messages, groups, profiles\<close>

text \<open>
  The handlers of components/UserAvatar.jsx, MemberList.jsx, ContactAdd.jsx, ContactList.jsx,
  GroupCreate.jsx and UserProfile.jsx: what is shown for a user, the order of the member list, the
  search for contacts with its timer, and the chats that are started with a person or a group. The
  session's token is \<open>tok\<close>; what a handler catches is logged and goes no further.
\<close>

subsection \<open>Avatars\<close>

definition avatarColors :: "string list" where
  "avatarColors = [''#FF6B9D'', ''#3B82F6'', ''#FFD700'', ''#22C55E'', ''#A855F7'', ''#EF4444'', ''#F97316'', ''#06B6D4'']"

text \<open>\<open>upper\<close> is \<open>toUpperCase\<close>, which takes some characters out of Latin-1.\<close>

definition getInitials :: "(string \<Rightarrow> string) \<Rightarrow> string option \<Rightarrow> string option \<Rightarrow> string" where
  "getInitials upper displayName username =
     (let name = (if truthy displayName then displayName else username)
      in if \<not> truthy name then ''?''
         else let parts = split_space (js_trim (coalesce name []))
              in if 2 \<le> length parts then upper [hd (parts ! 0), hd (parts ! 1)]
                 else upper [hd (coalesce name [])])"

text \<open>\<open>hash << 5\<close> is taken modulo \<open>2 ^ 32\<close>, the sum and the difference are not.\<close>

fun avatar_hash :: "int \<Rightarrow> string \<Rightarrow> int" where
  "avatar_hash hash [] = hash"
| "avatar_hash hash (c # cs) = avatar_hash (of_char c + (to_int32 (hash * 32) - hash)) cs"

definition getAvatarColor :: "string option \<Rightarrow> string" where
  "getAvatarColor username =
     (if \<not> truthy username then avatarColors ! 0
      else avatarColors ! nat (\<bar>avatar_hash 0 (coalesce username [])\<bar> mod int (length avatarColors)))"

subsection \<open>The member list\<close>

definition getOnlineStatus :: "int option \<Rightarrow> int \<Rightarrow> int" where
  "getOnlineStatus lastSeen now =
     (let seen = coalesce lastSeen 0; diff = now - seen
      in if seen > 0 \<and> diff \<le> 120 then 0 else if seen > 0 \<and> diff \<le> 900 then 1 else 2)"

text \<open>\<open>OnlineIndicator\<close> of the profile: the colour and the text key.\<close>

definition OnlineIndicator :: "int option \<Rightarrow> int \<Rightarrow> string \<times> string" where
  "OnlineIndicator lastSeen now =
     (let diff = now - coalesce lastSeen 0
      in if lastSeen = Some 0 \<or> diff > 900 then (''#9CA3AF'', ''profile_offline'')
         else if diff > 120 then (''#FFD700'', ''profile_recently'')
         else (''#22C55E'', ''profile_online''))"

text \<open>A member, as the server sends it: a user name, and a name, an address and a time or nothing.\<close>

definition last_seen :: "json \<Rightarrow> int option" where
  "last_seen m = json_int (json_prop m ''last_seen'')"

definition member_name :: "json \<Rightarrow> string" where
  "member_name m =
     (let d = json_string (json_prop m ''display_name'')
      in if truthy d then coalesce d [] else template (json_string (json_prop m ''username'')))"

text \<open>\<open>collate\<close> is \<open>localeCompare\<close> of the browser.\<close>

definition compareMembers :: "(string \<Rightarrow> string \<Rightarrow> int) \<Rightarrow> int \<Rightarrow> json \<Rightarrow> json \<Rightarrow> int" where
  "compareMembers collate now a b =
     (let statusA = getOnlineStatus (last_seen a) now; statusB = getOnlineStatus (last_seen b) now
      in if statusA \<noteq> statusB then statusA - statusB else collate (member_name a) (member_name b))"

text \<open>The effect of an open list with a topic: the members shown afterwards.\<close>

definition fetchMembers ::
  "(string \<Rightarrow> string \<Rightarrow> int) \<Rightarrow> server \<Rightarrow> config \<Rightarrow> string option \<Rightarrow> int \<Rightarrow> string \<Rightarrow> json list \<Rightarrow>
     request list \<Rightarrow> json list \<times> request list" where
  "fetchMembers collate srv cfg tok now topic members log =
     (case fetch srv \<lparr>rq_method = ''GET'',
         rq_url = base_url cfg @ ''/v1/coop/profiles?topic='' @ encodeURIComponent topic,
         rq_headers = maybeWithBearerAuth [] tok, rq_body = None\<rparr> log of
        (Inl e, log') \<Rightarrow> (members, log')
      | (Inr rs, log') \<Rightarrow>
          (if rs_ok rs then
             (case rs_json rs of
                Some (JArr ms) \<Rightarrow> js_sort (compareMembers collate now) ms
              | _ \<Rightarrow> members)
           else members, log'))"

subsection \<open>Searching and adding contacts\<close>

text \<open>
  \<open>ContactAdd\<close>: the search waits 300 ms. The timer is kept in a property of the handler, and every
  rendering makes a new handler: \<open>ca_timer\<close> is what the present one has, \<open>ca_timers\<close> are the pending
  searches.
\<close>

record contact_add =
  ca_query :: string
  ca_results :: json
  ca_searching :: bool
  ca_sentTo :: "string list"
  ca_err :: string
  ca_timer :: "nat option"
  ca_timers :: "(nat \<times> string) list"
  ca_next :: nat

definition new_contact_add :: contact_add where
  "new_contact_add = \<lparr>ca_query = [], ca_results = JArr [], ca_searching = False, ca_sentTo = [], ca_err = [],
     ca_timer = None, ca_timers = [], ca_next = 0\<rparr>"

definition or_empty :: "json \<Rightarrow> json" where
  "or_empty j = (if json_truthy (Some j) then j else JArr [])"

definition handleSearch ::
  "server \<Rightarrow> config \<Rightarrow> string option \<Rightarrow> string \<Rightarrow> string \<Rightarrow> contact_add \<Rightarrow> request list \<Rightarrow> contact_add \<times> request list" where
  "handleSearch srv cfg tok error_text q st log =
     (if length q < 2 then (st\<lparr>ca_results := JArr []\<rparr>, log)
      else case searchUsers srv cfg tok q log of
        (Inr data, log') \<Rightarrow> (st\<lparr>ca_err := [], ca_results := or_empty data, ca_searching := False\<rparr>, log')
      | (Inl e, log') \<Rightarrow> (st\<lparr>ca_err := error_text, ca_searching := False\<rparr>, log'))"

definition handleQueryChange :: "string \<Rightarrow> contact_add \<Rightarrow> contact_add" where
  "handleQueryChange q st =
     (let i = ca_next st;
          cleared = (case ca_timer st of None \<Rightarrow> ca_timers st
                     | Some t \<Rightarrow> filter (\<lambda>p. fst p \<noteq> t) (ca_timers st));
          rendered = q \<noteq> ca_query st
      in st\<lparr>ca_query := q, ca_timers := cleared @ [(i, q)], ca_next := i + 1,
            ca_timer := (if rendered then None else Some i)\<rparr>)"

text \<open>\<open>includes\<close> on texts\<close>

fun str_includes :: "string \<Rightarrow> string \<Rightarrow> bool" where
  "str_includes [] p \<longleftrightarrow> p = []"
| "str_includes (c # s) p \<longleftrightarrow> starts_with (c # s) p \<or> str_includes s p"

text \<open>\<open>handleAdd\<close> with the texts for an existing request, an invite-only user and any other error.\<close>

definition handleAdd ::
  "server \<Rightarrow> config \<Rightarrow> string option \<Rightarrow> (app_error \<Rightarrow> string) \<Rightarrow> string \<Rightarrow> string \<Rightarrow> string \<Rightarrow> string \<Rightarrow>
     contact_add \<Rightarrow> request list \<Rightarrow> contact_add \<times> request list" where
  "handleAdd srv cfg tok text exists_text invite_text other_text username st log =
     (case addContact srv cfg tok username log of
        (Inr _, log') \<Rightarrow> (st\<lparr>ca_err := [], ca_sentTo := List.insert username (ca_sentTo st)\<rparr>, log')
      | (Inl e, log') \<Rightarrow>
          (st\<lparr>ca_err := (if str_includes (text e) ''already exists'' then exists_text
                         else if str_includes (text e) ''invite'' then invite_text else other_text)\<rparr>, log'))"

subsection \<open>Contacts\<close>

text \<open>\<open>fetchData\<close> of an open list: both requests are sent, and both answers are needed.\<close>

definition fetchData ::
  "server \<Rightarrow> config \<Rightarrow> string option \<Rightarrow> bool \<Rightarrow> json \<times> json \<Rightarrow> request list \<Rightarrow> (json \<times> json) \<times> request list" where
  "fetchData srv cfg tok is_open shown log =
     (if \<not> is_open then (shown, log)
      else
        (let (contactsData, log1) = getContacts srv cfg tok log;
             (requestsData, log2) = getContactRequests srv cfg tok log1
         in case (contactsData, requestsData) of
              (Inr cs, Inr rs) \<Rightarrow> ((or_empty cs, or_empty rs), log2)
            | _ \<Rightarrow> (shown, log2)))"

definition contact_change ::
  "server \<Rightarrow> config \<Rightarrow> string option \<Rightarrow> bool \<Rightarrow> unit io \<Rightarrow> json \<times> json \<Rightarrow> request list \<Rightarrow> (json \<times> json) \<times> request list" where
  "contact_change srv cfg tok is_open call shown log =
     (case call log of
        (Inr _, log') \<Rightarrow> fetchData srv cfg tok is_open shown log'
      | (Inl e, log') \<Rightarrow> (shown, log'))"

definition handleAccept where
  "handleAccept srv cfg tok is_open username = contact_change srv cfg tok is_open (acceptContact srv cfg tok username)"
definition handleReject where
  "handleReject srv cfg tok is_open username = contact_change srv cfg tok is_open (rejectContact srv cfg tok username)"
definition handleRemove where
  "handleRemove srv cfg tok is_open username = contact_change srv cfg tok is_open (removeContact srv cfg tok username)"

subsection \<open>Starting chats\<close>

text \<open>
  The new chat is added locally under its name, then on the account; a failure there is ignored.
\<close>

definition add_chat ::
  "('s, 'n, 'p, 'u) db_ops \<Rightarrow> server \<Rightarrow> config \<Rightarrow> string option \<Rightarrow> string \<Rightarrow> string \<Rightarrow>
     ('s, 'n, 'p, 'u) db \<Rightarrow> request list \<Rightarrow> ('s, 'n, 'p, 'u) db \<times> request list" where
  "add_chat T srv cfg tok topic name d log =
     (fst (sm_add T (base_url cfg) topic (no_opts\<lparr>o_displayName := Some name\<rparr>) d),
      snd (io_bind (account_addSubscription srv cfg tok (base_url cfg) topic)
        (\<lambda>_. account_updateSubscription srv cfg tok (base_url cfg) topic [(''display_name'', JStr name)]) log))"

text \<open>\<open>handleDM\<close>: the topic of the chat and the longer log; \<open>None\<close> when it fails.\<close>

definition handleDM ::
  "('s, 'n, 'p, 'u) db_ops \<Rightarrow> server \<Rightarrow> config \<Rightarrow> string option \<Rightarrow> string \<Rightarrow>
     ('s, 'n, 'p, 'u) db \<Rightarrow> request list \<Rightarrow> (string option \<times> ('s, 'n, 'p, 'u) db) \<times> request list" where
  "handleDM T srv cfg tok username d log =
     (case startDM srv cfg tok username log of
        (Inl e, log') \<Rightarrow> ((None, d), log')
      | (Inr result, log') \<Rightarrow>
          if result = JNull then ((None, d), log')
          else
            (let name = json_prop result ''display_name'';
                 dmDisplayName = (if json_truthy name then json_text (coalesce name JNull) else username);
                 topic = template (json_string (json_prop result ''topic''));
                 (d', log'') = add_chat T srv cfg tok topic dmDisplayName d log'
             in ((Some topic, d'), log'')))"

text \<open>\<open>handleSendMessage\<close> of the profile does the same and leaves for the chat.\<close>

definition handleSendMessage ::
  "('s, 'n, 'p, 'u) db_ops \<Rightarrow> server \<Rightarrow> config \<Rightarrow> string option \<Rightarrow> string \<Rightarrow>
     ('s, 'n, 'p, 'u) db \<Rightarrow> request list \<Rightarrow> (string option \<times> ('s, 'n, 'p, 'u) db) \<times> request list" where
  "handleSendMessage T srv cfg tok username d log =
     (let ((topic, d'), log') = handleDM T srv cfg tok username d log
      in ((map_option (\<lambda>t. forSubscription cfg (new_subscription (base_url cfg) t no_opts)) topic, d'), log'))"

definition toggleMember :: "string \<Rightarrow> string list \<Rightarrow> string list" where
  "toggleMember username selected =
     (if username \<in> set selected then removeAll username selected else selected @ [username])"

datatype group_result = NameRequired | MembersRequired | GroupFailed | GroupCreated string

definition group_handleCreate ::
  "('s, 'n, 'p, 'u) db_ops \<Rightarrow> server \<Rightarrow> config \<Rightarrow> string option \<Rightarrow> string \<Rightarrow> string list \<Rightarrow>
     ('s, 'n, 'p, 'u) db \<Rightarrow> request list \<Rightarrow> (group_result \<times> ('s, 'n, 'p, 'u) db) \<times> request list" where
  "group_handleCreate T srv cfg tok name selected d log =
     (if js_trim name = [] then ((NameRequired, d), log)
      else if selected = [] then ((MembersRequired, d), log)
      else case createGroup srv cfg tok (js_trim name) selected log of
        (Inl e, log') \<Rightarrow> ((GroupFailed, d), log')
      | (Inr result, log') \<Rightarrow>
          if result = JNull then ((GroupFailed, d), log')
          else
            (let topic = template (json_string (json_prop result ''topic''));
                 (d', log'') = add_chat T srv cfg tok topic (js_trim name) d log'
             in ((GroupCreated topic, d'), log'')))"

subsection \<open>The profile\<close>

record profile_view =
  pv_profile :: json
  pv_displayName :: json
  pv_bio :: json
  pv_editMode :: bool
  pv_privacy :: string

definition or_text :: "json option \<Rightarrow> json" where
  "or_text v = (if json_truthy v then coalesce v JNull else JStr [])"

text \<open>An answer that is \<open>null\<close> is kept, and reading its properties throws.\<close>

definition fetchProfile ::
  "server \<Rightarrow> config \<Rightarrow> string option \<Rightarrow> string option \<Rightarrow> string \<Rightarrow> bool \<Rightarrow> profile_view \<Rightarrow> request list \<Rightarrow>
     profile_view \<times> request list" where
  "fetchProfile srv cfg tok own username is_open pv log =
     (if username = [] \<or> \<not> is_open then (pv, log)
      else
        (case fetch srv \<lparr>rq_method = ''GET'',
             rq_url = (if own = Some username then coop_url cfg ''profile'' else coop_url cfg (''profile/'' @ username)),
             rq_headers = maybeWithBearerAuth [] tok, rq_body = None\<rparr> log of
           (Inl e, log') \<Rightarrow> (pv, log')
         | (Inr rs, log') \<Rightarrow>
             (if rs_ok rs then
                (case rs_json rs of
                   None \<Rightarrow> pv
                 | Some data \<Rightarrow>
                     if data = JNull then pv\<lparr>pv_profile := data\<rparr>
                     else pv\<lparr>pv_profile := data, pv_displayName := or_text (json_prop data ''display_name''),
                             pv_bio := or_text (json_prop data ''bio'')\<rparr>)
              else pv, log')))"

definition profile_request :: "config \<Rightarrow> string option \<Rightarrow> (string \<times> json) list \<Rightarrow> request" where
  "profile_request cfg tok body = \<lparr>rq_method = ''PATCH'', rq_url = coop_url cfg ''profile'',
     rq_headers = AList.update ''Content-Type'' ''application/json'' (maybeWithBearerAuth [] tok),
     rq_body = Some (JObj body)\<rparr>"

definition profile_handleSave ::
  "server \<Rightarrow> config \<Rightarrow> string option \<Rightarrow> profile_view \<Rightarrow> request list \<Rightarrow> profile_view \<times> request list" where
  "profile_handleSave srv cfg tok pv log =
     (case fetch srv (profile_request cfg tok [(''display_name'', pv_displayName pv), (''bio'', pv_bio pv)]) log of
        (Inl e, log') \<Rightarrow> (pv, log')
      | (Inr rs, log') \<Rightarrow>
          (if rs_ok rs then
             (case rs_json rs of None \<Rightarrow> pv | Some updated \<Rightarrow> pv\<lparr>pv_profile := updated, pv_editMode := False\<rparr>)
           else pv, log'))"

text \<open>
  \<open>handleAvatarUpload\<close> for a chosen file of \<open>file_size\<close> bytes: too large, or one request and, when it
  succeeds, a fresh profile (\<open>refetch\<close>). The form with the file is not a JSON body.
\<close>

definition handleAvatarUpload ::
  "server \<Rightarrow> config \<Rightarrow> string option \<Rightarrow> (request list \<Rightarrow> profile_view \<times> request list) \<Rightarrow> nat option \<Rightarrow>
     profile_view \<Rightarrow> request list \<Rightarrow> (profile_view \<times> bool) \<times> request list" where
  "handleAvatarUpload srv cfg tok refetch file_size pv log =
     (case file_size of
        None \<Rightarrow> ((pv, False), log)
      | Some n \<Rightarrow>
          if n > 512 * 1024 then ((pv, True), log)
          else
            (case fetch srv \<lparr>rq_method = ''PUT'', rq_url = coop_url cfg ''profile/avatar'',
                 rq_headers = maybeWithBearerAuth [] tok, rq_body = None\<rparr> log of
               (Inl e, log') \<Rightarrow> ((pv, False), log')
             | (Inr rs, log') \<Rightarrow>
                 if rs_ok rs then (let (pv', log'') = refetch log' in ((pv', False), log''))
                 else ((pv, False), log')))"

definition handleAvatarDelete ::
  "server \<Rightarrow> config \<Rightarrow> string option \<Rightarrow> (request list \<Rightarrow> profile_view \<times> request list) \<Rightarrow>
     profile_view \<Rightarrow> request list \<Rightarrow> profile_view \<times> request list" where
  "handleAvatarDelete srv cfg tok refetch pv log =
     (case fetch srv \<lparr>rq_method = ''DELETE'', rq_url = coop_url cfg ''profile/avatar'',
         rq_headers = maybeWithBearerAuth [] tok, rq_body = None\<rparr> log of
        (Inl e, log') \<Rightarrow> (pv, log')
      | (Inr rs, log') \<Rightarrow> refetch log')"

text \<open>\<open>checkContact\<close>: \<open>Some ''add''\<close> offers to add the user; an answer that is no list throws.\<close>

definition checkContact ::
  "server \<Rightarrow> config \<Rightarrow> string option \<Rightarrow> string \<Rightarrow> request list \<Rightarrow> string option \<times> request list" where
  "checkContact srv cfg tok username log =
     (case getContacts srv cfg tok log of
        (Inl e, log') \<Rightarrow> (Some ''add'', log')
      | (Inr cs, log') \<Rightarrow>
          (case cs of
             JArr js \<Rightarrow>
               if JNull \<in> set (takeWhile (\<lambda>c. json_prop c ''username'' \<noteq> Some (JStr username)) js) then Some ''add''
               else if list_ex (\<lambda>c. json_prop c ''username'' = Some (JStr username)) js then None else Some ''add''
           | _ \<Rightarrow> Some ''add'', log'))"

definition handleAddContact ::
  "server \<Rightarrow> config \<Rightarrow> string option \<Rightarrow> string \<Rightarrow> string option \<Rightarrow> request list \<Rightarrow> string option \<times> request list" where
  "handleAddContact srv cfg tok username contactAction log =
     (case addContact srv cfg tok username log of
        (Inr _, log') \<Rightarrow> (Some ''sent'', log')
      | (Inl e, log') \<Rightarrow> (contactAction, log'))"

text \<open>The choice is shown whatever the server answers.\<close>

definition handlePrivacyChange ::
  "server \<Rightarrow> config \<Rightarrow> string option \<Rightarrow> string \<Rightarrow> profile_view \<Rightarrow> request list \<Rightarrow> profile_view \<times> request list" where
  "handlePrivacyChange srv cfg tok newPrivacy pv log =
     (pv\<lparr>pv_privacy := newPrivacy\<rparr>, snd (fetch srv (profile_request cfg tok [(''privacy'', JStr newPrivacy)]) log))"

subsection \<open>Lemmas\<close>

definition member_order :: "(string \<Rightarrow> string \<Rightarrow> int) \<Rightarrow> int \<Rightarrow> json \<Rightarrow> json \<Rightarrow> bool" where
  "member_order collate now a b \<longleftrightarrow>
     getOnlineStatus (last_seen a) now < getOnlineStatus (last_seen b) now \<or>
     (getOnlineStatus (last_seen a) now = getOnlineStatus (last_seen b) now \<and>
      collate (member_name a) (member_name b) \<le> 0)"

sublocale collation \<subseteq> members: comparator "compareMembers collate now" "member_order collate now" for now
proof
  fix a b c
  note t = total [of "member_name a" "member_name b"] collate_trans [of "member_name a" "member_name b" "member_name c"]
  show "compareMembers collate now a b \<le> 0 \<Longrightarrow> member_order collate now a b"
    by (auto simp: compareMembers_def member_order_def Let_def split: if_splits)
  show "\<not> compareMembers collate now a b \<le> 0 \<Longrightarrow> member_order collate now b a"
    using t(1) by (auto simp: compareMembers_def member_order_def Let_def split: if_splits)
  show "member_order collate now a b \<Longrightarrow> member_order collate now b c \<Longrightarrow> member_order collate now a c"
    using t(2) by (auto simp: member_order_def)
qed

context collation
begin

lemma sorted_members: "sorted_wrt (member_order collate now) (js_sort (compareMembers collate now) ms)"
  by (rule members.sorted_js_sort)

end

text \<open>The member list and the indicator beside a name agree on who is online.\<close>

lemma online_status_shown:
  assumes "900 < now" and "\<forall>t. lastSeen = Some t \<longrightarrow> 0 \<le> t"
  shows "snd (OnlineIndicator lastSeen now) =
    [''profile_online'', ''profile_recently'', ''profile_offline''] ! nat (getOnlineStatus lastSeen now)"
  using assms by (cases lastSeen) (auto simp: OnlineIndicator_def getOnlineStatus_def Let_def)

lemma avatar_color_listed: "getAvatarColor username \<in> set avatarColors"
proof -
  have "0 < length avatarColors" by (simp add: avatarColors_def)
  moreover have "nat (\<bar>h\<bar> mod int (length avatarColors)) < length avatarColors" for h :: int
    using calculation by (simp add: nat_less_iff)
  ultimately show ?thesis unfolding getAvatarColor_def by (metis nth_mem)
qed

text \<open>The list in a valid answer.\<close>

definition answered_list :: "response option \<Rightarrow> json list option" where
  "answered_list answer =
     (case answer of
        None \<Rightarrow> None
      | Some rs \<Rightarrow> if rs_ok rs then (case rs_json rs of Some (JArr js) \<Rightarrow> Some js | _ \<Rightarrow> None) else None)"

definition members_request :: "config \<Rightarrow> string option \<Rightarrow> string \<Rightarrow> request" where
  "members_request cfg tok topic = \<lparr>rq_method = ''GET'',
     rq_url = base_url cfg @ ''/v1/coop/profiles?topic='' @ encodeURIComponent topic,
     rq_headers = maybeWithBearerAuth [] tok, rq_body = None\<rparr>"

text \<open>
  The member list of a topic asks the server once, with the session's token, and shows exactly
  the members it answers with: those online first, then those seen in the last 15 minutes, then the
  others, and by name among equals; members of the same state and name stay in the order of the
  answer; without a valid answer the list keeps what it showed.
\<close>

theorem members_listed:
  assumes "collation collate"
    and "fetchMembers collate srv cfg tok now topic members log = (shown, log')"
  shows "log' = log @ [members_request cfg tok topic] \<and>
    (case answered_list (srv log (members_request cfg tok topic)) of
       Some ms \<Rightarrow> mset shown = mset ms \<and> sorted_wrt (member_order collate now) shown \<and>
         filter (\<lambda>m. member_name m = nm \<and> getOnlineStatus (last_seen m) now = k) shown =
         filter (\<lambda>m. member_name m = nm \<and> getOnlineStatus (last_seen m) now = k) ms
     | None \<Rightarrow> shown = members)"
proof -
  let ?answer = "srv log (members_request cfg tok topic)"
  let ?P = "\<lambda>m. member_name m = nm \<and> getOnlineStatus (last_seen m) now = k"
  have r: "fetchMembers collate srv cfg tok now topic members log =
      (case answered_list ?answer of None \<Rightarrow> members | Some ms \<Rightarrow> js_sort (compareMembers collate now) ms,
       log @ [members_request cfg tok topic])"
    by (simp add: fetchMembers_def fetch_def members_request_def answered_list_def split: option.split json.split)
  have "?P a \<Longrightarrow> ?P b \<Longrightarrow> compareMembers collate now a b \<le> 0" for a b
    using collation.collate_refl [OF assms(1)] by (simp add: compareMembers_def)
  then have stable: "filter ?P (js_sort (compareMembers collate now) ms) = filter ?P ms" for ms
    by (rule js_sort_stable)
  have sorted: "sorted_wrt (member_order collate now) (js_sort (compareMembers collate now) ms)" for ms
    by (rule collation.sorted_members [OF assms(1)])
  show ?thesis
    using assms(2) stable unfolding r by (auto simp: sorted split: option.split)
qed

lemma members_listed_witness:
  "fst (fetchMembers code_unit_compare (\<lambda>_ _. Some \<lparr>rs_status = 200, rs_json = Some (JArr [JObj []])\<rparr>) plain_config None 0 ''a'' [] []) =
     [JObj []]"
proof -
  let ?srv = "\<lambda>_ _. Some \<lparr>rs_status = 200, rs_json = Some (JArr [JObj []])\<rparr>"
  from members_listed [OF code_units.collation_axioms, of ?srv plain_config None 0 "''a''" "[]" "[]"
      "fst (fetchMembers code_unit_compare ?srv plain_config None 0 ''a'' [] [])"
      "snd (fetchMembers code_unit_compare ?srv plain_config None 0 ''a'' [] [])"]
  show ?thesis by (simp add: answered_list_def rs_ok_def)
qed

subsection \<open>Contacts\<close>

text \<open>
  The delay of the contact search never drops a search: the timer is kept on the handler of one
  rendering, so after any keystrokes that each change the text, every one of them still has its own
  search pending.
\<close>

theorem contact_search_not_debounced:
  assumes "distinct_adj ([] # qs)"
  shows "map snd (ca_timers (fold handleQueryChange qs new_contact_add)) = qs"
proof -
  have "map snd (ca_timers (fold handleQueryChange qs st)) = map snd (ca_timers st) @ qs"
    if "ca_timer st = None" "distinct_adj (ca_query st # qs)" for st
    using that
  proof (induction qs arbitrary: st)
    case (Cons q qs)
    have "q \<noteq> ca_query st" using Cons.prems(2) by auto
    then have "ca_timer (handleQueryChange q st) = None" "ca_query (handleQueryChange q st) = q"
      "map snd (ca_timers (handleQueryChange q st)) = map snd (ca_timers st) @ [q]"
      using Cons.prems(1) by (simp_all add: handleQueryChange_def Let_def)
    then show ?case using Cons.IH [of "handleQueryChange q st"] Cons.prems(2) by simp
  qed simp
  from this [of new_contact_add] show ?thesis using assms by (simp add: new_contact_add_def)
qed

lemma contact_search_not_debounced_witness:
  "map snd (ca_timers (fold handleQueryChange [''a'', ''al'', ''ali''] new_contact_add)) = [''a'', ''al'', ''ali'']"
  by (rule contact_search_not_debounced) simp

text \<open>
  A direct message that is started from the contact list and then opened by the side bar: when
  the server answers with a topic and the partner's name, and the chat is new, the only change of the
  database is the chat's row at the home server under that name, the side bar keeps it and leaves
  for its address, and what the account answers does not matter.
\<close>

theorem dm_opened:
  assumes "coop_db T"
    and "fst (startDM srv cfg tok username log) = Inr (JObj [(''topic'', JStr topic), (''display_name'', JStr name)])"
    and "name \<noteq> []" and "dx_get (SUBS T) (subs d) (topicUrl (base_url cfg) topic) = None"
  shows "let ((t, d'), log') = handleDM T srv cfg tok username d log;
      (d'', address) = open_own_topic T cfg topic d';
      chat = new_subscription (base_url cfg) topic (no_opts\<lparr>o_displayName := Some name\<rparr>) in
    t = Some topic \<and> sub_row T d' = (sub_row T d)(topicUrl (base_url cfg) topic \<mapsto> chat) \<and> notifs d' = notifs d \<and>
    d'' = d' \<and> address = forSubscription cfg chat"
proof -
  let ?chat = "new_subscription (base_url cfg) topic (no_opts\<lparr>o_displayName := Some name\<rparr>)"
  let ?d = "fst (sm_add T (base_url cfg) topic (no_opts\<lparr>o_displayName := Some name\<rparr>) d)"
  have dm: "fst (handleDM T srv cfg tok username d log) = (Some topic, ?d)"
    using assms(2,3)
    by (cases "startDM srv cfg tok username log")
      (simp add: handleDM_def add_chat_def json_prop_def json_truthy_def json_string_def template_def Let_def)
  have row: "sub_row T ?d = (sub_row T d)(topicUrl (base_url cfg) topic \<mapsto> ?chat)"
    using coop_db.sm_add_row [OF assms(1)] assms(4) by simp
  then have "sm_add T (base_url cfg) topic no_opts ?d = (?d, ?chat)"
    by (simp add: sm_add_def [of _ _ _ no_opts] sm_get_def)
  then have "open_own_topic T cfg topic ?d = (?d, forSubscription cfg ?chat)"
    by (simp add: open_own_topic_def)
  then show ?thesis
    using dm row coop_db.sm_add_notifs [OF assms(1)]
    by (cases "handleDM T srv cfg tok username d log") simp
qed

definition dm_server :: server where
  "dm_server log rq = (if log = [] then Some \<lparr>rs_status = 200,
     rs_json = Some (JObj [(''topic'', JStr ''dm1''), (''display_name'', JStr ''Bob'')])\<rparr> else None)"

lemma dm_opened_witness:
  "let ((t, d'), log') = handleDM mem_db_ops dm_server plain_config (Some ''tk'') ''bob'' (mem_db [] []) [];
      (d'', address) = open_own_topic mem_db_ops plain_config ''dm1'' d';
      chat = new_subscription (base_url plain_config) ''dm1'' (no_opts\<lparr>o_displayName := Some ''Bob''\<rparr>) in
    t = Some ''dm1'' \<and> sub_row mem_db_ops d' =
      (sub_row mem_db_ops (mem_db [] []))(topicUrl (base_url plain_config) ''dm1'' \<mapsto> chat) \<and>
    notifs d' = notifs (mem_db [] []) \<and> d'' = d' \<and> address = forSubscription plain_config chat"
proof (rule dm_opened [OF coop_db_mem])
  show "fst (startDM dm_server plain_config (Some ''tk'') ''bob'' []) =
      Inr (JObj [(''topic'', JStr ''dm1''), (''display_name'', JStr ''Bob'')])"
    by (simp add: startDM_def call_json_def io_defs fetchOrThrow_unfold dm_server_def response_json_def)
qed (simp_all add: mem_db_ops_def mem_db_def mem_dexie_def mem_get_def)

subsection \<open>Groups\<close>

lemma call_json_log: "snd (call_json srv verb url hs body log) =
    log @ [\<lparr>rq_method = verb, rq_url = url, rq_headers = hs, rq_body = map_option JObj body\<rparr>]"
  by (auto simp: call_json_def io_defs fetchOrThrow_unfold response_json_def split: option.split)

lemma add_chat_log: "\<exists>rqs. snd (add_chat T srv cfg tok topic name d log) = log @ rqs"
proof -
  have "\<exists>rqs. snd (io_bind (call_json srv v u h b) (\<lambda>_. call_json srv v' u' h' b') log) = log @ rqs" for v u h b v' u' h' b'
    using call_json_log [of srv v u h b log] call_json_log [of srv v' u' h' b' "snd (call_json srv v u h b log)"]
    by (cases "call_json srv v u h b log") (auto simp: io_bind_def split: sum.split)
  then show ?thesis by (simp add: add_chat_def account_addSubscription_def account_updateSubscription_def)
qed

definition group_request :: "config \<Rightarrow> string option \<Rightarrow> string \<Rightarrow> string list \<Rightarrow> request" where
  "group_request cfg tok name members = \<lparr>rq_method = ''POST'', rq_url = coop_url cfg ''groups'',
     rq_headers = bearer tok [],
     rq_body = Some (JObj [(''name'', JStr name), (''members'', JArr (map JStr members))])\<rparr>"

text \<open>
  A group is created on the server only with a name and at least one member; the request names
  exactly the chosen members; without a new group the database is unchanged; and toggling a member
  that is not chosen twice is no change of the choice.
\<close>

theorem group_created:
  assumes "group_handleCreate T srv cfg tok name selected d log = ((r, d'), log')"
  shows "(js_trim name = [] \<or> selected = [] \<longrightarrow> log' = log) \<and>
    (js_trim name \<noteq> [] \<and> selected \<noteq> [] \<longrightarrow> (\<exists>rqs. log' = log @ group_request cfg tok (js_trim name) selected # rqs)) \<and>
    ((\<forall>t. r \<noteq> GroupCreated t) \<longrightarrow> d' = d) \<and>
    (u \<notin> set selected \<longrightarrow> toggleMember u (toggleMember u selected) = selected)"
proof -
  have t: "u \<notin> set selected \<longrightarrow> toggleMember u (toggleMember u selected) = selected"
    by (simp add: toggleMember_def)
  show ?thesis
  proof (cases "js_trim name = [] \<or> selected = []")
    case True
    then show ?thesis using assms t by (auto simp: group_handleCreate_def split: if_splits)
  next
    case False
    obtain x where c: "createGroup srv cfg tok (js_trim name) selected log =
        (x, log @ [group_request cfg tok (js_trim name) selected])"
      using call_json_log [of srv] by (metis createGroup_def group_request_def option.simps(9) prod.collapse)
    have "(\<exists>rqs. log' = log @ group_request cfg tok (js_trim name) selected # rqs) \<and> ((\<forall>t. r \<noteq> GroupCreated t) \<longrightarrow> d' = d)"
    proof (cases x)
      case (Inl e)
      then show ?thesis using assms False c by (auto simp: group_handleCreate_def)
    next
      case (Inr j)
      let ?g = "group_request cfg tok (js_trim name) selected"
      obtain rqs where "snd (add_chat T srv cfg tok (template (json_string (json_prop j ''topic''))) (js_trim name) d
          (log @ [?g])) = log @ ?g # rqs"
        using add_chat_log [of T srv cfg tok "template (json_string (json_prop j ''topic''))" "js_trim name" d "log @ [?g]"]
        by auto
      then show ?thesis
        using assms False c Inr by (auto simp: group_handleCreate_def Let_def case_prod_beta split: if_splits) (blast dest: sym)
    qed
    then show ?thesis using False t by blast
  qed
qed

lemma group_created_witness:
  "snd (group_handleCreate mem_db_ops (\<lambda>_ _. None) plain_config None ''g'' [''bob''] (mem_db [] []) []) \<noteq> [] \<and>
   snd (fst (group_handleCreate mem_db_ops (\<lambda>_ _. None) plain_config None ''g'' [''bob''] (mem_db [] []) [])) = mem_db [] []"
proof -
  let ?r = "group_handleCreate mem_db_ops (\<lambda>_ _. None) plain_config None ''g'' [''bob''] (mem_db [] []) []"
  have f: "fst (fst ?r) = GroupFailed"
    by (simp add: group_handleCreate_def createGroup_def call_json_def io_defs fetchOrThrow_unfold js_trim_def is_space_def)
  have t: "js_trim ''g'' \<noteq> []" by (simp add: js_trim_def is_space_def)
  have e: "?r = ((fst (fst ?r), snd (fst ?r)), snd ?r)" by simp
  show ?thesis
    using group_created [OF e, of "[]"] f t by auto
qed

end
