(* ===== verification/Invite.thy ===== *)
theory Invite
  imports People
begin

section \<open>Invitations (components/InvitePage.jsx)\<close>

text \<open>
  The page of an invitation link: loading the invitation, joining its chats with a session, and
  registering without one. \<open>t\<close> gives the text for a key. A background poll is run where it is
  started.
\<close>

record invite =
  iv_loading :: bool
  iv_data :: "json option"
  iv_error :: "string option"
  iv_submitting :: bool
  iv_submitError :: "string option"
  iv_joinSuccess :: bool
  iv_redirect :: "string option"

definition new_invite :: invite where
  "new_invite = \<lparr>iv_loading = True, iv_data = None, iv_error = None, iv_submitting = False,
     iv_submitError = None, iv_joinSuccess = False, iv_redirect = None\<rparr>"

definition fetchInvite ::
  "(string \<Rightarrow> string) \<Rightarrow> server \<Rightarrow> config \<Rightarrow> string \<Rightarrow> invite \<Rightarrow> request list \<Rightarrow> invite \<times> request list" where
  "fetchInvite t srv cfg token iv log =
     (if token = [] then (iv\<lparr>iv_error := Some (t ''invite_error_no_token''), iv_loading := False\<rparr>, log)
      else case fetch srv \<lparr>rq_method = ''GET'', rq_url = base_url cfg @ ''/v1/invite/'' @ token, rq_headers = [],
          rq_body = None\<rparr> log of
        (Inl e, log') \<Rightarrow> (iv\<lparr>iv_error := Some (t ''invite_error_loading''), iv_loading := False\<rparr>, log')
      | (Inr rs, log') \<Rightarrow>
          (if \<not> rs_ok rs then
             iv\<lparr>iv_error := Some (t (if rs_status rs = 404 then ''invite_error_not_found'' else ''invite_error_invalid'')),
                iv_loading := False\<rparr>
           else
             (case rs_json rs of
                None \<Rightarrow> iv\<lparr>iv_error := Some (t ''invite_error_loading''), iv_loading := False\<rparr>
              | Some data \<Rightarrow> iv\<lparr>iv_data := Some data, iv_loading := False\<rparr>), log'))"

text \<open>
  The text of a refused request: the property \<open>k\<close> of its body, or the given text. A body that is
  \<open>null\<close> makes reading the property throw.
\<close>

definition refusal :: "response \<Rightarrow> string \<Rightarrow> string \<Rightarrow> string \<Rightarrow> string" where
  "refusal rs k refused thrown =
     (let err = coalesce (rs_json rs) (JObj [])
      in if err = JNull then thrown
         else if json_truthy (json_prop err k) then json_text (coalesce (json_prop err k) JNull) else refused)"

text \<open>\<open>for (const topic of data.topics)\<close>: a list of texts; of a text its units.\<close>

definition invite_topics :: "json \<Rightarrow> string list" where
  "invite_topics data =
     (case json_prop data ''topics'' of
        Some (JArr js) \<Rightarrow> map json_text js
      | Some (JStr s) \<Rightarrow> map (\<lambda>c. [c]) s
      | _ \<Rightarrow> [])"

definition join_topic_step ::
  "('s, 'n, 'p, 'u) db_ops \<Rightarrow> (string \<Rightarrow> string \<Rightarrow> string option \<Rightarrow> app_error + notification list) \<Rightarrow> int \<Rightarrow>
     server \<Rightarrow> config \<Rightarrow> 'kv \<Rightarrow> string \<Rightarrow> ('kv session \<times> ('s, 'n, 'p, 'u) db) \<times> request list \<Rightarrow>
     ('kv session \<times> ('s, 'n, 'p, 'u) db) \<times> request list" where
  "join_topic_step T api now srv cfg fresh topic st =
     (let ((ses, d), log) = st;
          ((s, ses', d'), log') = subscribeTopic T srv cfg fresh (base_url cfg) topic no_opts ses d log
      in ((ses', pollInBackground T api now s d'), log'))"

definition invite_handleJoin ::
  "('s, 'n, 'p, 'u) db_ops \<Rightarrow> (string \<Rightarrow> string \<Rightarrow> string option \<Rightarrow> app_error + notification list) \<Rightarrow> int \<Rightarrow>
     (string \<Rightarrow> string) \<Rightarrow> server \<Rightarrow> config \<Rightarrow> 'kv \<Rightarrow> string \<Rightarrow> invite \<Rightarrow> 'kv session \<Rightarrow> ('s, 'n, 'p, 'u) db \<Rightarrow>
     request list \<Rightarrow> (invite \<times> 'kv session \<times> ('s, 'n, 'p, 'u) db) \<times> request list" where
  "invite_handleJoin T api now t srv cfg fresh token iv0 ses d log =
     (let iv = iv0\<lparr>iv_submitError := None, iv_submitting := True\<rparr>;
          stop = (\<lambda>text. iv\<lparr>iv_submitError := Some text, iv_submitting := False\<rparr>);
          thrown = t ''invite_error_network_join''
      in case fetch srv \<lparr>rq_method = ''POST'', rq_url = base_url cfg @ ''/v1/invite/'' @ token @ ''/join'',
             rq_headers = [(''Authorization'', ''Bearer '' @ coalesce (session_token ses) ''null'')], rq_body = None\<rparr> log of
           (Inl e, log') \<Rightarrow> ((stop thrown, ses, d), log')
         | (Inr rs, log') \<Rightarrow>
             if \<not> rs_ok rs then ((stop (refusal rs ''error'' (t ''invite_error_join_failed'') thrown), ses, d), log')
             else
               (case rs_json rs of
                  None \<Rightarrow> ((stop thrown, ses, d), log')
                | Some data \<Rightarrow>
                    if data = JNull then ((stop thrown, ses, d), log')
                    else
                      (let ((ses', d'), log'') = fold (join_topic_step T api now srv cfg fresh) (invite_topics data) ((ses, d), log')
                       in ((iv\<lparr>iv_joinSuccess := True, iv_submitting := False, iv_redirect := Some ''/''\<rparr>, ses', d'), log''))))"

text \<open>Registering: the checks in their order, then one request; a success leaves for the login page.\<close>

definition invite_handleSubmit ::
  "(string \<Rightarrow> string) \<Rightarrow> server \<Rightarrow> config \<Rightarrow> string \<Rightarrow> string \<Rightarrow> string \<Rightarrow> string \<Rightarrow> invite \<Rightarrow>
     request list \<Rightarrow> invite \<times> request list" where
  "invite_handleSubmit t srv cfg token username password passwordConfirm iv log =
     (let stop = (\<lambda>text. iv\<lparr>iv_submitError := Some text\<rparr>); failed = (\<lambda>text. iv\<lparr>iv_submitError := Some text, iv_submitting := False\<rparr>);
          thrown = t ''invite_error_network_register''
      in if js_trim username = [] then (stop (t ''invite_error_username_required''), log)
         else if length password < 8 then (stop (t ''invite_error_password_too_short''), log)
         else if password \<noteq> passwordConfirm then (stop (t ''invite_error_passwords_mismatch''), log)
         else case fetch srv \<lparr>rq_method = ''POST'', rq_url = base_url cfg @ ''/v1/invite/'' @ token @ ''/redeem'',
             rq_headers = [(''Content-Type'', ''application/json'')],
             rq_body = Some (JObj [(''username'', JStr (js_trim username)), (''password'', JStr password)])\<rparr> log of
           (Inl e, log') \<Rightarrow> (failed thrown, log')
         | (Inr rs, log') \<Rightarrow>
             (if \<not> rs_ok rs then failed (refusal rs ''message'' (t ''invite_error_register_failed'') thrown)
              else iv\<lparr>iv_submitError := None, iv_submitting := True, iv_redirect := Some ''/login''\<rparr>, log'))"

text \<open>What the page shows; an invitation without a time is not expired.\<close>

datatype invite_page = InviteLoading | InviteError string | InviteExpired | InviteUnavailable | InviteJoin | InviteRegister

definition invite_page_of :: "int \<Rightarrow> bool \<Rightarrow> invite \<Rightarrow> invite_page" where
  "invite_page_of now isLoggedIn iv =
     (if iv_loading iv then InviteLoading
      else if truthy (iv_error iv) then InviteError (coalesce (iv_error iv) [])
      else if json_truthy (iv_data iv) \<and> \<not> json_truthy (json_prop (coalesce (iv_data iv) JNull) ''available'') then
        (case json_int (json_prop (coalesce (iv_data iv) JNull) ''expires_at'') of
           Some e \<Rightarrow> if e * 1000 < now then InviteExpired else InviteUnavailable
         | None \<Rightarrow> InviteUnavailable)
      else if isLoggedIn then InviteJoin else InviteRegister)"

subsection \<open>Properties\<close>

text \<open>A row without the point up to which it has been polled.\<close>

definition sans_last :: "subscription \<Rightarrow> subscription" where
  "sans_last s = s\<lparr>s_last := None\<rparr>"

lemma sans_last_new [simp]: "sans_last (new_subscription b t opts) = new_subscription b t opts"
  by (simp add: sans_last_def new_subscription_def)

context coop_db
begin

lemma fold_delete_subs: "subs (fold (sm_deleteNotificationBySequenceId T sid) qs d) = subs d"
  by (induction qs arbitrary: d) simp_all

lemma poll_rows: "map_option sans_last (sub_row T (pollInBackground T api now s d) k) = map_option sans_last (sub_row T d k)"
proof (cases "poll T api now s d")
  case (Inl e)
  then show ?thesis by (simp add: pollInBackground_def)
next
  case (Inr d')
  have add: "map_option sans_last (sub_row T e' k) = map_option sans_last (sub_row T e k)"
    if "sm_addNotifications T sid ns e = Inr e'" for sid ns e e'
    using that by (auto simp: sm_addNotifications_def sub_row_setLast sans_last_def [abs_def] option.map_comp o_def split: if_splits)
  from Inr show ?thesis
    by (auto simp: poll_def pollInBackground_def Let_def fold_delete_subs add split: sum.splits if_splits)
qed

lemma join_topics_rows:
  "map_option sans_last (sub_row T (snd (fst (fold (join_topic_step T api now srv cfg fresh) ts ((ses, d), log)))) k) =
     (case sub_row T d k of
        Some s \<Rightarrow> Some (sans_last s)
      | None \<Rightarrow> map_option (\<lambda>t. new_subscription (base_url cfg) t no_opts) (find (\<lambda>t. topicUrl (base_url cfg) t = k) ts))"
proof (induction ts arbitrary: ses d log)
  case Nil
  then show ?case by (simp split: option.split)
next
  case (Cons t ts)
  obtain ses' log' where sub: "subscribeTopic T srv cfg fresh (base_url cfg) t no_opts ses d log =
      ((snd (sm_add T (base_url cfg) t no_opts d), ses', fst (sm_add T (base_url cfg) t no_opts d)), log')"
    using subscribe_parts [of T srv cfg fresh "base_url cfg" t no_opts ses d log] by (metis prod.collapse)
  let ?d = "pollInBackground T api now (snd (sm_add T (base_url cfg) t no_opts d)) (fst (sm_add T (base_url cfg) t no_opts d))"
  have rows: "map_option sans_last (sub_row T ?d k) = map_option sans_last (sub_row T (fst (sm_add T (base_url cfg) t no_opts d)) k)"
    by (rule poll_rows)
  show ?case
    using Cons.IH [of ses' ?d log'] rows
    by (simp add: join_topic_step_def sub sm_add_row) (auto split: option.splits if_splits)
qed

end

text \<open>
  C26: Joining by an invitation: when the server accepts and names the chats, every named chat that
  was not subscribed yet has a new subscription at the home server, whatever the account answers and
  the first polls deliver, all other subscriptions stay as they were (up to the point they are
  polled from), and the page reports the success and goes to the start page.
\<close>

theorem invitation_joins_all:
  assumes "coop_db T" and "srv log rq = Some \<lparr>rs_status = 200, rs_json = Some (JObj [(''topics'', JArr (map JStr ts))])\<rparr>"
    and "rq = \<lparr>rq_method = ''POST'', rq_url = base_url cfg @ ''/v1/invite/'' @ token @ ''/join'',
      rq_headers = [(''Authorization'', ''Bearer '' @ coalesce (session_token ses) ''null'')], rq_body = None\<rparr>"
  shows "let ((iv', ses', d'), log') = invite_handleJoin T api now t srv cfg fresh token iv ses d log in
    iv_joinSuccess iv' \<and> iv_redirect iv' = Some ''/'' \<and> iv_submitError iv' = None \<and>
    map_option sans_last (sub_row T d' k) =
      (case sub_row T d k of
         Some s \<Rightarrow> Some (sans_last s)
       | None \<Rightarrow> map_option (\<lambda>t. new_subscription (base_url cfg) t no_opts) (find (\<lambda>t. topicUrl (base_url cfg) t = k) ts))"
proof -
  have ts: "invite_topics (JObj [(''topics'', JArr (map JStr ts))]) = ts"
    by (simp add: invite_topics_def json_prop_def o_def)
  show ?thesis
    using coop_db.join_topics_rows [OF assms(1), of api now srv cfg fresh ts ses d "log @ [rq]" k] assms(2)
    unfolding assms(3)
    by (simp add: invite_handleJoin_def fetch_def rs_ok_def ts Let_def case_prod_beta)
qed

definition invite_server :: server where
  "invite_server log rq = (if log = [] then Some \<lparr>rs_status = 200,
     rs_json = Some (JObj [(''topics'', JArr (map JStr [''a'', ''b'']))])\<rparr> else None)"

lemma invitation_joins_all_witness:
  "let ses = \<lparr>local_storage = Map.empty, kv_store = (), href = None\<rparr>;
       ((iv', ses', d'), log') = invite_handleJoin mem_db_ops (\<lambda>_ _ _. Inr []) 0 id invite_server plain_config () ''tk''
         new_invite ses (mem_db [] []) []
   in iv_joinSuccess iv' \<and> iv_redirect iv' = Some ''/'' \<and> iv_submitError iv' = None \<and>
    map_option sans_last (sub_row mem_db_ops d' (topicUrl (base_url plain_config) ''b'')) =
      (case sub_row mem_db_ops (mem_db [] []) (topicUrl (base_url plain_config) ''b'') of
         Some s \<Rightarrow> Some (sans_last s)
       | None \<Rightarrow> map_option (\<lambda>t. new_subscription (base_url plain_config) t no_opts)
           (find (\<lambda>t. topicUrl (base_url plain_config) t = topicUrl (base_url plain_config) ''b'') [''a'', ''b'']))"
  unfolding Let_def [of "\<lparr>local_storage = Map.empty, kv_store = (), href = None\<rparr>"]
  by (rule invitation_joins_all [OF coop_db_mem _ refl]) (simp add: invite_server_def)

text \<open>
  Registering sends a request only for a name that is not blank and two equal passwords of at least
  eight units, and it sends the trimmed name.
\<close>

lemma invite_register_checked:
  assumes "invite_handleSubmit t srv cfg token u p c iv log = (iv', log')" and "log' \<noteq> log"
  shows "js_trim u \<noteq> [] \<and> 8 \<le> length p \<and> p = c \<and>
    (\<exists>rq. log' = log @ [rq] \<and> rq_body rq = Some (JObj [(''username'', JStr (js_trim u)), (''password'', JStr p)]))"
proof -
  have ok: "js_trim u \<noteq> []" "8 \<le> length p" "p = c"
    using assms by (auto simp: invite_handleSubmit_def Let_def split: if_splits)
  then show ?thesis
    using assms(1) by (auto simp: invite_handleSubmit_def Let_def fetch_def split: option.splits)
qed

end
