(* ===== verification/Settings.thy ===== *)
theory Settings
  imports Dialogs
begin

section \<open>The settings page (components/Preferences.jsx)\<close>

text \<open>
  A setting is written to the local preferences first and, when somebody is logged in, to the
  account; the dialogs for the users of other servers; the table of reservations. Texts are the keys
  of the translations.
\<close>

definition maybeUpdateAccountSettings ::
  "server \<Rightarrow> config \<Rightarrow> 'kv \<Rightarrow> (string \<times> json) list \<Rightarrow> 'kv session \<Rightarrow> request list \<Rightarrow> 'kv session \<times> request list" where
  "maybeUpdateAccountSettings srv cfg fresh payload ses log =
     (if \<not> session_exists ses then (ses, log)
      else case account_updateSettings srv cfg (session_token ses) payload log of
        (Inr _, log') \<Rightarrow> (ses, log')
      | (Inl e, log') \<Rightarrow> (auth_guard fresh ses e, log'))"

definition notification_setting :: "string \<Rightarrow> json \<Rightarrow> (string \<times> json) list" where
  "notification_setting k v = [(''notification'', JObj [(k, v)])]"

subsection \<open>Notifications\<close>

definition sound_handleChange where
  "sound_handleChange T srv cfg fresh sound ses d log =
     (d\<lparr>prefs := prefs_setSound (PREFS T) sound (prefs d)\<rparr>,
      maybeUpdateAccountSettings srv cfg fresh (notification_setting ''sound'' (JStr sound)) ses log)"

definition minPriority_handleChange where
  "minPriority_handleChange T srv cfg fresh p ses d log =
     (d\<lparr>prefs := prefs_setMinPriority (PREFS T) p (prefs d)\<rparr>,
      maybeUpdateAccountSettings srv cfg fresh (notification_setting ''min_priority'' (JNum p)) ses log)"

definition deleteAfter_handleChange where
  "deleteAfter_handleChange T srv cfg fresh s ses d log =
     (d\<lparr>prefs := prefs_setDeleteAfter (PREFS T) s (prefs d)\<rparr>,
      maybeUpdateAccountSettings srv cfg fresh (notification_setting ''delete_after'' (JNum s)) ses log)"

definition theme_handleChange where
  "theme_handleChange T theme d = d\<lparr>prefs := prefs_setTheme (PREFS T) theme (prefs d)\<rparr>"

definition webPush_handleChange where
  "webPush_handleChange T enabled d = d\<lparr>prefs := prefs_setWebPushEnabled (PREFS T) enabled (prefs d)\<rparr>"

definition handlePresetClick where
  "handlePresetClick T key d = d\<lparr>prefs := prefs_setAccentColor (PREFS T) key (prefs d)\<rparr>"

definition handleCustomChange where
  "handleCustomChange T hex d =
     d\<lparr>prefs := prefs_setAccentColor (PREFS T) ''custom'' (prefs_setCustomAccentColor (PREFS T) hex (prefs d))\<rparr>"

text \<open>The language is kept by the translation library (\<open>lang\<close>).\<close>

definition language_handleChange where
  "language_handleChange srv cfg fresh lang ses log =
     (lang, maybeUpdateAccountSettings srv cfg fresh [(''language'', JStr lang)] ses log)"

text \<open>The descriptions below the choices; \<open>None\<close> while loading. An unknown sound has no label and throws.\<close>

definition sound_description :: "string \<Rightarrow> (string \<times> string option) option" where
  "sound_description sound =
     (if sound = ''none'' then Some (''prefs_notifications_sound_description_none'', None)
      else map_option (\<lambda>(file, label). (''prefs_notifications_sound_description_some'', Some label)) (map_of sounds sound))"

definition minPriority_description :: "int \<Rightarrow> string \<times> int option \<times> string option" where
  "minPriority_description p =
     (if p = 1 then (''prefs_notifications_min_priority_description_any'', None, None)
      else if p = 5 then (''prefs_notifications_min_priority_description_max'', None, None)
      else (''prefs_notifications_min_priority_description_x_or_higher'', Some p,
        map_of [(1, ''priority_min''), (2, ''priority_low''), (3, ''priority_default''), (4, ''priority_high''),
          (5, ''priority_max'')] p))"

definition deleteAfter_description :: "int \<Rightarrow> string" where
  "deleteAfter_description s =
     coalesce (map_of
       [(0, ''prefs_notifications_delete_after_never_description''),
        (10800, ''prefs_notifications_delete_after_three_hours_description''),
        (86400, ''prefs_notifications_delete_after_one_day_description''),
        (604800, ''prefs_notifications_delete_after_one_week_description''),
        (2592000, ''prefs_notifications_delete_after_one_month_description'')] s) []"

definition webPush_description :: "bool \<Rightarrow> string" where
  "webPush_description enabled =
     (if enabled then ''prefs_notifications_web_push_enabled_description''
      else ''prefs_notifications_web_push_disabled_description'')"

definition showWebPush :: "bool \<Rightarrow> bool \<Rightarrow> bool" where
  "showWebPush isLaunchedPWA push_possible \<longleftrightarrow> \<not> isLaunchedPWA \<and> push_possible"

subsection \<open>Users of other servers\<close>

text \<open>The submit handlers of the add and edit dialogs; an error of the table is logged.\<close>

definition user_handleDialogSubmit where
  "user_handleDialogSubmit U cfg ses user t = users_save U cfg ses user t"

definition user_handleDeleteClick where
  "user_handleDeleteClick U cfg ses user t = users_delete U cfg ses (u_baseUrl user) t"

definition user_editable :: "config \<Rightarrow> 'kv session \<Rightarrow> user \<Rightarrow> bool" where
  "user_editable cfg ses user \<longleftrightarrow> \<not> session_exists ses \<or> u_baseUrl user \<noteq> base_url cfg"

text \<open>The fields of the dialog: of the edited user, or empty.\<close>

record user_dialog =
  ud_baseUrl :: string
  ud_username :: string
  ud_password :: string

definition open_user_dialog :: "user option \<Rightarrow> user_dialog" where
  "open_user_dialog edited =
     (case edited of
        None \<Rightarrow> \<lparr>ud_baseUrl = [], ud_username = [], ud_password = []\<rparr>
      | Some u \<Rightarrow> \<lparr>ud_baseUrl = u_baseUrl u, ud_username = u_username u, ud_password = coalesce (u_password u) []\<rparr>)"

definition baseUrlExists :: "user list \<Rightarrow> user_dialog \<Rightarrow> bool" where
  "baseUrlExists us ud \<longleftrightarrow> ud_baseUrl ud \<in> set (map u_baseUrl us)"

definition baseUrlError :: "user list \<Rightarrow> user_dialog \<Rightarrow> bool" where
  "baseUrlError us ud \<longleftrightarrow> ud_baseUrl ud \<noteq> [] \<and> (\<not> validUrl (ud_baseUrl ud) \<or> baseUrlExists us ud)"

definition addButtonEnabled :: "bool \<Rightarrow> user list \<Rightarrow> user_dialog \<Rightarrow> bool" where
  "addButtonEnabled editMode us ud \<longleftrightarrow>
     (if editMode then ud_username ud \<noteq> [] \<and> ud_password ud \<noteq> []
      else validUrl (ud_baseUrl ud) \<and> \<not> baseUrlExists us ud \<and> ud_username ud \<noteq> [] \<and> ud_password ud \<noteq> [])"

definition baseUrlHelperText :: "user list \<Rightarrow> user_dialog \<Rightarrow> string" where
  "baseUrlHelperText us ud =
     (if ud_baseUrl ud \<noteq> [] \<and> \<not> validUrl (ud_baseUrl ud) then ''prefs_users_dialog_base_url_invalid''
      else if baseUrlExists us ud then ''prefs_users_dialog_base_url_exists'' else [])"

definition user_dialog_handleSubmit :: "user_dialog \<Rightarrow> user" where
  "user_dialog_handleSubmit ud =
     \<lparr>u_baseUrl = ud_baseUrl ud, u_username = ud_username ud, u_password = Some (ud_password ud), u_token = None\<rparr>"

subsection \<open>Reservations\<close>

definition reservations_limitReached :: "string \<Rightarrow> int \<Rightarrow> bool" where
  "reservations_limitReached role remaining \<longleftrightarrow> role = ''user'' \<and> remaining = 0"

text \<open>The home server's subscriptions by topic: the last one of a topic counts.\<close>

definition localSubscriptions :: "config \<Rightarrow> subscription list \<Rightarrow> string \<rightharpoonup> subscription" where
  "localSubscriptions cfg ss = map_of (rev (map (\<lambda>s. (s_topic s, s)) (filter (\<lambda>s. s_baseUrl s = base_url cfg) ss)))"

text \<open>A topic named like an inherited property counts as subscribed.\<close>

definition not_subscribed :: "config \<Rightarrow> subscription list \<Rightarrow> reservation \<Rightarrow> bool" where
  "not_subscribed cfg ss r \<longleftrightarrow> localSubscriptions cfg ss (r_topic r) = None \<and> \<not> inherited (r_topic r)"

definition handleSubscribeClick where
  "handleSubscribeClick T srv cfg fresh r ses d log = subscribeTopic T srv cfg fresh (base_url cfg) (r_topic r) no_opts ses d log"

definition permission_text :: "string \<Rightarrow> string option" where
  "permission_text everyone = map_of
     [(''read-write'', ''prefs_reservations_table_everyone_read_write''),
      (''read-only'', ''prefs_reservations_table_everyone_read_only''),
      (''write-only'', ''prefs_reservations_table_everyone_write_only''),
      (''deny-all'', ''prefs_reservations_table_everyone_deny_all'')] everyone"

subsection \<open>Properties\<close>

text \<open>What the account is after the server has stored a setting.\<close>

definition account_with :: "string \<Rightarrow> json \<Rightarrow> json" where
  "account_with k v = JObj [(''notification'', JObj [(k, v)])]"

lemma update_settings_log:
  "snd (maybeUpdateAccountSettings srv cfg fresh payload ses log) =
     (if session_exists ses then log @ [\<lparr>rq_method = ''PATCH'', rq_url = accountSettingsUrl (base_url cfg),
        rq_headers = bearer (session_token ses) [], rq_body = Some (JObj payload)\<rparr>] else log)"
  by (simp add: maybeUpdateAccountSettings_def account_updateSettings_def call_unit_def io_defs fetchOrThrow_unfold
      split: option.split)

lemma update_settings_session:
  "fst (maybeUpdateAccountSettings srv cfg fresh payload ses log) = ses \<or>
   fst (maybeUpdateAccountSettings srv cfg fresh payload ses log) = resetAndRedirect fresh ''/login'' ses"
  by (simp add: maybeUpdateAccountSettings_def auth_guard_def split: prod.split sum.split)



end
