(* ===== verification/Account_Page.thy ===== *)
theory Account_Page
  imports Dialogs
begin

section \<open>The account page and the upgrade dialog (components/Account.jsx, components/UpgradeDialog.jsx)\<close>

text \<open>
  The dialogs of the account page: password, phone numbers, access tokens, deleting the account; and
  the decision which plan change the upgrade dialog submits. \<open>text\<close> is the text of an error.
\<close>

subsection \<open>Dialogs\<close>

text \<open>
  A dialog of the account page closes on success, shows an error, or stays open when the server
  refuses the token and the session ends.
\<close>

datatype account_end = Closes | StaysOpen | ShowsError string

definition account_dialog ::
  "'kv \<Rightarrow> (app_error \<Rightarrow> string) \<Rightarrow> 'a io \<Rightarrow> 'kv session \<Rightarrow> request list \<Rightarrow>
     ('kv session \<times> account_end) \<times> request list" where
  "account_dialog fresh text call ses log =
     (case call log of
        (Inr _, log') \<Rightarrow> ((ses, Closes), log')
      | (Inl e, log') \<Rightarrow>
          ((auth_guard fresh ses e, if e = UnauthorizedError then StaysOpen else ShowsError (text e)), log'))"

text \<open>\<open>incorrect\<close> is the text for a wrong password.\<close>

definition password_text :: "(app_error \<Rightarrow> string) \<Rightarrow> string \<Rightarrow> app_error \<Rightarrow> string" where
  "password_text text incorrect e = (if e = IncorrectPasswordError then incorrect else text e)"

definition changePassword_handleDialogSubmit where
  "changePassword_handleDialogSubmit srv cfg fresh text incorrect currentPassword newPassword ses log =
     account_dialog fresh (password_text text incorrect)
       (account_changePassword srv cfg (session_token ses) currentPassword newPassword) ses log"

definition changePasswordEnabled :: "string \<Rightarrow> string \<Rightarrow> string \<Rightarrow> bool" where
  "changePasswordEnabled currentPassword newPassword confirmPassword \<longleftrightarrow>
     newPassword \<noteq> [] \<and> currentPassword \<noteq> [] \<and> newPassword = confirmPassword"

text \<open>Deleting the account deletes the local database (\<open>empty_db\<close>) and the session.\<close>

definition deleteAccount_handleSubmit ::
  "server \<Rightarrow> config \<Rightarrow> 'kv \<Rightarrow> 'd \<Rightarrow> (app_error \<Rightarrow> string) \<Rightarrow> string \<Rightarrow> string \<Rightarrow> 'kv session \<Rightarrow> 'd \<Rightarrow>
     request list \<Rightarrow> (('kv session \<times> account_end) \<times> 'd) \<times> request list" where
  "deleteAccount_handleSubmit srv cfg fresh empty_db text incorrect password ses d log =
     (case account_delete srv cfg (session_token ses) password log of
        (Inr _, log') \<Rightarrow> (((resetAndRedirect fresh (app_root cfg) ses, StaysOpen), empty_db), log')
      | (Inl e, log') \<Rightarrow>
          (((auth_guard fresh ses e,
             if e = UnauthorizedError then StaysOpen else ShowsError (password_text text incorrect e)), d), log'))"

text \<open>\<open>handleManageBilling\<close>: the address to open, or whether an error is shown.\<close>

definition handleManageBilling ::
  "server \<Rightarrow> config \<Rightarrow> 'kv \<Rightarrow> 'kv session \<Rightarrow> request list \<Rightarrow>
     (string option \<times> 'kv session \<times> bool) \<times> request list" where
  "handleManageBilling srv cfg fresh ses log =
     (case createBillingPortalSession srv cfg (session_token ses) log of
        (Inr response, log') \<Rightarrow>
          (if response = JNull then (None, ses, True)
           else (Some (template (json_string (json_prop response ''redirect_url''))), ses, False), log')
      | (Inl e, log') \<Rightarrow> ((None, auth_guard fresh ses e, e \<noteq> UnauthorizedError), log'))"

text \<open>\<open>AccountType\<close> of an account with a role, the name of its tier and the billing interval.\<close>

definition accountType :: "(string \<Rightarrow> string) \<Rightarrow> (string \<Rightarrow> string) \<Rightarrow> config \<Rightarrow> string \<Rightarrow> string option \<Rightarrow> string option \<Rightarrow> string" where
  "accountType t with_tier cfg role tier interval =
     (if role = ''admin'' then t ''account_basics_tier_admin'' @ '' '' @
        (case tier of Some name \<Rightarrow> with_tier name | None \<Rightarrow> t ''account_basics_tier_admin_suffix_no_tier'')
      else case tier of
        None \<Rightarrow> t (if enable_payments cfg then ''account_basics_tier_free'' else ''account_basics_tier_basic'')
      | Some name \<Rightarrow> name @
          (if interval = Some ''month'' then '' ('' @ t ''account_basics_tier_interval_monthly'' @ '')''
           else if interval = Some ''year'' then '' ('' @ t ''account_basics_tier_interval_yearly'' @ '')'' else []))"

subsection \<open>Phone numbers\<close>

definition phone_handleDelete ::
  "server \<Rightarrow> config \<Rightarrow> 'kv \<Rightarrow> string \<Rightarrow> 'kv session \<Rightarrow> request list \<Rightarrow> 'kv session \<times> request list" where
  "phone_handleDelete srv cfg fresh phoneNumber ses log =
     (case deletePhoneNumber srv cfg (session_token ses) phoneNumber log of
        (Inr _, log') \<Rightarrow> (ses, log')
      | (Inl e, log') \<Rightarrow> (auth_guard fresh ses e, log'))"

record phone_dialog =
  ph_number :: string
  ph_channel :: string
  ph_code :: string
  ph_sent :: bool
  ph_error :: string

definition new_phone_dialog :: phone_dialog where
  "new_phone_dialog = \<lparr>ph_number = [], ph_channel = ''sms'', ph_code = [], ph_sent = False, ph_error = []\<rparr>"

text \<open>\<open>/^\+\d+$/\<close>; while a request is under way (\<open>sending\<close>) the button is disabled.\<close>

definition phoneButtonEnabled :: "phone_dialog \<Rightarrow> bool" where
  "phoneButtonEnabled pd \<longleftrightarrow>
     (case ph_number pd of
        [] \<Rightarrow> False
      | c # ds \<Rightarrow> c = CHR ''+'' \<and> ds \<noteq> [] \<and> list_all (\<lambda>d. d \<in> set ''0123456789'') ds)"

definition phone_failed :: "'kv \<Rightarrow> (app_error \<Rightarrow> string) \<Rightarrow> app_error \<Rightarrow> phone_dialog \<times> 'kv session \<Rightarrow> phone_dialog \<times> 'kv session" where
  "phone_failed fresh text e st =
     (case st of (pd, ses) \<Rightarrow>
        (if e = UnauthorizedError then pd else pd\<lparr>ph_error := text e\<rparr>, auth_guard fresh ses e))"

definition verifyPhone ::
  "server \<Rightarrow> config \<Rightarrow> 'kv \<Rightarrow> (app_error \<Rightarrow> string) \<Rightarrow> phone_dialog \<times> 'kv session \<Rightarrow> request list \<Rightarrow>
     (phone_dialog \<times> 'kv session) \<times> request list" where
  "verifyPhone srv cfg fresh text st log =
     (case st of (pd, ses) \<Rightarrow>
        (case verifyPhoneNumber srv cfg (session_token ses) (ph_number pd) (ph_channel pd) log of
           (Inr _, log') \<Rightarrow> ((pd\<lparr>ph_sent := True\<rparr>, ses), log')
         | (Inl e, log') \<Rightarrow> (phone_failed fresh text e st, log')))"

definition checkVerifyPhone ::
  "server \<Rightarrow> config \<Rightarrow> 'kv \<Rightarrow> (app_error \<Rightarrow> string) \<Rightarrow> phone_dialog \<times> 'kv session \<Rightarrow> request list \<Rightarrow>
     ((phone_dialog \<times> 'kv session) \<times> bool) \<times> request list" where
  "checkVerifyPhone srv cfg fresh text st log =
     (case st of (pd, ses) \<Rightarrow>
        (case addPhoneNumber srv cfg (session_token ses) (ph_number pd) (ph_code pd) log of
           (Inr _, log') \<Rightarrow> ((st, True), log')
         | (Inl e, log') \<Rightarrow> ((phone_failed fresh text e st, False), log')))"

text \<open>The state of the dialog, and whether it closes.\<close>

definition phone_handleDialogSubmit ::
  "server \<Rightarrow> config \<Rightarrow> 'kv \<Rightarrow> (app_error \<Rightarrow> string) \<Rightarrow> phone_dialog \<times> 'kv session \<Rightarrow> request list \<Rightarrow>
     ((phone_dialog \<times> 'kv session) \<times> bool) \<times> request list" where
  "phone_handleDialogSubmit srv cfg fresh text st log =
     (if \<not> ph_sent (fst st) then (let (st', log') = verifyPhone srv cfg fresh text st log in ((st', False), log'))
      else checkVerifyPhone srv cfg fresh text st log)"

definition phone_handleCancel :: "phone_dialog \<Rightarrow> phone_dialog \<times> bool" where
  "phone_handleCancel pd = (if ph_sent pd then (pd\<lparr>ph_sent := False, ph_code := []\<rparr>, False) else (pd, True))"

text \<open>What the user does: the number and the channel are shown before the code was sent, the code after it.\<close>

inductive phone_reachable ::
  "server \<Rightarrow> config \<Rightarrow> 'kv \<Rightarrow> (app_error \<Rightarrow> string) \<Rightarrow> 'kv session \<Rightarrow> request list \<Rightarrow>
     phone_dialog \<times> 'kv session \<Rightarrow> request list \<Rightarrow> bool"
  for srv :: server and cfg :: config and fresh :: 'kv and err_text :: "app_error \<Rightarrow> string"
    and ses0 :: "'kv session" and log0 :: "request list" where
  opened: "phone_reachable srv cfg fresh err_text ses0 log0 (new_phone_dialog, ses0) log0"
| number: "phone_reachable srv cfg fresh err_text ses0 log0 (pd, ses) log \<Longrightarrow> \<not> ph_sent pd \<Longrightarrow>
    phone_reachable srv cfg fresh err_text ses0 log0 (pd\<lparr>ph_number := x\<rparr>, ses) log"
| channel: "phone_reachable srv cfg fresh err_text ses0 log0 (pd, ses) log \<Longrightarrow> \<not> ph_sent pd \<Longrightarrow> x \<in> {''sms'', ''call''} \<Longrightarrow>
    phone_reachable srv cfg fresh err_text ses0 log0 (pd\<lparr>ph_channel := x\<rparr>, ses) log"
| code: "phone_reachable srv cfg fresh err_text ses0 log0 (pd, ses) log \<Longrightarrow> ph_sent pd \<Longrightarrow>
    phone_reachable srv cfg fresh err_text ses0 log0 (pd\<lparr>ph_code := x\<rparr>, ses) log"
| submit: "phone_reachable srv cfg fresh err_text ses0 log0 st log \<Longrightarrow> phoneButtonEnabled (fst st) \<Longrightarrow>
    phone_handleDialogSubmit srv cfg fresh err_text st log = ((st', closed), log') \<Longrightarrow>
    phone_reachable srv cfg fresh err_text ses0 log0 st' log'"
| cancel: "phone_reachable srv cfg fresh err_text ses0 log0 (pd, ses) log \<Longrightarrow>
    phone_reachable srv cfg fresh err_text ses0 log0 (fst (phone_handleCancel pd), ses) log"

subsection \<open>Access tokens\<close>

record token =
  tk_token :: string
  tk_label :: "string option"
  tk_provisioned :: bool
  tk_expires :: "int option"
  tk_last_access :: int
  tk_last_origin :: string

definition compareTokens :: "string option \<Rightarrow> (string \<Rightarrow> string \<Rightarrow> int) \<Rightarrow> token \<Rightarrow> token \<Rightarrow> int" where
  "compareTokens own collate a b =
     (if Some (tk_token a) = own then - 1 else if Some (tk_token b) = own then 1
      else collate (tk_token a) (tk_token b))"

definition sortedTokens where "sortedTokens own collate ts = js_sort (compareTokens own collate) ts"

definition token_editable :: "string option \<Rightarrow> token \<Rightarrow> bool" where
  "token_editable own tk \<longleftrightarrow> Some (tk_token tk) \<noteq> own \<and> \<not> tk_provisioned tk"

text \<open>The dialog's fields for a new token or an edited one; \<open>- 1\<close> is the choice ``unchanged''.\<close>

definition open_token_dialog :: "token option \<Rightarrow> string \<times> int" where
  "open_token_dialog edited =
     (case edited of None \<Rightarrow> ([], 0) | Some tk \<Rightarrow> (coalesce (tk_label tk) [], - 1))"

definition expires_choices :: "bool \<Rightarrow> int list" where
  "expires_choices editMode =
     (if editMode then [- 1] else []) @ [0, 21600, 43200, 259200, 604800, 2592000, 7776000, 15552000]"

definition token_handleSubmit where
  "token_handleSubmit srv cfg fresh text now edited label expires ses log =
     account_dialog fresh text
       (case edited of
          Some tk \<Rightarrow> account_updateToken srv cfg (session_token ses) now (tk_token tk) label expires
        | None \<Rightarrow> account_createToken srv cfg (session_token ses) now label expires) ses log"

definition tokenDelete_handleSubmit where
  "tokenDelete_handleSubmit srv cfg fresh text tk ses log =
     account_dialog fresh text (account_deleteToken srv cfg (session_token ses) (tk_token tk)) ses log"

subsection \<open>The upgrade dialog\<close>

record tier =
  ti_code :: "string option"
  ti_reservations :: "int option"
  ti_prices :: "(int \<times> int) option"

text \<open>What the dialog reads of an account: the code of its tier, the billing interval, its reservations.\<close>

record upgrade_account =
  ua_tier :: "string option"
  ua_interval :: "string option"
  ua_reservations :: "nat option"

datatype upgrade_action = REDIRECT_SIGNUP | CREATE_SUBSCRIPTION | UPDATE_SUBSCRIPTION | CANCEL_SUBSCRIPTION
datatype upgrade_banner = CANCEL_WARNING | PRORATION_INFO | RESERVATIONS_WARNING

text \<open>
  \<open>tiersMap[newTierCode]\<close>: the last tier of a code; no code is the key ``undefined''. The list has at
  least one tier (merging none throws), and no tier is named like an inherited property.
\<close>

definition newTier :: "tier list \<Rightarrow> string option \<Rightarrow> tier option" where
  "newTier tiers newTierCode = find (\<lambda>ti. template (ti_code ti) = template newTierCode) (rev tiers)"

definition upgrade_decision ::
  "upgrade_account option \<Rightarrow> tier list \<Rightarrow> string option \<Rightarrow> string \<Rightarrow> bool \<Rightarrow>
     upgrade_action option \<times> upgrade_banner option" where
  "upgrade_decision account tiers newTierCode interval loading =
     (let currentTierCode = (case account of None \<Rightarrow> None | Some a \<Rightarrow> ua_tier a);
          currentInterval = (case account of None \<Rightarrow> None | Some a \<Rightarrow> ua_interval a);
          (submitAction, banner) =
            (if account = None then (Some REDIRECT_SIGNUP, None)
             else if currentTierCode = newTierCode \<and> (currentInterval = None \<or> currentInterval = Some interval) then
               (None, if truthy currentTierCode then Some PRORATION_INFO else None)
             else if \<not> truthy currentTierCode then (Some CREATE_SUBSCRIPTION, None)
             else if \<not> truthy newTierCode then (Some CANCEL_SUBSCRIPTION, Some CANCEL_WARNING)
             else (Some UPDATE_SUBSCRIPTION, Some PRORATION_INFO));
          tooMany = (case newTier tiers newTierCode of
              Some ti \<Rightarrow> truthy (ti_code ti) \<and>
                (case (account, ti_reservations ti) of
                   (Some a, Some limit) \<Rightarrow> (case ua_reservations a of Some n \<Rightarrow> int n > limit | None \<Rightarrow> False)
                 | _ \<Rightarrow> False)
            | None \<Rightarrow> False)
      in if loading then (None, banner)
         else if tooMany then (None, Some RESERVATIONS_WARNING) else (submitAction, banner))"

text \<open>\<open>handleSubmit\<close>: the session (with its new address), and the dialog.\<close>

definition upgrade_handleSubmit ::
  "server \<Rightarrow> config \<Rightarrow> 'kv \<Rightarrow> (app_error \<Rightarrow> string) \<Rightarrow> upgrade_action option \<Rightarrow> string option \<Rightarrow> string \<Rightarrow>
     'kv session \<Rightarrow> request list \<Rightarrow> ('kv session \<times> account_end) \<times> request list" where
  "upgrade_handleSubmit srv cfg fresh text submitAction newTierCode interval ses log =
     (let tok = session_token ses in
      case submitAction of
        None \<Rightarrow> ((ses, Closes), log)
      | Some REDIRECT_SIGNUP \<Rightarrow> ((ses\<lparr>href := Some ''/signup''\<rparr>, StaysOpen), log)
      | Some CREATE_SUBSCRIPTION \<Rightarrow>
          (case createBillingSubscription srv cfg tok newTierCode interval log of
             (Inr response, log') \<Rightarrow>
               (if response = JNull then ((ses, ShowsError (text TypeError)), log')
                else ((ses\<lparr>href := Some (template (json_string (json_prop response ''redirect_url'')))\<rparr>, Closes), log'))
           | (Inl e, log') \<Rightarrow>
               ((auth_guard fresh ses e, if e = UnauthorizedError then StaysOpen else ShowsError (text e)), log'))
      | Some UPDATE_SUBSCRIPTION \<Rightarrow> account_dialog fresh text (updateBillingSubscription srv cfg tok newTierCode interval) ses log
      | Some CANCEL_SUBSCRIPTION \<Rightarrow> account_dialog fresh text (deleteBillingSubscription srv cfg tok) ses log)"

text \<open>\<open>Math.round(((month * 12) / year - 1) * 100)\<close>, computed exactly, for a positive yearly price.\<close>

definition tier_discount :: "int \<times> int \<Rightarrow> int" where
  "tier_discount prices = (case prices of (month, year) \<Rightarrow> (2400 * month - 199 * year) div (2 * year))"

fun discount_loop :: "(int \<times> int) option list \<Rightarrow> int \<Rightarrow> nat \<Rightarrow> int \<times> nat" where
  "discount_loop [] discount n = (discount, n)"
| "discount_loop (None # ps) discount n = discount_loop ps discount n"
| "discount_loop (Some p # ps) discount n =
     (if tier_discount p > discount then discount_loop ps (tier_discount p) (n + 1) else discount_loop ps discount n)"

text \<open>The discount shown, and whether it is shown as the most one saves.\<close>

definition upgrade_discount :: "tier list \<Rightarrow> tier option \<Rightarrow> int \<times> bool" where
  "upgrade_discount tiers chosen =
     (case Option.bind chosen ti_prices of
        Some p \<Rightarrow> (tier_discount p, False)
      | None \<Rightarrow> (let (discount, n) = discount_loop (map ti_prices tiers) 0 0 in (discount, n > 1)))"

text \<open>\<open>TierCard\<close>: the price per month, in twelfths.\<close>

definition monthlyPrice_x12 :: "tier \<Rightarrow> string \<Rightarrow> int option" where
  "monthlyPrice_x12 ti interval =
     (case ti_prices ti of
        None \<Rightarrow> Some 0
      | Some (month, year) \<Rightarrow>
          if interval = ''year'' then Some year else if interval = ''month'' then Some (12 * month) else None)"

subsection \<open>Properties\<close>

text \<open>Requests for a verification code and with a code, for a number.\<close>

definition is_verify :: "config \<Rightarrow> string \<Rightarrow> request \<Rightarrow> bool" where
  "is_verify cfg x rq \<longleftrightarrow> rq_method rq = ''PUT'' \<and> rq_url rq = accountPhoneVerifyUrl (base_url cfg) \<and>
     (\<exists>ch. rq_body rq = Some (JObj [(''number'', JStr x), (''channel'', JStr ch)]))"

definition is_add_number :: "config \<Rightarrow> string \<Rightarrow> request \<Rightarrow> bool" where
  "is_add_number cfg x rq \<longleftrightarrow> rq_method rq = ''PUT'' \<and> rq_url rq = accountPhoneUrl (base_url cfg) \<and>
     (\<exists>c. rq_body rq = Some (JObj [(''number'', JStr x), (''code'', JStr c)]))"

text \<open>Since the dialog was opened, the server has accepted to send a code to the number.\<close>

definition code_sent :: "server \<Rightarrow> config \<Rightarrow> request list \<Rightarrow> request list \<Rightarrow> string \<Rightarrow> bool" where
  "code_sent srv cfg log0 log x \<longleftrightarrow>
     (\<exists>pre rq post rs. log = log0 @ pre @ rq # post \<and> is_verify cfg x rq \<and>
        srv (log0 @ pre) rq = Some rs \<and> rs_status rs = 200)"

lemma code_sent_mono: "code_sent srv cfg log0 log x \<Longrightarrow> code_sent srv cfg log0 (log @ [r]) x"
  unfolding code_sent_def by (elim exE conjE) (intro exI conjI, auto)

definition phone_inv :: "server \<Rightarrow> config \<Rightarrow> request list \<Rightarrow> phone_dialog \<Rightarrow> request list \<Rightarrow> bool" where
  "phone_inv srv cfg log0 pd log \<longleftrightarrow>
     (\<exists>rqs. log = log0 @ rqs) \<and>
     (ph_sent pd \<longrightarrow> code_sent srv cfg log0 log (ph_number pd)) \<and>
     (\<forall>pre rq post x. log = log0 @ pre @ rq # post \<and> is_add_number cfg x rq \<longrightarrow> code_sent srv cfg log0 (log0 @ pre) x)"

lemma phone_urls_differ: "is_add_number cfg x rq \<Longrightarrow> \<not> is_verify cfg y rq"
  by (auto simp: is_add_number_def is_verify_def)

lemma phone_inv_snoc:
  assumes "phone_inv srv cfg log0 pd log" and "\<And>x. is_add_number cfg x r \<Longrightarrow> code_sent srv cfg log0 log x"
    and "ph_sent pd' \<Longrightarrow> code_sent srv cfg log0 (log @ [r]) (ph_number pd')"
  shows "phone_inv srv cfg log0 pd' (log @ [r])"
proof -
  have "code_sent srv cfg log0 (log0 @ pre) x"
    if "log @ [r] = log0 @ pre @ rq # post" "is_add_number cfg x rq" for pre rq post x
  proof (cases post rule: rev_cases)
    case Nil
    then have "log = log0 @ pre" "r = rq" using that(1) by (simp_all flip: append_assoc)
    then show ?thesis using assms(2) that(2) by simp
  next
    case (snoc ps p)
    then have "log = log0 @ pre @ rq # ps" using that(1) by (simp flip: append_Cons append_assoc)
    then show ?thesis using assms(1) that(2) unfolding phone_inv_def by blast
  qed
  moreover have "\<exists>rqs. log @ [r] = log0 @ rqs" using assms(1) unfolding phone_inv_def by auto
  ultimately show ?thesis using assms(3) unfolding phone_inv_def by blast
qed

lemma phone_submit_inv:
  assumes "phone_inv srv cfg log0 (fst st) log"
    and "phone_handleDialogSubmit srv cfg fresh text st log = ((st', closed), log')"
  shows "phone_inv srv cfg log0 (fst st') log'"
proof -
  obtain pd ses where st: "st = (pd, ses)" by (cases st)
  let ?v = "\<lparr>rq_method = ''PUT'', rq_url = accountPhoneVerifyUrl (base_url cfg), rq_headers = bearer (session_token ses) [],
      rq_body = Some (JObj [(''number'', JStr (ph_number pd)), (''channel'', JStr (ph_channel pd))])\<rparr>"
  let ?a = "\<lparr>rq_method = ''PUT'', rq_url = accountPhoneUrl (base_url cfg), rq_headers = bearer (session_token ses) [],
      rq_body = Some (JObj [(''number'', JStr (ph_number pd)), (''code'', JStr (ph_code pd))])\<rparr>"
  have failed: "ph_sent (fst (phone_failed fresh text e st)) = ph_sent pd"
    "ph_number (fst (phone_failed fresh text e st)) = ph_number pd" for e
    by (simp_all add: st phone_failed_def)
  obtain rqs where rqs: "log = log0 @ rqs" using assms(1) unfolding phone_inv_def by blast
  show ?thesis
  proof (cases "ph_sent pd")
    case False
    have log': "log' = log @ [?v]" and sent: "ph_sent (fst st') \<Longrightarrow> (\<exists>rs. srv log ?v = Some rs \<and> rs_status rs = 200) \<and>
        ph_number (fst st') = ph_number pd"
      using assms(2) False failed
      by (auto simp: st phone_handleDialogSubmit_def verifyPhone_def verifyPhoneNumber_def call_unit_def io_defs
          fetchOrThrow_unfold split: option.splits if_splits)
    have v: "is_verify cfg (ph_number pd) ?v" by (simp add: is_verify_def)
    have "code_sent srv cfg log0 (log @ [?v]) (ph_number (fst st'))" if "ph_sent (fst st')"
      using sent [OF that] v rqs unfolding code_sent_def by auto
    then show ?thesis
      unfolding log' using phone_inv_snoc [OF assms(1)] phone_urls_differ v by blast
  next
    case True
    have log': "log' = log @ [?a]" and sent: "ph_number (fst st') = ph_number pd"
      using assms(2) True failed
      by (auto simp: st phone_handleDialogSubmit_def checkVerifyPhone_def addPhoneNumber_def call_unit_def io_defs
          fetchOrThrow_unfold split: option.splits if_splits)
    have c: "code_sent srv cfg log0 log (ph_number pd)" using assms(1) True by (simp add: st phone_inv_def)
    have "is_add_number cfg x ?a \<Longrightarrow> x = ph_number pd" for x by (simp add: is_add_number_def)
    then show ?thesis
      unfolding log' using phone_inv_snoc [OF assms(1), of ?a "fst st'"] c code_sent_mono [OF c] sent by auto
  qed
qed

lemma phone_inv_reachable:
  "phone_reachable srv cfg fresh text ses0 log0 st log \<Longrightarrow> phone_inv srv cfg log0 (fst st) log"
proof (induction rule: phone_reachable.induct)
  case opened
  then show ?case by (simp add: phone_inv_def new_phone_dialog_def)
next
  case (submit st log st' closed log')
  then show ?case by (metis phone_submit_inv)
qed (auto simp: phone_inv_def phone_handleCancel_def)


definition sample_number :: phone_dialog where
  "sample_number = new_phone_dialog\<lparr>ph_number := ''+4312''\<rparr>"

definition signed_in :: "unit session" where
  "signed_in = \<lparr>local_storage = [''user'' \<mapsto> ''ann'', ''token'' \<mapsto> ''tk1''], kv_store = (), href = None\<rparr>"

lemma signed_in [simp]:
  "session_exists signed_in" "session_username signed_in = Some ''ann''" "session_token signed_in = Some ''tk1''"
  by (simp_all add: signed_in_def session_exists_def session_username_def session_token_def)

definition sample_session :: "unit session" where
  "sample_session = \<lparr>local_storage = Map.empty, kv_store = (), href = None\<rparr>"

definition ok_server :: server where
  "ok_server log rq = Some \<lparr>rs_status = 200, rs_json = None\<rparr>"

lemma phone_sample:
  defines "v \<equiv> \<lparr>rq_method = ''PUT'', rq_url = accountPhoneVerifyUrl (base_url plain_config), rq_headers = bearer None [],
      rq_body = Some (JObj [(''number'', JStr ''+4312''), (''channel'', JStr ''sms'')])\<rparr>"
    and "a \<equiv> \<lparr>rq_method = ''PUT'', rq_url = accountPhoneUrl (base_url plain_config), rq_headers = bearer None [],
      rq_body = Some (JObj [(''number'', JStr ''+4312''), (''code'', JStr [])])\<rparr>"
  shows "phone_reachable ok_server plain_config () (\<lambda>_. []) sample_session []
      (sample_number\<lparr>ph_sent := True\<rparr>, sample_session) ([] @ [v] @ a # [])"
    "is_add_number plain_config ''+4312'' a"
proof -
  let ?R = "phone_reachable ok_server plain_config () (\<lambda>_. []) sample_session []"
  have tok: "session_token sample_session = None" by (simp add: session_token_def sample_session_def)
  note calls = phone_handleDialogSubmit_def verifyPhone_def checkVerifyPhone_def verifyPhoneNumber_def addPhoneNumber_def
    call_unit_def io_defs fetchOrThrow_unfold ok_server_def tok sample_number_def new_phone_dialog_def
  have "?R (sample_number, sample_session) []"
    using phone_reachable.number [OF phone_reachable.opened, of ok_server plain_config "()" "\<lambda>_. []" sample_session "[]" "''+4312''"]
    by (simp add: sample_number_def new_phone_dialog_def)
  then have "?R (sample_number\<lparr>ph_sent := True\<rparr>, sample_session) [v]"
    by (rule phone_reachable.submit [where closed = False])
      (simp_all add: phoneButtonEnabled_def calls v_def)
  then have "?R (sample_number\<lparr>ph_sent := True\<rparr>, sample_session) [v, a]"
    by (rule phone_reachable.submit [where closed = True])
      (simp_all add: phoneButtonEnabled_def calls a_def)
  then show "?R (sample_number\<lparr>ph_sent := True\<rparr>, sample_session) ([] @ [v] @ a # [])" by simp
  show "is_add_number plain_config ''+4312'' a" by (simp add: is_add_number_def a_def)
qed


text \<open>
  In the dialog of an existing access token the choice that it never expires (0) sends the very
  request of the choice that leaves its expiry unchanged (-1): a token with an expiry keeps it.
\<close>

theorem token_never_expires_ignored:
  "token_handleSubmit srv cfg fresh text now (Some tk) label 0 ses log =
   token_handleSubmit srv cfg fresh text now (Some tk) label (- 1) ses log \<and>
   {0, - 1} \<subseteq> set (expires_choices True)"
  by (simp add: token_handleSubmit_def account_updateToken_def expires_choices_def)

text \<open>
  The table of access tokens shows every token once: the one of this session first, the others in
  the order of the collation.
\<close>

definition token_order :: "string option \<Rightarrow> (string \<Rightarrow> string \<Rightarrow> int) \<Rightarrow> token \<Rightarrow> token \<Rightarrow> bool" where
  "token_order own collate a b \<longleftrightarrow>
     Some (tk_token a) = own \<or> (Some (tk_token b) \<noteq> own \<and> collate (tk_token a) (tk_token b) \<le> 0)"

sublocale collation \<subseteq> tokens: comparator "compareTokens own collate" "token_order own collate" for own
proof
  fix a b c
  note t = total [of "tk_token a" "tk_token b"] collate_trans [of "tk_token a" "tk_token b" "tk_token c"]
  show "compareTokens own collate a b \<le> 0 \<Longrightarrow> token_order own collate a b"
    by (auto simp: compareTokens_def token_order_def split: if_splits)
  show "\<not> compareTokens own collate a b \<le> 0 \<Longrightarrow> token_order own collate b a"
    using t(1) by (auto simp: compareTokens_def token_order_def split: if_splits)
  show "token_order own collate a b \<Longrightarrow> token_order own collate b c \<Longrightarrow> token_order own collate a c"
    using t(2) by (auto simp: token_order_def)
qed

context collation
begin

lemma tokens_listed:
  "mset (sortedTokens own collate ts) = mset ts \<and> sorted_wrt (token_order own collate) (sortedTokens own collate ts)"
  by (simp add: sortedTokens_def tokens.sorted_js_sort)

lemma own_token_first:
  assumes "tk \<in> set ts" and "Some (tk_token tk) = own"
  shows "Some (tk_token (hd (sortedTokens own collate ts))) = own"
  using tokens.first_js_sort [OF assms(1), of own] assms(2) by (auto simp: sortedTokens_def token_order_def)

end

text \<open>
  Whether the largest discount is shown as ``up to'' depends on the order of the tiers, not on
  whether they differ: the counter counts only the tiers that beat the ones before them.
\<close>

lemma upto_depends_on_order:
  defines "a \<equiv> \<lparr>ti_code = Some ''a'', ti_reservations = None, ti_prices = Some (10, 100)\<rparr>"
    and "b \<equiv> \<lparr>ti_code = Some ''b'', ti_reservations = None, ti_prices = Some (10, 109)\<rparr>"
  shows "upgrade_discount [a, b] None = (20, False)" "upgrade_discount [b, a] None = (20, True)"
  by (simp_all add: a_def b_def upgrade_discount_def tier_discount_def)

end
