(* ===== verification/Admin.thy ===== *)
theory Admin
  imports Account_Page
begin

section \<open>The admin panel (components/AdminPanel.jsx)\<close>

text \<open>
  The three tabs of the panel: users, chats with access rights and join requests, and invitations.
  Each tab has its own state, a value of \<open>admin\<close> of which it uses the fields it has.
  Every change is one request; after a success the lists it touches are read again. \<open>text\<close> is the
  text of an error, \<open>t k vs\<close> the translation of \<open>k\<close> with the values \<open>vs\<close>.
\<close>

record admin =
  ad_users :: "json list"
  ad_topicStats :: "json list"
  ad_joinRequests :: "json list"
  ad_invites :: "json list"
  ad_username :: string
  ad_password :: string
  ad_topic :: string
  ad_topics :: string
  ad_maxUses :: string
  ad_expires :: string
  ad_error :: string
  ad_success :: string

type_synonym admin_io = "admin \<Rightarrow> request list \<Rightarrow> admin \<times> request list"

definition authHeaders :: "string option \<Rightarrow> headers" where
  "authHeaders tok = [(''Authorization'', ''Bearer '' @ coalesce tok ''null'')]"

definition admin_get :: "server \<Rightarrow> config \<Rightarrow> string option \<Rightarrow> string \<Rightarrow> json io" where
  "admin_get srv cfg tok path =
     io_bind (fetchOrThrow srv \<lparr>rq_method = ''GET'', rq_url = base_url cfg @ path, rq_headers = authHeaders tok,
       rq_body = None\<rparr>) response_json"

text \<open>\<open>Array.isArray(data) ? data : []\<close>\<close>

definition array_or_empty :: "json option \<Rightarrow> json list" where
  "array_or_empty v = (case v of Some (JArr js) \<Rightarrow> js | _ \<Rightarrow> [])"

subsection \<open>Reading the lists\<close>

definition fetchUsers :: "server \<Rightarrow> config \<Rightarrow> string option \<Rightarrow> (app_error \<Rightarrow> string) \<Rightarrow> admin_io" where
  "fetchUsers srv cfg tok text ad log =
     (case admin_get srv cfg tok ''/v1/users'' log of
        (Inl e, log') \<Rightarrow> (ad\<lparr>ad_error := text e\<rparr>, log')
      | (Inr data, log') \<Rightarrow> (ad\<lparr>ad_users := array_or_empty (Some data), ad_error := []\<rparr>, log'))"

definition fetchTopicStats :: "server \<Rightarrow> config \<Rightarrow> string option \<Rightarrow> (app_error \<Rightarrow> string) \<Rightarrow> admin_io" where
  "fetchTopicStats srv cfg tok text ad log =
     (case admin_get srv cfg tok ''/v1/admin/topics/stats'' log of
        (Inl e, log') \<Rightarrow> (ad\<lparr>ad_error := text e\<rparr>, log')
      | (Inr data, log') \<Rightarrow>
          (if data = JNull then ad\<lparr>ad_error := text TypeError\<rparr>
           else ad\<lparr>ad_topicStats := array_or_empty (json_prop data ''topics'')\<rparr>, log'))"

definition fetchJoinRequests :: "server \<Rightarrow> config \<Rightarrow> string option \<Rightarrow> admin_io" where
  "fetchJoinRequests srv cfg tok ad log =
     (case admin_get srv cfg tok ''/v1/join-requests?status=pending'' log of
        (Inl e, log') \<Rightarrow> (ad, log')
      | (Inr data, log') \<Rightarrow> (ad\<lparr>ad_joinRequests := array_or_empty (Some data)\<rparr>, log'))"

definition fetchInvites :: "server \<Rightarrow> config \<Rightarrow> string option \<Rightarrow> (app_error \<Rightarrow> string) \<Rightarrow> admin_io" where
  "fetchInvites srv cfg tok text ad log =
     (case admin_get srv cfg tok ''/v1/invites'' log of
        (Inl e, log') \<Rightarrow> (ad\<lparr>ad_error := text e\<rparr>, log')
      | (Inr data, log') \<Rightarrow> (ad\<lparr>ad_invites := array_or_empty (Some data), ad_error := []\<rparr>, log'))"

definition then_do :: "admin_io \<Rightarrow> admin_io \<Rightarrow> admin_io" where
  "then_do f g ad log = (let (ad', log') = f ad log in g ad' log')"

subsection \<open>Changes\<close>

definition admin_request :: "config \<Rightarrow> string option \<Rightarrow> string \<Rightarrow> string \<Rightarrow> (string \<times> json) list option \<Rightarrow> request" where
  "admin_request cfg tok verb path body = \<lparr>rq_method = verb, rq_url = base_url cfg @ path,
     rq_headers = authHeaders tok @ (if body = None then [] else [(''Content-Type'', ''application/json'')]),
     rq_body = map_option JObj body\<rparr>"

text \<open>A change: the request, the text of its success, the fields it empties, the lists it reads again.\<close>

definition admin_change ::
  "server \<Rightarrow> (app_error \<Rightarrow> string) \<Rightarrow> request \<Rightarrow> string \<Rightarrow> (admin \<Rightarrow> admin) \<Rightarrow> admin_io \<Rightarrow> admin_io" where
  "admin_change srv text rq success_text reset refetch ad log =
     (case fetchOrThrow srv rq log of
        (Inl e, log') \<Rightarrow> (ad\<lparr>ad_error := text e, ad_success := []\<rparr>, log')
      | (Inr _, log') \<Rightarrow> refetch ((reset ad)\<lparr>ad_success := success_text, ad_error := []\<rparr>) log')"

definition createUser_request :: "config \<Rightarrow> string option \<Rightarrow> admin \<Rightarrow> request" where
  "createUser_request cfg tok ad = admin_request cfg tok ''POST'' ''/v1/users''
     (Some [(''username'', JStr (js_trim (ad_username ad))), (''password'', JStr (ad_password ad))])"

definition handleCreateUser where
  "handleCreateUser srv cfg tok text t ad log =
     (if js_trim (ad_username ad) = [] \<or> js_trim (ad_password ad) = [] then (ad, log)
      else admin_change srv text (createUser_request cfg tok ad)
        (t ''admin_users_created'' [(''username'', js_trim (ad_username ad))])
        (\<lambda>ad. ad\<lparr>ad_username := [], ad_password := []\<rparr>) (fetchUsers srv cfg tok text) ad log)"

definition handleDeleteUser where
  "handleDeleteUser srv cfg tok text t username =
     admin_change srv text (admin_request cfg tok ''DELETE'' ''/v1/users'' (Some [(''username'', JStr username)]))
       (t ''admin_users_deleted'' [(''username'', username)]) id (fetchUsers srv cfg tok text)"

definition handleResolveJoinRequest where
  "handleResolveJoinRequest srv cfg tok text t rid status =
     admin_change srv text
       (admin_request cfg tok ''PUT'' (''/v1/join-requests/'' @ rid) (Some [(''status'', JStr status)]))
       (t (if status = ''approved'' then ''admin_chats_join_approved'' else ''admin_chats_join_denied'') []) id
       (if status = ''approved'' then then_do (fetchJoinRequests srv cfg tok) (fetchUsers srv cfg tok text)
        else fetchJoinRequests srv cfg tok)"

definition handleDeleteTopic where
  "handleDeleteTopic srv cfg tok text t topic =
     admin_change srv text
       (admin_request cfg tok ''DELETE'' (''/v1/admin/topics/'' @ encodeURIComponent topic) None)
       (t ''admin_chats_topic_deleted'' [(''topic'', topic)]) id
       (then_do (fetchTopicStats srv cfg tok text) (fetchUsers srv cfg tok text))"

definition grant_request :: "config \<Rightarrow> string option \<Rightarrow> string \<Rightarrow> admin \<Rightarrow> request" where
  "grant_request cfg tok perm ad = admin_request cfg tok ''POST'' ''/v1/users/access''
     (Some [(''username'', JStr (js_trim (ad_username ad))), (''topic'', JStr (js_trim (ad_topic ad))),
       (''permission'', JStr perm)])"

definition handleGrantAccess where
  "handleGrantAccess srv cfg tok text t perm ad log =
     (if js_trim (ad_username ad) = [] \<or> js_trim (ad_topic ad) = [] then (ad, log)
      else admin_change srv text (grant_request cfg tok perm ad)
        (t ''admin_chats_access_granted'' [(''username'', js_trim (ad_username ad)), (''topic'', js_trim (ad_topic ad)),
           (''permission'', perm)])
        (\<lambda>ad. ad\<lparr>ad_username := [], ad_topic := []\<rparr>) (fetchUsers srv cfg tok text) ad log)"

definition handleRevokeAccess where
  "handleRevokeAccess srv cfg tok text t username topic =
     admin_change srv text (admin_request cfg tok ''DELETE'' ''/v1/users/access''
         (Some [(''username'', JStr username), (''topic'', JStr topic)]))
       (t ''admin_chats_access_revoked'' [(''username'', username), (''topic'', topic)]) id (fetchUsers srv cfg tok text)"

text \<open>\<open>formatTimestamp\<close> with the browser's format of a date in milliseconds.\<close>

definition formatTimestamp :: "(int \<Rightarrow> string) \<Rightarrow> int option \<Rightarrow> string" where
  "formatTimestamp local_string ts =
     (case ts of Some n \<Rightarrow> if n = 0 then ''-'' else local_string (n * 1000) | None \<Rightarrow> ''-'')"

subsection \<open>Invitations\<close>

definition is_digit :: "char \<Rightarrow> bool" where
  "is_digit c \<longleftrightarrow> c \<in> set ''0123456789''"

text \<open>\<open>parseInt(s, 10)\<close>; a large number is not rounded as a float would be.\<close>

definition parseInt10 :: "string \<Rightarrow> int option" where
  "parseInt10 s =
     (let u = dropWhile is_space s;
          neg = starts_with u ''-'';
          v = (if neg \<or> starts_with u ''+'' then drop 1 u else u);
          ds = takeWhile is_digit v
      in if ds = [] then None
         else Some ((if neg then - 1 else 1) * fold (\<lambda>c n. 10 * n + (of_char c - 48)) ds 0))"

definition topicsClean :: "string \<Rightarrow> string" where
  "topicsClean topics = join '','' (filter (\<lambda>t. t \<noteq> []) (map js_trim (split_on CHR '','' topics)))"

text \<open>\<open>parse_date\<close> reads a local date and time, in milliseconds; an invalid date is sent as \<open>null\<close>.\<close>

definition invite_request :: "config \<Rightarrow> string option \<Rightarrow> (string \<Rightarrow> int option) \<Rightarrow> admin \<Rightarrow> request" where
  "invite_request cfg tok parse_date ad = admin_request cfg tok ''POST'' ''/v1/invites'' (Some (
     [(''topics'', JStr (topicsClean (ad_topics ad)))] @
     (case parseInt10 (ad_maxUses ad) of Some n \<Rightarrow> if n > 0 then [(''max_uses'', JNum n)] else [] | None \<Rightarrow> []) @
     (if ad_expires ad = [] then []
      else [(''expires'', case parse_date (ad_expires ad) of Some ms \<Rightarrow> JNum (ms div 1000) | None \<Rightarrow> JNull)])))"

definition handleCreateInvite where
  "handleCreateInvite srv cfg tok text t parse_date ad =
     admin_change srv text (invite_request cfg tok parse_date ad) (t ''admin_invites_created'' [])
       (\<lambda>ad. ad\<lparr>ad_topics := [], ad_maxUses := [], ad_expires := []\<rparr>) (fetchInvites srv cfg tok text) ad"

definition handleDeleteInvite where
  "handleDeleteInvite srv cfg tok text t token =
     admin_change srv text (admin_request cfg tok ''DELETE'' (''/v1/invites/'' @ token) None)
       (t ''admin_invites_deleted'' []) id (fetchInvites srv cfg tok text)"

definition handleCopyLink :: "bool \<Rightarrow> bool \<Rightarrow> string \<Rightarrow> string \<Rightarrow> page_call list" where
  "handleCopyLink has_clipboard secure origin_url token =
     copyToClipboard has_clipboard secure (origin_url @ ''/invite/'' @ token)"

text \<open>\<open>AdminPanel\<close> without a session leaves for the login page.\<close>

definition admin_redirect :: "'kv session \<Rightarrow> string option" where
  "admin_redirect ses = (if \<not> session_exists ses then Some ''/login'' else None)"

subsection \<open>Properties\<close>

text \<open>Reading again only reads, with the session's token, and does not touch the text of the success.\<close>

definition is_read :: "string option \<Rightarrow> request \<Rightarrow> bool" where
  "is_read tok r \<longleftrightarrow> rq_method r = ''GET'' \<and> rq_headers r = authHeaders tok"

definition only_reads :: "string option \<Rightarrow> admin_io \<Rightarrow> bool" where
  "only_reads tok f \<longleftrightarrow> (\<forall>ad log. \<exists>rqs. snd (f ad log) = log @ rqs \<and> list_all (is_read tok) rqs \<and>
     ad_success (fst (f ad log)) = ad_success ad)"

lemma admin_get_log:
  "snd (admin_get srv cfg tok path log) =
     log @ [\<lparr>rq_method = ''GET'', rq_url = base_url cfg @ path, rq_headers = authHeaders tok, rq_body = None\<rparr>]"
  by (auto simp: admin_get_def io_defs fetchOrThrow_unfold response_json_def split: option.split)

lemma only_reads_get:
  assumes "\<And>ad log. snd (f ad log) = snd (admin_get srv cfg tok path log)"
    and "\<And>ad log. ad_success (fst (f ad log)) = ad_success ad"
  shows "only_reads tok f"
  unfolding only_reads_def assms admin_get_log by (auto simp: is_read_def)

lemma only_reads_fetch:
  "only_reads tok (fetchUsers srv cfg tok text)" "only_reads tok (fetchTopicStats srv cfg tok text)"
  "only_reads tok (fetchJoinRequests srv cfg tok)" "only_reads tok (fetchInvites srv cfg tok text)"
proof -
  note get = only_reads_get [where srv = srv and cfg = cfg and tok = tok]
  show "only_reads tok (fetchUsers srv cfg tok text)"
    by (rule get [where path = "''/v1/users''"]) (auto simp: fetchUsers_def split: prod.split sum.split)
  show "only_reads tok (fetchTopicStats srv cfg tok text)"
    by (rule get [where path = "''/v1/admin/topics/stats''"]) (auto simp: fetchTopicStats_def split: prod.split sum.split)
  show "only_reads tok (fetchJoinRequests srv cfg tok)"
    by (rule get [where path = "''/v1/join-requests?status=pending''"])
      (auto simp: fetchJoinRequests_def split: prod.split sum.split)
  show "only_reads tok (fetchInvites srv cfg tok text)"
    by (rule get [where path = "''/v1/invites''"]) (auto simp: fetchInvites_def split: prod.split sum.split)
qed

lemma only_reads_then:
  assumes "only_reads tok f" "only_reads tok g"
  shows "only_reads tok (then_do f g)"
  unfolding only_reads_def
proof (intro allI)
  fix ad log
  obtain r1 where 1: "snd (f ad log) = log @ r1" "list_all (is_read tok) r1"
    "ad_success (fst (f ad log)) = ad_success ad"
    using assms(1) unfolding only_reads_def by blast
  obtain r2 where 2: "snd (g (fst (f ad log)) (log @ r1)) = (log @ r1) @ r2" "list_all (is_read tok) r2"
    "ad_success (fst (g (fst (f ad log)) (log @ r1))) = ad_success (fst (f ad log))"
    using assms(2) unfolding only_reads_def by blast
  have "then_do f g ad log = g (fst (f ad log)) (log @ r1)"
    using 1(1) by (simp add: then_do_def case_prod_beta)
  then show "\<exists>rqs. snd (then_do f g ad log) = log @ rqs \<and> list_all (is_read tok) rqs \<and>
      ad_success (fst (then_do f g ad log)) = ad_success ad"
    using 1 2 by (intro exI [where x = "r1 @ r2"]) simp
qed

text \<open>
  What a change reports: it sends \<open>rq\<close> and then only reads; when the server refuses, nothing else is
  sent, the text of the error is shown and everything else is as before; otherwise \<open>msg\<close> is shown.
\<close>

definition reports_at ::
  "server \<Rightarrow> (app_error \<Rightarrow> string) \<Rightarrow> string option \<Rightarrow> request \<Rightarrow> string \<Rightarrow> admin \<Rightarrow> request list \<Rightarrow>
     admin \<times> request list \<Rightarrow> bool" where
  "reports_at srv err_text tok rq msg ad log result \<longleftrightarrow> (\<exists>rqs. snd result = log @ rq # rqs \<and> list_all (is_read tok) rqs \<and>
     (case fst (fetchOrThrow srv rq log) of
        Inl e \<Rightarrow> rqs = [] \<and> fst result = ad\<lparr>ad_error := err_text e, ad_success := []\<rparr>
      | Inr _ \<Rightarrow> ad_success (fst result) = msg))"

definition reports ::
  "server \<Rightarrow> (app_error \<Rightarrow> string) \<Rightarrow> string option \<Rightarrow> admin_io \<Rightarrow> (admin \<Rightarrow> request) \<Rightarrow> (admin \<Rightarrow> string) \<Rightarrow> bool" where
  "reports srv err_text tok f rq msg \<longleftrightarrow> (\<forall>ad log. reports_at srv err_text tok (rq ad) (msg ad) ad log (f ad log))"

lemma reports_at_change:
  assumes "only_reads tok refetch"
  shows "reports_at srv err_text tok rq msg ad log (admin_change srv err_text rq msg reset refetch ad log)"
proof -
  obtain r where r: "fetchOrThrow srv rq log = (r, log @ [rq])" by (metis fetchOrThrow_log prod.collapse)
  show ?thesis
  proof (cases r)
    case (Inl e)
    then show ?thesis using r by (simp add: admin_change_def reports_at_def)
  next
    case (Inr x)
    let ?ad = "(reset ad)\<lparr>ad_success := msg, ad_error := []\<rparr>"
    obtain rqs where "snd (refetch ?ad (log @ [rq])) = (log @ [rq]) @ rqs" "list_all (is_read tok) rqs"
      "ad_success (fst (refetch ?ad (log @ [rq]))) = ad_success ?ad"
      using assms unfolding only_reads_def by blast
    then show ?thesis using r Inr by (simp add: admin_change_def reports_at_def)
  qed
qed

lemma reports_change:
  assumes "only_reads tok refetch"
  shows "reports srv err_text tok (\<lambda>ad. admin_change srv err_text (rq ad) (msg ad) reset refetch ad) rq msg"
  unfolding reports_def using reports_at_change [OF assms] by blast

text \<open>
  Every change of the admin panel, to users, join requests, chats, access rights and invitations,
  is exactly one writing request with the session's token; it is reported as done only when the
  server has accepted it, and only reading requests follow; a refused change shows the error and
  leaves everything shown as it was.
\<close>

theorem admin_changes_reported:
  "reports srv text tok (handleDeleteUser srv cfg tok text t u)
     (\<lambda>_. admin_request cfg tok ''DELETE'' ''/v1/users'' (Some [(''username'', JStr u)]))
     (\<lambda>_. t ''admin_users_deleted'' [(''username'', u)]) \<and>
   reports srv text tok (handleResolveJoinRequest srv cfg tok text t rid status)
     (\<lambda>_. admin_request cfg tok ''PUT'' (''/v1/join-requests/'' @ rid) (Some [(''status'', JStr status)]))
     (\<lambda>_. t (if status = ''approved'' then ''admin_chats_join_approved'' else ''admin_chats_join_denied'') []) \<and>
   reports srv text tok (handleDeleteTopic srv cfg tok text t topic)
     (\<lambda>_. admin_request cfg tok ''DELETE'' (''/v1/admin/topics/'' @ encodeURIComponent topic) None)
     (\<lambda>_. t ''admin_chats_topic_deleted'' [(''topic'', topic)]) \<and>
   reports srv text tok (handleRevokeAccess srv cfg tok text t u topic)
     (\<lambda>_. admin_request cfg tok ''DELETE'' ''/v1/users/access'' (Some [(''username'', JStr u), (''topic'', JStr topic)]))
     (\<lambda>_. t ''admin_chats_access_revoked'' [(''username'', u), (''topic'', topic)]) \<and>
   reports srv text tok (handleCreateInvite srv cfg tok text t parse_date)
     (invite_request cfg tok parse_date) (\<lambda>_. t ''admin_invites_created'' []) \<and>
   reports srv text tok (handleDeleteInvite srv cfg tok text t token)
     (\<lambda>_. admin_request cfg tok ''DELETE'' (''/v1/invites/'' @ token) None) (\<lambda>_. t ''admin_invites_deleted'' [])"
  unfolding handleDeleteUser_def handleResolveJoinRequest_def handleDeleteTopic_def handleRevokeAccess_def
    handleCreateInvite_def [abs_def] handleDeleteInvite_def
  by (intro conjI reports_change only_reads_fetch only_reads_then) (simp add: only_reads_fetch only_reads_then)

text \<open>The invitation of the form names its chats trimmed and without gaps.\<close>

lemma topicsClean_sample: "topicsClean ''a, ,b ,,'' = ''a,b''"
  by (simp add: topicsClean_def js_trim_def is_space_def)

end
