(* ===== verification/Action_Bar.thy ===== *)
theory Action_Bar
  imports Dialogs
begin

section \<open>The action bar and the side bar's entries (components/ActionBar.jsx, components/Navigation.jsx)\<close>

text \<open>
  The bar above the page: its title, the theme and mute buttons, the profile menu with the logout;
  and the entries the side bar shows. \<open>t\<close> translates the key of a text.
\<close>

subsection \<open>The bar\<close>

definition action_bar_title :: "(string \<Rightarrow> string) \<Rightarrow> config \<Rightarrow> subscription option \<Rightarrow> string \<Rightarrow> string" where
  "action_bar_title t cfg selected pathname =
     (case selected of
        Some s \<Rightarrow> topicDisplayName cfg s
      | None \<Rightarrow>
          if pathname = ''/settings'' then t ''action_bar_settings''
          else if pathname = ''/account'' then t ''action_bar_account''
          else if pathname = ''/admin'' then ''Admin''
          else if pathname = ''/docs'' then t ''nav_button_documentation''
          else t ''nav_button_all_notifications'')"

definition getActionBarBackground :: "bool \<Rightarrow> bool \<Rightarrow> string" where
  "getActionBarBackground isLaunchedPWA isDark =
     (if isLaunchedPWA then ''var(--coop-accent)''
      else if isDark then ''var(--coop-bg-dark)'' else ''var(--coop-accent)'')"

definition getThemeTooltip :: "(string \<Rightarrow> string) \<Rightarrow> bool \<Rightarrow> string" where
  "getThemeTooltip t isDark = (if isDark then t ''action_bar_theme_light'' else t ''action_bar_theme_dark'')"

definition handleThemeToggle where
  "handleThemeToggle T isDark d =
     d\<lparr>prefs := prefs_setTheme (PREFS T) (if isDark then ''light'' else ''dark'') (prefs d)\<rparr>"

definition handleToggleMute where
  "handleToggleMute T s d = sm_setMutedUntil T (s_id s) (if s_mutedUntil s \<noteq> 0 then 0 else 1) d"

subsection \<open>The profile menu\<close>

text \<open>The same request is made by the side bar; an answer that is not JSON leaves the profile unknown.\<close>

definition fetchOwnProfile ::
  "server \<Rightarrow> config \<Rightarrow> 'kv session \<Rightarrow> json option \<Rightarrow> request list \<Rightarrow> json option \<times> request list" where
  "fetchOwnProfile srv cfg ses own log =
     (if \<not> session_exists ses then (own, log)
      else
        (case fetch srv \<lparr>rq_method = ''GET'', rq_url = base_url cfg @ ''/v1/coop/profile'',
             rq_headers = maybeWithBearerAuth [] (session_token ses), rq_body = None\<rparr> log of
           (Inl e, log') \<Rightarrow> (own, log')
         | (Inr rs, log') \<Rightarrow> (if rs_ok rs \<and> rs_json rs \<noteq> None then rs_json rs else own, log')))"

text \<open>
  \<open>handleLogout\<close>: the database is deleted (\<open>empty_db\<close>) when the account's answer was a success; the
  \<open>finally\<close> block ends the session in every case.
\<close>

definition handleLogout ::
  "server \<Rightarrow> config \<Rightarrow> 'kv \<Rightarrow> 'd \<Rightarrow> 'kv session \<Rightarrow> 'd \<Rightarrow> request list \<Rightarrow> ('kv session \<times> 'd) \<times> request list" where
  "handleLogout srv cfg fresh empty_db ses d log =
     (case account_logout srv cfg (session_token ses) log of
        (r, log') \<Rightarrow>
          ((resetAndRedirect fresh (app_root cfg) ses, case r of Inr _ \<Rightarrow> empty_db | Inl _ \<Rightarrow> d), log'))"

subsection \<open>The side bar\<close>

text \<open>The subscribe dialog: whether it is open, and the key that replaces it by a fresh one.\<close>

definition handleSubscribeReset :: "bool \<times> nat \<Rightarrow> bool \<times> nat" where
  "handleSubscribeReset st = (False, snd st + 1)"

definition handleSubscribeSubmit :: "config \<Rightarrow> subscription \<Rightarrow> bool \<times> nat \<Rightarrow> (bool \<times> nat) \<times> string" where
  "handleSubscribeSubmit cfg s st = (handleSubscribeReset st, forSubscription cfg s)"

text \<open>\<open>SubscriptionItem\<close>: the number of unread messages (rows of \<open>sm_all\<close> carry it) and the muted sign.\<close>

definition unreadCount :: "nat \<Rightarrow> string option" where
  "unreadCount n = (if n = 0 then None else if n \<le> 99 then Some (nat_str n) else Some ''99+'')"

definition item_label :: "(string \<Rightarrow> string) \<Rightarrow> config \<Rightarrow> bool \<Rightarrow> subscription \<Rightarrow> string" where
  "item_label t cfg connecting s =
     (if connecting then topicDisplayName cfg s @ '' ('' @ t ''nav_button_connecting'' @ '')'' else topicDisplayName cfg s)"

definition item_muted :: "subscription \<Rightarrow> bool" where
  "item_muted s \<longleftrightarrow> s_mutedUntil s > 0"

subsection \<open>Properties\<close>

text \<open>
  Logging out sends one request that revokes the session's own token, and ends the session and
  leaves for the app's root whatever the server answers. Every row of the local database is deleted
  only when the server has accepted; otherwise all of it stays, and the same name opens it again.
\<close>

theorem logout_ends_session:
  "let ((ses', d'), log') = handleLogout srv cfg fresh empty_db ses d log;
       rq = \<lparr>rq_method = ''DELETE'', rq_url = base_url cfg @ ''/v1/account/token'',
         rq_headers = [(''Authorization'', ''Bearer '' @ coalesce (session_token ses) ''null'')], rq_body = None\<rparr>
   in log' = log @ [rq] \<and> \<not> session_exists ses' \<and> session_token ses' = None \<and> kv_store ses' = fresh \<and>
      href ses' = Some (app_root cfg) \<and>
      d' = (case srv log rq of Some rs \<Rightarrow> if rs_status rs = 200 then empty_db else d | None \<Rightarrow> d)"
proof -
  have "session_token (resetAndRedirect fresh url ses) = None" "kv_store (resetAndRedirect fresh url ses) = fresh"
    "href (resetAndRedirect fresh url ses) = Some url" for url
    by (simp_all add: session_defs)
  then show ?thesis
    by (simp add: handleLogout_def account_logout_def call_unit_def io_defs fetchOrThrow_unfold accountTokenUrl_def
        bearer_def withBearerAuth_def bearerAuth_def Let_def split: option.split)
qed

end
