(* ===== verification/Page_Parts.thy ===== *)
theory Page_Parts
  imports People Chat_Input
begin

section \<open>Emoji picker, error page and the smaller parts of the pages\<close>

text \<open>
  The emoji picker with its search (components/EmojiPicker.jsx), the page shown after an error
  (components/ErrorBoundary.jsx) and the choice of permissions (components/ReserveTopicSelect.jsx).
\<close>

subsection \<open>Emoji picker\<close>

record raw_emoji =
  em_emoji :: string
  em_aliases :: "string list"
  em_tags :: "string list"
  em_category :: string
  em_description :: string
  em_version :: string

text \<open>
  \<open>parseFloat\<close> of a plain decimal: the digits as an integer and the number of them after the point.
  Exponents and \<open>Infinity\<close>, which no version has, are not read.
\<close>

definition parseFloat :: "string \<Rightarrow> (int \<times> nat) option" where
  "parseFloat s =
     (let u = dropWhile is_space s;
          neg = starts_with u ''-'';
          v = (if neg \<or> starts_with u ''+'' then drop 1 u else u);
          is_dig = (\<lambda>c. digit_val c \<noteq> None);
          whole = takeWhile is_dig v;
          frac = (case dropWhile is_dig v of [] \<Rightarrow> [] | c # r \<Rightarrow> if c = CHR ''.'' then takeWhile is_dig r else [])
      in if whole = [] \<and> frac = [] then None
         else map_option (\<lambda>n. (if neg then - int n else int n, length frac)) (digits_val 0 (whole @ frac)))"

definition isDesktopChrome :: "string \<Rightarrow> bool" where
  "isDesktopChrome userAgent \<longleftrightarrow> str_includes userAgent ''Chrome'' \<and> \<not> str_includes userAgent ''Mobile''"

definition maxSupportedVersionForDesktopChrome :: int where
  "maxSupportedVersionForDesktopChrome = 11"

definition supportedEmoji :: "bool \<Rightarrow> raw_emoji \<Rightarrow> bool" where
  "supportedEmoji chrome e \<longleftrightarrow>
     (case parseFloat (em_version e) of
        Some (n, k) \<Rightarrow> n \<le> maxSupportedVersionForDesktopChrome * 10 ^ k
      | None \<Rightarrow> False) \<or> \<not> chrome"

definition searchBase :: "raw_emoji \<Rightarrow> string" where
  "searchBase e = js_lower (em_description e) @ '' '' @ join '' '' (em_aliases e) @ '' '' @ join '' '' (em_tags e)"

text \<open>
  One round of the loop that fills the categories. A category named like an inherited property is no
  list: adding to it throws, which the loop ignores.
\<close>

definition add_emoji :: "bool \<Rightarrow> raw_emoji \<Rightarrow> (raw_emoji \<times> string) list js_obj \<Rightarrow> (raw_emoji \<times> string) list js_obj" where
  "add_emoji chrome e ob =
     (let c = em_category e in
      if inherited c then ob
      else let es = coalesce (map_of ob c) []
           in obj_set ob c (if supportedEmoji chrome e then es @ [(e, searchBase e)] else es))"

definition emojisByCategory :: "bool \<Rightarrow> raw_emoji list \<Rightarrow> (raw_emoji \<times> string) list js_obj" where
  "emojisByCategory chrome es = fold (add_emoji chrome) es []"

definition searchFields :: "string \<Rightarrow> string list" where
  "searchFields search = splitNoEmpty (js_lower search) CHR '' ''"

definition emojiMatches :: "raw_emoji \<times> string \<Rightarrow> string list \<Rightarrow> bool" where
  "emojiMatches e words \<longleftrightarrow> words = [] \<or> list_ex (str_includes (snd e)) words"

text \<open>The title of an emoji; picking it gives its first alias.\<close>

definition first_alias :: "raw_emoji \<Rightarrow> string" where
  "first_alias e = (case em_aliases e of [] \<Rightarrow> ''undefined'' | a # _ \<Rightarrow> a)"

definition emoji_title :: "raw_emoji \<Rightarrow> string" where
  "emoji_title e = em_description e @ '' ('' @ first_alias e @ '')''"

text \<open>What is visible: per category its title, shown without a search only, and the emojis that match.\<close>

definition Category :: "string list \<Rightarrow> string \<times> (raw_emoji \<times> string) list \<Rightarrow> string option \<times> raw_emoji list" where
  "Category words c = (if words = [] then Some (fst c) else None, map fst (filter (\<lambda>e. emojiMatches e words) (snd c)))"

definition EmojiPicker :: "bool \<Rightarrow> raw_emoji list \<Rightarrow> string \<Rightarrow> (string option \<times> raw_emoji list) list" where
  "EmojiPicker chrome es search = map (Category (searchFields search)) (obj_entries (emojisByCategory chrome es))"

subsection \<open>The page after an error\<close>

text \<open>The name and the message of the error; a missing message counts as one that names the state.\<close>

definition isUnsupportedIndexedDB :: "string option \<Rightarrow> string option \<Rightarrow> bool" where
  "isUnsupportedIndexedDB name msg \<longleftrightarrow> name = Some ''InvalidStateError'' \<or>
     (name = Some ''DatabaseClosedError'' \<and> (case msg of Some m \<Rightarrow> str_includes m ''InvalidStateError'' | None \<Rightarrow> True))"

record boundary =
  eb_error :: bool
  eb_originalStack :: "string option"
  eb_niceStack :: "string option"
  eb_unsupportedIndexedDB :: bool

definition new_boundary :: boundary where
  "new_boundary = \<lparr>eb_error = False, eb_originalStack = None, eb_niceStack = None, eb_unsupportedIndexedDB = False\<rparr>"

definition newline :: string where
  "newline = [CHR 0x0A]"

definition handleUnsupportedIndexedDB :: "boundary \<Rightarrow> boundary" where
  "handleUnsupportedIndexedDB st = st\<lparr>eb_error := True, eb_unsupportedIndexedDB := True\<rparr>"

text \<open>The text of the error and the stack of its components; the better stack comes later.\<close>

definition boundary_handleError :: "string \<Rightarrow> string \<Rightarrow> boundary \<Rightarrow> boundary" where
  "boundary_handleError error_str componentStack st =
     st\<lparr>eb_error := True, eb_originalStack := Some (error_str @ newline @
        join newline (map (\<lambda>line. ''  at '' @ line) (split_on CHR 0x0A (js_trim componentStack))))\<rparr>"

record stack_frame =
  sf_functionName :: string
  sf_fileName :: string
  sf_columnNumber :: nat
  sf_lineNumber :: nat

definition boundary_stackFetched :: "string \<Rightarrow> stack_frame list \<Rightarrow> boundary \<Rightarrow> boundary" where
  "boundary_stackFetched error_str stack st =
     st\<lparr>eb_niceStack := Some (error_str @ newline @ join newline (map (\<lambda>el.
        ''  at '' @ sf_functionName el @ '' ('' @ sf_fileName el @ '':'' @ nat_str (sf_columnNumber el) @ '':'' @
        nat_str (sf_lineNumber el) @ '')'') stack))\<rparr>"

definition componentDidCatch :: "string option \<Rightarrow> string option \<Rightarrow> string \<Rightarrow> string \<Rightarrow> boundary \<Rightarrow> boundary" where
  "componentDidCatch name msg error_str componentStack st =
     (if isUnsupportedIndexedDB name msg then handleUnsupportedIndexedDB st
      else boundary_handleError error_str componentStack st)"

text \<open>The text that is copied.\<close>

definition copyStack :: "boundary \<Rightarrow> string" where
  "copyStack st =
     (if truthy (eb_niceStack st) then coalesce (eb_niceStack st) [] @ newline @ newline else []) @
     coalesce (eb_originalStack st) ''null'' @ newline"

datatype boundary_page = Children | UnsupportedPage | ErrorPage "string option" "string option"

definition boundary_render :: "boundary \<Rightarrow> boundary_page" where
  "boundary_render st =
     (if eb_error st then
        (if eb_unsupportedIndexedDB st then UnsupportedPage
         else ErrorPage (if truthy (eb_niceStack st) then eb_niceStack st else None) (eb_originalStack st))
      else Children)"

subsection \<open>Lists and choices\<close>

definition ReserveTopicSelect :: "(string \<times> string) list" where
  "ReserveTopicSelect =
     [(''deny-all'', ''prefs_reservations_table_everyone_deny_all''),
      (''read-only'', ''prefs_reservations_table_everyone_read_only''),
      (''write-only'', ''prefs_reservations_table_everyone_write_only''),
      (''read-write'', ''prefs_reservations_table_everyone_read_write'')]"

subsection \<open>Properties\<close>

definition listed :: "(raw_emoji \<times> string) list js_obj \<Rightarrow> (raw_emoji \<times> string) set" where
  "listed ob = (\<Union>c \<in> set ob. set (snd c))"

lemma inherited_proto: "\<not> inherited c \<Longrightarrow> c \<noteq> ''__proto__''"
  by (auto simp: inherited_def proto_names_def)

lemma listed_obj_set:
  assumes "distinct (map fst ob)" and "\<not> inherited c"
  shows "listed (obj_set ob c (coalesce (map_of ob c) [] @ xs)) = listed ob \<union> set xs"
proof -
  let ?ob = "obj_set ob c (coalesce (map_of ob c) [] @ xs)"
  have d: "distinct (map fst ?ob)" by (rule distinct_obj_set [OF assms(1)])
  have m: "map_of ?ob = (map_of ob)(c \<mapsto> coalesce (map_of ob c) [] @ xs)"
    using inherited_proto [OF assms(2)] by simp
  have alt: "listed o' = (\<Union>k. set (coalesce (map_of o' k) []))" if "distinct (map fst o')" for o'
  proof -
    have "x \<in> listed o' \<longleftrightarrow> (\<exists>k es. map_of o' k = Some es \<and> x \<in> set es)" for x
      using that by (auto simp: listed_def) (metis, metis map_of_SomeD snd_conv)
    moreover have "x \<in> set (coalesce v []) \<longleftrightarrow> (\<exists>es. v = Some es \<and> x \<in> set es)"
      for x :: "raw_emoji \<times> string" and v by (cases v) simp_all
    ultimately show ?thesis by (intro set_eqI) (simp only: UN_iff UNIV_I bex_UNIV simp_thms)
  qed
  show ?thesis
    unfolding alt [OF d] alt [OF assms(1)] m by (auto split: if_splits)
qed

definition pairs :: "bool \<Rightarrow> raw_emoji list \<Rightarrow> (raw_emoji \<times> string) set" where
  "pairs chrome es = (\<lambda>e. (e, searchBase e)) ` {e \<in> set es. supportedEmoji chrome e \<and> \<not> inherited (em_category e)}"

lemma distinct_add_emoji: "distinct (map fst ob) \<Longrightarrow> distinct (map fst (add_emoji chrome e ob))"
  by (simp add: add_emoji_def Let_def distinct_obj_set)

lemma listed_add_emoji:
  assumes "distinct (map fst ob)"
  shows "listed (add_emoji chrome e ob) = listed ob \<union> pairs chrome [e]"
proof (cases "inherited (em_category e)")
  case True
  then show ?thesis by (auto simp: add_emoji_def pairs_def)
next
  case False
  note set = listed_obj_set [OF assms False]
  show ?thesis
    using False set [of "[(e, searchBase e)]"] set [of "[]"]
    by (cases "supportedEmoji chrome e") (auto simp: add_emoji_def pairs_def Let_def)
qed

lemma listed_fold:
  "distinct (map fst ob) \<Longrightarrow> listed (fold (add_emoji chrome) es ob) = listed ob \<union> pairs chrome es"
proof (induction es arbitrary: ob)
  case (Cons e es)
  have "pairs chrome (e # es) = pairs chrome [e] \<union> pairs chrome es" unfolding pairs_def by auto
  then show ?case using Cons.IH [OF distinct_add_emoji [OF Cons.prems]] listed_add_emoji [OF Cons.prems]
    by (simp add: Un_assoc)
qed (simp add: pairs_def)

text \<open>
  The emoji picker shows exactly the emojis of the table that the browser supports (their version,
  read as a decimal, is at most 11, or the browser is not Chrome on a desktop) and that the search
  finds: without a word all of them, otherwise those with at least one of the words in their
  description, aliases or tags, whatever the case. Only a category named like a property that every
  object inherits would lose its emojis.
\<close>

theorem emoji_search:
  "(\<Union>c \<in> set (EmojiPicker chrome es search). set (snd c)) =
     {e \<in> set es. (if chrome then \<exists>n k. parseFloat (em_version e) = Some (n, k) \<and> n \<le> 11 * 10 ^ k else True) \<and>
        em_category e \<notin> set proto_names \<and>
        (searchFields search = [] \<or> (\<exists>w \<in> set (searchFields search). str_includes (searchBase e) w))}"
proof -
  have "(\<Union>c \<in> set (EmojiPicker chrome es search). set (snd c)) =
      fst ` {p \<in> listed (emojisByCategory chrome es). emojiMatches p (searchFields search)}"
    by (simp add: EmojiPicker_def Category_def listed_def image_UN) (auto simp: image_iff)
  also have "listed (emojisByCategory chrome es) = pairs chrome es"
    unfolding emojisByCategory_def by (simp add: listed_fold) (simp add: listed_def)
  also have "fst ` {p \<in> pairs chrome es. emojiMatches p (searchFields search)} =
      {e \<in> set es. supportedEmoji chrome e \<and> \<not> inherited (em_category e) \<and> emojiMatches (e, searchBase e) (searchFields search)}"
    by (auto simp: pairs_def image_iff)
  finally have shown: "(\<Union>c \<in> set (EmojiPicker chrome es search). set (snd c)) =
      {e \<in> set es. supportedEmoji chrome e \<and> \<not> inherited (em_category e) \<and> emojiMatches (e, searchBase e) (searchFields search)}" .
  have "supportedEmoji chrome e \<longleftrightarrow>
      (if chrome then \<exists>n k. parseFloat (em_version e) = Some (n, k) \<and> n \<le> 11 * 10 ^ k else True)" for e
    by (cases "parseFloat (em_version e)")
      (simp_all add: supportedEmoji_def maxSupportedVersionForDesktopChrome_def split_paired_all disj_commute)
  then show ?thesis unfolding shown inherited_def emojiMatches_def list_ex_iff by simp
qed

lemma version_sample: "parseFloat ''13.1'' = Some (131, 1)" "parseFloat ''11.0'' = Some (110, 1)" "parseFloat [] = None"
  by (simp_all add: parseFloat_def is_space_def starts_with_def digit_val_def)

end
