(* ===== verification/Delivery.thy ===== *)
theory Delivery
  imports Messages Connection_Manager Service_Worker
begin

section \<open>From the connection to the chat\<close>

text \<open>
  How a connection, the manager's listeners and the database work together: everything a connection
  reports is applied to the database by the listeners that components/hooks.js registers. The
  specification is a chat that knows no connection and no table: it maps each sequence to its
  message with the read flag. The lemmas show that the database of a subscription simulates it.
\<close>

subsection \<open>The listeners\<close>

definition app_report ::
  "('s, 'n, 'p, 'u) db_ops \<Rightarrow> (string \<Rightarrow> json option) \<Rightarrow> string js_obj \<Rightarrow> config \<Rightarrow> browser \<Rightarrow> string option \<Rightarrow>
     manager \<Rightarrow> report \<Rightarrow> ('s, 'n, 'p, 'u) db \<Rightarrow> ('s, 'n, 'p, 'u) db" where
  "app_report T parse emojis cfg br cu m r d =
     (case r of
        StateChanged sid state \<Rightarrow> stateChanged m (sm_updateState T) sid state d
      | NotificationReceived sid n \<Rightarrow>
          notificationReceived m (\<lambda>sid n d. fst (handleMessage T parse emojis cfg br cu sid n d)) sid n d
      | SocialEvent sid n \<Rightarrow> d)"

text \<open>The manager after \<open>useConnectionListeners\<close> has registered its listeners.\<close>

definition listening :: "manager \<Rightarrow> manager" where
  "listening m = registerMessageListener (registerStateListener m)"

subsection \<open>The specification\<close>

type_synonym chat = "string \<rightharpoonup> notification"

definition chat_row :: "string option \<Rightarrow> string \<Rightarrow> notification \<Rightarrow> notification" where
  "chat_row cu sid n = n\<lparr>n_sequenceId := Some (seq_of n), n_subscriptionId := Some sid,
     n_new := Some (if truthy cu \<and> n_sender n = cu then 0 else 1)\<rparr>"

definition chat_step :: "string option \<Rightarrow> string \<Rightarrow> notification \<Rightarrow> chat \<Rightarrow> chat" where
  "chat_step cu sid n chat =
     (if n_event n = EVENT_MESSAGE_DELETE then chat(seq_of n := None)
      else if n_event n = EVENT_MESSAGE_CLEAR then
        chat(seq_of n := map_option (\<lambda>m. m\<lparr>n_new := Some 0\<rparr>) (chat (seq_of n)))
      else chat(seq_of n \<mapsto> chat_row cu sid n))"

text \<open>The notifications stored for a subscription are those of the chat, one per sequence.\<close>

definition shows_chat :: "('s, 'n, 'p, 'u) db_ops \<Rightarrow> string \<Rightarrow> ('s, 'n, 'p, 'u) db \<Rightarrow> chat \<Rightarrow> bool" where
  "shows_chat T sid d chat \<longleftrightarrow>
     (\<forall>q m. chat q = Some m \<longleftrightarrow> (\<exists>i. dx_get (NOTIFS T) (notifs d) i = Some m \<and> in_seq sid q m))"

text \<open>Events as the server sends them: a deletion or a clear names its sequence.\<close>

definition event_ok :: "notification \<Rightarrow> bool" where
  "event_ok n \<longleftrightarrow> from_server n \<and> (is_regular n \<or> truthy (n_sequence_id n))"

text \<open>An id belongs to one sequence of one subscription.\<close>

definition id_ok :: "('s, 'n, 'p, 'u) db_ops \<Rightarrow> string \<Rightarrow> ('s, 'n, 'p, 'u) db \<Rightarrow> notification \<Rightarrow> bool" where
  "id_ok T sid d n \<longleftrightarrow>
     (\<forall>m. is_regular n \<and> dx_get (NOTIFS T) (notifs d) (n_id n) = Some m \<longrightarrow> in_seq sid (seq_of n) m)"

definition ids_ok :: "('s, 'n, 'p, 'u) db_ops \<Rightarrow> string \<Rightarrow> ('s, 'n, 'p, 'u) db \<Rightarrow> notification list \<Rightarrow> bool" where
  "ids_ok T sid d ns \<longleftrightarrow>
     (\<forall>n \<in> set ns. id_ok T sid d n) \<and>
     (\<forall>n \<in> set ns. \<forall>n' \<in> set ns. is_regular n \<and> is_regular n' \<and> n_id n = n_id n' \<longrightarrow> seq_of n = seq_of n')"

text \<open>The id of the last regular message, which is the subscription's \<open>last\<close> afterwards.\<close>

fun last_regular :: "notification list \<Rightarrow> string option \<Rightarrow> string option" where
  "last_regular [] i = i"
| "last_regular (n # ns) i = last_regular ns (if is_regular n then Some (n_id n) else i)"

subsection \<open>One message\<close>

lemma event_cases:
  assumes "event_ok n"
  obtains (regular) "is_regular n" "seq_of n \<noteq> []"
  | (delete) "n_event n = EVENT_MESSAGE_DELETE" "truthy (n_sequence_id n)" "\<not> is_regular n"
  | (clear) "n_event n = EVENT_MESSAGE_CLEAR" "truthy (n_sequence_id n)" "\<not> is_regular n"
proof -
  have "n_id n \<noteq> []" using assms by (simp add: event_ok_def from_server_def)
  then have "seq_of n \<noteq> []" by (rule seq_of_ne)
  then show ?thesis
    using assms regular delete clear
    by (auto simp: event_ok_def from_server_def isNotificationEvent_def is_regular_def event_names)
qed

lemma stored_row_chat_row:
  assumes "from_server n"
  shows "stored_row sid (if is_own cu n then 0 else 1) n = chat_row cu sid n"
proof -
  have "is_own cu n \<longleftrightarrow> truthy cu \<and> n_sender n = cu" by (auto simp: is_own_def)
  then show ?thesis
    using assms by (simp add: stored_row_def chat_row_def messageWithSequenceId_def from_server_def)
qed

lemma in_seq_chat_row: "in_seq sid' q (chat_row cu sid n) \<longleftrightarrow> sid' = sid \<and> q = seq_of n"
  by (auto simp: in_seq_def chat_row_def)

lemma in_seq_set_new [simp]: "in_seq sid q (set_new k m) \<longleftrightarrow> in_seq sid q m"
  by (simp add: in_seq_def set_new_def)

lemma in_seq_same: "in_seq sid q m \<Longrightarrow> in_seq sid' q' m \<Longrightarrow> sid' = sid \<and> q' = q"
  by (simp add: in_seq_def)

lemma handle_is_notification:
  assumes "dx_get (SUBS T) (subs d) sid = Some s" and "\<not> s_internal s"
  shows "handleMessage T parse emojis cfg br cu sid n d = handleNotification T emojis cfg br cu s n d"
  using assms by (simp add: handleMessage_def sm_get_def)

context coop_db
begin

text \<open>The rows after an event of the subscription, in terms of the specification.\<close>

lemma handle_rows:
  assumes "sub_row T d sid = Some s" and "\<not> s_internal s" and "event_ok n"
    and ids: "id_ok T sid d n"
    and e: "d' = fst (handleMessage T parse emojis cfg br cu sid n d)"
  shows "notif_row T d' i =
      (if is_regular n \<and> i = n_id n then Some (chat_row cu sid n)
       else case notif_row T d i of None \<Rightarrow> None
            | Some m \<Rightarrow> if \<not> in_seq sid (seq_of n) m then Some m
                else if n_event n = EVENT_MESSAGE_CLEAR then Some (set_new 0 m) else None)"
    and "sub_row T d' = (sub_row T d)(sid \<mapsto> (if is_regular n then s\<lparr>s_last := Some (n_id n)\<rparr> else s))"
proof -
  have sid: "s_id s = sid" using subs_key [OF assms(1)] .
  have d': "d' = fst (handleNotification T emojis cfg br cu s n d)"
    unfolding e handle_is_notification [OF assms(1,2)] ..
  have "(notif_row T d' i =
      (if is_regular n \<and> i = n_id n then Some (chat_row cu sid n)
       else case notif_row T d i of None \<Rightarrow> None
            | Some m \<Rightarrow> if \<not> in_seq sid (seq_of n) m then Some m
                else if n_event n = EVENT_MESSAGE_CLEAR then Some (set_new 0 m) else None)) \<and>
    sub_row T d' = (sub_row T d)(sid \<mapsto> (if is_regular n then s\<lparr>s_last := Some (n_id n)\<rparr> else s))"
    using assms(3)
  proof (cases rule: event_cases)
    case regular
    have "\<And>m. notif_row T d (n_id n) = Some m \<Longrightarrow> in_seq sid (seq_of n) m"
      using ids regular(1) unfolding id_ok_def by blast
    note rows = handle_regular_rows [where s = s, unfolded sid, OF regular this,
        where emojis = emojis and cfg = cfg and br = br and cu = cu]
    have "from_server n" using assms(3) by (simp add: event_ok_def)
    then show ?thesis
      unfolding d' using regular regular_events [OF regular(1)] assms(1)
      by (simp add: rows stored_row_chat_row split: option.split)
  next
    case delete
    then show ?thesis
      unfolding d' using assms(1)
      by (simp add: handle_delete_rows sid fun_upd_idem event_names split: option.split)
  next
    case clear
    then show ?thesis
      unfolding d' using assms(1)
      by (simp add: handle_clear_rows sid fun_upd_idem split: option.split)
  qed
  then show "notif_row T d' i =
      (if is_regular n \<and> i = n_id n then Some (chat_row cu sid n)
       else case notif_row T d i of None \<Rightarrow> None
            | Some m \<Rightarrow> if \<not> in_seq sid (seq_of n) m then Some m
                else if n_event n = EVENT_MESSAGE_CLEAR then Some (set_new 0 m) else None)"
    "sub_row T d' = (sub_row T d)(sid \<mapsto> (if is_regular n then s\<lparr>s_last := Some (n_id n)\<rparr> else s))"
    by blast+
qed

lemma shows_chat_step:
  assumes "sub_row T d sid = Some s" and "\<not> s_internal s" and "event_ok n"
    and ids: "id_ok T sid d n"
    and "shows_chat T sid d chat"
  shows "shows_chat T sid (fst (handleMessage T parse emojis cfg br cu sid n d)) (chat_step cu sid n chat)"
  unfolding shows_chat_def
proof (intro allI)
  fix q m
  let ?d' = "fst (handleMessage T parse emojis cfg br cu sid n d)"
  note rows = handle_rows(1) [OF assms(1-3) ids refl]
  have chat: "chat q = Some m \<longleftrightarrow> (\<exists>i. notif_row T d i = Some m \<and> in_seq sid q m)" for q m
    using assms(5) unfolding shows_chat_def by blast
  show "chat_step cu sid n chat q = Some m \<longleftrightarrow> (\<exists>i. notif_row T ?d' i = Some m \<and> in_seq sid q m)"
    using assms(3)
  proof (cases rule: event_cases)
    case regular
    have step: "chat_step cu sid n chat = chat(seq_of n \<mapsto> chat_row cu sid n)"
      using regular_events [OF regular(1)] by (simp add: chat_step_def)
    have row: "notif_row T ?d' i = Some m \<longleftrightarrow> (if i = n_id n then m = chat_row cu sid n
        else notif_row T d i = Some m \<and> \<not> in_seq sid (seq_of n) m)" for i
      using regular_events [OF regular(1)] regular(1) by (auto simp: rows split: option.splits)
    show ?thesis
    proof (cases "q = seq_of n")
      case True
      then show ?thesis unfolding step row by (auto simp: in_seq_chat_row)
    next
      case False
      then have "i \<noteq> n_id n" if "notif_row T d i = Some m" "in_seq sid q m" for i
        using that ids regular(1) in_seq_same unfolding id_ok_def by blast
      then show ?thesis using False unfolding step row
        by (auto simp: chat in_seq_chat_row dest: in_seq_same)
    qed
  next
    case delete
    have step: "chat_step cu sid n chat = chat(seq_of n := None)" using delete by (simp add: chat_step_def)
    have row: "notif_row T ?d' i = Some m \<longleftrightarrow> notif_row T d i = Some m \<and> \<not> in_seq sid (seq_of n) m" for i
      using delete by (auto simp: rows event_names split: option.splits)
    show ?thesis unfolding step row by (auto simp: chat dest: in_seq_same)
  next
    case clear
    have step: "chat_step cu sid n chat = chat(seq_of n := map_option (set_new 0) (chat (seq_of n)))"
      using clear by (simp add: chat_step_def event_names set_new_def [abs_def])
    have row: "notif_row T ?d' i = Some m \<longleftrightarrow> (\<exists>m'. notif_row T d i = Some m' \<and>
        m = (if in_seq sid (seq_of n) m' then set_new 0 m' else m'))" for i
      using clear by (auto simp: rows split: option.splits)
    show ?thesis
    proof (cases "q = seq_of n")
      case True
      then show ?thesis unfolding step row by (auto simp: chat)
    next
      case False
      then show ?thesis unfolding step row by (auto simp: chat dest: in_seq_same)
    qed
  qed
qed

lemma shows_other_chat:
  assumes "sub_row T d sid = Some s" and "\<not> s_internal s" and "event_ok n"
    and ids: "id_ok T sid d n"
    and "sid' \<noteq> sid"
  shows "shows_chat T sid' (fst (handleMessage T parse emojis cfg br cu sid n d)) chat \<longleftrightarrow> shows_chat T sid' d chat"
proof -
  let ?d' = "fst (handleMessage T parse emojis cfg br cu sid n d)"
  note rows = handle_rows(1) [OF assms(1-3) ids refl]
  have "notif_row T ?d' i = Some m \<and> in_seq sid' q m \<longleftrightarrow> notif_row T d i = Some m \<and> in_seq sid' q m" for i q m
  proof (cases "is_regular n \<and> i = n_id n")
    case True
    then show ?thesis using ids assms(5) by (auto simp: rows in_seq_chat_row id_ok_def dest: in_seq_same)
  next
    case False
    then show ?thesis using assms(5) by (auto simp: rows dest: in_seq_same split: option.splits if_splits)
  qed
  then show ?thesis unfolding shows_chat_def by simp
qed

lemma ids_ok_step:
  assumes "sub_row T d sid = Some s" and "\<not> s_internal s" and "event_ok n" and "ids_ok T sid d (n # ns)"
  shows "ids_ok T sid (fst (handleMessage T parse emojis cfg br cu sid n d)) ns"
  unfolding ids_ok_def
proof (intro conjI ballI impI; (elim conjE)?)
  let ?d' = "fst (handleMessage T parse emojis cfg br cu sid n d)"
  fix n' assume n': "n' \<in> set ns"
  have ok: "id_ok T sid d n" "id_ok T sid d n'" using n' assms(4) unfolding ids_ok_def by simp_all
  have same: "seq_of n' = seq_of n" if "is_regular n'" "is_regular n" "n_id n' = n_id n"
    using n' that assms(4) unfolding ids_ok_def by (metis list.set_intros)
  show "id_ok T sid ?d' n'"
    using ok(2) same handle_rows(1) [OF assms(1-3) ok(1) refl, of parse emojis cfg br cu "n_id n'"]
    by (auto simp: id_ok_def in_seq_chat_row split: option.splits if_splits)
next
  fix n1 n2 assume "n1 \<in> set ns" "n2 \<in> set ns" "is_regular n1" "is_regular n2" "n_id n1 = n_id n2"
  then show "seq_of n1 = seq_of n2" using assms(4) unfolding ids_ok_def by (meson list.set_intros(2))
qed

text \<open>A list of events of the subscription.\<close>

lemma shows_chat_fold:
  assumes "sub_row T d sid = Some s" and "\<not> s_internal s" and "list_all event_ok ns" and "ids_ok T sid d ns"
    and "shows_chat T sid d chat"
  shows "shows_chat T sid (fold (\<lambda>n d. fst (handleMessage T parse emojis cfg br cu sid n d)) ns d)
      (fold (chat_step cu sid) ns chat) \<and>
    (sid' \<noteq> sid \<longrightarrow> shows_chat T sid' (fold (\<lambda>n d. fst (handleMessage T parse emojis cfg br cu sid n d)) ns d) other =
      shows_chat T sid' d other) \<and>
    sub_row T (fold (\<lambda>n d. fst (handleMessage T parse emojis cfg br cu sid n d)) ns d) =
      (sub_row T d)(sid \<mapsto> s\<lparr>s_last := last_regular ns (s_last s)\<rparr>)"
  using assms
proof (induction ns arbitrary: d s chat)
  case Nil
  then show ?case by (simp add: fun_upd_idem)
next
  case (Cons n ns)
  let ?d' = "fst (handleMessage T parse emojis cfg br cu sid n d)"
  let ?s' = "if is_regular n then s\<lparr>s_last := Some (n_id n)\<rparr> else s"
  have ok: "event_ok n" "list_all event_ok ns" "id_ok T sid d n" using Cons.prems(3,4) by (simp_all add: ids_ok_def)
  have row: "sub_row T ?d' = (sub_row T d)(sid \<mapsto> ?s')"
    by (rule handle_rows(2) [OF Cons.prems(1,2) ok(1,3) refl])
  have "sub_row T ?d' sid = Some ?s'" "\<not> s_internal ?s'" using row Cons.prems(2) by simp_all
  from Cons.IH [OF this ok(2) ids_ok_step [OF Cons.prems(1,2) ok(1) Cons.prems(4)]
      shows_chat_step [OF Cons.prems(1,2) ok(1,3) Cons.prems(5)]]
  show ?case
    using shows_other_chat [OF Cons.prems(1,2) ok(1,3), of sid'] by (auto simp: row)
qed

end

subsection \<open>Everything a connection reports\<close>

text \<open>The messages among the reports, and the last state they tell.\<close>

fun delivered :: "report list \<Rightarrow> notification list" where
  "delivered [] = []"
| "delivered (NotificationReceived sid n # rs) = n # delivered rs"
| "delivered (_ # rs) = delivered rs"

fun last_state :: "report list \<Rightarrow> string option \<Rightarrow> string option" where
  "last_state [] st = st"
| "last_state (StateChanged sid st # rs) _ = last_state rs (Some st)"
| "last_state (_ # rs) st = last_state rs st"

definition report_sub :: "report \<Rightarrow> string" where
  "report_sub r = (case r of StateChanged sid _ \<Rightarrow> sid | NotificationReceived sid _ \<Rightarrow> sid | SocialEvent sid _ \<Rightarrow> sid)"

lemma set_socket_reports [simp]:
  "c_reports (set_socket i st c) = c_reports c" "c_subscriptionId (set_socket i st c) = c_subscriptionId c"
  by (simp_all add: set_socket_def)

lemma conn_close_reports:
  "c_reports (conn_close c) = c_reports c" "c_subscriptionId (conn_close c) = c_subscriptionId c"
  by (simp_all add: conn_close_def Let_def socket_close_def split: option.split)

lemma reports_of_subscription:
  assumes "conn_reachable B parse c0 c" and "c_reports c0 = []"
  shows "list_all (\<lambda>r. report_sub r = c_subscriptionId c0) (c_reports c) \<and> c_subscriptionId c = c_subscriptionId c0"
  using assms(1)
proof (induction rule: conn_reachable.induct)
  case started
  then show ?case using assms(2) by (simp add: conn_start_def)
next
  case (stepped c c')
  from stepped.hyps(2) stepped.IH show ?case
    by (cases rule: conn_stepE)
      (auto simp: conn_onopen_def conn_onmessage_def conn_onclose_def conn_start_def report_event_def report_sub_def Let_def
        split: option.split)
next
  case (closed c)
  then show ?case by (simp add: conn_close_reports)
qed

context coop_db
begin

lemma listening_report:
  "app_report T parse emojis cfg br cu (listening m) (StateChanged sid st) d = sm_updateState T sid st d"
  "app_report T parse emojis cfg br cu (listening m) (NotificationReceived sid n) d =
     fst (handleMessage T parse emojis cfg br cu sid n d)"
  "app_report T parse emojis cfg br cu (listening m) (SocialEvent sid n) d = d"
  by (simp_all add: app_report_def listening_def stateChanged_def notificationReceived_def
      registerMessageListener_def registerStateListener_def)

lemma state_rows:
  "notifs (sm_updateState T sid st d) = notifs d"
  "sub_row T (sm_updateState T sid st d) = (sub_row T d)(sid := map_option (\<lambda>s. s\<lparr>s_state := Some st\<rparr>) (sub_row T d sid))"
  by (simp add: sm_updateState_def sm_update_def) (simp add: sm_updateState_def sub_row_update)

lemma state_keeps:
  "shows_chat T sid' (sm_updateState T sid st d) chat = shows_chat T sid' d chat"
  "ids_ok T sid' (sm_updateState T sid st d) ns = ids_ok T sid' d ns"
  by (simp_all add: shows_chat_def ids_ok_def id_ok_def state_rows)

lemma shows_chat_reports:
  assumes "sub_row T d sid = Some s" and "\<not> s_internal s"
    and "list_all (\<lambda>r. report_sub r = sid) rs" and "list_all event_ok (delivered rs)" and "ids_ok T sid d (delivered rs)"
    and "shows_chat T sid d chat"
  shows "shows_chat T sid (fold (app_report T parse emojis cfg br cu (listening m)) rs d)
      (fold (chat_step cu sid) (delivered rs) chat) \<and>
    (sid' \<noteq> sid \<longrightarrow> shows_chat T sid' (fold (app_report T parse emojis cfg br cu (listening m)) rs d) other =
      shows_chat T sid' d other) \<and>
    sub_row T (fold (app_report T parse emojis cfg br cu (listening m)) rs d) =
      (sub_row T d)(sid \<mapsto> s\<lparr>s_last := last_regular (delivered rs) (s_last s), s_state := last_state rs (s_state s)\<rparr>)"
  using assms
proof (induction rs arbitrary: d s chat)
  case Nil
  then show ?case by (simp add: fun_upd_idem)
next
  case (Cons r rs)
  have sub: "report_sub r = sid" "list_all (\<lambda>r. report_sub r = sid) rs" using Cons.prems(3) by simp_all
  show ?case
  proof (cases r)
    case (StateChanged sid0 st)
    let ?d' = "sm_updateState T sid st d" and ?s' = "s\<lparr>s_state := Some st\<rparr>"
    have row: "sub_row T ?d' = (sub_row T d)(sid \<mapsto> ?s')" using Cons.prems(1) by (simp add: state_rows)
    then have "sub_row T ?d' sid = Some ?s'" "\<not> s_internal ?s'" using Cons.prems(2) by simp_all
    from Cons.IH [OF this sub(2)] Cons.prems(4,5,6) sub(1) StateChanged
    show ?thesis by (simp add: listening_report state_keeps report_sub_def row) (simp add: fun_eq_iff)
  next
    case (NotificationReceived sid0 n)
    let ?d' = "fst (handleMessage T parse emojis cfg br cu sid n d)"
    let ?s' = "if is_regular n then s\<lparr>s_last := Some (n_id n)\<rparr> else s"
    have ev: "event_ok n" "list_all event_ok (delivered rs)" and ids: "ids_ok T sid d (n # delivered rs)"
      using Cons.prems(4,5) NotificationReceived by simp_all
    have id: "id_ok T sid d n" using ids by (simp add: ids_ok_def)
    have row: "sub_row T ?d' = (sub_row T d)(sid \<mapsto> ?s')"
      by (rule handle_rows(2) [OF Cons.prems(1,2) ev(1) id refl])
    have "sub_row T ?d' sid = Some ?s'" "\<not> s_internal ?s'" using row Cons.prems(2) by simp_all
    note IH = Cons.IH [OF this sub(2) ev(2) ids_ok_step [OF Cons.prems(1,2) ev(1) ids]
        shows_chat_step [OF Cons.prems(1,2) ev(1) id Cons.prems(6)]]
    from IH sub(1) NotificationReceived shows_other_chat [OF Cons.prems(1,2) ev(1) id, of sid'] show ?thesis
      by (auto simp: listening_report report_sub_def row)
  next
    case (SocialEvent sid0 n)
    then show ?thesis using Cons.IH [OF Cons.prems(1,2) sub(2)] Cons.prems(4-6) by (simp add: listening_report)
  qed
qed

text \<open>The same event twice.\<close>

lemma event_twice:
  assumes "sub_row T d sid = Some s" and "\<not> s_internal s" and "event_ok n" and "id_ok T sid d n"
    and "d' = fst (handleMessage T parse emojis cfg br cu sid n d)"
    and "d'' = fst (handleMessage T parse' emojis' cfg' br' cu sid n d')"
  shows "notif_row T d'' i = notif_row T d' i" and "sub_row T d'' = sub_row T d'"
proof -
  let ?s' = "if is_regular n then s\<lparr>s_last := Some (n_id n)\<rparr> else s"
  note rows = handle_rows [OF assms(1-5)]
  have s': "sub_row T d' sid = Some ?s'" "\<not> s_internal ?s'" using assms(2) by (simp_all add: rows(2))
  have "id_ok T sid d' n" by (simp add: id_ok_def rows(1) in_seq_chat_row)
  note rows' = handle_rows [OF s' assms(3) this assms(6)]
  show "sub_row T d'' = sub_row T d'" by (auto simp: rows'(2) rows(2))
  show "notif_row T d'' i = notif_row T d' i"
    unfolding rows'(1) rows(1) by (auto simp: set_new_def split: option.split)
qed

end

end
