(* ===== verification/Message_View.thy ===== *)
theory Message_View
  imports People Actions
begin

section \<open>What is shown of a message (components/Notifications.jsx, ChatView.jsx, UserAvatar.jsx)\<close>

text \<open>
  The contents of the cards and bubbles of messages: what the notification list and the chat view
  put on the page, as data. Colours, spacing and icons are left out. What the page asks of its
  surroundings is the record \<open>view_env\<close>: the translated texts by key, the clock, the local calendar
  and the browser's formats.
\<close>

text \<open>A calendar day as JavaScript counts it, with months from 0.\<close>

record day =
  day_year :: nat
  day_month :: nat
  day_date :: nat

record view_env =
  ve_tr :: "string \<Rightarrow> string"
  ve_me :: "string option"
  ve_now :: int
  ve_local :: "int \<Rightarrow> day"
  ve_date_text :: "day \<Rightarrow> string"
  ve_short_date_time :: "int \<Rightarrow> string"
  ve_bytes :: "int \<Rightarrow> string"
  ve_hostname :: "string \<Rightarrow> string option"
  ve_upper :: "string \<Rightarrow> string"
  ve_emojis :: "string js_obj"
  ve_suffix :: "progress \<Rightarrow> string"

subsection \<open>Replacing a placeholder\<close>

text \<open>\<open>s.replace(p, r)\<close> for strings: the first occurrence, with the \<open>$\<close> patterns of \<open>r\<close>.\<close>

fun split_first :: "string \<Rightarrow> string \<Rightarrow> (string \<times> string) option" where
  "split_first p [] = (if p = [] then Some ([], []) else None)"
| "split_first p (c # s) =
     (if starts_with (c # s) p then Some ([], drop (length p) (c # s))
      else map_option (\<lambda>(a, b). (c # a, b)) (split_first p s))"

fun expand_dollars :: "string \<Rightarrow> string \<Rightarrow> string \<Rightarrow> string \<Rightarrow> string" where
  "expand_dollars matched before after (c # d # r) =
     (if c \<noteq> CHR ''$'' then c # expand_dollars matched before after (d # r)
      else if d = CHR ''$'' then CHR ''$'' # expand_dollars matched before after r
      else if d = CHR ''&'' then matched @ expand_dollars matched before after r
      else if d = CHR 0x60 then before @ expand_dollars matched before after r
      else if d = CHR 0x27 then after @ expand_dollars matched before after r
      else c # expand_dollars matched before after (d # r))"
| "expand_dollars matched before after r = r"

definition js_replace :: "string \<Rightarrow> string \<Rightarrow> string \<Rightarrow> string" where
  "js_replace s p r =
     (case split_first p s of
        None \<Rightarrow> s
      | Some (before, after) \<Rightarrow> before @ expand_dollars p before after r @ after)"

lemma split_first_append: "split_first p s = Some (a, b) \<Longrightarrow> s = a @ p @ b"
proof (induction p s arbitrary: a b rule: split_first.induct)
  case (1 p)
  then show ?case by (simp split: if_splits)
next
  case (2 p c s)
  show ?case
  proof (cases "starts_with (c # s) p")
    case True
    then have "take (length p) (c # s) = p" by (simp add: starts_with_def)
    then show ?thesis using 2(2) True by (metis append_Nil append_take_drop_id option.inject prod.inject split_first.simps(2))
  next
    case False
    then show ?thesis using 2 by auto
  qed
qed

lemma expand_plain: "CHR ''$'' \<notin> set r \<Longrightarrow> expand_dollars m b a r = r"
  by (induction m b a r rule: expand_dollars.induct) auto

lemma js_replace_plain:
  "CHR ''$'' \<notin> set r \<Longrightarrow> split_first p s = Some (a, b) \<Longrightarrow> js_replace s p r = a @ r @ b"
  by (simp add: js_replace_def expand_plain)

subsection \<open>The card of a notification\<close>

text \<open>
  \<open>NotificationItem\<close>. The buttons copy or open an address, or are the user's actions; an address that
  is missing is \<open>None\<close>.
\<close>

datatype card_button =
    CopyAddress "string option"
  | OpenAddress "string option"
  | UserButton action_button

definition UserActions :: "(progress \<Rightarrow> string) \<Rightarrow> notification \<Rightarrow> action_button list" where
  "UserActions suffix n = List.map_filter (UserAction suffix) (coalesce (n_actions n) [])"

definition card_buttons :: "view_env \<Rightarrow> notification \<Rightarrow> card_button list" where
  "card_buttons E n =
     (let fl = showActions (ve_now E) n
      in (if if_attachment fl then
            let url = Option.bind (n_attachment n) att_url in [CopyAddress url, OpenAddress url] else []) @
         (if if_click fl then [CopyAddress (n_click n), OpenAddress (n_click n)] else []) @
         (if if_actions fl then map UserButton (UserActions (ve_suffix E) n) else []))"

record item_card =
  cd_date :: string
  cd_markRead :: bool
  cd_priority :: "int option"
  cd_new :: bool
  cd_title :: "string option"
  cd_body :: body
  cd_errors :: "string option"
  cd_attachment :: "attachment_view option"
  cd_tags :: "string option"
  cd_buttons :: "card_button list"

text \<open>\<open>link_expires\<close> writes the time an attachment expires into its text.\<close>

definition NotificationItem :: "view_env \<Rightarrow> (int \<Rightarrow> string) \<Rightarrow> notification \<Rightarrow> item_card" where
  "NotificationItem E link_expires n =
     (let otherTags = unmatchedTags (ve_emojis E) (n_tags n)
      in \<lparr>cd_date = ve_short_date_time E (n_time n),
          cd_markRead = (n_new n = Some 1),
          cd_priority = (case n_priority n of
             Some p \<Rightarrow> if p \<in> {1, 2, 4, 5} then Some p else None | None \<Rightarrow> None),
          cd_new = (n_new n = Some 1),
          cd_title = (if truthy (n_title n) then formatTitle (ve_emojis E) n else None),
          cd_body = NotificationBody (ve_emojis E) n,
          cd_errors = maybeActionErrors n,
          cd_attachment = map_option (Attachment (ve_bytes E) link_expires
             (ve_tr E ''notifications_attachment_link_expired'') (ve_now E)) (n_attachment n),
          cd_tags = (if length otherTags > 0 \<and> join '', '' otherTags \<noteq> []
             then Some (ve_tr E ''notifications_tags'' @ '': '' @ join '', '' otherTags) else None),
          cd_buttons = card_buttons E n\<rparr>)"

subsection \<open>Avatars\<close>

text \<open>\<open>UserAvatar\<close>: a picture if there is an address, else the initials on the user's colour.\<close>

datatype avatar = AvatarPicture string | AvatarInitials string string

definition UserAvatar :: "(string \<Rightarrow> string) \<Rightarrow> string option \<Rightarrow> string option \<Rightarrow> string option \<Rightarrow> avatar" where
  "UserAvatar upper username displayName avatarUrl =
     (if truthy avatarUrl then AvatarPicture (coalesce avatarUrl [])
      else AvatarInitials (getInitials upper displayName username) (getAvatarColor username))"

end
