(* ===== verification/Chat_View.thy ===== *)
theory Chat_View
  imports Chat Message_View "HOL-Library.Sublist"
begin

section \<open>What the chat view shows (components/ChatView.jsx)\<close>

text \<open>
  The page of a chat as data: bubbles with their quote, attachment, link previews and reactions,
  nudges, the lines that separate days, the typing line and the two buttons. The state behind it is
  that of theory \<open>Chat\<close>; \<open>getDateKey\<close> is the day of a time there.
\<close>

subsection \<open>Days\<close>

text \<open>A message's time is in seconds, the clock in milliseconds.\<close>

definition local_day :: "view_env \<Rightarrow> int \<Rightarrow> day" where
  "local_day E timestamp = ve_local E (timestamp * 1000)"

definition isSameDay :: "day \<Rightarrow> day \<Rightarrow> bool" where
  "isSameDay d1 d2 \<longleftrightarrow> day_year d1 = day_year d2 \<and> day_month d1 = day_month d2 \<and> day_date d1 = day_date d2"

definition leap_year :: "nat \<Rightarrow> bool" where
  "leap_year y \<longleftrightarrow> 4 dvd y \<and> (100 dvd y \<longrightarrow> 400 dvd y)"

definition month_days :: "nat \<Rightarrow> nat \<Rightarrow> nat" where
  "month_days y m =
     (if m = 1 then (if leap_year y then 29 else 28) else if m \<in> {3, 5, 8, 10} then 30 else 31)"

text \<open>\<open>setDate(getDate() - 1)\<close>: date 0 is the last of the month before.\<close>

definition yesterday :: "day \<Rightarrow> day" where
  "yesterday d =
     (if day_date d > 1 then d\<lparr>day_date := day_date d - 1\<rparr>
      else let (y, m) = (if day_month d = 0 then (day_year d - 1, 11) else (day_year d, day_month d - 1))
           in \<lparr>day_year = y, day_month = m, day_date = month_days y m\<rparr>)"

definition getDateLabel :: "view_env \<Rightarrow> int \<Rightarrow> string" where
  "getDateLabel E timestamp =
     (let msgDate = local_day E timestamp; today = ve_local E (ve_now E)
      in if isSameDay msgDate today then ve_tr E ''chat_date_today''
         else if isSameDay msgDate (yesterday today) then ve_tr E ''chat_date_yesterday''
         else ve_date_text E msgDate)"

definition getDateKey :: "view_env \<Rightarrow> int \<Rightarrow> string" where
  "getDateKey E timestamp =
     (let d = local_day E timestamp
      in nat_str (day_year d) @ ''-'' @ nat_str (day_month d) @ ''-'' @ nat_str (day_date d))"

subsection \<open>Parts of a bubble\<close>

text \<open>What the server says of a member; the cache is a plain object, where nobody is \<open>undefined\<close>.\<close>

record profile =
  pf_display_name :: "string option"
  pf_avatar_url :: "string option"

definition senderProfile :: "(string \<rightharpoonup> profile) \<Rightarrow> notification \<Rightarrow> profile option" where
  "senderProfile cache n = cache (template (n_sender n))"

definition displayName :: "(string \<rightharpoonup> profile) \<Rightarrow> notification \<Rightarrow> string option" where
  "displayName cache n =
     (let d = Option.bind (senderProfile cache n) pf_display_name in if truthy d then d else n_sender n)"

text \<open>A message without a sender is nobody's: the session's missing name is \<open>null\<close>, not \<open>undefined\<close>.\<close>

definition isOwn :: "view_env \<Rightarrow> notification \<Rightarrow> bool" where
  "isOwn E n \<longleftrightarrow> n_sender n \<noteq> None \<and> n_sender n = ve_me E"

definition sender_avatar :: "view_env \<Rightarrow> (string \<rightharpoonup> profile) \<Rightarrow> notification \<Rightarrow> avatar" where
  "sender_avatar E cache n =
     (let p = senderProfile cache n
      in UserAvatar (ve_upper E) (n_sender n) (Option.bind p pf_display_name) (Option.bind p pf_avatar_url))"

definition QuoteBlock :: "string option \<Rightarrow> string option \<Rightarrow> string option \<times> string" where
  "QuoteBlock replyToText replyToSender =
     (if truthy replyToSender then replyToSender else None,
      if truthy replyToText then coalesce replyToText [] else ''...'')"

text \<open>A chip has the emoji it toggles, its label and whether it is marked.\<close>

definition ReactionChips :: "reaction list option \<Rightarrow> (string \<times> string \<times> bool) list" where
  "ReactionChips reactions =
     map (\<lambda>r. (rc_emoji r, rc_emoji r @ '' '' @ int_str (rc_count r), rc_reacted r)) (coalesce reactions [])"

text \<open>\<open>ve_hostname\<close> is the host of the URL parser, nothing where it throws.\<close>

definition getDomain :: "view_env \<Rightarrow> string \<Rightarrow> string" where
  "getDomain E url =
     (case ve_hostname E url of
        Some h \<Rightarrow> if starts_with h ''www.'' then drop 4 h else h
      | None \<Rightarrow> url)"

definition LinkPreviewBlock :: "view_env \<Rightarrow> string list \<Rightarrow> (string \<times> string) list" where
  "LinkPreviewBlock E urls = map (\<lambda>url. (url, getDomain E url)) urls"

subsection \<open>Bubbles\<close>

text \<open>Beside the bubble of another user is the avatar, or the space for it.\<close>

datatype avatar_slot = NoAvatar | AvatarSpacer | AvatarShown avatar

record bubble =
  bb_id :: string
  bb_own :: bool
  bb_compact :: bool
  bb_avatar :: avatar_slot
  bb_sender :: "string option"
  bb_quote :: "(string option \<times> string) option"
  bb_title :: "string option"
  bb_body :: body
  bb_attachment :: "chat_attachment option"
  bb_links :: "(string \<times> string) list"
  bb_tags :: "string list"
  bb_reactions :: "(string \<times> string \<times> bool) list"
  bb_time :: "string option"
  bb_actions :: "action_button list"

definition ChatBubble ::
  "view_env \<Rightarrow> (string \<rightharpoonup> profile) \<Rightarrow> reaction list option \<Rightarrow> bool \<Rightarrow> bool \<Rightarrow> notification \<Rightarrow> bubble" where
  "ChatBubble E cache reactions isFirstInGroup isLastInGroup n =
     (let own = isOwn E n;
          urls = extractUrls (n_message n);
          other = (\<not> own \<and> truthy (n_sender n))
      in \<lparr>bb_id = n_id n,
          bb_own = own,
          bb_compact = (\<not> isFirstInGroup),
          bb_avatar = (if \<not> other then NoAvatar
             else if isLastInGroup then AvatarShown (sender_avatar E cache n) else AvatarSpacer),
          bb_sender = (if isFirstInGroup \<and> other then displayName cache n else None),
          bb_quote = (if truthy (n_reply_to_text n) then Some (QuoteBlock (n_reply_to_text n) None) else None),
          bb_title = (if truthy (n_title n) then formatTitle (ve_emojis E) n else None),
          bb_body = NotificationBody (ve_emojis E) n,
          bb_attachment = map_option
             (ChatAttachment (ve_bytes E) (ve_tr E ''chat_attachment_image'') (ve_now E)) (n_attachment n),
          bb_links = (if n_attachment n = None then LinkPreviewBlock E urls else []),
          bb_tags = unmatchedTags (ve_emojis E) (n_tags n),
          bb_reactions = ReactionChips reactions,
          bb_time = (if isLastInGroup then Some (ve_short_date_time E (n_time n)) else None),
          bb_actions = UserActions (ve_suffix E) n\<rparr>)"

record nudge =
  ng_id :: string
  ng_own :: bool
  ng_avatar :: "avatar option"
  ng_text :: string

definition NudgeBubble :: "view_env \<Rightarrow> (string \<rightharpoonup> profile) \<Rightarrow> notification \<Rightarrow> nudge" where
  "NudgeBubble E cache n =
     \<lparr>ng_id = n_id n,
      ng_own = isOwn E n,
      ng_avatar = (if \<not> isOwn E n \<and> truthy (n_sender n) then Some (sender_avatar E cache n) else None),
      ng_text = (if isOwn E n then ve_tr E ''nudge_sent_self''
         else js_replace (ve_tr E ''nudge_received'') ''{sender}'' (template (displayName cache n)))\<rparr>"

definition TypingIndicator :: "view_env \<Rightarrow> string list \<Rightarrow> string option" where
  "TypingIndicator E typingUsers =
     (case typingUsers of
        [] \<Rightarrow> None
      | [u] \<Rightarrow> Some (js_replace (ve_tr E ''typing_one'') ''{user}'' u)
      | [u, v] \<Rightarrow> Some (js_replace (js_replace (ve_tr E ''typing_two'') ''{user1}'' u) ''{user2}'' v)
      | _ \<Rightarrow> Some (ve_tr E ''typing_many''))"

subsection \<open>The page\<close>

datatype chat_item =
    DateSeparator string
  | NudgeItem nudge
  | BubbleItem bubble

definition message_items ::
  "view_env \<Rightarrow> (string \<rightharpoonup> profile) \<Rightarrow> reactions_map \<Rightarrow> notification list \<Rightarrow> nat \<Rightarrow> chat_item list" where
  "message_items E cache rm ms i =
     (let n = ms ! i; key = getDateKey E
      in (if showDateSep key ms i then [DateSeparator (getDateLabel E (n_time n))] else []) @
         [if n_event n = ''coop_nudge'' then NudgeItem (NudgeBubble E cache n)
          else BubbleItem (ChatBubble E cache (rm (n_id n))
            (\<not> isSameGroupAsPrev key ms i) (\<not> isSameGroupAsNext key ms i) n)])"

record chat_page =
  cp_empty :: "string list"
  cp_load_more :: "string option"
  cp_items :: "chat_item list"
  cp_typing :: "string option"
  cp_new_button :: "string option"

definition ChatView ::
  "view_env \<Rightarrow> (string \<rightharpoonup> profile) \<Rightarrow> reactions_map \<Rightarrow> nat \<Rightarrow> string list \<Rightarrow> bool \<Rightarrow> notification list \<Rightarrow> chat_page" where
  "ChatView E cache rm maxCount typingUsers showNewMsgButton ns =
     (let ms = messages maxCount ns
      in \<lparr>cp_empty = (if ms = [] then map (ve_tr E)
             [''chat_empty_title'', ''chat_empty_description'', ''chat_empty_hint''] else []),
          cp_load_more = (if length (allMessages ns) > maxCount then Some (ve_tr E ''chat_load_more'') else None),
          cp_items = concat (map (message_items E cache rm ms) [0..<length ms]),
          cp_typing = TypingIndicator E typingUsers,
          cp_new_button = (if showNewMsgButton then Some (ve_tr E ''chat_new_messages_button'') else None)\<rparr>)"

text \<open>\<open>setMaxCount(prev => prev + 20)\<close>, from 20.\<close>

definition load_more :: "nat \<Rightarrow> nat" where "load_more prev = prev + 20"

subsection \<open>Days and their keys\<close>

lemma isSameDay_eq [simp]: "isSameDay d1 d2 \<longleftrightarrow> d1 = d2"
  by (cases d1; cases d2) (simp add: isSameDay_def)

lemma split_at:
  "c \<notin> set a \<Longrightarrow> c \<notin> set a' \<Longrightarrow> a @ c # b = a' @ c # b' \<longleftrightarrow> a = a' \<and> b = b'"
proof (induction a arbitrary: a')
  case Nil
  then show ?case by (cases a') auto
next
  case (Cons x a)
  then show ?case by (cases a') auto
qed

lemma nat_str_eq [simp]: "nat_str m = nat_str n \<longleftrightarrow> m = n"
  by (metis digits_val_nat_str option.inject)

lemma dash_nat_str: "CHR ''-'' \<notin> set (nat_str n)"
proof
  assume "CHR ''-'' \<in> set (nat_str n)"
  then obtain d where "d < 10" "CHR ''-'' = digit_char d" using set_nat_str by blast
  moreover have "digit_val (CHR ''-'') = None" by (simp add: digit_val_def)
  ultimately show False using digit_val_digit_char [of d] by simp
qed

lemma getDateKey_eq: "getDateKey E a = getDateKey E b \<longleftrightarrow> local_day E a = local_day E b"
proof -
  have "getDateKey E a = getDateKey E b \<longleftrightarrow>
      day_year (local_day E a) = day_year (local_day E b) \<and> day_month (local_day E a) = day_month (local_day E b) \<and>
      day_date (local_day E a) = day_date (local_day E b)"
    by (simp add: getDateKey_def Let_def split_at dash_nat_str)
  then show ?thesis by (simp only: isSameDay_def [symmetric] isSameDay_eq)
qed

lemma getDateLabel_same: "local_day E a = local_day E b \<Longrightarrow> getDateLabel E a = getDateLabel E b"
  by (simp add: getDateLabel_def)

text \<open>A day is a stretch of time: what lies between two moments of a day belongs to it.\<close>

definition whole_days :: "view_env \<Rightarrow> bool" where
  "whole_days E \<longleftrightarrow> (\<forall>a b c. a \<le> b \<and> b \<le> c \<and> ve_local E a = ve_local E c \<longrightarrow> ve_local E b = ve_local E a)"

lemma whole_daysD:
  "whole_days E \<Longrightarrow> a \<le> b \<Longrightarrow> b \<le> c \<Longrightarrow> local_day E a = local_day E c \<Longrightarrow> local_day E b = local_day E a"
  unfolding whole_days_def local_day_def by (meson mult_right_mono zero_le_numeral)

lemma days_announced_once:
  assumes "whole_days E" and "sorted ts"
  shows "distinct (remdups_adj (map (local_day E) ts))"
  using assms(2)
proof (induction ts rule: remdups_adj.induct)
  case (3 t u ts)
  show ?case
  proof (cases "local_day E t = local_day E u")
    case True
    then show ?thesis using 3 by (cases "t = u") simp_all
  next
    case False
    have "local_day E t \<noteq> local_day E v" if "v \<in> set (u # ts)" for v
    proof
      assume "local_day E t = local_day E v"
      moreover have "t \<le> u" "u \<le> v" using that 3(3) by auto
      ultimately show False using whole_daysD [OF assms(1)] False by metis
    qed
    then show ?thesis using 3 False by auto
  qed
qed simp_all

subsection \<open>The items of the page\<close>

text \<open>The line that names a day, or the message by its id.\<close>

fun item_key :: "chat_item \<Rightarrow> string + string" where
  "item_key (DateSeparator l) = Inl l"
| "item_key (NudgeItem x) = Inr (ng_id x)"
| "item_key (BubbleItem b) = Inr (bb_id b)"

text \<open>The messages with the line they stand under.\<close>

fun under_line :: "string option \<Rightarrow> (string + string) list \<Rightarrow> (string option \<times> string) list" where
  "under_line l [] = []"
| "under_line l (Inl d # xs) = under_line (Some d) xs"
| "under_line l (Inr i # xs) = (l, i) # under_line l xs"

text \<open>The same lines from the message before, instead of by index.\<close>

fun day_lines :: "view_env \<Rightarrow> int option \<Rightarrow> notification list \<Rightarrow> (string + string) list" where
  "day_lines E prev [] = []"
| "day_lines E prev (n # ns) =
     (if map_option (local_day E) prev = Some (local_day E (n_time n)) then [] else [Inl (getDateLabel E (n_time n))]) @
     Inr (n_id n) # day_lines E (Some (n_time n)) ns"

lemma message_items_keys:
  "map item_key (message_items E cache rm ms i) =
     (if showDateSep (getDateKey E) ms i then [Inl (getDateLabel E (n_time (ms ! i)))] else []) @ [Inr (n_id (ms ! i))]"
  by (simp add: message_items_def Let_def NudgeBubble_def ChatBubble_def)

lemma items_are_day_lines:
  "map item_key (concat (map (message_items E cache rm (pre @ ms)) [length pre..<length (pre @ ms)])) =
     day_lines E (if pre = [] then None else Some (n_time (last pre))) ms"
proof (induction ms arbitrary: pre)
  case Nil
  then show ?case by simp
next
  case (Cons n ns)
  let ?f = "message_items E cache rm (pre @ n # ns)"
  have i: "map item_key (concat (map ?f [length pre..<length (pre @ n # ns)])) =
      map item_key (?f (length pre)) @ map item_key (concat (map ?f [length (pre @ [n])..<length (pre @ n # ns)]))"
    by (subst upt_conv_Cons) (simp_all del: upt_Suc)
  have p: "pre \<noteq> [] \<Longrightarrow> (pre @ n # ns) ! (length pre - Suc 0) = last pre"
    by (simp add: nth_append last_conv_nth)
  have "showDateSep (getDateKey E) (pre @ n # ns) (length pre) \<longleftrightarrow>
      map_option (local_day E) (if pre = [] then None else Some (n_time (last pre))) \<noteq> Some (local_day E (n_time n))"
    using p by (auto simp: showDateSep_def getDateKey_eq)
  then have "map item_key (?f (length pre)) =
      (if map_option (local_day E) (if pre = [] then None else Some (n_time (last pre))) = Some (local_day E (n_time n))
       then [] else [Inl (getDateLabel E (n_time n))]) @ [Inr (n_id n)]"
    by (simp add: message_items_keys)
  moreover have "map item_key (concat (map ?f [length (pre @ [n])..<length (pre @ n # ns)])) =
      day_lines E (Some (n_time n)) ns"
    using Cons.IH [of "pre @ [n]"] by (simp del: upt_Suc)
  ultimately show ?case unfolding i by (simp del: map_option_eq_Some)
qed

lemma under_day_lines:
  assumes "prev \<noteq> None \<Longrightarrow> l = Some (getDateLabel E (the prev))"
  shows "under_line l (day_lines E prev ms) = map (\<lambda>m. (Some (getDateLabel E (n_time m)), n_id m)) ms"
  using assms
proof (induction ms arbitrary: prev l)
  case Nil
  then show ?case by simp
next
  case (Cons n ns)
  show ?case
  proof (cases "map_option (local_day E) prev = Some (local_day E (n_time n))")
    case True
    then have "l = Some (getDateLabel E (n_time n))" using Cons.prems by (auto intro: getDateLabel_same)
    then show ?thesis using True Cons.IH [of "Some (n_time n)" l] by simp
  next
    case False
    then show ?thesis using Cons.IH [of "Some (n_time n)" "Some (getDateLabel E (n_time n))"] by auto
  qed
qed

abbreviation lines_of :: "(string + string) list \<Rightarrow> (string + string) list" where
  "lines_of xs \<equiv> filter isl xs"

lemma count_day_lines:
  "length (lines_of (day_lines E (Some t) ms)) + 1 = length (remdups_adj (map (local_day E) (t # map n_time ms)))"
  by (induction ms arbitrary: t) auto

lemma count_lines:
  "length (lines_of (day_lines E None ms)) = length (remdups_adj (map (local_day E) (map n_time ms)))"
proof (cases ms)
  case (Cons n ns)
  then show ?thesis using count_day_lines [of E "n_time n" ns] by simp
qed simp

lemma messages_shown: "messages maxCount ns = rev (take maxCount (allMessages ns))"
  by (simp add: messages_def Let_def)

lemma times_ascend:
  assumes "sorted (rev (map n_time ns))"
  shows "sorted (map n_time (messages maxCount ns))"
proof -
  have "sorted_wrt (\<lambda>a b. n_time b \<le> n_time a) ns"
    using assms by (simp add: sorted_wrt_rev sorted_wrt_map)
  then have "sorted_wrt (\<lambda>a b. n_time b \<le> n_time a) (take maxCount (allMessages ns))"
    by (simp add: allMessages_def sorted_wrt_filter sorted_wrt_take)
  then show ?thesis by (simp add: messages_shown sorted_wrt_rev sorted_wrt_map)
qed

lemma page_lines:
  "map item_key (cp_items (ChatView E cache rm maxCount who btn ns)) = day_lines E None (messages maxCount ns)"
  using items_are_day_lines [of E cache rm "[]" "messages maxCount ns"] by (simp add: ChatView_def Let_def)

lemma lines_keep_messages: "filter (\<lambda>x. \<not> isl x) (day_lines E prev ms) = map (\<lambda>m. Inr (n_id m)) ms"
  by (induction ms arbitrary: prev) auto

subsection \<open>Properties\<close>


text \<open>Two days, with the first two seconds in the first of them.\<close>

definition sample_env :: view_env where
  "sample_env = \<lparr>ve_tr = (\<lambda>key. key), ve_me = Some ''bob'', ve_now = 2000,
     ve_local = (\<lambda>ms. \<lparr>day_year = 2025, day_month = 0, day_date = (if ms < 2000 then 1 else 2)\<rparr>),
     ve_date_text = (\<lambda>d. nat_str (day_date d)), ve_short_date_time = int_str, ve_bytes = int_str,
     ve_hostname = (\<lambda>u. None), ve_upper = id, ve_emojis = [], ve_suffix = (\<lambda>p. [])\<rparr>"

lemma whole_days_sample: "whole_days sample_env"
  by (auto simp: whole_days_def sample_env_def)


text \<open>
  C20: Every press of the button for older messages keeps what is shown and adds before it, and after
  enough presses everything stored is shown and the button is gone.
\<close>

theorem chat_history_reached:
  "(let shown = (\<lambda>maxCount. filter (\<lambda>x. \<not> isl x) (map item_key (cp_items (ChatView E cache rm maxCount who btn ns))));
        last_page = (load_more ^^ (length ns div 20)) 20
    in suffix (shown maxCount) (shown (load_more maxCount)) \<and>
       shown last_page = map Inr (rev (map n_id
         (filter (\<lambda>n. n_event n = ''message'' \<or> n_event n = ''coop_nudge'') ns))) \<and>
       cp_load_more (ChatView E cache rm last_page who btn ns) = None)"
proof -
  have pages: "(load_more ^^ k) 20 = 20 + 20 * k" for k
    by (induction k) (simp_all add: load_more_def)
  have "length (allMessages ns) \<le> length ns" by (simp add: allMessages_def)
  also have "\<dots> \<le> 20 + 20 * (length ns div 20)" by simp
  finally have all_shown: "length (allMessages ns) \<le> (load_more ^^ (length ns div 20)) 20" by (simp add: pages)
  have "take maxCount xs = take maxCount (take (load_more maxCount) xs)" for xs :: "notification list"
    by (simp add: load_more_def min_def)
  then have "suffix (messages maxCount ns) (messages (load_more maxCount) ns)"
    unfolding messages_shown suffix_to_prefix rev_rev_ident by (metis take_is_prefix)
  then have "suffix (map (\<lambda>m. Inr (n_id m) :: string + string) (messages maxCount ns))
      (map (\<lambda>m. Inr (n_id m)) (messages (load_more maxCount) ns))"
    by (rule map_mono_suffix)
  moreover have "cp_load_more (ChatView E cache rm ((load_more ^^ (length ns div 20)) 20) who btn ns) = None"
    using all_shown by (simp add: ChatView_def Let_def)
  ultimately show ?thesis
    using all_shown
    by (simp add: Let_def page_lines lines_keep_messages messages_shown rev_map comp_def allMessages_def [symmetric])
qed

text \<open>A name is written into the text of a nudge as it is, unless it has a dollar sign.\<close>

theorem nudge_names_sender:
  assumes "\<not> isOwn E n" and "ve_tr E ''nudge_received'' = a @ ''{sender}'' @ b" and "CHR ''{'' \<notin> set a"
    and "displayName cache n = Some name" and "CHR ''$'' \<notin> set name"
  shows "ng_text (NudgeBubble E cache n) = a @ name @ b"
proof -
  have "split_first ''{sender}'' (a @ ''{sender}'' @ b) = Some (a, b)"
    using assms(3) by (induction a) (auto simp: starts_with_def)
  then show ?thesis using assms(1,2,4,5) by (simp add: NudgeBubble_def template_def js_replace_plain)
qed

text \<open>A display name \<open>$&\<close> is replaced by the placeholder it replaces.\<close>

theorem nudge_dollar_name:
  assumes "\<not> isOwn E n" and "displayName cache n = Some ''$&''"
  shows "ng_text (NudgeBubble E cache n) = ve_tr E ''nudge_received''"
proof -
  have "js_replace s p ''$&'' = s" for s p
    by (cases "split_first p s") (auto simp: js_replace_def dest: split_first_append)
  then show ?thesis using assms by (simp add: NudgeBubble_def template_def)
qed

text \<open>\<open>yesterday\<close> is the day before: its next day is the day again.\<close>

definition day_ok :: "day \<Rightarrow> bool" where
  "day_ok d \<longleftrightarrow> 0 < day_year d \<and> day_month d < 12 \<and> 0 < day_date d \<and> day_date d \<le> month_days (day_year d) (day_month d)"

definition next_day :: "day \<Rightarrow> day" where
  "next_day d =
     (if day_date d < month_days (day_year d) (day_month d) then d\<lparr>day_date := day_date d + 1\<rparr>
      else if day_month d < 11 then d\<lparr>day_month := day_month d + 1, day_date := 1\<rparr>
      else \<lparr>day_year = day_year d + 1, day_month = 0, day_date = 1\<rparr>)"

lemma yesterday_next:
  assumes "day_ok d"
  shows "next_day (yesterday d) = d"
proof -
  have m: "0 < month_days y k" for y k by (simp add: month_days_def)
  have "day_date d = 1 \<or> day_date d > 1" using assms by (auto simp: day_ok_def)
  then show ?thesis using assms m by (cases d) (auto simp: day_ok_def next_day_def yesterday_def)
qed

end
