(* ===== verification/Line_Stream.thy ===== *)
theory Line_Stream
  imports Utils
begin

section \<open>Reading lines from a stream that may never end (app/utils.js)\<close>

text \<open>
  \<open>fetchLinesIterator\<close> again, on a reader whose number of chunks is not known: \<open>R k\<close> is what its
  \<open>k\<close>th read delivers, \<open>None\<close> for \<open>done\<close>. The loop \<open>for (;;)\<close> is a partial function, \<open>None\<close> where it
  does not return; the lines it yields are collected.
\<close>

partial_function (option) stream_loop ::
  "(nat \<Rightarrow> string option) \<Rightarrow> nat \<Rightarrow> string \<Rightarrow> nat \<Rightarrow> bool \<Rightarrow> string list \<Rightarrow> string list option" where
  "stream_loop R k chunk start reader_done yielded =
     (case next_break chunk start of
        Some i \<Rightarrow> stream_loop R k chunk (Suc i) reader_done (yielded @ [js_substring start i chunk])
      | None \<Rightarrow>
          if reader_done then Some (yielded @ (if start < length chunk then [drop start chunk] else []))
          else (case R k of
                  None \<Rightarrow> stream_loop R (Suc k) (drop start chunk) 0 True yielded
                | Some c \<Rightarrow> stream_loop R (Suc k) (drop start chunk @ c) 0 False yielded))"

definition stream_lines_of :: "(nat \<Rightarrow> string option) \<Rightarrow> string list option" where
  "stream_lines_of R =
     (case R 0 of
        None \<Rightarrow> stream_loop R 1 [] 0 True []
      | Some c \<Rightarrow> stream_loop R 1 c 0 False [])"

text \<open>The chunks that are left when the \<open>k\<close>th is to be read and the \<open>n\<close>th read says that it is done.\<close>

definition chunks_left :: "(nat \<Rightarrow> string option) \<Rightarrow> nat \<Rightarrow> nat \<Rightarrow> string list" where
  "chunks_left R k n = map (the \<circ> R) [k..<n]"

lemma chunks_left_Cons: "k < n \<Longrightarrow> chunks_left R k n = the (R k) # chunks_left R (Suc k) n"
  by (simp add: chunks_left_def upt_conv_Cons)

text \<open>If the stream ends, the loop does what the list of its chunks makes \<open>fetch_lines_loop\<close> do.\<close>

lemma stream_loop_returns:
  assumes "R n = None" and "\<forall>j < n. R j \<noteq> None" and "if dn then reads = [] else k \<le> n \<and> reads = chunks_left R k n"
  shows "stream_loop R k chunk start dn yielded = Some (yielded @ fetch_lines_loop chunk start dn reads)"
  using assms(3)
proof (induction chunk start dn reads arbitrary: k yielded rule: fetch_lines_loop.induct)
  case (1 chunk start dn reads)
  show ?case
  proof (cases "next_break chunk start")
    case (Some i)
    then show ?thesis
      using 1(3) [OF Some 1(4)] by (subst stream_loop.simps, subst fetch_lines_loop.simps) simp
  next
    case None
    consider (finished) "dn" "reads = []" | (last) "\<not> dn" "reads = []" "R k = None"
      | (more) c where "\<not> dn" "k < n" "R k = Some c" "reads = c # chunks_left R (Suc k) n"
    proof (cases "dn \<or> k = n")
      case True
      then show ?thesis using that(1,2) 1(4) assms(1) by (auto simp: chunks_left_def split: if_splits)
    next
      case False
      then have k: "k < n" "\<not> dn" using 1(4) by auto
      then obtain c where c: "R k = Some c" using assms(2) by auto
      then show ?thesis using that(3) 1(4) k by (simp add: chunks_left_Cons)
    qed
    then show ?thesis
    proof cases
      case finished
      then show ?thesis using None by (subst stream_loop.simps, subst fetch_lines_loop.simps) simp
    next
      case last
      then show ?thesis
        using None 1(1) [OF None last(1,2), of "Suc k"]
        by (subst stream_loop.simps, subst fetch_lines_loop.simps) simp
    next
      case (more c)
      then show ?thesis
        using None 1(2) [OF None more(1,4), of "Suc k"]
        by (subst stream_loop.simps, subst fetch_lines_loop.simps) (simp add: Suc_le_eq)
    qed
  qed
qed

text \<open>If it returns, it has seen the end of the stream.\<close>

lemma stream_loop_saw_end:
  assumes ret: "stream_loop R k chunk start dn yielded = Some ls"
  shows "dn \<or> (\<exists>j. R j = None)"
proof (rule stream_loop.raw_induct [where P = "\<lambda>R k chunk start dn yielded ls. dn \<or> (\<exists>j. R j = None)", OF _ ret])
  fix f :: "(nat \<Rightarrow> string option) \<Rightarrow> nat \<Rightarrow> string \<Rightarrow> nat \<Rightarrow> bool \<Rightarrow> string list \<Rightarrow> string list option"
    and R k chunk start dn yielded ls
  assume IH: "\<And>R k chunk start dn yielded ls. f R k chunk start dn yielded = Some ls \<Longrightarrow> dn \<or> (\<exists>j. R j = None)"
    and eq: "(case next_break chunk start of
        Some i \<Rightarrow> f R k chunk (Suc i) dn (yielded @ [js_substring start i chunk])
      | None \<Rightarrow>
          if dn then Some (yielded @ (if start < length chunk then [drop start chunk] else []))
          else (case R k of
                  None \<Rightarrow> f R (Suc k) (drop start chunk) 0 True yielded
                | Some c \<Rightarrow> f R (Suc k) (drop start chunk @ c) 0 False yielded)) = Some ls"
  show "dn \<or> (\<exists>j. R j = None)"
  proof (cases "next_break chunk start")
    case (Some i)
    then show ?thesis using eq IH [of R k chunk "Suc i" dn] by auto
  next
    case None
    then show ?thesis
    proof (cases "R k")
      case (Some c)
      then show ?thesis using None eq IH [of R "Suc k" "drop start chunk @ c" 0 False] by (cases dn) auto
    qed auto
  qed
qed

subsection \<open>Properties\<close>


end
