(* ===== verification/Widgets.thy ===== *)
theory Widgets
  imports Prelude
begin

section \<open>The contents of a page\<close>

text \<open>
  What a component renders, as data: texts, buttons with what a click on them does, fields, choices,
  progress bars and notices, in boxes. Colours, spacing and pictures are left out, and an element that
  the component leaves out is not there. A page is a list of widgets; \<open>'a\<close> is what its elements do.
\<close>

text \<open>
  \<open>LinearProgress\<close> takes a number: an exact fraction here, which a division by zero makes \<open>NaN\<close> or infinite.
\<close>

datatype percent = Percent int int | NaN | MinusInfinity

datatype 'a widget =
    Label string
  | Button string 'a
  | Disabled string
  | Input string string
  | Select string "(string \<times> bool \<times> 'a) list"
  | Bar percent
  | Notice string string
  | Box "'a widget list"

text \<open>What a user can do on the page: the buttons that are enabled and the options of the choices.\<close>

primrec offers :: "'a widget \<Rightarrow> 'a list" where
  "offers (Label l) = []"
| "offers (Button l a) = [a]"
| "offers (Disabled l) = []"
| "offers (Input l v) = []"
| "offers (Select l os) = map (snd \<circ> snd) os"
| "offers (Bar p) = []"
| "offers (Notice k l) = []"
| "offers (Box ws) = concat (map offers ws)"

definition page_offers :: "'a widget list \<Rightarrow> 'a list" where
  "page_offers ws = concat (map offers ws)"

primrec bars :: "'a widget \<Rightarrow> percent list" where
  "bars (Label l) = []"
| "bars (Button l a) = []"
| "bars (Disabled l) = []"
| "bars (Input l v) = []"
| "bars (Select l os) = []"
| "bars (Bar p) = [p]"
| "bars (Notice k l) = []"
| "bars (Box ws) = concat (map bars ws)"

text \<open>The notices of a page, with their kind.\<close>

primrec notices :: "'a widget \<Rightarrow> (string \<times> string) list" where
  "notices (Label l) = []"
| "notices (Button l a) = []"
| "notices (Disabled l) = []"
| "notices (Input l v) = []"
| "notices (Select l os) = []"
| "notices (Bar p) = []"
| "notices (Notice k l) = [(k, l)]"
| "notices (Box ws) = concat (map notices ws)"

definition page_notices :: "'a widget list \<Rightarrow> (string \<times> string) list" where
  "page_notices ws = concat (map notices ws)"

text \<open>The options that are marked as chosen.\<close>

primrec chosen :: "'a widget \<Rightarrow> 'a list" where
  "chosen (Label l) = []"
| "chosen (Button l a) = []"
| "chosen (Disabled l) = []"
| "chosen (Input l v) = []"
| "chosen (Select l os) = map (snd \<circ> snd) (filter (fst \<circ> snd) os)"
| "chosen (Bar p) = []"
| "chosen (Notice k l) = []"
| "chosen (Box ws) = concat (map chosen ws)"

definition page_chosen :: "'a widget list \<Rightarrow> 'a list" where
  "page_chosen ws = concat (map chosen ws)"

text \<open>\<open>{cond && ...}\<close>: the widgets, or nothing.\<close>

definition shown_if :: "bool \<Rightarrow> 'a widget list \<Rightarrow> 'a widget list" where
  "shown_if c ws = (if c then ws else [])"

definition button_if :: "bool \<Rightarrow> string \<Rightarrow> 'a \<Rightarrow> 'a widget" where
  "button_if enabled l a = (if enabled then Button l a else Disabled l)"

text \<open>A setting with its title and description (components/Pref.jsx); a dialog's footer (DialogFooter.jsx).\<close>

definition Pref :: "string \<Rightarrow> string option \<Rightarrow> 'a widget list \<Rightarrow> 'a widget" where
  "Pref title description ws =
     Box (Label title # (if truthy description then [Label (coalesce description [])] else []) @ ws)"

definition DialogFooter :: "string \<Rightarrow> 'a widget list \<Rightarrow> 'a widget" where
  "DialogFooter status ws = Box ((if status = [] then [] else [Label status]) @ ws)"

text \<open>
  What pages ask of their surroundings: the translation of a key with values, and the formats of
  numbers, sizes, durations (in milliseconds), dates and times.
\<close>

record page_env =
  pe_t :: "string \<Rightarrow> (string \<times> string) list \<Rightarrow> string"
  pe_number :: "int \<Rightarrow> string"
  pe_bytes :: "int \<Rightarrow> string"
  pe_duration :: "int \<Rightarrow> string"
  pe_short_date :: "int \<Rightarrow> string"
  pe_date_time :: "int \<Rightarrow> string"

text \<open>A page with the keys as its texts, to write examples down with.\<close>

definition plain_page :: page_env where
  "plain_page = \<lparr>pe_t = (\<lambda>key vs. key), pe_number = int_str, pe_bytes = int_str, pe_duration = int_str,
     pe_short_date = int_str, pe_date_time = int_str\<rparr>"

abbreviation tr :: "page_env \<Rightarrow> string \<Rightarrow> string" where
  "tr E key \<equiv> pe_t E key []"

lemma offers_parts [simp]:
  "page_offers [] = []" "page_offers (w # ws) = offers w @ page_offers ws" "page_offers (xs @ ys) = page_offers xs @ page_offers ys"
  "offers (Box ws) = page_offers ws" "page_offers (shown_if c ws) = (if c then page_offers ws else [])"
  "offers (button_if c l a) = (if c then [a] else [])"
  "offers (Pref title d ws) = page_offers ws" "offers (DialogFooter s ws) = page_offers ws"
  by (simp_all add: page_offers_def shown_if_def button_if_def Pref_def DialogFooter_def)

lemma offers_map: "page_offers (map f xs) = concat (map (\<lambda>x. offers (f x)) xs)"
  by (induction xs) simp_all

lemma bars_parts [simp]:
  "bars (Pref title d ws) = concat (map bars ws)" "bars (DialogFooter s ws) = concat (map bars ws)"
  "bars (button_if c l a) = []" "concat (map bars (shown_if c ws)) = (if c then concat (map bars ws) else [])"
  by (simp_all add: shown_if_def button_if_def Pref_def DialogFooter_def)

lemma chosen_parts [simp]:
  "page_chosen [] = []" "page_chosen (w # ws) = chosen w @ page_chosen ws" "page_chosen (xs @ ys) = page_chosen xs @ page_chosen ys"
  "chosen (Box ws) = page_chosen ws" "page_chosen (shown_if c ws) = (if c then page_chosen ws else [])"
  "chosen (button_if c l a) = []" "chosen (Pref title d ws) = page_chosen ws" "chosen (DialogFooter s ws) = page_chosen ws"
  by (simp_all add: page_chosen_def shown_if_def button_if_def Pref_def DialogFooter_def)

lemma chosen_map: "page_chosen (map f xs) = concat (map (\<lambda>x. chosen (f x)) xs)"
  by (induction xs) simp_all

end
