(* ===== verification/Account_View.thy ===== *)
theory Account_View
  imports Account_Page Widgets
begin

section \<open>What the account page shows (components/Account.jsx)\<close>

text \<open>
  The page in the order of the file: the basics, the usage with its bars, the access tokens and the
  deletion, each with its dialog. \<open>account_info\<close> is what the page reads of the account; a missing
  number of a billing date is 0. \<open>own\<close> is the session's token.
\<close>

record billing =
  bi_interval :: "string option"
  bi_status :: "string option"
  bi_subscription :: bool
  bi_customer :: bool
  bi_paid_until :: int
  bi_cancel_at :: int

record usage =
  us_reservations :: int
  us_messages :: int
  us_emails :: int
  us_calls :: int
  us_attachment_total_size :: int

record limits = usage +
  li_attachment_file_size :: int
  li_attachment_expiry :: int
  li_basis :: string

record account_info =
  ac_role :: string
  ac_tier :: "string option"
  ac_billing :: "billing option"
  ac_stats :: usage
  ac_limits :: limits
  ac_tokens :: "token list option"
  ac_phone_numbers :: "string list option"
  ac_provisioned :: bool

definition is_provisioned :: "account_info option \<Rightarrow> bool" where
  "is_provisioned account = (case account of None \<Rightarrow> False | Some a \<Rightarrow> ac_provisioned a)"

text \<open>\<open>ProChip\<close> (components/SubscriptionPopup.jsx), beside what needs a paid plan.\<close>

definition ProChip :: "config \<Rightarrow> 'a widget list" where
  "ProChip cfg = shown_if (enable_payments cfg) [Label ''Coop Pro'']"

datatype account_action =
    OpenPasswordDialog
  | OpenUpgradeDialog
  | ManageBilling
  | CopyPhone string
  | DeletePhone string
  | OpenPhoneDialog
  | CopyToken string
  | LookUpOrigin string
  | CreateToken
  | EditToken token
  | DeleteToken token
  | OpenDeleteDialog

subsection \<open>The basics\<close>

definition Username :: "page_env \<Rightarrow> string option \<Rightarrow> account_info option \<Rightarrow> account_action widget" where
  "Username E name account =
     Pref (tr E ''account_basics_username_title'') (Some (tr E ''account_basics_username_description''))
       (Label (coalesce name []) #
        shown_if (map_option ac_role account = Some ''admin'') [Label (tr E ''account_basics_username_admin_tooltip'')])"

definition ChangePassword :: "page_env \<Rightarrow> account_info option \<Rightarrow> account_action widget" where
  "ChangePassword E account =
     Pref (tr E ''account_basics_password_title'') (Some (tr E ''account_basics_password_description''))
       (if \<not> is_provisioned account then
          [Button (tr E ''account_basics_password_description'') OpenPasswordDialog]
        else [Label (tr E ''account_basics_cannot_edit_or_delete_provisioned_user''), Disabled []])"

text \<open>The dialogs do one of two things.\<close>

datatype dialog_action = DialogCancel | DialogSubmit

definition ChangePasswordDialog :: "page_env \<Rightarrow> string \<Rightarrow> string \<Rightarrow> string \<Rightarrow> string \<Rightarrow> dialog_action widget list" where
  "ChangePasswordDialog E error currentPassword newPassword confirmPassword =
     [Label (tr E ''account_basics_password_dialog_title''),
      Input (tr E ''account_basics_password_dialog_current_password_label'') currentPassword,
      Input (tr E ''account_basics_password_dialog_new_password_label'') newPassword,
      Input (tr E ''account_basics_password_dialog_confirm_password_label'') confirmPassword,
      DialogFooter error
        [Button (tr E ''common_cancel'') DialogCancel,
         button_if (changePasswordEnabled currentPassword newPassword confirmPassword)
           (tr E ''account_basics_password_dialog_button_submit'') DialogSubmit]]"

text \<open>The buttons for plans are for users of a server with payments; a plan that ends or is overdue is told.\<close>

definition AccountType :: "page_env \<Rightarrow> config \<Rightarrow> account_info option \<Rightarrow> bool \<Rightarrow> account_action widget list" where
  "AccountType E cfg account showPortalError =
     (case account of
        None \<Rightarrow> []
      | Some a \<Rightarrow>
          let bi = ac_billing a;
              plan_user = (enable_payments cfg \<and> ac_role a = ''user'');
              subscribed = (case bi of Some b \<Rightarrow> bi_subscription b | None \<Rightarrow> False);
              customer = (case bi of Some b \<Rightarrow> bi_customer b | None \<Rightarrow> False);
              paid_until = (case bi of Some b \<Rightarrow> bi_paid_until b | None \<Rightarrow> 0);
              cancel_at = (case bi of Some b \<Rightarrow> bi_cancel_at b | None \<Rightarrow> 0)
          in [Pref (tr E ''account_basics_tier_title'') (Some (tr E ''account_basics_tier_description''))
                ([Label (accountType (tr E) (\<lambda>name. pe_t E ''account_basics_tier_admin_suffix_with_tier'' [(''tier'', name)])
                    cfg (ac_role a) (ac_tier a) (Option.bind bi bi_interval))] @
                 shown_if (paid_until \<noteq> 0 \<and> cancel_at = 0)
                   [Label (pe_t E ''account_basics_tier_paid_until'' [(''date'', pe_short_date E paid_until)])] @
                 shown_if (plan_user \<and> \<not> subscribed) [Button (tr E ''account_basics_tier_upgrade_button'') OpenUpgradeDialog] @
                 shown_if (plan_user \<and> subscribed) [Button (tr E ''account_basics_tier_change_button'') OpenUpgradeDialog] @
                 shown_if (plan_user \<and> customer) [Button (tr E ''account_basics_tier_manage_billing_button'') ManageBilling] @
                 shown_if (Option.bind bi bi_status = Some ''past_due'')
                   [Notice ''error'' (tr E ''account_basics_tier_payment_overdue'')] @
                 shown_if (cancel_at > 0)
                   [Notice ''warning'' (pe_t E ''account_basics_tier_canceled_subscription''
                     [(''date'', pe_short_date E cancel_at)])] @
                 shown_if showPortalError [Label (tr E ''account_usage_cannot_create_portal_session'')])])"

definition PhoneNumbers :: "page_env \<Rightarrow> config \<Rightarrow> account_info option \<Rightarrow> account_action widget list" where
  "PhoneNumbers E cfg account =
     (let title = tr E ''account_basics_phone_numbers_title''; description = tr E ''account_basics_phone_numbers_description'';
          numbers = Option.bind account ac_phone_numbers
      in if \<not> enable_calls cfg then []
         else if map_option (us_calls \<circ> ac_limits) account = Some 0 then
           [Pref title (Some description) (ProChip cfg @ [Label (tr E ''account_usage_calls_none'')])]
         else
           [Pref title (Some description)
              (concat (map (\<lambda>n. [Button n (CopyPhone n), Button n (DeletePhone n)]) (coalesce numbers [])) @
               shown_if (numbers = None) [Label (tr E ''account_basics_phone_numbers_no_phone_numbers_yet'')] @
               [Button [] OpenPhoneDialog])])"

datatype phone_action = PhoneCancel | PhoneSubmit | PhoneChannel string

definition AddPhoneNumberDialog :: "page_env \<Rightarrow> bool \<Rightarrow> phone_dialog \<Rightarrow> phone_action widget list" where
  "AddPhoneNumberDialog E sending pd =
     [Label (tr E ''account_basics_phone_numbers_dialog_title''),
      Label (tr E ''account_basics_phone_numbers_dialog_description'')] @
     shown_if (\<not> ph_sent pd)
       [Input (tr E ''account_basics_phone_numbers_dialog_number_label'') (ph_number pd),
        Select []
          [(tr E ''account_basics_phone_numbers_dialog_channel_sms'', ph_channel pd = ''sms'', PhoneChannel ''sms''),
           (tr E ''account_basics_phone_numbers_dialog_channel_call'', ph_channel pd = ''call'', PhoneChannel ''call'')]] @
     shown_if (ph_sent pd) [Input (tr E ''account_basics_phone_numbers_dialog_code_label'') (ph_code pd)] @
     [DialogFooter (ph_error pd)
        [Button (tr E (if ph_sent pd then ''common_back'' else ''common_cancel'')) PhoneCancel,
         button_if (\<not> sending \<and> phoneButtonEnabled pd)
           (if ph_sent pd then tr E ''account_basics_phone_numbers_dialog_check_verification_button''
            else if ph_channel pd = ''sms'' then tr E ''account_basics_phone_numbers_dialog_verify_button_sms''
            else if ph_channel pd = ''call'' then tr E ''account_basics_phone_numbers_dialog_verify_button_call'' else [])
           PhoneSubmit]]"

definition Basics :: "page_env \<Rightarrow> config \<Rightarrow> string option \<Rightarrow> account_info option \<Rightarrow> bool \<Rightarrow> account_action widget" where
  "Basics E cfg name account showPortalError =
     Box ([Label (tr E ''account_basics_title''), Username E name account, ChangePassword E account] @
       PhoneNumbers E cfg account @ AccountType E cfg account showPortalError)"

subsection \<open>Usage\<close>

text \<open>\<open>Math.min((value / max) * 100, 100)\<close>, with JavaScript's division by zero; the quotient is exact.\<close>

definition normalize :: "int \<Rightarrow> int \<Rightarrow> percent" where
  "normalize v mx =
     (if mx = 0 then (if v = 0 then NaN else if v > 0 then Percent 100 1 else MinusInfinity)
      else if mx > 0 \<and> v > mx \<or> mx < 0 \<and> v < mx then Percent 100 1
      else Percent (v * 100) mx)"

text \<open>One line of the usage: what is used, of what limit, and the bar.\<close>

definition usage_row :: "page_env \<Rightarrow> string \<Rightarrow> string option \<Rightarrow> string \<Rightarrow> string \<Rightarrow> bool \<Rightarrow> percent \<Rightarrow> account_action widget" where
  "usage_row E title description used limit_text limited bar =
     Pref title description
       [Label used,
        Label (if limited then pe_t E ''account_usage_of_limit'' [(''limit'', limit_text)] else tr E ''account_usage_unlimited''),
        Bar bar]"

text \<open>What is said instead of a bar, and the note about limits by address.\<close>

definition missing_rows :: "page_env \<Rightarrow> config \<Rightarrow> account_info \<Rightarrow> account_action widget list" where
  "missing_rows E cfg a =
     (let user = (ac_role a = ''user''); li = ac_limits a
      in shown_if (enable_reservations cfg \<and> user \<and> us_reservations li = 0)
           [Pref (tr E ''account_usage_reservations_title'') None (ProChip cfg @ [Label (tr E ''account_usage_reservations_none'')])] @
         shown_if (enable_calls cfg \<and> user \<and> us_calls li = 0)
           [Pref (tr E ''account_usage_calls_title'') None (ProChip cfg @ [Label (tr E ''account_usage_calls_none'')])])"

definition basis_note :: "page_env \<Rightarrow> account_info \<Rightarrow> account_action widget list" where
  "basis_note E a =
     shown_if (ac_role a = ''user'' \<and> li_basis (ac_limits a) = ''ip'') [Label (tr E ''account_usage_basis_ip_description'')]"

definition Stats :: "page_env \<Rightarrow> config \<Rightarrow> account_info option \<Rightarrow> account_action widget list" where
  "Stats E cfg account =
     (case account of
        None \<Rightarrow> []
      | Some a \<Rightarrow>
          let user = (ac_role a = ''user''); st = ac_stats a; li = ac_limits a;
              num = pe_number E;
              daily = (\<lambda>title. tr E title @ tr E ''account_usage_limits_reset_daily'')
          in [Label (tr E ''account_usage_title'')] @
             shown_if (ac_role a = ''admin'' \<or> us_reservations li > 0)
               [usage_row E (tr E ''account_usage_reservations_title'') None (num (us_reservations st)) (num (us_reservations li)) user
                  (if user \<and> us_reservations li > 0 then normalize (us_reservations st) (us_reservations li) else Percent 100 1)] @
             [usage_row E (daily ''account_usage_messages_title'') None (num (us_messages st)) (num (us_messages li)) user
                (if user then normalize (us_messages st) (us_messages li) else Percent 100 1)] @
             shown_if (enable_emails cfg)
               [usage_row E (daily ''account_usage_emails_title'') None (num (us_emails st)) (num (us_emails li)) user
                  (if user then normalize (us_emails st) (us_emails li) else Percent 100 1)] @
             shown_if (enable_calls cfg \<and> (ac_role a = ''admin'' \<or> us_calls li > 0))
               [usage_row E (daily ''account_usage_calls_title'') None (num (us_calls st)) (num (us_calls li)) user
                  (if user \<and> us_calls li > 0 then normalize (us_calls st) (us_calls li) else Percent 100 1)] @
             [usage_row E (tr E ''account_usage_attachment_storage_title'')
                (Some (pe_t E ''account_usage_attachment_storage_description''
                  [(''filesize'', pe_bytes E (li_attachment_file_size li)),
                   (''expiry'', pe_duration E (li_attachment_expiry li * 1000))]))
                (pe_bytes E (us_attachment_total_size st)) (pe_bytes E (us_attachment_total_size li)) user
                (if user then normalize (us_attachment_total_size st) (us_attachment_total_size li) else Percent 100 1)] @
             missing_rows E cfg a @ basis_note E a)"

subsection \<open>Access tokens\<close>

definition TokenRow :: "page_env \<Rightarrow> string option \<Rightarrow> token \<Rightarrow> account_action widget" where
  "TokenRow E own tk =
     (let is_own = (Some (tk_token tk) = own); fixed = [Disabled [], Disabled []]
      in Box (
        [Label (take 12 (tk_token tk) @ ''...''),
         Button (tr E ''common_copy_to_clipboard'') (CopyToken (tk_token tk)),
         Label (if is_own then tr E ''account_tokens_table_current_session''
           else if truthy (tk_label tk) then coalesce (tk_label tk) [] else ''-''),
         Label (case tk_expires tk of
             Some e \<Rightarrow> if e = 0 then tr E ''account_tokens_table_never_expires'' else pe_date_time E e
           | None \<Rightarrow> tr E ''account_tokens_table_never_expires''),
         Label (pe_date_time E (tk_last_access tk)),
         Button (pe_t E ''account_tokens_table_last_origin_tooltip'' [(''ip'', tk_last_origin tk)])
           (LookUpOrigin (''https://whatismyipaddress.com/ip/'' @ tk_last_origin tk))] @
        shown_if (token_editable own tk)
          [Button (tr E ''account_tokens_dialog_title_edit'') (EditToken tk),
           Button (tr E ''account_tokens_dialog_title_delete'') (DeleteToken tk)] @
        shown_if is_own (Label (tr E ''account_tokens_table_cannot_delete_or_edit'') # fixed) @
        shown_if (tk_provisioned tk)
          (Label (tr E ''account_tokens_table_cannot_delete_or_edit_provisioned_token'') # fixed)))"

definition TokensTable ::
  "page_env \<Rightarrow> (string \<Rightarrow> string \<Rightarrow> int) \<Rightarrow> string option \<Rightarrow> token list \<Rightarrow> account_action widget" where
  "TokensTable E collate own tks =
     Box (map Label [tr E ''account_tokens_table_token_header'', tr E ''account_tokens_table_label_header'',
            tr E ''account_tokens_table_expires_header'', tr E ''account_tokens_table_last_access_header''] @
          map (TokenRow E own) (sortedTokens own collate tks))"

definition Tokens ::
  "page_env \<Rightarrow> (string \<Rightarrow> string \<Rightarrow> int) \<Rightarrow> string option \<Rightarrow> account_info option \<Rightarrow> account_action widget" where
  "Tokens E collate own account =
     (let tks = coalesce (Option.bind account ac_tokens) []
      in Box ([Label (tr E ''account_tokens_title''), Label (tr E ''account_tokens_description'')] @
           shown_if (length tks > 0) [TokensTable E collate own tks] @
           [Button (tr E ''account_tokens_table_create_token_button'') CreateToken]))"

datatype token_action = TokenCancel | TokenSubmit | TokenExpires int

text \<open>The texts of the choices of \<open>expires_choices\<close>.\<close>

definition expires_text :: "page_env \<Rightarrow> int \<Rightarrow> string" where
  "expires_text E e =
     (if e = - 1 then tr E ''account_tokens_dialog_expires_unchanged''
      else if e = 0 then tr E ''account_tokens_dialog_expires_never''
      else if e < 86400 then pe_t E ''account_tokens_dialog_expires_x_hours'' [(''hours'', int_str (e div 3600))]
      else pe_t E ''account_tokens_dialog_expires_x_days'' [(''days'', int_str (e div 86400))])"

definition TokenDialog :: "page_env \<Rightarrow> bool \<Rightarrow> string \<Rightarrow> string \<Rightarrow> int \<Rightarrow> token_action widget list" where
  "TokenDialog E editMode error label expires =
     [Label (tr E (if editMode then ''account_tokens_dialog_title_edit'' else ''account_tokens_dialog_title_create'')),
      Input (tr E ''account_tokens_dialog_label'') label,
      Select (tr E ''account_tokens_dialog_expires_label'')
        (map (\<lambda>e. (expires_text E e, e = expires, TokenExpires e)) (expires_choices editMode)),
      DialogFooter error
        [Button (tr E ''account_tokens_dialog_button_cancel'') TokenCancel,
         Button (tr E (if editMode then ''account_tokens_dialog_button_update'' else ''account_tokens_dialog_button_create''))
           TokenSubmit]]"

definition TokenDeleteDialog :: "page_env \<Rightarrow> string \<Rightarrow> dialog_action widget list" where
  "TokenDeleteDialog E error =
     [Label (tr E ''account_tokens_delete_dialog_title''), Label (tr E ''account_tokens_delete_dialog_description''),
      DialogFooter error
        [Button (tr E ''common_cancel'') DialogCancel,
         Button (tr E ''account_tokens_delete_dialog_submit_button'') DialogSubmit]]"

subsection \<open>Deleting the account\<close>

definition DeleteAccount :: "page_env \<Rightarrow> account_info option \<Rightarrow> account_action widget" where
  "DeleteAccount E account =
     Pref (tr E ''account_delete_title'') (Some (tr E ''account_delete_description''))
       (if \<not> is_provisioned account then [Button (tr E ''account_delete_title'') OpenDeleteDialog]
        else [Label (tr E ''account_basics_cannot_edit_or_delete_provisioned_user''), Disabled (tr E ''account_delete_title'')])"

definition DeleteAccountDialog :: "page_env \<Rightarrow> account_info option \<Rightarrow> string \<Rightarrow> string \<Rightarrow> dialog_action widget list" where
  "DeleteAccountDialog E account error password =
     [Label (tr E ''account_delete_title''), Label (tr E ''account_delete_dialog_description''),
      Input (tr E ''account_delete_dialog_label'') password] @
     shown_if (case Option.bind account ac_billing of Some b \<Rightarrow> bi_subscription b | None \<Rightarrow> False)
       [Notice ''warning'' (tr E ''account_delete_dialog_billing_warning'')] @
     [DialogFooter error
        [Button (tr E ''account_delete_dialog_button_cancel'') DialogCancel,
         button_if (password \<noteq> []) (tr E ''account_delete_dialog_button_submit'') DialogSubmit]]"

text \<open>\<open>Account\<close>: without a session the page goes to the app's root, which the first component says.\<close>

definition Account ::
  "page_env \<Rightarrow> config \<Rightarrow> (string \<Rightarrow> string \<Rightarrow> int) \<Rightarrow> 'kv session \<Rightarrow> account_info option \<Rightarrow> bool \<Rightarrow>
     string option \<times> account_action widget list" where
  "Account E cfg collate ses account showPortalError =
     (if \<not> session_exists ses then (Some (app_root cfg), [])
      else (None,
        [Basics E cfg (session_username ses) account showPortalError, Box (Stats E cfg account),
         Tokens E collate (session_token ses) account,
         Box [Label (tr E ''account_delete_title''), DeleteAccount E account]]))"

subsection \<open>Properties\<close>

lemma offers_usage_row [simp]: "offers (usage_row E title d used limit_text limited bar) = []"
  by (simp add: usage_row_def)

lemma bars_usage_row [simp]: "bars (usage_row E title d used limit_text limited bar) = [bar]"
  by (simp add: usage_row_def)

lemma offers_pro_chip [simp]: "page_offers (ProChip cfg) = []"
  by (simp add: ProChip_def)

lemma bars_pro_chip [simp]: "concat (map bars (ProChip cfg)) = []"
  by (simp add: ProChip_def)

text \<open>Counts and limits are not negative.\<close>

definition usage_ok :: "'a usage_scheme \<Rightarrow> bool" where
  "usage_ok u \<longleftrightarrow> us_reservations u \<ge> 0 \<and> us_messages u \<ge> 0 \<and> us_emails u \<ge> 0 \<and> us_calls u \<ge> 0 \<and>
     us_attachment_total_size u \<ge> 0"

definition bar_ok :: "percent \<Rightarrow> bool" where
  "bar_ok p = (case p of Percent q d \<Rightarrow> 0 < d \<and> 0 \<le> q \<and> q \<le> 100 * d | _ \<Rightarrow> False)"

lemma bar_ok_normalize: "v \<ge> 0 \<Longrightarrow> m \<ge> 0 \<Longrightarrow> bar_ok (normalize v m) \<longleftrightarrow> \<not> (v = 0 \<and> m = 0)"
  by (auto simp: normalize_def bar_ok_def)

lemma bar_ok_full [simp]: "bar_ok (Percent 100 1)"
  by (simp add: bar_ok_def)

text \<open>
  C30: Every bar of the usage page is between 0 and 100 percent, however far the usage is above its limit
  and whatever the role, except that a user with a limit of 0 for messages, shown emails or attachments
  who has used none of it gets a bar that is not a number.
\<close>

theorem usage_bars_bounded:
  assumes "usage_ok (ac_stats a)" and "usage_ok (ac_limits a)"
  shows "list_all bar_ok (concat (map bars (Stats E cfg (Some a)))) \<longleftrightarrow>
    (let used_up = (\<lambda>count. ac_role a = ''user'' \<and> count (usage.truncate (ac_limits a)) = 0 \<and> count (ac_stats a) = 0)
     in \<not> used_up us_messages \<and> \<not> (enable_emails cfg \<and> used_up us_emails) \<and> \<not> used_up us_attachment_total_size)"
  using assms
  by (auto simp: Stats_def missing_rows_def basis_note_def Let_def usage_ok_def bar_ok_normalize usage.truncate_def)

text \<open>Twelve messages of ten, and no attachment of none.\<close>

definition busy_account :: account_info where
  "busy_account = \<lparr>ac_role = ''user'', ac_tier = None, ac_billing = None,
     ac_stats = \<lparr>us_reservations = 0, us_messages = 12, us_emails = 0, us_calls = 0, us_attachment_total_size = 0\<rparr>,
     ac_limits = \<lparr>us_reservations = 0, us_messages = 10, us_emails = 0, us_calls = 0, us_attachment_total_size = 0,
       li_attachment_file_size = 0, li_attachment_expiry = 0, li_basis = ''tier''\<rparr>,
     ac_tokens = None, ac_phone_numbers = None, ac_provisioned = False\<rparr>"

lemma usage_bars_bounded_witness:
  "\<not> list_all bar_ok (concat (map bars (Stats plain_page plain_config (Some busy_account)))) \<and>
   bar_ok (normalize 12 10) \<and> bars (usage_row plain_page [] None [] [] True (normalize 12 10)) = [Percent 100 1]"
proof -
  have "usage_ok (ac_stats busy_account)" "usage_ok (ac_limits busy_account)"
    by (simp_all add: busy_account_def usage_ok_def)
  from usage_bars_bounded [OF this, of plain_page plain_config] show ?thesis
    by (simp add: busy_account_def usage.truncate_def Let_def usage_row_def normalize_def bar_ok_def)
qed

lemma offers_token_row:
  "set (offers (TokenRow E own tk)) =
     {CopyToken (tk_token tk), LookUpOrigin (''https://whatismyipaddress.com/ip/'' @ tk_last_origin tk)} \<union>
     (if token_editable own tk then {EditToken tk, DeleteToken tk} else {})"
  by (auto simp: TokenRow_def Let_def)

lemma offers_tokens_table:
  "set (offers (TokensTable E collate own tks)) = (\<Union>tk \<in> set tks. set (offers (TokenRow E own tk)))"
  by (simp add: TokensTable_def page_offers_def sortedTokens_def set_js_sort)

lemma offers_stats: "concat (map offers (Stats E cfg account)) = []"
  unfolding page_offers_def [symmetric] by (cases account) (simp_all add: Stats_def missing_rows_def basis_note_def Let_def)

lemma offers_basics:
  "set (offers (Basics E cfg name account err)) =
     (if is_provisioned account then {} else {OpenPasswordDialog}) \<union>
     set (page_offers (PhoneNumbers E cfg account)) \<union> set (page_offers (AccountType E cfg account err))"
  by (auto simp: Basics_def Username_def ChangePassword_def)

lemma offers_phone_numbers:
  "set (page_offers (PhoneNumbers E cfg account)) =
     (if enable_calls cfg \<and> map_option (us_calls \<circ> ac_limits) account \<noteq> Some 0
      then insert OpenPhoneDialog (\<Union>n \<in> set (coalesce (Option.bind account ac_phone_numbers) []). {CopyPhone n, DeletePhone n})
      else {})"
proof -
  have "page_offers (concat (map (\<lambda>n. [Button n (CopyPhone n), Button n (DeletePhone n)]) ns)) =
      concat (map (\<lambda>n. [CopyPhone n, DeletePhone n]) ns)" for ns
    by (induction ns) simp_all
  then show ?thesis by (auto simp: PhoneNumbers_def Let_def)
qed

lemma offers_account_type:
  "set (page_offers (AccountType E cfg (Some a) err)) =
     (if enable_payments cfg \<and> ac_role a = ''user''
      then insert OpenUpgradeDialog (if (case ac_billing a of Some b \<Rightarrow> bi_customer b | None \<Rightarrow> False) then {ManageBilling} else {})
      else {})"
  by (auto simp: AccountType_def Let_def)

lemma offers_tokens:
  "set (offers (Tokens E collate own account)) =
     insert CreateToken (\<Union>tk \<in> set (coalesce (Option.bind account ac_tokens) []). set (offers (TokenRow E own tk)))"
  by (cases "coalesce (Option.bind account ac_tokens) []") (auto simp: Tokens_def Let_def offers_tokens_table)

text \<open>What the account page may offer to a session.\<close>

definition may_do :: "config \<Rightarrow> string option \<Rightarrow> account_info \<Rightarrow> account_action set" where
  "may_do cfg own a =
     (let tks = set (coalesce (ac_tokens a) []);
          foreign = {tk \<in> tks. Some (tk_token tk) \<noteq> own \<and> \<not> tk_provisioned tk};
          numbers = set (coalesce (ac_phone_numbers a) [])
      in {CreateToken} \<union> CopyToken ` tk_token ` tks \<union>
         (\<lambda>tk. LookUpOrigin (''https://whatismyipaddress.com/ip/'' @ tk_last_origin tk)) ` tks \<union>
         EditToken ` foreign \<union> DeleteToken ` foreign \<union>
         (if ac_provisioned a then {} else {OpenPasswordDialog, OpenDeleteDialog}) \<union>
         (if enable_calls cfg \<and> us_calls (ac_limits a) \<noteq> 0
          then {OpenPhoneDialog} \<union> CopyPhone ` numbers \<union> DeletePhone ` numbers else {}) \<union>
         (if enable_payments cfg \<and> ac_role a = ''user''
          then {OpenUpgradeDialog} \<union> (case ac_billing a of Some b \<Rightarrow> if bi_customer b then {ManageBilling} else {} | None \<Rightarrow> {})
          else {}))"

lemma token_rows_offers:
  "(\<Union>tk \<in> tks. set (offers (TokenRow E own tk))) =
     CopyToken ` tk_token ` tks \<union> (\<lambda>tk. LookUpOrigin (''https://whatismyipaddress.com/ip/'' @ tk_last_origin tk)) ` tks \<union>
     EditToken ` {tk \<in> tks. token_editable own tk} \<union> DeleteToken ` {tk \<in> tks. token_editable own tk}"
  by (auto simp: offers_token_row split: if_splits)


end
