(* ===== verification/Admin_View.thy ===== *)
theory Admin_View
  imports Admin Widgets
begin

section \<open>What the admin panel shows (components/AdminPanel.jsx)\<close>

text \<open>
  The tables and forms of the three tabs, and what a click on each of their buttons does. The rows are
  the server's JSON: names, topics and tokens are texts there, the id of a join request is a number.
  \<open>local_string\<close> is the browser's format of a date in milliseconds.
\<close>

subsection \<open>Cells\<close>

text \<open>\<open>user.tier?.name || user.tier || "-"\<close>: a tier is a name or an object with a name.\<close>

definition user_tier :: "json \<Rightarrow> string" where
  "user_tier u =
     (let tier = json_prop u ''tier''; name = Option.bind tier (\<lambda>x. json_prop x ''name'')
      in if json_truthy name then child_text name else or_dash tier)"

definition json_time :: "(int \<Rightarrow> string) \<Rightarrow> json option \<Rightarrow> string" where
  "json_time local_string v = formatTimestamp local_string (json_int v)"

subsection \<open>Actions\<close>

datatype admin_action =
    ShowTab nat
  | CloseError
  | CloseSuccess
  | DeleteUser string
  | CreateUser
  | DeleteTopic string
  | ResolveJoinRequest string string
  | RevokeAccess string string
  | ChoosePermission string
  | GrantAccess
  | CopyLink string
  | DeleteInvite string
  | CreateInvite

definition alerts :: "admin \<Rightarrow> admin_action widget list" where
  "alerts ad =
     shown_if (ad_error ad \<noteq> []) [Notice ''error'' (ad_error ad), Button ''Close'' CloseError] @
     shown_if (ad_success ad \<noteq> []) [Notice ''success'' (ad_success ad), Button ''Close'' CloseSuccess]"

subsection \<open>Users\<close>

definition user_row :: "page_env \<Rightarrow> json \<Rightarrow> admin_action widget" where
  "user_row E u =
     (let name = value_text (json_prop u ''username'')
      in Box [Label (child_text (json_prop u ''username'')), Label (or_dash (json_prop u ''role'')), Label (user_tier u),
              Button (pe_t E ''admin_users_delete_aria'' [(''username'', name)]) (DeleteUser name)])"

definition UsersTab :: "page_env \<Rightarrow> admin \<Rightarrow> admin_action widget list" where
  "UsersTab E ad =
     alerts ad @
     shown_if (length (ad_users ad) > 0)
       [Box (map (Label \<circ> tr E) [''admin_users_col_username'', ''admin_users_col_role'', ''admin_users_col_tier'',
               ''admin_col_actions''] @
             map (user_row E) (ad_users ad))] @
     shown_if (length (ad_users ad) = 0) [Label (tr E ''admin_users_empty'')] @
     [Box [Label (tr E ''admin_users_create_title''),
           Input (tr E ''admin_users_col_username'') (ad_username ad),
           Input (tr E ''signup_form_password'') (ad_password ad),
           button_if (\<not> (js_trim (ad_username ad) = [] \<or> js_trim (ad_password ad) = []))
             (tr E ''admin_btn_create'') CreateUser]]"

subsection \<open>Chats\<close>

definition topic_row :: "page_env \<Rightarrow> (int \<Rightarrow> string) \<Rightarrow> json \<Rightarrow> admin_action widget" where
  "topic_row E local_string ts =
     (let topic = value_text (json_prop ts ''topic'')
      in Box [Label (child_text (json_prop ts ''topic'')), Label (child_text (json_prop ts ''message_count'')),
              Label (json_time local_string (json_prop ts ''last_activity'')),
              Button (pe_t E ''admin_chats_delete_aria'' [(''topic'', topic)]) (DeleteTopic topic)])"

text \<open>The time of a request is written without the check for a missing one (\<open>no_date\<close> is its text).\<close>

definition join_row :: "page_env \<Rightarrow> (int \<Rightarrow> string) \<Rightarrow> string \<Rightarrow> json \<Rightarrow> admin_action widget" where
  "join_row E local_string no_date jr =
     (let rid = value_text (json_prop jr ''id''); name = value_text (json_prop jr ''username'')
      in Box [Label (child_text (json_prop jr ''username'')), Label (child_text (json_prop jr ''topic'')),
              Label (case json_int (json_prop jr ''created_at'') of Some n \<Rightarrow> local_string (n * 1000) | None \<Rightarrow> no_date),
              Button (pe_t E ''admin_chats_join_approve_aria'' [(''username'', name)]) (ResolveJoinRequest rid ''approved''),
              Button (pe_t E ''admin_chats_join_deny_aria'' [(''username'', name)]) (ResolveJoinRequest rid ''denied'')])"

definition grants :: "json \<Rightarrow> json list" where
  "grants u = array_or_empty (json_prop u ''grants'')"

definition grant_row :: "page_env \<Rightarrow> json \<Rightarrow> json \<Rightarrow> admin_action widget" where
  "grant_row E u g =
     (let name = value_text (json_prop u ''username''); topic = value_text (json_prop g ''topic'')
      in Box [Label (child_text (json_prop u ''username'')), Label (child_text (json_prop g ''topic'')),
              Label (or_dash (json_prop g ''permission'')),
              Button (pe_t E ''admin_chats_revoke_aria'' [(''username'', name), (''topic'', topic)]) (RevokeAccess name topic)])"

definition grant_rows :: "page_env \<Rightarrow> json list \<Rightarrow> admin_action widget list" where
  "grant_rows E us = concat (map (\<lambda>u. map (grant_row E u) (grants u)) (filter (\<lambda>u. length (grants u) > 0) us))"

definition grant_table :: "page_env \<Rightarrow> json list \<Rightarrow> admin_action widget list" where
  "grant_table E us =
     shown_if (length us > 0)
       [Box (map (Label \<circ> tr E) [''admin_chats_col_user'', ''admin_chats_col_channel'', ''admin_chats_col_permission'',
               ''admin_col_actions''] @
             grant_rows E us)]"

definition grant_form :: "page_env \<Rightarrow> string \<Rightarrow> admin \<Rightarrow> admin_action widget" where
  "grant_form E perm ad =
     Box [Label (tr E ''admin_chats_grant_title''),
          Input (tr E ''admin_users_col_username'') (ad_username ad),
          Input (tr E ''admin_chats_col_channel'') (ad_topic ad),
          Select (tr E ''admin_chats_col_permission'')
            [(tr E ''admin_chats_perm_rw'', perm = ''read-write'', ChoosePermission ''read-write''),
             (tr E ''admin_chats_perm_ro'', perm = ''read-only'', ChoosePermission ''read-only'')],
          button_if (\<not> (js_trim (ad_username ad) = [] \<or> js_trim (ad_topic ad) = []))
            (tr E ''admin_chats_grant_button'') GrantAccess]"

definition ChatsTab :: "page_env \<Rightarrow> (int \<Rightarrow> string) \<Rightarrow> string \<Rightarrow> string \<Rightarrow> admin \<Rightarrow> admin_action widget list" where
  "ChatsTab E local_string no_date perm ad =
     alerts ad @
     [Label (tr E ''admin_chats_all_title''),
      if length (ad_topicStats ad) > 0 then
        Box (map (Label \<circ> tr E) [''admin_chats_col_id'', ''admin_chats_col_messages'', ''admin_chats_col_last_activity'',
               ''admin_col_actions''] @
             map (topic_row E local_string) (ad_topicStats ad))
      else Label (tr E ''admin_chats_empty''),
      Label (tr E ''admin_chats_join_requests_title''),
      if length (ad_joinRequests ad) > 0 then
        Box (map (Label \<circ> tr E) [''admin_chats_col_user'', ''admin_chats_col_channel'', ''admin_chats_col_requested_at'',
               ''admin_col_actions''] @
             map (join_row E local_string no_date) (ad_joinRequests ad))
      else Label (tr E ''admin_chats_join_empty'')] @
     grant_table E (ad_users ad) @ [grant_form E perm ad]"

subsection \<open>Invitations\<close>

definition listed_topics :: "json \<Rightarrow> string" where
  "listed_topics invite =
     (case json_prop invite ''topics'' of
        Some (JArr ts) \<Rightarrow> join '', '' (map json_text ts)
      | v \<Rightarrow> or_dash v)"

definition invite_row :: "page_env \<Rightarrow> (int \<Rightarrow> string) \<Rightarrow> json \<Rightarrow> admin_action widget" where
  "invite_row E local_string invite =
     (let tok = json_prop invite ''token''; max_uses = json_prop invite ''max_uses''; used = json_prop invite ''used''
      in Box [Label (take 12 (child_text tok) @ ''...''),
              Label (or_dash (json_prop invite ''created_by'')),
              Label (listed_topics invite),
              Label (if json_truthy max_uses then child_text max_uses else tr E ''admin_invites_unlimited''),
              Label (if json_truthy used then child_text used else ''0''),
              Label (json_time local_string (json_prop invite ''expires'')),
              Button (tr E ''admin_invites_copy_aria'') (CopyLink (value_text tok)),
              Button (tr E ''admin_invites_delete_aria'') (DeleteInvite (value_text tok))])"

definition InvitesTab :: "page_env \<Rightarrow> (int \<Rightarrow> string) \<Rightarrow> bool \<Rightarrow> admin \<Rightarrow> admin_action widget list" where
  "InvitesTab E local_string copySnackOpen ad =
     alerts ad @
     shown_if (length (ad_invites ad) > 0)
       [Box (map (Label \<circ> tr E) [''admin_invites_col_token'', ''admin_invites_col_created_by'', ''admin_invites_col_channels'',
               ''admin_invites_col_max_uses'', ''admin_invites_col_used'', ''admin_invites_col_expires'', ''admin_col_actions''] @
             map (invite_row E local_string) (ad_invites ad))] @
     shown_if (length (ad_invites ad) = 0) [Label (tr E ''admin_invites_empty'')] @
     [Box [Label (tr E ''admin_invites_create_title''), Label (tr E ''admin_invites_create_desc''),
           Input (tr E ''admin_invites_col_channels'') (ad_topics ad),
           Input (tr E ''admin_invites_col_max_uses'') (ad_maxUses ad),
           Input (tr E ''admin_invites_col_expires'') (ad_expires ad),
           Button (tr E ''admin_btn_create'') CreateInvite]] @
     shown_if copySnackOpen [Label (tr E ''admin_invites_copied'')]"

subsection \<open>The panel\<close>

text \<open>
  The panel: the tabs, and the content of the chosen one. Each tab has its own state; \<open>ad\<close> is that of
  the tab that is shown, \<open>perm\<close> the permission chosen in the chats tab.
\<close>

definition AdminPanel ::
  "page_env \<Rightarrow> (int \<Rightarrow> string) \<Rightarrow> string \<Rightarrow> bool \<Rightarrow> 'kv session \<Rightarrow> nat \<Rightarrow> string \<Rightarrow> admin \<Rightarrow>
     string option \<times> admin_action widget list" where
  "AdminPanel E local_string no_date snack ses tabIndex perm ad =
     (if \<not> session_exists ses then (Some ''/login'', [])
      else (None,
        [Button (tr E ''admin_tab_users'') (ShowTab 0), Button (tr E ''admin_tab_chats'') (ShowTab 1),
         Button (tr E ''admin_tab_invites'') (ShowTab 2)] @
        shown_if (tabIndex = 0) (UsersTab E ad) @
        shown_if (tabIndex = 1) (ChatsTab E local_string no_date perm ad) @
        shown_if (tabIndex = 2) (InvitesTab E local_string snack ad)))"

text \<open>
  What a click does to the state of the tab and the chosen permission. Showing another tab mounts that
  tab anew and is not a change of this one; copying a link only changes the clipboard.
\<close>

definition on_tab :: "admin_io \<Rightarrow> string \<times> admin \<Rightarrow> request list \<Rightarrow> (string \<times> admin) \<times> request list" where
  "on_tab f st log = (let (ad', log') = f (snd st) log in ((fst st, ad'), log'))"

fun admin_click where
  "admin_click srv cfg tok text t parse_date (ShowTab i) st log = (st, log)"
| "admin_click srv cfg tok text t parse_date CloseError st log = ((fst st, (snd st)\<lparr>ad_error := []\<rparr>), log)"
| "admin_click srv cfg tok text t parse_date CloseSuccess st log = ((fst st, (snd st)\<lparr>ad_success := []\<rparr>), log)"
| "admin_click srv cfg tok text t parse_date (DeleteUser u) st log = on_tab (handleDeleteUser srv cfg tok text t u) st log"
| "admin_click srv cfg tok text t parse_date CreateUser st log = on_tab (handleCreateUser srv cfg tok text t) st log"
| "admin_click srv cfg tok text t parse_date (DeleteTopic x) st log = on_tab (handleDeleteTopic srv cfg tok text t x) st log"
| "admin_click srv cfg tok text t parse_date (ResolveJoinRequest i s) st log =
     on_tab (handleResolveJoinRequest srv cfg tok text t i s) st log"
| "admin_click srv cfg tok text t parse_date (RevokeAccess u x) st log =
     on_tab (handleRevokeAccess srv cfg tok text t u x) st log"
| "admin_click srv cfg tok text t parse_date (ChoosePermission p) st log = ((p, snd st), log)"
| "admin_click srv cfg tok text t parse_date GrantAccess st log = on_tab (handleGrantAccess srv cfg tok text t (fst st)) st log"
| "admin_click srv cfg tok text t parse_date (CopyLink k) st log = (st, log)"
| "admin_click srv cfg tok text t parse_date (DeleteInvite k) st log = on_tab (handleDeleteInvite srv cfg tok text t k) st log"
| "admin_click srv cfg tok text t parse_date CreateInvite st log =
     on_tab (handleCreateInvite srv cfg tok text t parse_date) st log"

subsection \<open>Properties\<close>

lemma offers_rows:
  "set (page_offers (map f xs)) = (\<Union>x \<in> set xs. set (offers (f x)))"
  by (simp add: offers_map)

lemma offers_header [simp]: "page_offers (map (Label \<circ> f) keys) = []"
  by (induction keys) simp_all

lemma offers_admin_rows:
  "offers (user_row E u) = [DeleteUser (value_text (json_prop u ''username''))]"
  "offers (topic_row E local_string ts) = [DeleteTopic (value_text (json_prop ts ''topic''))]"
  "offers (join_row E local_string no_date jr) =
     [ResolveJoinRequest (value_text (json_prop jr ''id'')) ''approved'', ResolveJoinRequest (value_text (json_prop jr ''id'')) ''denied'']"
  "offers (grant_row E u g) = [RevokeAccess (value_text (json_prop u ''username'')) (value_text (json_prop g ''topic''))]"
  "offers (invite_row E local_string iv) = [CopyLink (value_text (json_prop iv ''token'')), DeleteInvite (value_text (json_prop iv ''token''))]"
  by (simp_all add: user_row_def topic_row_def join_row_def grant_row_def invite_row_def Let_def)

lemma offers_grant_rows:
  "set (page_offers (grant_rows E us)) =
     {RevokeAccess (value_text (json_prop u ''username'')) (value_text (json_prop g ''topic'')) | u g. u \<in> set us \<and> g \<in> set (grants u)}"
proof -
  have "page_offers (grant_rows E us) =
      concat (map (\<lambda>u. map (\<lambda>g. RevokeAccess (value_text (json_prop u ''username'')) (value_text (json_prop g ''topic''))) (grants u)) us)"
    unfolding grant_rows_def by (induction us) (simp_all add: offers_map offers_admin_rows)
  then show ?thesis by auto
qed

text \<open>What the panel offers in a state: for every row shown its buttons, and the forms when they are filled.\<close>

definition close_actions :: "admin \<Rightarrow> admin_action set" where
  "close_actions ad = (if ad_error ad = [] then {} else {CloseError}) \<union> (if ad_success ad = [] then {} else {CloseSuccess})"

definition tab_actions :: "nat \<Rightarrow> admin \<Rightarrow> admin_action set" where
  "tab_actions tabIndex ad =
     (let prop = (\<lambda>k j. value_text (json_prop j k)); filled = (\<lambda>s. js_trim s \<noteq> [])
      in if tabIndex = 0 then
           DeleteUser ` prop ''username'' ` set (ad_users ad) \<union>
           (if filled (ad_username ad) \<and> filled (ad_password ad) then {CreateUser} else {})
         else if tabIndex = 1 then
           DeleteTopic ` prop ''topic'' ` set (ad_topicStats ad) \<union>
           (\<Union>jr \<in> set (ad_joinRequests ad). ResolveJoinRequest (prop ''id'' jr) ` {''approved'', ''denied''}) \<union>
           {RevokeAccess (prop ''username'' u) (prop ''topic'' g) | u g. u \<in> set (ad_users ad) \<and> g \<in> set (grants u)} \<union>
           ChoosePermission ` {''read-write'', ''read-only''} \<union>
           (if filled (ad_username ad) \<and> filled (ad_topic ad) then {GrantAccess} else {})
         else if tabIndex = 2 then
           CopyLink ` prop ''token'' ` set (ad_invites ad) \<union> DeleteInvite ` prop ''token'' ` set (ad_invites ad) \<union> {CreateInvite}
         else {})"

lemma offers_alerts: "set (page_offers (alerts ad)) = close_actions ad"
  by (simp add: alerts_def close_actions_def)

lemma offers_tabs:
  "set (page_offers (UsersTab E ad)) = close_actions ad \<union> tab_actions 0 ad"
  "set (page_offers (ChatsTab E local_string no_date perm ad)) = close_actions ad \<union> tab_actions 1 ad"
  "set (page_offers (InvitesTab E local_string snack ad)) = close_actions ad \<union> tab_actions 2 ad"
  by (auto simp: UsersTab_def ChatsTab_def grant_table_def grant_form_def InvitesTab_def offers_alerts tab_actions_def Let_def offers_rows
      offers_admin_rows offers_grant_rows)

lemma admin_panel_offers:
  assumes "session_exists ses" "tabIndex \<le> 2"
  shows "set (page_offers (snd (AdminPanel E local_string no_date snack ses tabIndex perm ad))) =
    ShowTab ` {0, 1, 2} \<union> close_actions ad \<union> tab_actions tabIndex ad"
proof -
  consider "tabIndex = 0" | "tabIndex = 1" | "tabIndex = 2" using assms(2) by linarith
  then show ?thesis
  proof cases
    case 1 then show ?thesis using assms(1) offers_tabs(1) by (auto simp: AdminPanel_def)
  next
    case 2 then show ?thesis using assms(1) offers_tabs(2) by (auto simp: AdminPanel_def)
  next
    case 3 then show ?thesis using assms(1) offers_tabs(3) by (auto simp: AdminPanel_def)
  qed
qed

text \<open>The writing request of an action and the text of its success; other actions send nothing.\<close>

definition change_of ::
  "config \<Rightarrow> string option \<Rightarrow> (string \<Rightarrow> (string \<times> string) list \<Rightarrow> string) \<Rightarrow> (string \<Rightarrow> int option) \<Rightarrow> string \<times> admin \<Rightarrow>
     admin_action \<Rightarrow> (request \<times> string) option" where
  "change_of cfg tok t parse_date st a =
     (let ad = snd st; rq = admin_request cfg tok in
      case a of
        DeleteUser u \<Rightarrow> Some (rq ''DELETE'' ''/v1/users'' (Some [(''username'', JStr u)]), t ''admin_users_deleted'' [(''username'', u)])
      | CreateUser \<Rightarrow>
          Some (rq ''POST'' ''/v1/users'' (Some [(''username'', JStr (js_trim (ad_username ad))), (''password'', JStr (ad_password ad))]),
            t ''admin_users_created'' [(''username'', js_trim (ad_username ad))])
      | DeleteTopic x \<Rightarrow>
          Some (rq ''DELETE'' (''/v1/admin/topics/'' @ encodeURIComponent x) None, t ''admin_chats_topic_deleted'' [(''topic'', x)])
      | ResolveJoinRequest i s \<Rightarrow>
          Some (rq ''PUT'' (''/v1/join-requests/'' @ i) (Some [(''status'', JStr s)]),
            t (if s = ''approved'' then ''admin_chats_join_approved'' else ''admin_chats_join_denied'') [])
      | RevokeAccess u x \<Rightarrow>
          Some (rq ''DELETE'' ''/v1/users/access'' (Some [(''username'', JStr u), (''topic'', JStr x)]),
            t ''admin_chats_access_revoked'' [(''username'', u), (''topic'', x)])
      | GrantAccess \<Rightarrow>
          Some (rq ''POST'' ''/v1/users/access'' (Some [(''username'', JStr (js_trim (ad_username ad))),
              (''topic'', JStr (js_trim (ad_topic ad))), (''permission'', JStr (fst st))]),
            t ''admin_chats_access_granted'' [(''username'', js_trim (ad_username ad)), (''topic'', js_trim (ad_topic ad)),
              (''permission'', fst st)])
      | DeleteInvite k \<Rightarrow> Some (rq ''DELETE'' (''/v1/invites/'' @ k) None, t ''admin_invites_deleted'' [])
      | CreateInvite \<Rightarrow> Some (invite_request cfg tok parse_date ad, t ''admin_invites_created'' [])
      | _ \<Rightarrow> None)"

lemma admin_click_change:
  assumes "a \<in> tab_actions tabIndex (snd st)" and "change_of cfg tok t parse_date st a = Some (rq, msg)"
  shows "\<exists>reset refetch. only_reads tok refetch \<and>
    admin_click srv cfg tok err_text t parse_date a st log = on_tab (admin_change srv err_text rq msg reset refetch) st log"
proof -
  note users = only_reads_fetch(1) [of tok srv cfg err_text] and topics = only_reads_fetch(2) [of tok srv cfg err_text]
    and requests = only_reads_fetch(3) [of tok srv cfg] and invites = only_reads_fetch(4) [of tok srv cfg err_text]
  have change: ?thesis
    if "only_reads tok refetch" "admin_click srv cfg tok err_text t parse_date a st log =
      on_tab (admin_change srv err_text rq msg reset refetch) st log" for reset refetch
    using that by blast
  have filled: "js_trim (ad_username (snd st)) \<noteq> []"
    "a = CreateUser \<Longrightarrow> js_trim (ad_password (snd st)) \<noteq> []" "a = GrantAccess \<Longrightarrow> js_trim (ad_topic (snd st)) \<noteq> []"
    if "a = CreateUser \<or> a = GrantAccess"
    using assms(1) that by (auto simp: tab_actions_def Let_def split: if_splits)
  note simps = change_of_def Let_def on_tab_def
  show ?thesis
  proof (cases a)
    case (DeleteUser u)
    show ?thesis
      by (rule change [where reset = id, OF users])
        (use assms(2) DeleteUser in \<open>simp add: simps handleDeleteUser_def\<close>)
  next
    case CreateUser
    show ?thesis
      by (rule change [where reset = "\<lambda>ad. ad\<lparr>ad_username := [], ad_password := []\<rparr>", OF users])
        (use assms(2) CreateUser filled in \<open>simp add: simps handleCreateUser_def createUser_request_def\<close>)
  next
    case (DeleteTopic x)
    show ?thesis
      by (rule change [where reset = id, OF only_reads_then [OF topics users]])
        (use assms(2) DeleteTopic in \<open>simp add: simps handleDeleteTopic_def\<close>)
  next
    case (ResolveJoinRequest i s)
    show ?thesis
    proof (cases "s = ''approved''")
      case True
      show ?thesis
        by (rule change [where reset = id, OF only_reads_then [OF requests users]])
          (use assms(2) ResolveJoinRequest True in \<open>simp add: simps handleResolveJoinRequest_def\<close>)
    next
      case False
      show ?thesis
        by (rule change [where reset = id, OF requests])
          (use assms(2) ResolveJoinRequest False in \<open>simp add: simps handleResolveJoinRequest_def\<close>)
    qed
  next
    case (RevokeAccess u x)
    show ?thesis
      by (rule change [where reset = id, OF users])
        (use assms(2) RevokeAccess in \<open>simp add: simps handleRevokeAccess_def\<close>)
  next
    case GrantAccess
    show ?thesis
      by (rule change [where reset = "\<lambda>ad. ad\<lparr>ad_username := [], ad_topic := []\<rparr>", OF users])
        (use assms(2) GrantAccess filled in \<open>simp add: simps handleGrantAccess_def grant_request_def\<close>)
  next
    case (DeleteInvite k)
    show ?thesis
      by (rule change [where reset = id, OF invites])
        (use assms(2) DeleteInvite in \<open>simp add: simps handleDeleteInvite_def\<close>)
  next
    case CreateInvite
    show ?thesis
      by (rule change [where reset = "\<lambda>ad. ad\<lparr>ad_topics := [], ad_maxUses := [], ad_expires := []\<rparr>", OF invites])
        (use assms(2) CreateInvite in \<open>simp add: simps handleCreateInvite_def\<close>)
  qed (use assms(2) in \<open>simp_all add: simps\<close>)
qed

lemma alerts_on_page:
  assumes "session_exists ses" "tabIndex \<le> 2"
  shows "set (page_notices (alerts ad)) \<subseteq>
    set (page_notices (snd (AdminPanel E local_string no_date snack ses tabIndex perm ad)))"
proof -
  consider "tabIndex = 0" | "tabIndex = 1" | "tabIndex = 2" using assms(2) by linarith
  then show ?thesis
    using assms(1) by cases (auto simp: AdminPanel_def page_notices_def shown_if_def UsersTab_def ChatsTab_def grant_table_def grant_form_def InvitesTab_def)
qed

lemma alert_displayed:
  "ad_error ad \<noteq> [] \<Longrightarrow> (''error'', ad_error ad) \<in> set (page_notices (alerts ad))"
  "ad_success ad \<noteq> [] \<Longrightarrow> (''success'', ad_success ad) \<in> set (page_notices (alerts ad))"
  by (simp_all add: alerts_def page_notices_def shown_if_def)

lemma outcome_shown:
  assumes "reports_at srv err_text tok rq msg ad log (ad', log')" and "msg \<noteq> []" and "\<forall>e. err_text e \<noteq> []"
  shows "(case fst (fetchOrThrow srv rq log) of Inl e \<Rightarrow> (''error'', err_text e) | Inr _ \<Rightarrow> (''success'', msg))
    \<in> set (page_notices (alerts ad'))"
proof (cases "fst (fetchOrThrow srv rq log)")
  case (Inl e)
  then have "ad_error ad' = err_text e" using assms(1) by (auto simp: reports_at_def)
  then show ?thesis using Inl alert_displayed(1) [of ad'] assms(3) by simp
next
  case (Inr x)
  then have "ad_success ad' = msg" using assms(1) by (auto simp: reports_at_def)
  then show ?thesis using Inr alert_displayed(2) [of ad'] assms(2) by simp
qed

lemma admin_click_silent:
  "change_of cfg tok t parse_date st a = None \<Longrightarrow> snd (admin_click srv cfg tok err_text t parse_date a st log) = log"
  by (cases a) (simp_all add: change_of_def Let_def)

lemma admin_request_authorized: "list_all (\<lambda>h. h \<in> set (rq_headers (admin_request cfg tok verb path body))) (authHeaders tok)"
  by (simp add: admin_request_def authHeaders_def)

lemma change_authorized:
  "change_of cfg tok t parse_date st a = Some (rq, msg) \<Longrightarrow> list_all (\<lambda>h. h \<in> set (rq_headers rq)) (authHeaders tok)"
  by (cases a) (auto simp: change_of_def Let_def invite_request_def authHeaders_def admin_request_def)

text \<open>
  C33: The panel offers what its tables and forms show: for each user, chat, join request, access right
  and invitation of the shown tab its own actions, and a form only when its fields are filled. Every
  click it offers either sends nothing, or sends the one writing request that belongs to the clicked
  row or form, with the session's token, and then only reads; afterwards the page shows the text of the
  error if the server refused, with nothing else changed, or the text of the success.
\<close>

theorem admin_panel_clicks:
  assumes "session_exists ses" and "tabIndex \<le> 2" and "\<forall>e. err_text e \<noteq> []" and "\<forall>k vs. t k vs \<noteq> []"
  shows "let page = (\<lambda>st. snd (AdminPanel E local_string no_date snack ses tabIndex (fst st) (snd st)));
             tok = session_token ses;
             click = (\<lambda>a. admin_click srv cfg tok err_text t parse_date a st log)
    in set (page_offers (page st)) = ShowTab ` {0, 1, 2} \<union> close_actions (snd st) \<union> tab_actions tabIndex (snd st) \<and>
       (\<forall>a \<in> set (page_offers (page st)).
          case change_of cfg tok t parse_date st a of
            None \<Rightarrow> snd (click a) = log
          | Some (rq, msg) \<Rightarrow>
              set (authHeaders tok) \<subseteq> set (rq_headers rq) \<and> fst (fst (click a)) = fst st \<and>
              reports_at srv err_text tok rq msg (snd st) log (snd (fst (click a)), snd (click a)) \<and>
              (case fst (fetchOrThrow srv rq log) of
                 Inl e \<Rightarrow> (''error'', err_text e)
               | Inr _ \<Rightarrow> (''success'', msg)) \<in> set (page_notices (page (fst (click a)))))"
proof -
  define tok where "tok = session_token ses"
  define page where "page = (\<lambda>st. snd (AdminPanel E local_string no_date snack ses tabIndex (fst st) (snd st)))"
  define click where "click = (\<lambda>a. admin_click srv cfg tok err_text t parse_date a st log)"
  have offers: "set (page_offers (page st)) = ShowTab ` {0, 1, 2} \<union> close_actions (snd st) \<union> tab_actions tabIndex (snd st)"
    unfolding page_def by (rule admin_panel_offers [OF assms(1,2)])
  have "set (authHeaders tok) \<subseteq> set (rq_headers rq) \<and> fst (fst (click a)) = fst st \<and>
      reports_at srv err_text tok rq msg (snd st) log (snd (fst (click a)), snd (click a)) \<and>
      (case fst (fetchOrThrow srv rq log) of Inl e \<Rightarrow> (''error'', err_text e) | Inr _ \<Rightarrow> (''success'', msg))
        \<in> set (page_notices (page (fst (click a))))"
    if a: "a \<in> set (page_offers (page st))" and c: "change_of cfg tok t parse_date st a = Some (rq, msg)" for a rq msg
  proof -
    have "a \<notin> ShowTab ` {0, 1, 2} \<union> close_actions (snd st)"
      using c by (auto simp: change_of_def close_actions_def split: if_splits)
    then have "a \<in> tab_actions tabIndex (snd st)" using a offers by blast
    from admin_click_change [OF this c] obtain reset refetch where
      reads: "only_reads tok refetch" and click: "click a = on_tab (admin_change srv err_text rq msg reset refetch) st log"
      unfolding click_def by blast
    have keep: "fst (fst (click a)) = fst st" by (simp add: click on_tab_def case_prod_beta)
    have reports: "reports_at srv err_text tok rq msg (snd st) log (snd (fst (click a)), snd (click a))"
      using reports_at_change [OF reads] by (simp add: click on_tab_def case_prod_beta)
    have msg: "msg \<noteq> []" using c assms(4) by (cases a) (auto simp: change_of_def Let_def)
    have "(case fst (fetchOrThrow srv rq log) of Inl e \<Rightarrow> (''error'', err_text e) | Inr _ \<Rightarrow> (''success'', msg))
        \<in> set (page_notices (page (fst (click a))))"
      using outcome_shown [OF reports msg assms(3)] alerts_on_page [OF assms(1,2)] unfolding page_def by (rule rev_subsetD)
    then show ?thesis using keep reports change_authorized [OF c] by (auto simp: list_all_iff)
  qed
  note sends = this
  have "case change_of cfg tok t parse_date st a of
      None \<Rightarrow> snd (click a) = log
    | Some (rq, msg) \<Rightarrow>
        set (authHeaders tok) \<subseteq> set (rq_headers rq) \<and> fst (fst (click a)) = fst st \<and>
        reports_at srv err_text tok rq msg (snd st) log (snd (fst (click a)), snd (click a)) \<and>
        (case fst (fetchOrThrow srv rq log) of Inl e \<Rightarrow> (''error'', err_text e) | Inr _ \<Rightarrow> (''success'', msg))
          \<in> set (page_notices (page (fst (click a))))"
    if a: "a \<in> set (page_offers (page st))" for a
  proof (cases "change_of cfg tok t parse_date st a")
    case None
    then show ?thesis by (simp add: click_def admin_click_silent)
  next
    case (Some c)
    obtain rq msg where c: "c = (rq, msg)" by (cases c)
    show ?thesis using sends [OF a Some [unfolded c]] by (simp add: Some c)
  qed
  note each = this
  show ?thesis
    unfolding Let_def tok_def [symmetric] page_def [symmetric]
    by (intro conjI ballI, rule offers, rule each [unfolded click_def])
qed

text \<open>A user in the table, and a server that is not reached.\<close>

definition sample_admin :: admin where
  "sample_admin = \<lparr>ad_users = [JObj [(''username'', JStr ''bob'')]], ad_topicStats = [], ad_joinRequests = [], ad_invites = [],
     ad_username = ''eve'', ad_password = '' '', ad_topic = [], ad_topics = [], ad_maxUses = [], ad_expires = [],
     ad_error = [], ad_success = []\<rparr>"

lemma admin_panel_clicks_witness:
  "let page = (\<lambda>st. snd (AdminPanel plain_page int_str [] False signed_in 0 (fst st) (snd st)));
       click = admin_click (\<lambda>log rq. None) plain_config (Some ''tk1'') (\<lambda>e. ''failed'') (\<lambda>key vs. ''done'') (\<lambda>d. None)
         (DeleteUser ''bob'') (''read-write'', sample_admin) []
   in set (page_offers (page (''read-write'', sample_admin))) = {ShowTab 0, ShowTab 1, ShowTab 2, DeleteUser ''bob''} \<and>
      (''error'', ''failed'') \<in> set (page_notices (page (fst click)))"
proof -
  have t: "tab_actions 0 sample_admin = {DeleteUser ''bob''}" "close_actions sample_admin = {}"
    by (simp_all add: tab_actions_def close_actions_def sample_admin_def value_text_def json_prop_def js_trim_def is_space_def)
  let ?st = "(''read-write'', sample_admin)" and ?text = "\<lambda>e :: app_error. ''failed''"
    and ?t = "\<lambda>(key :: string) (vs :: (string \<times> string) list). ''done''" and ?srv = "\<lambda>log rq. None" and ?date = "\<lambda>d :: string. None"
  note clicks = admin_panel_clicks [where ses = signed_in and tabIndex = 0 and err_text = ?text and t = ?t
      and E = plain_page and local_string = int_str and no_date = "[]" and snack = False and srv = ?srv
      and cfg = plain_config and parse_date = ?date and st = ?st and log = "[]", unfolded Let_def]
  have offers: "set (page_offers (snd (AdminPanel plain_page int_str [] False signed_in 0 (fst ?st) (snd ?st)))) =
      ShowTab ` {0, 1, 2} \<union> close_actions (snd ?st) \<union> tab_actions 0 (snd ?st)"
    by (rule conjunct1 [OF clicks]) simp_all
  then have bob: "DeleteUser ''bob'' \<in> set (page_offers (snd (AdminPanel plain_page int_str [] False signed_in 0 (fst ?st) (snd ?st))))"
    by (simp add: t)
  have "(''error'', ''failed'') \<in> set (page_notices (snd (AdminPanel plain_page int_str [] False signed_in 0
      (fst (fst (admin_click ?srv plain_config (session_token signed_in) ?text ?t ?date (DeleteUser ''bob'') ?st [])))
      (snd (fst (admin_click ?srv plain_config (session_token signed_in) ?text ?t ?date (DeleteUser ''bob'') ?st []))))))"
    using bspec [OF conjunct2 [OF clicks [OF signed_in(1)]] bob] by (simp add: change_of_def Let_def fetchOrThrow_unfold on_tab_def case_prod_beta)
  then show ?thesis using offers by (auto simp: t)
qed

end
