(* ===== verification/Settings_View.thy ===== *)
theory Settings_View
  imports Settings Widgets
begin

section \<open>What the settings page shows (components/Preferences.jsx)\<close>

text \<open>
  The page reads the preferences, the users and the account, and offers a choice for each setting.
  Everything that is read asynchronously is loaded here. \<open>lang\<close> is the language the translation library
  resolves to, \<open>lang_name\<close> its name in itself; the random flags beside it are left out.
\<close>

record settings_account =
  sa_role :: string
  sa_reservations :: "reservation list option"
  sa_remaining :: int

datatype choice =
    ChooseSound string
  | ChooseMinPriority int
  | ChooseDeleteAfter int
  | ChooseWebPush bool
  | ChooseTheme string
  | ChooseAccent string
  | ChooseLanguage string

datatype settings_action =
    Choose choice
  | PickAccent
  | PlaySound string
  | AddUser
  | EditUser user
  | RemoveUser user
  | AddReservation
  | EditReservation reservation
  | RemoveReservation reservation
  | SubscribeReservation reservation

text \<open>The options of a choice, with the text of each and the one that is stored.\<close>

definition options ::
  "('v \<Rightarrow> choice) \<Rightarrow> 'v option \<Rightarrow> ('v \<times> string) list \<Rightarrow> (string \<times> bool \<times> settings_action) list" where
  "options act current vs = map (\<lambda>(v, l). (l, Some v = current, Choose (act v))) vs"

subsection \<open>Notifications\<close>

text \<open>An unknown sound has no label: the page throws.\<close>

definition sound_options :: "page_env \<Rightarrow> (string \<times> string) list" where
  "sound_options E = (''none'', tr E ''prefs_notifications_sound_no_sound'') # map (\<lambda>(k, file, label). (k, label)) sounds"

definition Sound :: "page_env \<Rightarrow> string \<Rightarrow> app_error + settings_action widget list" where
  "Sound E sound =
     (if sound = [] then Inr []
      else case sound_description sound of
        None \<Rightarrow> Inl TypeError
      | Some (key, label) \<Rightarrow>
          Inr [Pref (tr E ''prefs_notifications_sound_title'')
            (Some (pe_t E key (case label of Some l \<Rightarrow> [(''sound'', l)] | None \<Rightarrow> [])))
            [Select [] (options ChooseSound (Some sound) (sound_options E)),
             button_if (sound \<noteq> ''none'') (tr E ''prefs_notifications_sound_play'') (PlaySound sound)]])"

definition minPriority_options :: "page_env \<Rightarrow> (int \<times> string) list" where
  "minPriority_options E =
     [(1, tr E ''prefs_notifications_min_priority_any''), (2, tr E ''prefs_notifications_min_priority_low_and_higher''),
      (3, tr E ''prefs_notifications_min_priority_default_and_higher''),
      (4, tr E ''prefs_notifications_min_priority_high_and_higher''), (5, tr E ''prefs_notifications_min_priority_max_only'')]"

text \<open>Nothing is shown for a priority that is 0 or not a number.\<close>

definition MinPriority :: "page_env \<Rightarrow> int option \<Rightarrow> settings_action widget list" where
  "MinPriority E minPriority =
     (case minPriority of
        None \<Rightarrow> []
      | Some p \<Rightarrow>
          if p = 0 then []
          else let (key, number, name) = minPriority_description p
               in [Pref (tr E ''prefs_notifications_min_priority_title'')
                     (Some (pe_t E key
                       ((case number of Some n \<Rightarrow> [(''number'', int_str n)] | None \<Rightarrow> []) @
                        (case name of Some k \<Rightarrow> [(''name'', tr E k)] | None \<Rightarrow> []))))
                     [Select [] (options ChooseMinPriority (Some p) (minPriority_options E))]])"

definition deleteAfter_options :: "page_env \<Rightarrow> (int \<times> string) list" where
  "deleteAfter_options E =
     [(0, tr E ''prefs_notifications_delete_after_never''), (10800, tr E ''prefs_notifications_delete_after_three_hours''),
      (86400, tr E ''prefs_notifications_delete_after_one_day''), (604800, tr E ''prefs_notifications_delete_after_one_week''),
      (2592000, tr E ''prefs_notifications_delete_after_one_month'')]"

definition DeleteAfter :: "page_env \<Rightarrow> int option \<Rightarrow> settings_action widget" where
  "DeleteAfter E deleteAfter =
     Pref (tr E ''prefs_notifications_delete_after_title'')
       (case deleteAfter of
          Some s \<Rightarrow> let key = deleteAfter_description s in if key = [] then None else Some (tr E key)
        | None \<Rightarrow> None)
       [Select [] (options ChooseDeleteAfter deleteAfter (deleteAfter_options E))]"

definition webPush_options :: "page_env \<Rightarrow> config \<Rightarrow> (bool \<times> string) list" where
  "webPush_options E cfg =
     [(True, pe_t E ''prefs_notifications_web_push_enabled'' [(''server'', shortUrl (base_url cfg))]),
      (False, tr E ''prefs_notifications_web_push_disabled'')]"

definition WebPushEnabled :: "page_env \<Rightarrow> config \<Rightarrow> bool \<Rightarrow> settings_action widget" where
  "WebPushEnabled E cfg enabled =
     Pref (tr E ''prefs_notifications_web_push_title'') (Some (tr E (webPush_description enabled)))
       [Select [] (options ChooseWebPush (Some enabled) (webPush_options E cfg))]"

definition Notifications ::
  "page_env \<Rightarrow> config \<Rightarrow> bool \<Rightarrow> bool \<Rightarrow> 'p pref_ops \<Rightarrow> 'p \<Rightarrow> app_error + settings_action widget list" where
  "Notifications E cfg isLaunchedPWA push_possible P ps =
     (case Sound E (prefs_sound P ps) of
        Inl e \<Rightarrow> Inl e
      | Inr sound \<Rightarrow>
          Inr ([Label (tr E ''prefs_notifications_title'')] @ sound @ MinPriority E (prefs_minPriority P ps) @
            [DeleteAfter E (prefs_deleteAfter P ps)] @
            shown_if (showWebPush isLaunchedPWA push_possible) [WebPushEnabled E cfg (prefs_webPushEnabled P ps)]))"

subsection \<open>Appearance\<close>

definition Theme :: "page_env \<Rightarrow> string \<Rightarrow> settings_action widget" where
  "Theme E theme =
     Pref (tr E ''prefs_appearance_theme_title'') None
       [Select [] (options ChooseTheme (Some theme)
          [(''light'', tr E ''prefs_appearance_theme_light''), (''dark'', tr E ''prefs_appearance_theme_dark'')])]"

definition presets :: "page_env \<Rightarrow> (string \<times> string) list" where
  "presets E =
     [(''earth'', tr E ''prefs_appearance_accent_earth''), (''khaki'', tr E ''prefs_appearance_accent_khaki''),
      (''olive'', tr E ''prefs_appearance_accent_olive''), (''gold'', tr E ''prefs_appearance_accent_gold'')]"

text \<open>A preset is a button that is framed when it is chosen; the last one opens the browser's colour field.\<close>

definition AccentColor :: "page_env \<Rightarrow> string \<Rightarrow> string \<Rightarrow> settings_action widget" where
  "AccentColor E accentColor customColor =
     (let custom = tr E ''prefs_appearance_accent_custom''
      in Pref (tr E ''prefs_appearance_accent_title'') (Some (tr E ''prefs_appearance_accent_description''))
        [Select [] (options ChooseAccent (Some accentColor) (presets E) @ [(custom, accentColor = ''custom'', PickAccent)]),
         Input custom (if customColor = [] then ''#C4A265'' else customColor)])"

definition languages :: "string list" where
  "languages = [''en'', ''ar'', ''id'', ''bg'', ''cs'', ''zh_Hant'', ''zh_Hans'', ''da'', ''de'', ''et'', ''es'', ''fr'', ''gl'',
     ''it'', ''hu'', ''ko'', ''ja'', ''nl'', ''nb_NO'', ''uk'', ''pt'', ''pt_BR'', ''pl'', ''ru'', ''ro'', ''sk'', ''fi'', ''sv'', ''tr'', ''ta'']"

definition Language :: "page_env \<Rightarrow> (string \<Rightarrow> string) \<Rightarrow> string option \<Rightarrow> settings_action widget" where
  "Language E lang_name lang =
     Pref (tr E ''prefs_appearance_language_title'') None
       [Select [] (options ChooseLanguage (Some (coalesce lang ''en'')) (map (\<lambda>k. (k, lang_name k)) languages))]"

definition Appearance :: "page_env \<Rightarrow> (string \<Rightarrow> string) \<Rightarrow> string option \<Rightarrow> 'p pref_ops \<Rightarrow> 'p \<Rightarrow> settings_action widget list" where
  "Appearance E lang_name lang P ps =
     [Label (tr E ''prefs_appearance_title''), Theme E (prefs_theme P ps),
      AccentColor E (prefs_accentColor P ps) (prefs_customAccentColor P ps), Language E lang_name lang]"

subsection \<open>Users\<close>

definition user_cells :: "page_env \<Rightarrow> config \<Rightarrow> 'kv session \<Rightarrow> user \<Rightarrow> settings_action widget" where
  "user_cells E cfg ses u =
     Box ([Label (u_username u), Label (u_baseUrl u)] @
       shown_if (user_editable cfg ses u)
         [Button (tr E ''prefs_users_edit_button'') (EditUser u), Button (tr E ''prefs_users_delete_button'') (RemoveUser u)] @
       shown_if (session_exists ses \<and> u_baseUrl u = base_url cfg)
         [Label (tr E ''prefs_users_table_cannot_delete_or_edit''), Disabled [], Disabled []])"

definition UserTable :: "page_env \<Rightarrow> config \<Rightarrow> 'kv session \<Rightarrow> user list \<Rightarrow> settings_action widget" where
  "UserTable E cfg ses us =
     Box ([Label (tr E ''prefs_users_table_user_header''), Label (tr E ''prefs_users_table_base_url_header'')] @
       map (user_cells E cfg ses) us)"

definition Users :: "page_env \<Rightarrow> config \<Rightarrow> 'kv session \<Rightarrow> user list \<Rightarrow> settings_action widget list" where
  "Users E cfg ses us =
     [Label (tr E ''prefs_users_title''),
      Label (tr E ''prefs_users_description'' @
        (if session_exists ses then '' '' @ tr E ''prefs_users_description_no_sync'' else []))] @
     shown_if (length us > 0) [UserTable E cfg ses us] @
     [Button (tr E ''prefs_users_add_button'') AddUser]"

datatype user_dialog_action = UserCancel | UserSubmit

definition UserDialog :: "page_env \<Rightarrow> bool \<Rightarrow> user list \<Rightarrow> user_dialog \<Rightarrow> user_dialog_action widget list" where
  "UserDialog E editMode us ud =
     (let helper = baseUrlHelperText us ud
      in [Label (tr E (if editMode then ''prefs_users_dialog_title_edit'' else ''prefs_users_dialog_title_add''))] @
         shown_if (\<not> editMode)
           ([Input (tr E ''prefs_users_dialog_base_url_label'') (ud_baseUrl ud)] @
            shown_if (helper \<noteq> []) [Notice (if baseUrlError us ud then ''error'' else ''info'') (tr E helper)]) @
         [Input (tr E ''prefs_users_dialog_username_label'') (ud_username ud),
          Input (tr E ''prefs_users_dialog_password_label'') (ud_password ud),
          Button (tr E ''common_cancel'') UserCancel,
          button_if (addButtonEnabled editMode us ud) (tr E (if editMode then ''common_save'' else ''common_add'')) UserSubmit])"

subsection \<open>Reservations\<close>

definition reservation_cells :: "page_env \<Rightarrow> config \<Rightarrow> subscription list \<Rightarrow> reservation \<Rightarrow> settings_action widget" where
  "reservation_cells E cfg ss r =
     Box ([Label (r_topic r)] @
       (case permission_text (r_everyone r) of Some k \<Rightarrow> [Label (tr E k)] | None \<Rightarrow> []) @
       shown_if (not_subscribed cfg ss r)
         [Button (tr E ''prefs_reservations_table_not_subscribed'') (SubscribeReservation r)] @
       [Button (tr E ''prefs_reservations_edit_button'') (EditReservation r),
        Button (tr E ''prefs_reservations_delete_button'') (RemoveReservation r)])"

definition ReservationsTable :: "page_env \<Rightarrow> config \<Rightarrow> subscription list \<Rightarrow> reservation list \<Rightarrow> settings_action widget" where
  "ReservationsTable E cfg ss rs =
     Box ([Label (tr E ''prefs_reservations_table_topic_header''), Label (tr E ''prefs_reservations_table_access_header'')] @
       map (reservation_cells E cfg ss) rs)"

definition Reservations ::
  "page_env \<Rightarrow> config \<Rightarrow> 'kv session \<Rightarrow> settings_account option \<Rightarrow> subscription list \<Rightarrow> settings_action widget list" where
  "Reservations E cfg ses account ss =
     (case account of
        None \<Rightarrow> []
      | Some a \<Rightarrow>
          if \<not> enable_reservations cfg \<or> \<not> session_exists ses then []
          else let rs = coalesce (sa_reservations a) []; limitReached = reservations_limitReached (sa_role a) (sa_remaining a)
               in [Label (tr E ''prefs_reservations_title''), Label (tr E ''prefs_reservations_description'')] @
                  shown_if (length rs > 0) [ReservationsTable E cfg ss rs] @
                  shown_if limitReached [Notice ''info'' (tr E ''prefs_reservations_limit_reached'')] @
                  [button_if (\<not> limitReached) (tr E ''prefs_reservations_add_button'') AddReservation])"

subsection \<open>The page\<close>

text \<open>What the page reads besides the database.\<close>

record settings_env =
  se_cfg :: config
  se_isLaunchedPWA :: bool
  se_pushPossible :: bool
  se_lang_name :: "string \<Rightarrow> string"
  se_lang :: "string option"
  se_account :: "settings_account option"
  se_subscriptions :: "subscription list"
  se_users :: "user list"

definition Preferences ::
  "page_env \<Rightarrow> settings_env \<Rightarrow> 'kv session \<Rightarrow> 'p pref_ops \<Rightarrow> 'p \<Rightarrow> app_error + settings_action widget list" where
  "Preferences E S ses P ps =
     (case Notifications E (se_cfg S) (se_isLaunchedPWA S) (se_pushPossible S) P ps of
        Inl e \<Rightarrow> Inl e
      | Inr ws \<Rightarrow>
          Inr [Box ws, Box (Reservations E (se_cfg S) ses (se_account S) (se_subscriptions S)),
               Box (Users E (se_cfg S) ses (se_users S)), Box (Appearance E (se_lang_name S) (se_lang S) P ps)])"

text \<open>
  What app/i18n.js asks of the translation library. \<open>resolve\<close> is the library's \<open>resolvedLanguage\<close> after
  \<open>changeLanguage\<close>, as documented: a language that is supported is taken, and all others are not.
\<close>

record i18n_options =
  i18_lng :: string
  i18_fallbackLng :: string
  i18_supportedLngs :: "string list"
  i18_loadPath :: string

definition initI18n :: i18n_options where
  "initI18n = \<lparr>i18_lng = ''en'', i18_fallbackLng = ''en'', i18_supportedLngs = [''en''], i18_loadPath = ''/static/langs/{{lng}}.json''\<rparr>"

definition resolves_supported :: "(i18n_options \<Rightarrow> string \<Rightarrow> string) \<Rightarrow> bool" where
  "resolves_supported resolve \<longleftrightarrow>
     (\<forall>opts l. resolve opts l \<in> insert (i18_fallbackLng opts) (set (i18_supportedLngs opts)) \<and>
        (l \<in> set (i18_supportedLngs opts) \<longrightarrow> resolve opts l = l))"

definition resolve_or_fall_back :: "i18n_options \<Rightarrow> string \<Rightarrow> string" where
  "resolve_or_fall_back opts l = (if l \<in> set (i18_supportedLngs opts) then l else i18_fallbackLng opts)"

lemma resolve_or_fall_back: "resolves_supported resolve_or_fall_back"
  by (simp add: resolves_supported_def resolve_or_fall_back_def)

lemma only_english: "resolves_supported resolve \<Longrightarrow> resolve initI18n l = ''en''"
  by (auto simp: resolves_supported_def initI18n_def dest!: spec [of _ initI18n] spec [of _ l])

text \<open>A choice: the language it asks for, the database, the session and the requests after its handler.\<close>

fun make_choice where
  "make_choice T srv cfg fresh (ChooseSound v) lang d ses log =
     (let (d', ses', log') = sound_handleChange T srv cfg fresh v ses d log in (lang, d', ses', log'))"
| "make_choice T srv cfg fresh (ChooseMinPriority v) lang d ses log =
     (let (d', ses', log') = minPriority_handleChange T srv cfg fresh v ses d log in (lang, d', ses', log'))"
| "make_choice T srv cfg fresh (ChooseDeleteAfter v) lang d ses log =
     (let (d', ses', log') = deleteAfter_handleChange T srv cfg fresh v ses d log in (lang, d', ses', log'))"
| "make_choice T srv cfg fresh (ChooseWebPush v) lang d ses log = (lang, webPush_handleChange T v d, ses, log)"
| "make_choice T srv cfg fresh (ChooseTheme v) lang d ses log = (lang, theme_handleChange T v d, ses, log)"
| "make_choice T srv cfg fresh (ChooseAccent v) lang d ses log = (lang, handlePresetClick T v d, ses, log)"
| "make_choice T srv cfg fresh (ChooseLanguage v) lang d ses log =
     (let (v', ses', log') = language_handleChange srv cfg fresh v ses log in (Some v', d, ses', log'))"

subsection \<open>Properties\<close>

text \<open>The setting a choice is for.\<close>

fun setting_of :: "settings_action \<Rightarrow> string" where
  "setting_of (Choose (ChooseSound v)) = ''sound''"
| "setting_of (Choose (ChooseMinPriority v)) = ''min_priority''"
| "setting_of (Choose (ChooseDeleteAfter v)) = ''delete_after''"
| "setting_of (Choose (ChooseWebPush v)) = ''web_push''"
| "setting_of (Choose (ChooseTheme v)) = ''theme''"
| "setting_of (Choose (ChooseAccent v)) = ''accent''"
| "setting_of PickAccent = ''accent''"
| "setting_of (Choose (ChooseLanguage v)) = ''language''"
| "setting_of _ = []"

lemma chosen_options [simp]:
  "map (snd \<circ> snd) (filter (fst \<circ> snd) (options act cur vs)) = map (Choose \<circ> act) (filter (\<lambda>k. Some k = cur) (map fst vs))"
  by (induction vs) (auto simp: options_def)

lemma offers_options [simp]: "map (snd \<circ> snd) (options act cur vs) = map (Choose \<circ> act) (map fst vs)"
  by (induction vs) (auto simp: options_def)

lemma filter_chosen: "distinct ks \<Longrightarrow> filter (\<lambda>k. Some k = Some v) ks = (if v \<in> set ks then [v] else [])"
  by (induction ks) auto

text \<open>What is marked as chosen, setting by setting.\<close>

definition mark_groups :: "page_env \<Rightarrow> settings_env \<Rightarrow> 'p pref_ops \<Rightarrow> 'p \<Rightarrow> (string \<times> settings_action list) list" where
  "mark_groups E S P ps =
     [(''sound'', if prefs_sound P ps = [] then []
         else map (Choose \<circ> ChooseSound) (filter (\<lambda>k. Some k = Some (prefs_sound P ps)) (map fst (sound_options E)))),
      (''min_priority'', if prefs_minPriority P ps \<in> {None, Some 0} then []
         else map (Choose \<circ> ChooseMinPriority) (filter (\<lambda>k. Some k = prefs_minPriority P ps) (map fst (minPriority_options E)))),
      (''delete_after'',
         map (Choose \<circ> ChooseDeleteAfter) (filter (\<lambda>k. Some k = prefs_deleteAfter P ps) (map fst (deleteAfter_options E)))),
      (''web_push'', if showWebPush (se_isLaunchedPWA S) (se_pushPossible S) then [Choose (ChooseWebPush (prefs_webPushEnabled P ps))] else []),
      (''theme'', map (Choose \<circ> ChooseTheme) (filter (\<lambda>k. Some k = Some (prefs_theme P ps)) [''light'', ''dark''])),
      (''accent'', map (Choose \<circ> ChooseAccent) (filter (\<lambda>k. Some k = Some (prefs_accentColor P ps)) (map fst (presets E))) @
         (if prefs_accentColor P ps = ''custom'' then [PickAccent] else [])),
      (''language'', map (Choose \<circ> ChooseLanguage) (filter (\<lambda>k. Some k = Some (coalesce (se_lang S) ''en'')) languages))]"

lemma no_marks:
  "page_chosen (Users E cfg ses us) = []" "page_chosen (Reservations E cfg ses account ss) = []"
proof -
  have "page_chosen (map (user_cells E cfg ses) us) = []" for us
    by (induction us) (simp_all add: user_cells_def)
  then show "page_chosen (Users E cfg ses us) = []" by (simp add: Users_def UserTable_def)
  have "page_chosen (map (reservation_cells E cfg ss) rs) = []" for rs
    by (induction rs) (simp_all add: reservation_cells_def split: option.split)
  then show "page_chosen (Reservations E cfg ses account ss) = []"
    by (simp add: Reservations_def ReservationsTable_def Let_def split: option.split)
qed

lemma chosen_sound:
  "Sound E v = Inr ws \<Longrightarrow> page_chosen ws =
     (if v = [] then [] else map (Choose \<circ> ChooseSound) (filter (\<lambda>k. Some k = Some v) (map fst (sound_options E))))"
  by (simp add: Sound_def split: if_splits option.splits prod.splits) (auto simp del: filter.simps)

lemma chosen_minPriority:
  "page_chosen (MinPriority E p) =
     (if p \<in> {None, Some 0} then []
      else map (Choose \<circ> ChooseMinPriority) (filter (\<lambda>k. Some k = p) (map fst (minPriority_options E))))"
  by (cases p) (simp_all add: MinPriority_def case_prod_beta Let_def)

lemma chosen_settings:
  "chosen (DeleteAfter E s) = map (Choose \<circ> ChooseDeleteAfter) (filter (\<lambda>k. Some k = s) (map fst (deleteAfter_options E)))"
  "chosen (WebPushEnabled E cfg b) = [Choose (ChooseWebPush b)]"
  "chosen (Theme E t) = map (Choose \<circ> ChooseTheme) (filter (\<lambda>k. Some k = Some t) [''light'', ''dark''])"
  "chosen (AccentColor E a c) =
     map (Choose \<circ> ChooseAccent) (filter (\<lambda>k. Some k = Some a) (map fst (presets E))) @ (if a = ''custom'' then [PickAccent] else [])"
  "chosen (Language E lang_name lang) =
     map (Choose \<circ> ChooseLanguage) (filter (\<lambda>k. Some k = Some (coalesce lang ''en'')) languages)"
  by (simp_all only: DeleteAfter_def WebPushEnabled_def Theme_def AccentColor_def Language_def Let_def chosen_parts chosen.simps
      chosen_options filter_append map_append)
    (simp_all add: webPush_options_def comp_def)

lemma page_marks:
  assumes "Preferences E S ses P ps = Inr ws"
  shows "page_chosen ws = concat (map snd (mark_groups E S P ps))"
proof -
  obtain sound where sound: "Sound E (prefs_sound P ps) = Inr sound"
    using assms by (auto simp: Preferences_def Notifications_def split: sum.splits)
  have ws: "ws = [Box ([Label (tr E ''prefs_notifications_title'')] @ sound @ MinPriority E (prefs_minPriority P ps) @
        [DeleteAfter E (prefs_deleteAfter P ps)] @
        shown_if (showWebPush (se_isLaunchedPWA S) (se_pushPossible S)) [WebPushEnabled E (se_cfg S) (prefs_webPushEnabled P ps)]),
      Box (Reservations E (se_cfg S) ses (se_account S) (se_subscriptions S)),
      Box (Users E (se_cfg S) ses (se_users S)), Box (Appearance E (se_lang_name S) (se_lang S) P ps)]"
    using assms sound by (simp add: Preferences_def Notifications_def)
  show ?thesis
    by (simp only: ws Appearance_def chosen_parts chosen.simps(1) no_marks mark_groups_def chosen_sound [OF sound]
        chosen_minPriority chosen_settings append_Nil append_Nil2 append_assoc list.map concat.simps prod.sel)
qed

text \<open>The texts shown for a sound, when it has one.\<close>

lemma known_sound: "v \<in> set (map fst (sound_options E)) \<Longrightarrow> \<exists>ws. Sound E v = Inr ws \<and> v \<noteq> []"
  by (auto simp: Sound_def sound_options_def sounds_def sound_description_def)

text \<open>What a choice writes: the preference of its setting and no other.\<close>

lemma prefs_after_choice:
  assumes "pref_table (PREFS T)" and "make_choice T srv cfg fresh c lang d ses log = (lang', d', ses', log')"
  shows "prefs_sound (PREFS T) (prefs d') = (case c of ChooseSound v \<Rightarrow> v | _ \<Rightarrow> prefs_sound (PREFS T) (prefs d))"
    and "prefs_minPriority (PREFS T) (prefs d') = (case c of ChooseMinPriority v \<Rightarrow> Some v | _ \<Rightarrow> prefs_minPriority (PREFS T) (prefs d))"
    and "prefs_deleteAfter (PREFS T) (prefs d') = (case c of ChooseDeleteAfter v \<Rightarrow> Some v | _ \<Rightarrow> prefs_deleteAfter (PREFS T) (prefs d))"
    and "prefs_webPushEnabled (PREFS T) (prefs d') = (case c of ChooseWebPush v \<Rightarrow> v | _ \<Rightarrow> prefs_webPushEnabled (PREFS T) (prefs d))"
    and "prefs_theme (PREFS T) (prefs d') = (case c of ChooseTheme v \<Rightarrow> v | _ \<Rightarrow> prefs_theme (PREFS T) (prefs d))"
    and "prefs_accentColor (PREFS T) (prefs d') = (case c of ChooseAccent v \<Rightarrow> v | _ \<Rightarrow> prefs_accentColor (PREFS T) (prefs d))"
    and "lang' = (case c of ChooseLanguage v \<Rightarrow> Some v | _ \<Rightarrow> lang)"
proof -
  have "d' = (case c of
      ChooseSound v \<Rightarrow> d\<lparr>prefs := prefs_setSound (PREFS T) v (prefs d)\<rparr>
    | ChooseMinPriority v \<Rightarrow> d\<lparr>prefs := prefs_setMinPriority (PREFS T) v (prefs d)\<rparr>
    | ChooseDeleteAfter v \<Rightarrow> d\<lparr>prefs := prefs_setDeleteAfter (PREFS T) v (prefs d)\<rparr>
    | ChooseWebPush v \<Rightarrow> d\<lparr>prefs := prefs_setWebPushEnabled (PREFS T) v (prefs d)\<rparr>
    | ChooseTheme v \<Rightarrow> d\<lparr>prefs := prefs_setTheme (PREFS T) v (prefs d)\<rparr>
    | ChooseAccent v \<Rightarrow> d\<lparr>prefs := prefs_setAccentColor (PREFS T) v (prefs d)\<rparr>
    | ChooseLanguage v \<Rightarrow> d)" and l: "lang' = (case c of ChooseLanguage v \<Rightarrow> Some v | _ \<Rightarrow> lang)"
    using assms(2)
    by (cases c; simp add: case_prod_beta sound_handleChange_def minPriority_handleChange_def deleteAfter_handleChange_def
        webPush_handleChange_def theme_handleChange_def handlePresetClick_def language_handleChange_def)+
  then show "prefs_sound (PREFS T) (prefs d') = (case c of ChooseSound v \<Rightarrow> v | _ \<Rightarrow> prefs_sound (PREFS T) (prefs d))"
    "prefs_minPriority (PREFS T) (prefs d') = (case c of ChooseMinPriority v \<Rightarrow> Some v | _ \<Rightarrow> prefs_minPriority (PREFS T) (prefs d))"
    "prefs_deleteAfter (PREFS T) (prefs d') = (case c of ChooseDeleteAfter v \<Rightarrow> Some v | _ \<Rightarrow> prefs_deleteAfter (PREFS T) (prefs d))"
    "prefs_webPushEnabled (PREFS T) (prefs d') = (case c of ChooseWebPush v \<Rightarrow> v | _ \<Rightarrow> prefs_webPushEnabled (PREFS T) (prefs d))"
    "prefs_theme (PREFS T) (prefs d') = (case c of ChooseTheme v \<Rightarrow> v | _ \<Rightarrow> prefs_theme (PREFS T) (prefs d))"
    "prefs_accentColor (PREFS T) (prefs d') = (case c of ChooseAccent v \<Rightarrow> v | _ \<Rightarrow> prefs_accentColor (PREFS T) (prefs d))"
    "lang' = (case c of ChooseLanguage v \<Rightarrow> Some v | _ \<Rightarrow> lang)"
    using pref_table.pref_get_put [OF assms(1)] l
    by (cases c; simp add: prefs_set_defs prefs_get_defs prefs_theme_def prefs_accentColor_def prefs_webPushEnabled_def
        pref_text_def pref_number_def js_number_int_str pref_truthy_def)+
qed

lemma filter_groups:
  assumes "list_all (\<lambda>(k, as). list_all (\<lambda>a. f a = k) as) gs"
  shows "filter (\<lambda>a. f a = k) (concat (map snd gs)) = concat (map snd (filter (\<lambda>g. fst g = k) gs))"
    and "filter (\<lambda>a. f a \<noteq> k) (concat (map snd gs)) = concat (map snd (filter (\<lambda>g. fst g \<noteq> k) gs))"
proof -
  have "list_all (\<lambda>a. f a = j) as \<Longrightarrow> filter (\<lambda>a. f a = k) as = (if j = k then as else []) \<and>
      filter (\<lambda>a. f a \<noteq> k) as = (if j = k then [] else as)" for j as
    by (induction as) auto
  then show "filter (\<lambda>a. f a = k) (concat (map snd gs)) = concat (map snd (filter (\<lambda>g. fst g = k) gs))"
    "filter (\<lambda>a. f a \<noteq> k) (concat (map snd gs)) = concat (map snd (filter (\<lambda>g. fst g \<noteq> k) gs))"
    using assms by (induction gs) auto
qed

lemma groups_are_settings: "list_all (\<lambda>(k, as). list_all (\<lambda>a. setting_of a = k) as) (mark_groups E S P ps)"
  by (auto simp: mark_groups_def list_all_iff)

text \<open>A choice that the page offers is one of the options of its setting.\<close>

definition option_keys :: "page_env \<Rightarrow> choice \<Rightarrow> bool" where
  "option_keys E c =
     (case c of
        ChooseSound v \<Rightarrow> v \<in> set (map fst (sound_options E))
      | ChooseMinPriority v \<Rightarrow> v \<in> set (map fst (minPriority_options E))
      | ChooseDeleteAfter v \<Rightarrow> v \<in> set (map fst (deleteAfter_options E))
      | ChooseWebPush v \<Rightarrow> True
      | ChooseTheme v \<Rightarrow> v \<in> {''light'', ''dark''}
      | ChooseAccent v \<Rightarrow> v \<in> set (map fst (presets E))
      | ChooseLanguage v \<Rightarrow> v \<in> set languages)"

lemma no_choices:
  "Choose c \<notin> set (page_offers (Users E cfg ses us))" "Choose c \<notin> set (page_offers (Reservations E cfg ses account ss))"
proof -
  have "Choose c \<notin> set (page_offers (map (user_cells E cfg ses) us))" for us
    by (induction us) (simp_all add: user_cells_def)
  then show "Choose c \<notin> set (page_offers (Users E cfg ses us))" by (simp add: Users_def UserTable_def)
  have "Choose c \<notin> set (page_offers (map (reservation_cells E cfg ss) rs))" for rs
    by (induction rs) (simp_all add: reservation_cells_def split: option.split)
  then show "Choose c \<notin> set (page_offers (Reservations E cfg ses account ss))"
    by (simp add: Reservations_def ReservationsTable_def Let_def split: option.split)
qed

lemma distinct_keys:
  "distinct (map fst (sound_options E))" "distinct (map fst (deleteAfter_options E))" "distinct languages"
  by (simp_all add: sound_options_def sounds_def deleteAfter_options_def languages_def)

lemma filter_key:
  "distinct ks \<Longrightarrow> v \<in> set ks \<Longrightarrow> filter (\<lambda>k. k = v) ks = [v]"
  "distinct (map fst os) \<Longrightarrow> (v, b) \<in> set os \<Longrightarrow> filter (\<lambda>k. k = v) (map fst os) = [v]"
proof -
  show *: "distinct ks \<Longrightarrow> v \<in> set ks \<Longrightarrow> filter (\<lambda>k. k = v) ks = [v]" for ks
    by (induction ks) (auto simp: filter_empty_conv)
  show "distinct (map fst os) \<Longrightarrow> (v, b) \<in> set os \<Longrightarrow> filter (\<lambda>k. k = v) (map fst os) = [v]"
    by (rule *) (auto intro: rev_image_eqI)
qed

lemma no_empty_sound: "([], b) \<notin> set (sound_options E)"
  by (simp add: sound_options_def sounds_def)

lemma in_options: "(l, m, Choose c) \<in> set (options act cur vs) \<Longrightarrow> \<exists>v. v \<in> fst ` set vs \<and> c = act v"
  by (force simp: options_def)

lemma offered_options:
  "Sound E v = Inr ws \<Longrightarrow> Choose c \<in> set (page_offers ws) \<Longrightarrow> option_keys E c \<and> setting_of (Choose c) = ''sound''"
  "Choose c \<in> set (page_offers (MinPriority E p)) \<Longrightarrow> option_keys E c \<and> setting_of (Choose c) = ''min_priority''"
  "Choose c \<in> set (offers (DeleteAfter E s)) \<Longrightarrow> option_keys E c \<and> setting_of (Choose c) = ''delete_after''"
  "Choose c \<in> set (offers (WebPushEnabled E cfg b)) \<Longrightarrow> option_keys E c \<and> setting_of (Choose c) = ''web_push''"
  "Choose c \<in> set (offers (Theme E t)) \<Longrightarrow> option_keys E c \<and> setting_of (Choose c) = ''theme''"
  "Choose c \<in> set (offers (AccentColor E a cc)) \<Longrightarrow> option_keys E c \<and> setting_of (Choose c) = ''accent''"
  "Choose c \<in> set (offers (Language E lang_name lang)) \<Longrightarrow> option_keys E c \<and> setting_of (Choose c) = ''language''"
  by (auto simp: Sound_def MinPriority_def DeleteAfter_def WebPushEnabled_def Theme_def AccentColor_def Language_def Let_def
      option_keys_def case_prod_beta dest!: in_options split: if_splits option.splits)
    (force intro: rev_image_eqI)+

lemma page_choices:
  assumes "Preferences E S ses P ps = Inr ws" and "Choose c \<in> set (page_offers ws)"
  shows "option_keys E c" "setting_of (Choose c) = ''web_push'' \<Longrightarrow> showWebPush (se_isLaunchedPWA S) (se_pushPossible S)"
proof -
  obtain sound where sound: "Sound E (prefs_sound P ps) = Inr sound"
    using assms(1) by (auto simp: Preferences_def Notifications_def split: sum.splits)
  have "Choose c \<in> set (page_offers sound) \<or> Choose c \<in> set (page_offers (MinPriority E (prefs_minPriority P ps))) \<or>
      Choose c \<in> set (offers (DeleteAfter E (prefs_deleteAfter P ps))) \<or>
      showWebPush (se_isLaunchedPWA S) (se_pushPossible S) \<and>
        Choose c \<in> set (offers (WebPushEnabled E (se_cfg S) (prefs_webPushEnabled P ps))) \<or>
      Choose c \<in> set (offers (Theme E (prefs_theme P ps))) \<or>
      Choose c \<in> set (offers (AccentColor E (prefs_accentColor P ps) (prefs_customAccentColor P ps))) \<or>
      Choose c \<in> set (offers (Language E (se_lang_name S) (se_lang S)))"
    using assms sound by (auto simp: Preferences_def Notifications_def Appearance_def no_choices)
  then show "option_keys E c" "setting_of (Choose c) = ''web_push'' \<Longrightarrow> showWebPush (se_isLaunchedPWA S) (se_pushPossible S)"
    using offered_options sound by fastforce+
qed

text \<open>
  C34: Every choice the settings page offers is shown as chosen as soon as it has been made: the page with
  the new preferences marks it, and it only, for its setting, whatever the server answers to the account's
  update, and marks the same as before for every other setting; the page stays displayable. Only
  the language is an exception: the page offers thirty languages, the translation library is set up for
  English alone, and English stays marked whatever is chosen.
\<close>

theorem settings_choice_shown:
  assumes "pref_table (PREFS T)" and "resolves_supported resolve" and "se_lang S = map_option (resolve initI18n) lang"
    and "Preferences E S ses (PREFS T) (prefs d) = Inr ws" and "Choose c \<in> set (page_offers ws)"
    and "make_choice T srv (se_cfg S) fresh c lang d ses log = (lang', d', ses', log')"
  shows "\<exists>ws'. Preferences E (S\<lparr>se_lang := map_option (resolve initI18n) lang'\<rparr>) ses' (PREFS T) (prefs d') = Inr ws' \<and>
    filter (\<lambda>a. setting_of a = setting_of (Choose c)) (page_chosen ws') =
      [case c of ChooseLanguage v \<Rightarrow> Choose (ChooseLanguage ''en'') | _ \<Rightarrow> Choose c] \<and>
    filter (\<lambda>a. setting_of a \<noteq> setting_of (Choose c)) (page_chosen ws') =
      filter (\<lambda>a. setting_of a \<noteq> setting_of (Choose c)) (page_chosen ws)"
proof -
  let ?P = "PREFS T" and ?k = "setting_of (Choose c)" and ?S = "S\<lparr>se_lang := map_option (resolve initI18n) lang'\<rparr>"
  let ?marked = "case c of ChooseLanguage v \<Rightarrow> Choose (ChooseLanguage ''en'') | _ \<Rightarrow> Choose c"
  note after = prefs_after_choice [OF assms(1,6)]
  note offered = page_choices [OF assms(4,5)]
  obtain sound where "Sound E (prefs_sound ?P (prefs d)) = Inr sound"
    using assms(4) by (auto simp: Preferences_def Notifications_def split: sum.splits)
  then obtain sound' where "Sound E (prefs_sound ?P (prefs d')) = Inr sound'"
    using known_sound [of _ E] offered(1) by (cases c) (auto simp: after option_keys_def)
  then obtain ws' where ws': "Preferences E ?S ses' ?P (prefs d') = Inr ws'"
    by (simp add: Preferences_def Notifications_def)
  have english: "''en'' \<in> set languages" by (simp add: languages_def)
  have "filter (\<lambda>g. fst g = ?k) (mark_groups E ?S ?P (prefs d')) = [(?k, [?marked])]"
    using offered
    by (cases c) (auto simp: mark_groups_def after option_keys_def filter_key distinct_keys no_empty_sound
        minPriority_options_def presets_def only_english [OF assms(2)] english)
  moreover have "filter (\<lambda>g. fst g \<noteq> ?k) (mark_groups E ?S ?P (prefs d')) = filter (\<lambda>g. fst g \<noteq> ?k) (mark_groups E S ?P (prefs d))"
    by (cases c) (simp_all add: mark_groups_def after assms(3))
  ultimately show ?thesis
    unfolding page_marks [OF assms(4)]
    by (intro exI [of _ ws'] conjI ws')
      (simp_all only: page_marks [OF ws'] filter_groups [OF groups_are_settings] list.map concat.simps snd_conv append_Nil2)
qed

text \<open>The page of a fresh client, and the same page once the dark theme is chosen.\<close>

definition fresh_settings :: settings_env where
  "fresh_settings = \<lparr>se_cfg = plain_config, se_isLaunchedPWA = False, se_pushPossible = False, se_lang_name = (\<lambda>l. l), se_lang = None,
     se_account = None, se_subscriptions = [], se_users = []\<rparr>"

lemma settings_choice_shown_witness:
  "\<exists>ws'. Preferences plain_page fresh_settings \<lparr>local_storage = Map.empty, kv_store = (), href = None\<rparr> (PREFS mem_db_ops)
        (prefs_setTheme (PREFS mem_db_ops) ''dark'' (prefs (mem_db [] []))) = Inr ws' \<and>
      filter (\<lambda>a. setting_of a = ''theme'') (page_chosen ws') = [Choose (ChooseTheme ''dark'')]"
proof -
  let ?ses = "\<lparr>local_storage = Map.empty, kv_store = (), href = None\<rparr>"
  have table: "pref_table (PREFS mem_db_ops)"
    using mem_prefs.pref_table_axioms by (simp add: mem_db_ops_def)
  have "prefs_sound (PREFS mem_db_ops) (prefs (mem_db [] [])) = ''ding''"
    by code_simp
  then obtain ws where ws: "Preferences plain_page fresh_settings ?ses (PREFS mem_db_ops) (prefs (mem_db [] [])) = Inr ws"
    using known_sound [of "''ding''" plain_page]
    by (auto simp: Preferences_def Notifications_def sound_options_def sounds_def)
  have "Choose (ChooseTheme ''dark'') \<in> set (page_offers ws)"
    using ws by (auto simp: Preferences_def Notifications_def Appearance_def Theme_def options_def split: sum.splits)
  from settings_choice_shown [OF table resolve_or_fall_back _ ws this, where lang = None and srv = "\<lambda>_ _. None" and fresh = "()" and log = "[]"]
  show ?thesis by (auto simp: theme_handleChange_def fresh_settings_def)
qed

end
