(* ===== verification/Navigation_View.thy ===== *)
theory Navigation_View
  imports Action_Bar Connection Widgets
begin

section \<open>What the side bar shows (components/Navigation.jsx)\<close>

text \<open>
  The alerts, the entries and the chats with their previews and badges, read from the database, and what
  a click on a chat does to them. An entry of the list is a choice with one option, which is marked
  when the entry is the current page. \<open>dismissed\<close> holds the keys of the alerts that were closed.
\<close>

datatype nav_action =
    OpenAll
  | OpenChat subscription
  | OpenMenu subscription
  | OpenProfile
  | OpenContacts
  | OpenPage string
  | OpenSubscribe
  | OpenNewGroup
  | OpenUpgrade
  | RequestPermission
  | DismissAlert string
  | ReloadPage

definition ListItemButton :: "string \<Rightarrow> bool \<Rightarrow> nav_action \<Rightarrow> nav_action widget" where
  "ListItemButton label selected act = Select [] [(label, selected, act)]"

subsection \<open>Alerts\<close>

definition closable_alert :: "page_env \<Rightarrow> string list \<Rightarrow> string \<Rightarrow> nav_action widget list \<Rightarrow> nav_action widget list" where
  "closable_alert E dismissed key buttons =
     shown_if (key \<notin> set dismissed) (Notice ''warning'' (tr E key) # buttons @ [Button [] (DismissAlert key)])"

definition NotificationPermissionRequired :: "page_env \<Rightarrow> string list \<Rightarrow> nav_action widget list" where
  "NotificationPermissionRequired E dismissed =
     closable_alert E dismissed ''alert_notification_permission_required_description''
       [Button (tr E ''alert_notification_permission_required_button'') RequestPermission]"

definition NotificationPermissionDeniedAlert :: "page_env \<Rightarrow> string list \<Rightarrow> nav_action widget list" where
  "NotificationPermissionDeniedAlert E dismissed = closable_alert E dismissed ''alert_notification_permission_denied_description'' []"

definition NotificationIOSInstallRequiredAlert :: "page_env \<Rightarrow> string list \<Rightarrow> nav_action widget list" where
  "NotificationIOSInstallRequiredAlert E dismissed = closable_alert E dismissed ''alert_notification_ios_install_required_description'' []"

definition NotificationBrowserNotSupportedAlert :: "page_env \<Rightarrow> string list \<Rightarrow> nav_action widget list" where
  "NotificationBrowserNotSupportedAlert E dismissed = closable_alert E dismissed ''alert_not_supported_description'' []"

definition NotificationContextNotSupportedAlert :: "page_env \<Rightarrow> string list \<Rightarrow> nav_action widget list" where
  "NotificationContextNotSupportedAlert E dismissed = closable_alert E dismissed ''alert_not_supported_context_description'' []"

definition VersionUpdateBanner :: "page_env \<Rightarrow> nav_action widget list" where
  "VersionUpdateBanner E =
     [Notice ''info'' (tr E ''version_update_available_description''), Button (tr E ''common_refresh'') ReloadPage]"

text \<open>The alerts above the entries, in their order.\<close>

definition nav_alert_list :: "page_env \<Rightarrow> string list \<Rightarrow> bool \<Rightarrow> nav_alerts \<Rightarrow> nav_action widget list" where
  "nav_alert_list E dismissed versionChanged na =
     shown_if versionChanged (VersionUpdateBanner E) @
     shown_if (na_permissionRequired na) (NotificationPermissionRequired E dismissed) @
     shown_if (na_permissionDenied na) (NotificationPermissionDeniedAlert E dismissed) @
     shown_if (na_browserNotSupported na) (NotificationBrowserNotSupportedAlert E dismissed) @
     shown_if (na_contextNotSupported na) (NotificationContextNotSupportedAlert E dismissed) @
     shown_if (na_iosInstall na) (NotificationIOSInstallRequiredAlert E dismissed)"

subsection \<open>The chats\<close>

text \<open>The newest message of a chat; its time orders the chats, and it is the preview of its entry.\<close>

definition last_message ::
  "('s, 'n, 'p, 'u) db_ops \<Rightarrow> ('s, 'n, 'p, 'u) db \<Rightarrow> string \<Rightarrow> notification option" where
  "last_message T d sid =
     (case filter (\<lambda>n. n_event n = ''message'') (sm_getNotifications T d sid) of [] \<Rightarrow> None | m # _ \<Rightarrow> Some m)"

definition SubscriptionItem ::
  "page_env \<Rightarrow> config \<Rightarrow> bool \<Rightarrow> subscription \<Rightarrow> nat \<Rightarrow> notification option \<Rightarrow> nav_action widget" where
  "SubscriptionItem E cfg selected s unread lastN =
     Box (
       [ListItemButton (item_label (tr E) cfg (s_state s = Some StateConnecting) s) selected (OpenChat s),
        Label (topicDisplayName cfg s)] @
       (case lastN of Some n \<Rightarrow> [Label (pe_date_time E (n_time n))] | None \<Rightarrow> []) @
       (case unreadCount unread of Some unreadText \<Rightarrow> [Notice ''unread'' unreadText] | None \<Rightarrow> []) @
       (case item_preview lastN of Some preview \<Rightarrow> [Label preview] | None \<Rightarrow> []) @
       shown_if (item_muted s) [Label (tr E ''nav_button_muted'')] @
       [Button (tr E ''nav_button_chat_options'') (OpenMenu s)])"

text \<open>The rows that the list is made of: the visible chats in their order, each with its number of unread messages.\<close>

definition chat_entries ::
  "('s, 'n, 'p, 'u) db_ops \<Rightarrow> ('s, 'n, 'p, 'u) db \<Rightarrow> (subscription \<times> nat) list" where
  "chat_entries T d =
     (let filteredSubscriptions = withoutInternal (sm_all T d); times = (\<lambda>sid. Some (lastMessageTime T d sid))
      in js_sort (\<lambda>a b. compareSubscriptions times (fst a) (fst b)) filteredSubscriptions)"

definition SubscriptionList ::
  "page_env \<Rightarrow> config \<Rightarrow> ('s, 'n, 'p, 'u) db_ops \<Rightarrow> ('s, 'n, 'p, 'u) db \<Rightarrow> subscription option \<Rightarrow> nav_action widget list" where
  "SubscriptionList E cfg T d selectedSubscription =
     map (\<lambda>(s, unread). SubscriptionItem E cfg (map_option s_id selectedSubscription = Some (s_id s)) s unread
         (last_message T d (s_id s)))
       (chat_entries T d)"

subsection \<open>The list\<close>

definition UpgradeBanner :: "page_env \<Rightarrow> nav_action widget list" where
  "UpgradeBanner E =
     [ListItemButton (tr E ''nav_upgrade_banner_label'') False OpenUpgrade, Label (tr E ''nav_upgrade_banner_description'')]"

text \<open>\<open>pathname\<close> is the address; \<open>paid\<close> is the account's \<open>billing.subscription\<close>.\<close>

definition NavList ::
  "page_env \<Rightarrow> config \<Rightarrow> string list \<Rightarrow> bool \<Rightarrow> nav_alerts \<Rightarrow> 'kv session \<Rightarrow> string \<Rightarrow> string option \<Rightarrow> bool \<Rightarrow>
     ('s, 'n, 'p, 'u) db_ops \<Rightarrow> ('s, 'n, 'p, 'u) db \<Rightarrow> subscription option \<Rightarrow> nav_action widget list" where
  "NavList E cfg dismissed versionChanged na ses pathname role paid T d selectedSubscription =
     (let showSubscriptionsList = (withoutInternal (sm_all T d) \<noteq> []);
          home = ListItemButton (tr E ''nav_button_all_notifications'') (pathname = app_root cfg) OpenAll;
          page = (\<lambda>label path. ListItemButton label (pathname = path) (OpenPage path))
      in nav_alert_list E dismissed versionChanged na @
         (if showSubscriptionsList
          then Label (tr E ''nav_topics_title'') # home # SubscriptionList E cfg T d selectedSubscription
          else [home]) @
         shown_if (session_exists ses)
           [ListItemButton (tr E ''nav_button_my_profile'') False OpenProfile,
            ListItemButton (tr E ''nav_button_contacts'') False OpenContacts] @
         shown_if (role = Some ''admin'') [page ''Admin'' ''/admin''] @
         [page (tr E ''nav_button_settings'') ''/settings'', page (tr E ''nav_button_documentation'') ''/docs'',
          Button (tr E ''nav_button_subscribe'') OpenSubscribe] @
         shown_if (session_exists ses) [Button (tr E ''nav_button_new_group'') OpenNewGroup] @
         shown_if (showUpgradeBanner cfg role paid) (UpgradeBanner E))"

subsection \<open>Properties\<close>

context coop_db begin

text \<open>Marking a chat read changes the read flag of its messages, in place.\<close>

lemma messages_marked:
  "sm_getNotifications T (sm_markNotificationsRead T sid d) sid' =
     map (\<lambda>n. if in_sub sid n \<and> is_new n then set_new 0 n else n) (sm_getNotifications T d sid')"
proof -
  have "filter (in_sub sid') (map (\<lambda>n. if in_sub sid n \<and> is_new n then set_new 0 n else n) xs) =
      map (\<lambda>n. if in_sub sid n \<and> is_new n then set_new 0 n else n) (filter (in_sub sid') xs)" for xs
    by (induction xs) (auto simp: in_sub_def)
  then show ?thesis
    by (simp add: sm_getNotifications_def sm_markNotificationsRead_def notifs.order_by_modify_where rev_map)
qed

lemma last_message_marked:
  "last_message T (sm_markNotificationsRead T sid d) sid' =
     map_option (\<lambda>n. if in_sub sid n \<and> is_new n then set_new 0 n else n) (last_message T d sid')"
proof -
  have "filter (\<lambda>n. n_event n = e) (map (\<lambda>n. if in_sub sid n \<and> is_new n then set_new 0 n else n) xs) =
      map (\<lambda>n. if in_sub sid n \<and> is_new n then set_new 0 n else n) (filter (\<lambda>n. n_event n = e) xs)" for e xs
    by (induction xs) (auto simp: set_new_def)
  then show ?thesis by (simp add: last_message_def messages_marked split: list.split)
qed

lemma last_time_marked: "lastMessageTime T (sm_markNotificationsRead T sid d) sid' = lastMessageTime T d sid'"
  using last_message_marked [of sid d sid']
  by (auto simp: lastMessageTime_def last_message_def set_new_def split: list.splits if_splits)

lemma rows_marked:
  "sm_all T (sm_markNotificationsRead T sid d) = map (\<lambda>(s, k). (s, if s_id s = sid then 0 else k)) (sm_all T d)"
  by (simp add: sm_all_def unread_after_mark unread_other_sub)

lemma entries_marked:
  "chat_entries T (sm_markNotificationsRead T sid d) =
     map (\<lambda>(s, k). (s, if s_id s = sid then 0 else k)) (chat_entries T d)"
proof -
  have "withoutInternal (map (\<lambda>(s, k). (s, if s_id s = sid then 0 else k)) xs) =
      map (\<lambda>(s, k). (s, if s_id s = sid then 0 else k)) (withoutInternal xs)" for xs
    by (induction xs) (auto simp: withoutInternal_def)
  then show ?thesis
    by (simp add: chat_entries_def Let_def rows_marked last_time_marked case_prod_beta js_sort_map)
qed

lemma distinct_entry_ids: "distinct (map (s_id \<circ> fst) (withoutInternal (sm_all T d)))"
proof -
  have "distinct (map (s_id \<circ> fst) (sm_all T d))"
    using subs.sorted_to_array strict_sorted_iff by (auto simp: sm_all_def comp_def)
  then show ?thesis unfolding withoutInternal_def by (rule distinct_map_filter)
qed

end

lemma item_of_marked:
  "SubscriptionItem E cfg sel s k (map_option (\<lambda>n. if P n then set_new 0 n else n) m) = SubscriptionItem E cfg sel s k m"
  by (cases m) (simp_all add: SubscriptionItem_def item_preview_def set_new_def)

lemma sum_without_one:
  fixes xs :: "(subscription \<times> nat) list"
  shows "distinct (map (s_id \<circ> fst) xs) \<Longrightarrow> (s, k) \<in> set xs \<Longrightarrow>
     sum_list (map (\<lambda>(x, j). if s_id x = s_id s then 0 else j) xs) + k = sum_list (map snd xs)"
proof (induction xs)
  case (Cons a xs)
  have absent: "sum_list (map (\<lambda>(x, j). if s_id x = i then 0 else j) ys) = sum_list (map snd ys)"
    if "i \<notin> (s_id \<circ> fst) ` set ys" for i and ys :: "(subscription \<times> nat) list"
    using that by (induction ys) auto
  show ?case
  proof (cases "a = (s, k)")
    case True
    then show ?thesis using Cons.prems(1) absent [of "s_id s" xs] by simp
  next
    case False
    then have "(s, k) \<in> set xs" "s_id (fst a) \<noteq> s_id s" using Cons.prems by force+
    then show ?thesis using Cons by (simp add: case_prod_beta)
  qed
qed simp

text \<open>
  Choosing a chat in the side bar opens its address and takes the badge off its entry: every other
  entry, the order of the chats and all previews stay as they were, and the unread count in the
  title falls by what the badge counted.
\<close>

theorem chat_opened:
  assumes "coop_db T" and "(s, k) \<in> set (chat_entries T d)" and "item_click T cfg innerWidth s d = (path, d', closed)"
  shows "path = forSubscription cfg s \<and>
    SubscriptionList E cfg T d' sel =
      map (\<lambda>(x, j). SubscriptionItem E cfg (map_option s_id sel = Some (s_id x)) x (if s_id x = s_id s then 0 else j)
          (last_message T d (s_id x)))
        (chat_entries T d) \<and>
    newNotificationsCount (Some (sm_all T d')) + k = newNotificationsCount (Some (sm_all T d))"
proof -
  have d': "path = forSubscription cfg s" "d' = sm_markNotificationsRead T (s_id s) d"
    using assms(3) by (simp_all add: item_click_def)
  have "(s, k) \<in> set (withoutInternal (sm_all T d))"
    using assms(2) by (simp add: chat_entries_def Let_def)
  note sum = sum_without_one [OF coop_db.distinct_entry_ids [OF assms(1)] this]
  have "sum_list (map snd (withoutInternal (map (\<lambda>(x, j). (x, if s_id x = i then 0 else j)) xs))) =
      sum_list (map (\<lambda>(x, j). if s_id x = i then 0 else j) (withoutInternal xs))" for i xs
    by (induction xs) (auto simp: withoutInternal_def)
  then show ?thesis
    using sum
    by (simp add: d' newNotificationsCount_sum coop_db.rows_marked [OF assms(1)] SubscriptionList_def
        coop_db.entries_marked [OF assms(1)] coop_db.last_message_marked [OF assms(1)] item_of_marked case_prod_beta)
qed

lemma chat_opened_witness:
  "let s = new_subscription ''https://c'' ''a'' no_opts;
       d = mem_db [s] [stored_row ''https://c/a'' 1 (plain_message ''m1'' 10 EVENT_MESSAGE)];
       d' = fst (snd (item_click mem_db_ops plain_config 1000 s d))
   in chat_entries mem_db_ops d = [(s, 1)] \<and>
      SubscriptionList plain_page plain_config mem_db_ops d' None =
        [SubscriptionItem plain_page plain_config False s 0 (last_message mem_db_ops d ''https://c/a'')]"
proof -
  let ?s = "new_subscription ''https://c'' ''a'' no_opts"
  let ?d = "mem_db [?s] [stored_row ''https://c/a'' 1 (plain_message ''m1'' 10 EVENT_MESSAGE)]"
  have e: "chat_entries mem_db_ops ?d = [(?s, 1)]" by code_simp
  obtain path d' closed where c: "item_click mem_db_ops plain_config 1000 ?s ?d = (path, d', closed)"
    using prod_cases3 by blast
  have "(?s, 1) \<in> set (chat_entries mem_db_ops ?d)" unfolding e by simp
  from chat_opened [OF coop_db_mem this c, of plain_page None]
  show ?thesis
    unfolding Let_def e c by (simp add: new_subscription_def topicUrl_def)
qed

end
