(* ===== verification/Subscribe_View.thy ===== *)
theory Subscribe_View
  imports Dialogs Widgets
begin

section \<open>The dialog that subscribes to a chat (components/SubscribeDialog.jsx)\<close>

text \<open>
  The dialog with its pages to create a chat, to join one and to log in at its server, as a state machine:
  what it shows in a state, and what typing and clicking do to it. A page that is shown anew starts with
  fresh fields of its own; the topic and the name belong to the dialog.
\<close>

record subscribe_dialog =
  sd_topic :: string
  sd_displayName :: string
  sd_showLoginPage :: bool
  sd_joins :: bool
  sd_error :: string
  sd_showChatId :: bool
  sd_showJoinRequest :: bool
  sd_joinRequestSent :: bool
  sd_joinRequestError :: string
  sd_username :: string
  sd_password :: string

datatype subscribe_action =
    SwitchToCreate
  | SwitchToJoin
  | ToggleChatId
  | GenerateTopic
  | CancelSubscribe
  | ClickSubscribe
  | ClickJoin
  | SendJoinRequest
  | BackFromLogin
  | ClickLogin

text \<open>A page is mounted: its own state is fresh, and its first effect runs.\<close>

definition mount_page :: "(nat \<Rightarrow> nat) \<Rightarrow> subscribe_dialog \<Rightarrow> subscribe_dialog" where
  "mount_page rnd d =
     d\<lparr>sd_error := [], sd_showChatId := False, sd_showJoinRequest := False, sd_joinRequestSent := False,
       sd_joinRequestError := [], sd_username := [], sd_password := [],
       sd_topic := (if sd_showLoginPage d then sd_topic d
         else if sd_joins d then join_topic (sd_topic d) else create_topic rnd (sd_topic d))\<rparr>"

definition new_subscribe_dialog :: "(nat \<Rightarrow> nat) \<Rightarrow> subscribe_dialog" where
  "new_subscribe_dialog rnd = mount_page rnd
     \<lparr>sd_topic = [], sd_displayName = [], sd_showLoginPage = False, sd_joins = False, sd_error = [], sd_showChatId = False,
      sd_showJoinRequest = False, sd_joinRequestSent = False, sd_joinRequestError = [], sd_username = [], sd_password = []\<rparr>"

subsection \<open>What is shown\<close>

definition DialogTabs :: "page_env \<Rightarrow> bool \<Rightarrow> subscribe_action widget" where
  "DialogTabs E joins =
     Select [] [(tr E ''subscribe_dialog_tab_create'', \<not> joins, SwitchToCreate), (tr E ''subscribe_dialog_tab_join'', joins, SwitchToJoin)]"

definition CreateChatPage :: "page_env \<Rightarrow> config \<Rightarrow> subscription list \<Rightarrow> subscribe_dialog \<Rightarrow> subscribe_action widget list" where
  "CreateChatPage E cfg ss d =
     [DialogTabs E False,
      Label (tr E ''subscribe_dialog_create_description''),
      Input (tr E ''subscribe_dialog_chat_name_label'') (sd_displayName d),
      Button (tr E ''subscribe_dialog_chat_id_label'') ToggleChatId] @
     shown_if (sd_showChatId d)
       [Input (tr E ''subscribe_dialog_chat_id_label'') (sd_topic d),
        Button (tr E ''subscribe_dialog_subscribe_button_generate_topic_name'') GenerateTopic] @
     [DialogFooter (sd_error d)
        [Button (tr E ''subscribe_dialog_subscribe_button_cancel'') CancelSubscribe,
         button_if (subscribeButtonEnabled cfg ss (sd_topic d)) (tr E ''subscribe_dialog_subscribe_button_subscribe'') ClickSubscribe]]"

text \<open>The button to join is enabled as the one to create (\<open>joinButtonEnabled\<close> is the same expression).\<close>

definition JoinChatPage :: "page_env \<Rightarrow> config \<Rightarrow> subscription list \<Rightarrow> subscribe_dialog \<Rightarrow> subscribe_action widget list" where
  "JoinChatPage E cfg ss d =
     [DialogTabs E True,
      Label (tr E ''subscribe_dialog_join_description''),
      Input (tr E ''subscribe_dialog_chat_id_label'') (sd_topic d),
      Input (tr E ''subscribe_dialog_chat_name_label'' @ '' ('' @ tr E ''subscribe_dialog_join_optional'' @ '')'') (sd_displayName d)] @
     shown_if (sd_showJoinRequest d)
       (if sd_joinRequestSent d then [Notice ''success'' (tr E ''subscribe_dialog_join_request_sent'')]
        else Notice ''info'' (tr E ''subscribe_dialog_join_request_info'') #
          shown_if (sd_joinRequestError d \<noteq> []) [Notice ''error'' (sd_joinRequestError d)] @
          [Button (tr E ''subscribe_dialog_join_request_button'') SendJoinRequest]) @
     [DialogFooter (if sd_showJoinRequest d then [] else sd_error d)
        (Button (tr E ''subscribe_dialog_subscribe_button_cancel'') CancelSubscribe #
         shown_if (\<not> sd_showJoinRequest d)
           [button_if (subscribeButtonEnabled cfg ss (sd_topic d)) (tr E ''subscribe_dialog_join_button'') ClickJoin])]"

definition LoginPage :: "page_env \<Rightarrow> subscribe_dialog \<Rightarrow> subscribe_action widget list" where
  "LoginPage E d =
     [Label (tr E ''subscribe_dialog_login_title''),
      Label (tr E ''subscribe_dialog_login_description''),
      Input (tr E ''subscribe_dialog_login_username_label'') (sd_username d),
      Input (tr E ''subscribe_dialog_login_password_label'') (sd_password d),
      DialogFooter (sd_error d)
        [Button (tr E ''common_back'') BackFromLogin, Button (tr E ''subscribe_dialog_login_button_login'') ClickLogin]]"

definition SubscribeDialog :: "page_env \<Rightarrow> config \<Rightarrow> subscription list \<Rightarrow> subscribe_dialog \<Rightarrow> subscribe_action widget list" where
  "SubscribeDialog E cfg ss d =
     (if sd_showLoginPage d then LoginPage E d
      else if sd_joins d then JoinChatPage E cfg ss d
      else CreateChatPage E cfg ss d)"

subsection \<open>What a click does\<close>

text \<open>
  \<open>Subscribes topic name\<close> is the call of \<open>handleSuccess\<close>; a request that throws is not caught and leaves
  the dialog as it is. The dialog's own base URL is never set, so it is always the home server's.
\<close>

datatype subscribe_outcome = DialogStays subscribe_dialog | Subscribes string string | DialogCancelled

text \<open>The fields: the topic of the page to join forgets the last answer, the other ones are only stored.\<close>

definition type_topic :: "string \<Rightarrow> subscribe_dialog \<Rightarrow> subscribe_dialog" where
  "type_topic v d = (if sd_joins d then d\<lparr>sd_topic := v, sd_showJoinRequest := False, sd_error := []\<rparr> else d\<lparr>sd_topic := v\<rparr>)"

definition after_access ::
  "page_env \<Rightarrow> (nat \<Rightarrow> nat) \<Rightarrow> string \<Rightarrow> access_outcome \<Rightarrow> subscribe_dialog \<Rightarrow> subscribe_outcome" where
  "after_access E rnd username access d =
     (case access of
        AccessGranted \<Rightarrow> Subscribes (sd_topic d) (sd_displayName d)
      | NotAuthorized \<Rightarrow> DialogStays (d\<lparr>sd_error := pe_t E ''subscribe_dialog_error_user_not_authorized'' [(''username'', username)]\<rparr>)
      | NeedsLogin \<Rightarrow> DialogStays (mount_page rnd (d\<lparr>sd_showLoginPage := True\<rparr>))
      | OfferJoinRequest \<Rightarrow> DialogStays (d\<lparr>sd_showJoinRequest := True\<rparr>)
      | AccessThrows e \<Rightarrow> DialogStays d)"

fun subscribe_click ::
  "page_env \<Rightarrow> (nat \<Rightarrow> nat) \<Rightarrow> base64_lib \<Rightarrow> server \<Rightarrow> config \<Rightarrow> 'u user_ops \<Rightarrow> 'kv session \<Rightarrow> subscribe_action \<Rightarrow>
     subscribe_dialog \<Rightarrow> 'u \<Rightarrow> request list \<Rightarrow> (subscribe_outcome \<times> 'u) \<times> request list" where
  "subscribe_click E rnd B srv cfg U ses SwitchToCreate d t log =
     ((DialogStays (if sd_joins d then mount_page rnd (d\<lparr>sd_joins := False, sd_topic := []\<rparr>) else d), t), log)"
| "subscribe_click E rnd B srv cfg U ses SwitchToJoin d t log =
     ((DialogStays (if sd_joins d then d else mount_page rnd (d\<lparr>sd_joins := True, sd_topic := []\<rparr>)), t), log)"
| "subscribe_click E rnd B srv cfg U ses ToggleChatId d t log =
     ((DialogStays (d\<lparr>sd_showChatId := \<not> sd_showChatId d\<rparr>), t), log)"
| "subscribe_click E rnd B srv cfg U ses GenerateTopic d t log =
     ((DialogStays (d\<lparr>sd_topic := randomAlphanumericString rnd 16\<rparr>), t), log)"
| "subscribe_click E rnd B srv cfg U ses CancelSubscribe d t log = ((DialogCancelled, t), log)"
| "subscribe_click E rnd B srv cfg U ses ClickSubscribe d t log =
     (let user = users_get U cfg ses t (base_url cfg);
          (access, log') = create_handleSubscribe B srv cfg (sd_topic d) user log
      in ((after_access E rnd (case user of Some u \<Rightarrow> u_username u | None \<Rightarrow> tr E ''subscribe_dialog_error_user_anonymous'') access d, t), log'))"
| "subscribe_click E rnd B srv cfg U ses ClickJoin d t log =
     (let user = users_get U cfg ses t (base_url cfg);
          (access, log') = join_handleJoin B srv cfg (sd_topic d) user (session_exists ses) log
      in ((after_access E rnd (case user of Some u \<Rightarrow> u_username u | None \<Rightarrow> tr E ''subscribe_dialog_error_user_anonymous'') access
             (d\<lparr>sd_error := [], sd_showJoinRequest := False\<rparr>), t), log'))"
| "subscribe_click E rnd B srv cfg U ses SendJoinRequest d t log =
     (let (answer, log') = handleSendJoinRequest srv cfg (session_token ses) (sd_topic d) (tr E ''subscribe_dialog_join_request_error'') log
      in ((DialogStays (case answer of
              Inl msg \<Rightarrow> d\<lparr>sd_joinRequestError := msg\<rparr>
            | Inr _ \<Rightarrow> d\<lparr>sd_joinRequestError := [], sd_joinRequestSent := True\<rparr>), t), log'))"
| "subscribe_click E rnd B srv cfg U ses BackFromLogin d t log =
     ((DialogStays (mount_page rnd (d\<lparr>sd_showLoginPage := False\<rparr>)), t), log)"
| "subscribe_click E rnd B srv cfg U ses ClickLogin d t log =
     (let ((access, t'), log') = page_handleLogin U B srv cfg ses [] (sd_topic d) (sd_username d) (sd_password d) t log
      in ((after_access E rnd (sd_username d) access d, t'), log'))"

text \<open>The states the user can bring the dialog to.\<close>

inductive dialog_reachable ::
  "page_env \<Rightarrow> base64_lib \<Rightarrow> server \<Rightarrow> config \<Rightarrow> 'u user_ops \<Rightarrow> 'kv session \<Rightarrow> subscription list \<Rightarrow>
     subscribe_dialog \<Rightarrow> 'u \<Rightarrow> request list \<Rightarrow> bool"
  for E B srv cfg U ses ss where
  opened: "dialog_reachable E B srv cfg U ses ss (new_subscribe_dialog rnd) t log"
| typed_topic: "dialog_reachable E B srv cfg U ses ss d t log \<Longrightarrow> \<not> sd_showLoginPage d \<Longrightarrow>
    dialog_reachable E B srv cfg U ses ss (type_topic v d) t log"
| typed_name: "dialog_reachable E B srv cfg U ses ss d t log \<Longrightarrow> \<not> sd_showLoginPage d \<Longrightarrow>
    dialog_reachable E B srv cfg U ses ss (d\<lparr>sd_displayName := v\<rparr>) t log"
| typed_login: "dialog_reachable E B srv cfg U ses ss d t log \<Longrightarrow> sd_showLoginPage d \<Longrightarrow>
    dialog_reachable E B srv cfg U ses ss (d\<lparr>sd_username := v, sd_password := w\<rparr>) t log"
| clicked: "dialog_reachable E B srv cfg U ses ss d t log \<Longrightarrow> a \<in> set (page_offers (SubscribeDialog E cfg ss d)) \<Longrightarrow>
    subscribe_click E rnd B srv cfg U ses a d t log = ((DialogStays d', t'), log') \<Longrightarrow>
    dialog_reachable E B srv cfg U ses ss d' t' log'"

subsection \<open>Properties\<close>

lemma mount_fields [simp]:
  "sd_showLoginPage (mount_page rnd d) = sd_showLoginPage d" "sd_joins (mount_page rnd d) = sd_joins d"
  "sd_showLoginPage d \<Longrightarrow> sd_topic (mount_page rnd d) = sd_topic d"
  by (simp_all add: mount_page_def)

lemma offered_on:
  "set (page_offers (SubscribeDialog E cfg ss d)) =
     (if sd_showLoginPage d then {BackFromLogin, ClickLogin}
      else {SwitchToCreate, SwitchToJoin, CancelSubscribe} \<union>
        (if sd_joins d
         then (if sd_showJoinRequest d then (if sd_joinRequestSent d then {} else {SendJoinRequest})
               else if subscribeButtonEnabled cfg ss (sd_topic d) then {ClickJoin} else {})
         else {ToggleChatId} \<union> (if sd_showChatId d then {GenerateTopic} else {}) \<union>
           (if subscribeButtonEnabled cfg ss (sd_topic d) then {ClickSubscribe} else {})))"
  by (auto simp: SubscribeDialog_def LoginPage_def JoinChatPage_def CreateChatPage_def DialogTabs_def)

lemma after_access_stays:
  "after_access E rnd u access d = DialogStays d' \<Longrightarrow>
     sd_topic d' = sd_topic d \<and> (sd_showLoginPage d' \<longleftrightarrow> sd_showLoginPage d \<or> access = NeedsLogin)"
  by (auto simp: after_access_def split: access_outcome.splits)

lemma access_answers:
  "create_handleSubscribe B srv cfg topic user log = (AccessGranted, log') \<Longrightarrow>
     \<exists>user rs. srv log (auth_request B user (base_url cfg) topic) = Some rs \<and> rs_ok rs \<and> log' = log @ [auth_request B user (base_url cfg) topic]"
  "join_handleJoin B srv cfg topic user l log = (AccessGranted, log') \<Longrightarrow>
     \<exists>user rs. srv log (auth_request B user (base_url cfg) topic) = Some rs \<and> rs_ok rs \<and> log' = log @ [auth_request B user (base_url cfg) topic]"
  "page_handleLogin U B srv cfg ses [] topic n p t log = ((AccessGranted, t'), log') \<Longrightarrow>
     \<exists>user rs. srv log (auth_request B user (base_url cfg) topic) = Some rs \<and> rs_ok rs \<and> log' = log @ [auth_request B user (base_url cfg) topic]"
  by (auto simp: create_handleSubscribe_def join_handleJoin_def page_handleLogin_def api_topicAuth_def io_defs rs_ok_def Let_def
      split: option.splits sum.splits prod.splits if_splits)

lemma login_page_topic:
  assumes "dialog_reachable E B srv cfg U ses ss d t log"
  shows "sd_showLoginPage d \<longrightarrow> subscribeButtonEnabled cfg ss (sd_topic d)"
  using assms
proof (induction rule: dialog_reachable.induct)
  case (opened rnd t log)
  then show ?case by (simp add: new_subscribe_dialog_def)
next
  case (clicked d t log a rnd d' t' log')
  then show ?case
    by (cases a) (auto simp: offered_on Let_def split: if_splits prod.splits sum.splits dest!: after_access_stays)
qed (auto simp: type_topic_def)

text \<open>
  C36: However the dialog is used, it subscribes to a chat only when the last thing it did was to ask the
  home server for access to exactly this chat, and the server granted it; the chat's id is valid
  then and not subscribed yet.
\<close>

theorem subscribed_with_access:
  assumes "dialog_reachable E B srv cfg U ses ss d t log"
    and "a \<in> set (page_offers (SubscribeDialog E cfg ss d))"
    and "subscribe_click E rnd B srv cfg U ses a d t log = ((Subscribes topic name, t'), log')"
  shows "validTopic cfg topic \<and> topicUrl (base_url cfg) topic \<notin> set (map (\<lambda>s. topicUrl (s_baseUrl s) (s_topic s)) ss) \<and>
    (\<exists>user rs. log' = log @ [auth_request B user (base_url cfg) topic] \<and>
      srv log (auth_request B user (base_url cfg) topic) = Some rs \<and> rs_ok rs)"
proof -
  have granted: "access = AccessGranted \<and> topic = sd_topic d \<and> name = sd_displayName d"
    if "after_access E rnd u access d = Subscribes topic name" for u access d
    using that by (auto simp: after_access_def split: access_outcome.splits)
  have "topic = sd_topic d \<and> subscribeButtonEnabled cfg ss topic \<and>
      (\<exists>user rs. srv log (auth_request B user (base_url cfg) topic) = Some rs \<and> rs_ok rs \<and>
        log' = log @ [auth_request B user (base_url cfg) topic])"
    using assms(2,3) login_page_topic [OF assms(1)]
    by (cases a rule: subscribe_action.exhaust)
      (auto simp: offered_on Let_def split: if_splits prod.splits sum.splits dest!: granted dest: access_answers)
  then show ?thesis unfolding subscribeButtonEnabled_def by blast
qed

text \<open>A new chat at a server that grants everything.\<close>

definition sample_chat :: subscribe_dialog where
  "sample_chat = type_topic ''team'' (new_subscribe_dialog (\<lambda>_. 0))"

definition granting :: server where
  "granting log rq = Some \<lparr>rs_status = 200, rs_json = None\<rparr>"

definition plain_base64 :: base64_lib where
  "plain_base64 = \<lparr>b64_encode = id, b64_encode_uri = id\<rparr>"

lemma subscribed_with_access_witness:
  "let ses = \<lparr>local_storage = Map.empty, kv_store = (), href = None\<rparr>;
       r = subscribe_click plain_page (\<lambda>_. 0) plain_base64 granting plain_config (mem_dexie u_baseUrl) ses ClickSubscribe sample_chat [] []
   in fst (fst r) = Subscribes ''team'' [] \<and> validTopic plain_config ''team'' \<and>
      snd r = [auth_request plain_base64 None (base_url plain_config) ''team'']"
proof -
  let ?ses = "\<lparr>local_storage = Map.empty, kv_store = (), href = None\<rparr>"
  let ?c = "subscribe_click plain_page (\<lambda>_. 0) plain_base64 granting plain_config (mem_dexie u_baseUrl) ?ses ClickSubscribe sample_chat [] []"
  have r: "dialog_reachable plain_page plain_base64 granting plain_config (mem_dexie u_baseUrl) ?ses [] sample_chat [] []"
    unfolding sample_chat_def by (rule typed_topic [OF opened]) (simp add: new_subscribe_dialog_def)
  have v: "subscribeButtonEnabled plain_config [] ''team''"
    by code_simp
  have o: "ClickSubscribe \<in> set (page_offers (SubscribeDialog plain_page plain_config [] sample_chat))"
    using v by (simp add: offered_on sample_chat_def type_topic_def new_subscribe_dialog_def)
  have c: "?c = ((Subscribes ''team'' [], []), [auth_request plain_base64 None (base_url plain_config) ''team''])"
    by code_simp
  from subscribed_with_access [OF r o c] show ?thesis
    unfolding Let_def c by simp
qed

text \<open>
  Who has asked to join one chat and then types another one is told, as soon as the server refuses that,
  that the request has been sent, and cannot send it: the page remembers only that some request was.
\<close>

lemma join_request_mistaken:
  assumes "sd_joins d" and "\<not> sd_showLoginPage d" and "sd_joinRequestSent d"
    and "subscribe_click E rnd B srv cfg U ses ClickJoin (type_topic other d) t log = ((DialogStays d', t'), log')"
    and "sd_showJoinRequest d'"
  shows "(''success'', tr E ''subscribe_dialog_join_request_sent'') \<in> set (page_notices (SubscribeDialog E cfg ss d')) \<and>
    SendJoinRequest \<notin> set (page_offers (SubscribeDialog E cfg ss d')) \<and> sd_topic d' = other"
proof -
  have "sd_joinRequestSent d' \<and> sd_joins d' \<and> sd_topic d' = other \<and> \<not> sd_showLoginPage d'"
    using assms by (auto simp: Let_def type_topic_def after_access_def mount_page_def split: prod.splits access_outcome.splits)
  then show ?thesis
    using assms(5) by (simp add: offered_on) (simp add: SubscribeDialog_def JoinChatPage_def page_notices_def shown_if_def)
qed

text \<open>Going back from the login page to join a chat forgets a chat id of the form that is generated.\<close>

lemma back_forgets_topic:
  assumes "sd_joins d" and "length (sd_topic d) = 16" and "list_all (\<lambda>c. word_char c \<and> c \<noteq> CHR ''_'') (sd_topic d)"
    and "subscribe_click E rnd B srv cfg U ses BackFromLogin d t log = ((DialogStays d', t'), log')"
  shows "sd_topic d' = []"
  using assms by (auto simp: mount_page_def join_topic_def)

end
