(* ===== verification/Form_View.thy ===== *)
theory Form_View
  imports Page_Parts Account_View
begin

section \<open>The menu of a chat, its dialogs, and the forms to log in and sign up\<close>

text \<open>
  What components/SubscriptionPopup.jsx, ReserveDialogs.jsx, Login.jsx and Signup.jsx show, and what
  typing into the forms does. The handlers of their buttons are in \<open>Dialogs\<close>.
\<close>

subsection \<open>The menu (SubscriptionPopup.jsx)\<close>

datatype chat_action =
    ShowChatInfo
  | ShareChatId
  | ChangeDisplayName
  | ReserveAdd
  | ReserveEdit
  | ReserveDelete
  | SendTestMessage
  | ClearAll
  | SetMutedUntil int
  | Unsubscribe

definition chip_text :: "page_env \<Rightarrow> limit_chip \<Rightarrow> string list" where
  "chip_text E chip =
     (case chip of NoChip \<Rightarrow> [] | LimitReachedChip \<Rightarrow> [tr E ''action_bar_reservation_limit_reached''] | Dialogs.ProChip \<Rightarrow> [''Coop Pro''])"

text \<open>\<open>account\<close>: the role, the remaining and the allowed reservations.\<close>

definition SubscriptionPopup ::
  "page_env \<Rightarrow> config \<Rightarrow> (string \<times> int \<times> int) option \<Rightarrow> subscription \<Rightarrow> chat_action widget list" where
  "SubscriptionPopup E cfg account s =
     (let rf = reservation_menu cfg s (map_option (fst \<circ> snd) account) in
      [Button (tr E ''action_bar_chat_info'') ShowChatInfo,
       Button (tr E ''action_bar_share_chat_id'') ShareChatId,
       Button (tr E ''action_bar_change_display_name'') ChangeDisplayName] @
      shown_if (rf_add rf) [Button (tr E ''action_bar_reservation_add'') ReserveAdd] @
      shown_if (rf_addDisabled rf)
        (Disabled (tr E ''action_bar_reservation_add'') # map Label (chip_text E (ReserveLimitChip cfg account))) @
      shown_if (rf_edit rf) [Button (tr E ''action_bar_reservation_edit'') ReserveEdit] @
      shown_if (rf_delete rf) [Button (tr E ''action_bar_reservation_delete'') ReserveDelete] @
      [Button (tr E ''action_bar_send_test_notification'') SendTestMessage,
       Button (tr E ''action_bar_clear_notifications'') ClearAll] @
      shown_if (s_mutedUntil s \<noteq> 0) [Button (tr E ''action_bar_unmute_notifications'') (SetMutedUntil 0)] @
      shown_if (s_mutedUntil s = 0) [Button (tr E ''action_bar_mute_notifications'') (SetMutedUntil 1)] @
      [Button (tr E ''action_bar_unsubscribe'') Unsubscribe])"

datatype name_action = ClearName | CancelName | SaveName

definition DisplayNameDialog :: "page_env \<Rightarrow> string \<Rightarrow> string \<Rightarrow> name_action widget list" where
  "DisplayNameDialog E displayName error =
     [Label (tr E ''display_name_dialog_title''),
      Label (tr E ''display_name_dialog_description''),
      Input (tr E ''display_name_dialog_placeholder'') displayName,
      Button [] ClearName,
      DialogFooter error [Button (tr E ''common_cancel'') CancelName, Button (tr E ''common_save'') SaveName]]"

text \<open>The dialog names the user of this session as the one who created the chat.\<close>

datatype info_action = CopyChatId | CloseInfo

definition ChatInfoDialog :: "page_env \<Rightarrow> string option \<Rightarrow> subscription \<Rightarrow> bool \<Rightarrow> info_action widget list" where
  "ChatInfoDialog E own_name s copied =
     [Label (tr E ''chat_info_dialog_title''),
      Label (tr E ''chat_info_dialog_created_by''), Label (coalesce own_name []),
      Label (tr E ''chat_info_dialog_chat_id_label''), Label (s_topic s),
      Button (tr E ''common_copy_to_clipboard'') CopyChatId] @
     shown_if copied [Notice ''success'' (tr E ''chat_info_dialog_copied'')] @
     [Label (tr E ''chat_info_dialog_description''),
      DialogFooter [] [Button (tr E ''chat_info_dialog_close'') CloseInfo]]"

definition chatInfo_handleCopy :: "bool \<Rightarrow> bool \<Rightarrow> subscription \<Rightarrow> page_call list \<times> bool" where
  "chatInfo_handleCopy has_clipboard secure s = (copyToClipboard has_clipboard secure (s_topic s), True)"

subsection \<open>Reservations (ReserveDialogs.jsx)\<close>

datatype reserve_action = ReserveCancel | ReserveSubmit | ChooseEveryone string | ChooseDelete bool

definition everyone_select :: "page_env \<Rightarrow> string \<Rightarrow> reserve_action widget" where
  "everyone_select E everyone =
     Select (tr E ''prefs_reservations_dialog_access_label'') (map (\<lambda>(v, key). (tr E key, v = everyone, ChooseEveryone v)) ReserveTopicSelect)"

definition ReserveAddDialog ::
  "page_env \<Rightarrow> config \<Rightarrow> reservation list \<Rightarrow> string \<Rightarrow> string \<Rightarrow> string \<Rightarrow> string \<Rightarrow> reserve_action widget list" where
  "ReserveAddDialog E cfg rs prop_topic topic everyone error =
     [Label (tr E ''prefs_reservations_dialog_title_add''), Label (tr E ''prefs_reservations_dialog_description'')] @
     shown_if (prop_topic = []) [Input (tr E ''prefs_reservations_dialog_topic_label'') topic] @
     [everyone_select E everyone,
      DialogFooter error
        [Button (tr E ''common_cancel'') ReserveCancel,
         button_if (reserve_submitEnabled cfg rs topic) (tr E ''common_add'') ReserveSubmit]]"

definition ReserveEditDialog :: "page_env \<Rightarrow> string \<Rightarrow> string \<Rightarrow> reserve_action widget list" where
  "ReserveEditDialog E everyone error =
     [Label (tr E ''prefs_reservations_dialog_title_edit''), Label (tr E ''prefs_reservations_dialog_description''),
      everyone_select E everyone,
      DialogFooter error [Button (tr E ''common_cancel'') ReserveCancel, Button (tr E ''common_save'') ReserveSubmit]]"

definition ReserveDeleteDialog :: "page_env \<Rightarrow> bool \<Rightarrow> string \<Rightarrow> reserve_action widget list" where
  "ReserveDeleteDialog E deleteMessages error =
     [Label (tr E ''prefs_reservations_dialog_title_delete''), Label (tr E ''reservation_delete_dialog_description''),
      Select [] [(tr E ''reservation_delete_dialog_action_keep_title'', \<not> deleteMessages, ChooseDelete False),
        (tr E ''reservation_delete_dialog_action_delete_title'', deleteMessages, ChooseDelete True)],
      if deleteMessages then Notice ''warning'' (tr E ''reservation_delete_dialog_action_delete_description'')
      else Notice ''info'' (tr E ''reservation_delete_dialog_action_keep_description''),
      DialogFooter error
        [Button (tr E ''common_cancel'') ReserveCancel, Button (tr E ''reservation_delete_dialog_submit_button'') ReserveSubmit]]"

subsection \<open>Login.jsx and Signup.jsx\<close>

datatype form_action = SubmitForm | TogglePassword | ToggleConfirm | GoTo string

text \<open>Both forms keep what is typed without surrounding white space, after every key.\<close>

record login_form =
  lf_username :: string
  lf_password :: string
  lf_confirm :: string

datatype form_field = UsernameField | PasswordField | ConfirmField

definition type_field :: "form_field \<Rightarrow> string \<Rightarrow> login_form \<Rightarrow> login_form" where
  "type_field field v f =
     (case field of
        UsernameField \<Rightarrow> f\<lparr>lf_username := js_trim v\<rparr>
      | PasswordField \<Rightarrow> f\<lparr>lf_password := js_trim v\<rparr>
      | ConfirmField \<Rightarrow> f\<lparr>lf_confirm := js_trim v\<rparr>)"

definition Login :: "page_env \<Rightarrow> config \<Rightarrow> login_form \<Rightarrow> string \<Rightarrow> form_action widget list" where
  "Login E cfg f error =
     (if \<not> enable_login cfg then [Label (tr E ''login_disabled'')]
      else
        [Label (tr E ''login_title''),
         Input (tr E ''signup_form_username'') (lf_username f),
         Input (tr E ''signup_form_password'') (lf_password f),
         Button (tr E ''signup_form_toggle_password_visibility'') TogglePassword,
         button_if (lf_username f \<noteq> [] \<and> lf_password f \<noteq> []) (tr E ''login_form_button_submit'') SubmitForm] @
        shown_if (error \<noteq> []) [Notice ''error'' error] @
        shown_if (enable_signup cfg) [Button (tr E ''login_link_signup'') (GoTo ''/signup'')])"

definition Signup :: "page_env \<Rightarrow> config \<Rightarrow> login_form \<Rightarrow> string \<Rightarrow> form_action widget list" where
  "Signup E cfg f error =
     (if \<not> enable_signup cfg then [Label (tr E ''signup_disabled'')]
      else
        [Label (tr E ''signup_title''),
         Input (tr E ''signup_form_username'') (lf_username f),
         Input (tr E ''signup_form_password'') (lf_password f),
         Button (tr E ''signup_form_toggle_password_visibility'') TogglePassword,
         Input (tr E ''signup_form_confirm_password'') (lf_confirm f),
         Button (tr E ''signup_form_toggle_password_visibility'') ToggleConfirm] @
        shown_if (lf_password f \<noteq> [] \<and> lf_confirm f \<noteq> [] \<and> lf_password f \<noteq> lf_confirm f)
          [Label (tr E ''invite_error_passwords_mismatch'')] @
        [button_if (signupEnabled (lf_username f) (lf_password f) (lf_confirm f)) (tr E ''signup_form_button_submit'') SubmitForm] @
        shown_if (error \<noteq> []) [Notice ''error'' error] @
        shown_if (enable_login cfg) [Button (tr E ''signup_already_have_account'') (GoTo ''/login'')])"

subsection \<open>Properties\<close>

lemma offers_labels [simp]: "page_offers (map Label xs) = []"
  by (induction xs) simp_all

text \<open>
  The menu offers a reservation to be made, changed or removed exactly where the server allows it, and
  never two of these for one chat at a time but the last two together.
\<close>

lemma popup_offers:
  "set (page_offers (SubscriptionPopup E cfg account s)) =
     {ShowChatInfo, ShareChatId, ChangeDisplayName, SendTestMessage, ClearAll, Unsubscribe,
      SetMutedUntil (if s_mutedUntil s = 0 then 1 else 0)} \<union>
     (if \<not> enable_reservations cfg then {}
      else if s_reservation s \<noteq> None then {ReserveEdit, ReserveDelete}
      else if (case account of Some (role, remaining, limit) \<Rightarrow> remaining > 0 | None \<Rightarrow> False) then {ReserveAdd} else {})"
  by (auto simp: SubscriptionPopup_def reservation_menu_def Let_def split: option.splits prod.splits)

text \<open>Muting is undone by the entry the menu then shows.\<close>

lemma mute_entry_flips:
  assumes "SetMutedUntil m \<in> set (page_offers (SubscriptionPopup E cfg account s))"
  shows "SetMutedUntil (1 - m) \<in> set (page_offers (SubscriptionPopup E cfg account (s\<lparr>s_mutedUntil := m\<rparr>)))"
  using assms by (auto simp: popup_offers split: if_splits)

lemma js_trim_idem: "js_trim (js_trim v) = js_trim v"
proof (cases "js_trim v = []")
  case False
  let ?r = "dropWhile is_space (rev (dropWhile is_space v))"
  have "?r \<noteq> []" using False by (auto simp: js_trim_def)
  then have "\<not> is_space (hd ?r)" by (rule hd_dropWhile)
  moreover have "last (js_trim v) = hd ?r"
    by (simp add: js_trim_def last_rev)
  ultimately show ?thesis using False js_trim_hd [OF False] by (intro js_trim_ends) simp_all
next
  case True
  then show ?thesis by (simp only:) (simp add: js_trim_def)
qed

definition empty_form :: login_form where
  "empty_form = \<lparr>lf_username = [], lf_password = [], lf_confirm = []\<rparr>"

lemma typed_is_trimmed:
  "js_trim (lf_password f) = lf_password f \<Longrightarrow>
     js_trim (lf_password (fold (\<lambda>(x, v). type_field x v) keys f)) = lf_password (fold (\<lambda>(x, v). type_field x v) keys f)"
proof (induction keys arbitrary: f)
  case (Cons k keys)
  have "js_trim (lf_password (type_field x v f)) = lf_password (type_field x v f)" for x v
    using Cons.prems by (cases x) (simp_all add: type_field_def js_trim_idem)
  then show ?case using Cons.IH by (simp add: case_prod_beta)
qed simp

text \<open>
  The account page accepts a new password that starts or ends with white space and sends it as it is;
  but the login form removes that white space from what is typed, so that nothing that is typed
  into it is this password.
\<close>

theorem spaced_password_locks_out:
  assumes "js_trim pw \<noteq> pw" and "current \<noteq> []"
  shows "changePasswordEnabled current pw pw \<and>
    (\<exists>rq. snd (changePassword_handleDialogSubmit srv cfg fresh err_text incorrect current pw ses log) = log @ [rq] \<and>
      rq_url rq = accountPasswordUrl (base_url cfg) \<and>
      rq_body rq = Some (JObj [(''password'', JStr current), (''new_password'', JStr pw)])) \<and>
    lf_password (fold (\<lambda>(x, v). type_field x v) keys empty_form) \<noteq> pw"
proof -
  have "pw \<noteq> []" using assms(1) by (auto simp: js_trim_def)
  moreover have "lf_password (fold (\<lambda>(x, v). type_field x v) keys empty_form) \<noteq> pw"
    using assms(1) typed_is_trimmed [of empty_form keys] by (auto simp: empty_form_def js_trim_def)
  ultimately show ?thesis
    using assms(2)
    by (auto simp: changePasswordEnabled_def changePassword_handleDialogSubmit_def account_dialog_def account_changePassword_def
        call_unit_def io_defs fetchOrThrow_unfold split: option.splits sum.splits)
qed

lemma spaced_password_locks_out_witness:
  "changePasswordEnabled ''old'' ''secret '' ''secret '' \<and>
   lf_password (fold (\<lambda>(x, v). type_field x v) [(UsernameField, ''bob''), (PasswordField, ''secret '')] empty_form) \<noteq> ''secret ''"
proof -
  have "js_trim ''secret '' \<noteq> ''secret ''" by code_simp
  note locked = spaced_password_locks_out [OF this, where current = "''old''" and srv = "\<lambda>_ _. None" and cfg = plain_config
      and fresh = "()" and err_text = "\<lambda>_. []" and incorrect = "[]" and ses = "\<lparr>local_storage = Map.empty, kv_store = (), href = None\<rparr>"
      and log = "[]" and keys = "[(UsernameField, ''bob''), (PasswordField, ''secret '')]"]
  show ?thesis using locked by blast
qed

end
