(* ===== verification/People_View.thy ===== *)
theory People_View
  imports People Widgets
begin

section \<open>What the lists of people and the profiles show\<close>

text \<open>
  components/MemberList.jsx, ContactList.jsx, ContactRequests.jsx, ContactAdd.jsx, GroupCreate.jsx and
  UserProfile.jsx. People are the server's JSON objects; a list of them is an array. \<open>now\<close> is the time in
  seconds.
\<close>

datatype people_action =
    ClosePeople
  | OpenProfileOf string
  | OpenAdd
  | ShowContacts
  | ShowRequests
  | StartChat string
  | AcceptRequest string
  | RejectRequest string
  | RequestContact string
  | ToggleMember string
  | CreateGroup

text \<open>\<open>display_name || username\<close> as a child of an element, and the line below it.\<close>

definition shown_name :: "json \<Rightarrow> string" where
  "shown_name p =
     (let name = json_prop p ''display_name'' in if json_truthy name then child_text name else child_text (json_prop p ''username''))"

definition at_name :: "json \<Rightarrow> string" where
  "at_name p = ''@'' @ value_text (json_prop p ''username'')"

definition bio_or_name :: "json \<Rightarrow> string" where
  "bio_or_name p = (if json_truthy (json_prop p ''bio'') then child_text (json_prop p ''bio'') else at_name p)"

definition online_label :: "page_env \<Rightarrow> int \<Rightarrow> json \<Rightarrow> 'a widget" where
  "online_label E now p = Label (tr E (snd (OnlineIndicator (last_seen p) now)))"

definition user_of :: "json \<Rightarrow> string" where
  "user_of p = value_text (json_prop p ''username'')"

subsection \<open>Lists\<close>

definition MemberList :: "page_env \<Rightarrow> int \<Rightarrow> bool \<Rightarrow> json list \<Rightarrow> people_action widget list" where
  "MemberList E now loading members =
     [Label (tr E ''member_list_title'' @ (if loading then [] else '' ('' @ nat_str (length members) @ '')'')),
      Button [] ClosePeople] @
     map (\<lambda>m. Box [Button (shown_name m) (OpenProfileOf (user_of m)), Label (bio_or_name m), online_label E now m]) members @
     shown_if (\<not> loading \<and> members = []) [Label (tr E ''member_list_empty'')]"

definition ContactRequests :: "page_env \<Rightarrow> json list \<Rightarrow> people_action widget list" where
  "ContactRequests E requests =
     (if requests = [] then [Label (tr E ''contacts_no_requests'')]
      else map (\<lambda>r. Box [Label (shown_name r), Label (at_name r), Button [] (AcceptRequest (user_of r)),
        Button [] (RejectRequest (user_of r))]) requests)"

definition ContactList :: "page_env \<Rightarrow> int \<Rightarrow> bool \<Rightarrow> nat \<Rightarrow> json list \<Rightarrow> json list \<Rightarrow> people_action widget list" where
  "ContactList E now loading tab contacts requests =
     [Label (tr E ''contacts_title''), Button (tr E ''contacts_add'') OpenAdd, Button [] ClosePeople,
      Select [] [(tr E ''contacts_tab_all'', tab = 0, ShowContacts), (tr E ''contacts_tab_requests'', tab = 1, ShowRequests)]] @
     shown_if (requests \<noteq> []) [Notice ''badge'' (if length requests > 99 then ''99+'' else nat_str (length requests))] @
     shown_if (tab = 0)
       (map (\<lambda>c. Box [Button (shown_name c) (StartChat (user_of c)), Label (bio_or_name c), online_label E now c]) contacts @
        shown_if (\<not> loading \<and> contacts = []) [Label (tr E ''contacts_empty''), Button (tr E ''contacts_add'') OpenAdd]) @
     shown_if (tab = 1) (ContactRequests E requests)"

text \<open>The search: somebody who was asked already is marked and cannot be asked again.\<close>

definition ContactAdd :: "page_env \<Rightarrow> string \<Rightarrow> string \<Rightarrow> bool \<Rightarrow> json list \<Rightarrow> string list \<Rightarrow> people_action widget list" where
  "ContactAdd E query err searching results sentTo =
     [Label (tr E ''contacts_add_title''), Button [] ClosePeople, Input (tr E ''contacts_search_placeholder'') query] @
     shown_if (err \<noteq> []) [Notice ''error'' err] @
     map (\<lambda>u. Box [Label (shown_name u), Label (at_name u),
         if user_of u \<in> set sentTo then Disabled [] else Button (tr E ''contacts_add_button'') (RequestContact (user_of u))]) results @
     shown_if (\<not> searching \<and> 2 \<le> length query \<and> results = []) [Label (tr E ''contacts_search_empty'')]"

definition GroupCreate ::
  "page_env \<Rightarrow> string \<Rightarrow> bool \<Rightarrow> json list \<Rightarrow> string list \<Rightarrow> string \<Rightarrow> bool \<Rightarrow> people_action widget list" where
  "GroupCreate E name loading contacts selected err creating =
     [Label (tr E ''group_create_title''), Button [] ClosePeople, Input (tr E ''group_name_label'') name,
      Label (tr E ''group_select_members'' @ '' ('' @ nat_str (length selected) @ '')'')] @
     shown_if (\<not> loading)
       (map (\<lambda>c. Select [] [(shown_name c, user_of c \<in> set selected, ToggleMember (user_of c))]) contacts @
        shown_if (contacts = []) [Label (tr E ''group_no_contacts'')]) @
     shown_if (err \<noteq> []) [Label err] @
     [button_if (\<not> creating \<and> js_trim name \<noteq> [] \<and> selected \<noteq> []) (tr E ''group_create_button'') CreateGroup]"

subsection \<open>The profile\<close>

datatype profile_action =
    CloseProfile
  | UploadAvatar
  | DeleteAvatar
  | ChooseBio string
  | ChoosePrivacy string
  | SaveProfile
  | EditProfile
  | SendMessage
  | AddAsContact

definition statusOptions :: "string list" where
  "statusOptions = [''profile_status_available'', ''profile_status_busy'', ''profile_status_dnd'', ''profile_status_away'']"

text \<open>The form for the own profile, and the profile as it is shown; a profile of somebody else can be written to.\<close>

definition profile_form :: "page_env \<Rightarrow> bool \<Rightarrow> profile_view \<Rightarrow> profile_action widget list" where
  "profile_form E saving pv =
     [Input (tr E ''profile_display_name'') (child_text (Some (pv_displayName pv))),
      Input (tr E ''profile_bio'') (child_text (Some (pv_bio pv)))] @
     map (\<lambda>key. Button (tr E key) (ChooseBio (tr E key))) statusOptions @
     [Select (tr E ''profile_privacy_label'')
        (map (\<lambda>(v, key). (tr E key, v = pv_privacy pv, ChoosePrivacy v))
          [(''open'', ''profile_privacy_open''), (''request'', ''profile_privacy_request''),
           (''invite_only'', ''profile_privacy_invite'')]),
      button_if (\<not> saving) (tr E ''profile_save'') SaveProfile]"

definition profile_card :: "page_env \<Rightarrow> int \<Rightarrow> bool \<Rightarrow> string option \<Rightarrow> json \<Rightarrow> profile_action widget list" where
  "profile_card E now isOwnProfile contactAction profile =
     [Label (shown_name profile), Label (at_name profile)] @
     shown_if (json_truthy (json_prop profile ''bio'')) [Label (child_text (json_prop profile ''bio''))] @
     [online_label E now profile] @
     (if isOwnProfile then [Button (tr E ''profile_edit'') EditProfile]
      else
        Button (tr E ''profile_send_message'') SendMessage #
        shown_if (contactAction = Some ''add'') [Button (tr E ''profile_add_contact'') AddAsContact] @
        shown_if (contactAction = Some ''sent'') [Label (tr E ''profile_contact_sent'')])"

definition UserProfile ::
  "page_env \<Rightarrow> int \<Rightarrow> string option \<Rightarrow> string \<Rightarrow> bool \<Rightarrow> bool \<Rightarrow> string option \<Rightarrow> profile_view \<Rightarrow> profile_action widget list" where
  "UserProfile E now own username loading saving contactAction pv =
     (let isOwnProfile = (own = Some username); profile = pv_profile pv in
      Button [] CloseProfile #
      (if loading then []
       else if \<not> json_truthy (Some profile) then [Label (tr E ''profile_not_found'')]
       else
         shown_if isOwnProfile
           (Button (tr E ''profile_avatar_change'') UploadAvatar #
            shown_if (json_truthy (json_prop profile ''avatar_url'')) [Button (tr E ''profile_avatar_delete'') DeleteAvatar]) @
         (if isOwnProfile \<and> pv_editMode pv then profile_form E saving pv
          else profile_card E now isOwnProfile contactAction profile)))"

subsection \<open>Properties\<close>

lemma offers_person_rows:
  "page_offers (map (\<lambda>m. Box [Button (f m) (a m), Label (g m), online_label E now m]) ms) = map a ms"
  by (induction ms) (simp_all add: online_label_def)

text \<open>The member list opens each member's profile; the contacts start a chat with each contact.\<close>

lemma people_listed:
  "page_offers (MemberList E now loading members) = ClosePeople # map (OpenProfileOf \<circ> user_of) members"
  "set (page_offers (ContactList E now loading tab contacts requests)) =
     {OpenAdd, ClosePeople, ShowContacts, ShowRequests} \<union>
     (if tab = 0 then (StartChat \<circ> user_of) ` set contacts else {}) \<union>
     (if tab = 1 then (AcceptRequest \<circ> user_of) ` set requests \<union> (RejectRequest \<circ> user_of) ` set requests else {})"
proof -
  show "page_offers (MemberList E now loading members) = ClosePeople # map (OpenProfileOf \<circ> user_of) members"
    by (simp add: MemberList_def offers_person_rows)
  have "set (page_offers (map (\<lambda>r. Box [Label (f r), Label (g r), Button [] (AcceptRequest (user_of r)),
      Button [] (RejectRequest (user_of r))]) rs)) = (AcceptRequest \<circ> user_of) ` set rs \<union> (RejectRequest \<circ> user_of) ` set rs"
    for f g rs by (induction rs) auto
  then show "set (page_offers (ContactList E now loading tab contacts requests)) =
     {OpenAdd, ClosePeople, ShowContacts, ShowRequests} \<union>
     (if tab = 0 then (StartChat \<circ> user_of) ` set contacts else {}) \<union>
     (if tab = 1 then (AcceptRequest \<circ> user_of) ` set requests \<union> (RejectRequest \<circ> user_of) ` set requests else {})"
    by (auto simp: ContactList_def ContactRequests_def offers_person_rows)
qed

text \<open>Each contact of a group is marked exactly when it was chosen, and only a complete group can be created.\<close>

lemma group_marks:
  "set (page_chosen (GroupCreate E name False contacts selected err creating)) =
     {ToggleMember u | u. u \<in> set selected \<and> u \<in> user_of ` set contacts}"
  "CreateGroup \<in> set (page_offers (GroupCreate E name loading contacts selected err creating)) \<longleftrightarrow>
     \<not> creating \<and> js_trim name \<noteq> [] \<and> selected \<noteq> []"
proof -
  have "set (page_chosen (map (\<lambda>c. Select [] [(shown_name c, user_of c \<in> set selected, ToggleMember (user_of c))]) cs)) =
      {ToggleMember u | u. u \<in> set selected \<and> u \<in> user_of ` set cs}" for cs
    by (induction cs) auto
  then show "set (page_chosen (GroupCreate E name False contacts selected err creating)) =
     {ToggleMember u | u. u \<in> set selected \<and> u \<in> user_of ` set contacts}"
    by (simp add: GroupCreate_def)
  have "CreateGroup \<notin> set (page_offers (map (\<lambda>c. Select [] [(shown_name c, user_of c \<in> set selected, ToggleMember (user_of c))]) cs))"
    for cs by (induction cs) simp_all
  then show "CreateGroup \<in> set (page_offers (GroupCreate E name loading contacts selected err creating)) \<longleftrightarrow>
     \<not> creating \<and> js_trim name \<noteq> [] \<and> selected \<noteq> []"
    by (auto simp: GroupCreate_def)
qed

lemma message_names_user:
  "\<exists>rq rest. snd (handleSendMessage T srv cfg tok username d log) = log @ rq # rest \<and>
     rq_method rq = ''POST'' \<and> rq_body rq = Some (JObj [(''username'', JStr username)])"
proof -
  obtain r log' where c: "startDM srv cfg tok username log = (r, log')" by fastforce
  then have l: "log' = log @ [\<lparr>rq_method = ''POST'', rq_url = coop_url cfg ''dm'', rq_headers = bearer tok [],
      rq_body = Some (JObj [(''username'', JStr username)])\<rparr>]"
    using call_json_log [of srv "''POST''" "coop_url cfg ''dm''" "bearer tok []" "Some [(''username'', JStr username)]" log]
    by (simp add: startDM_def)
  have "\<exists>rest. snd (handleDM T srv cfg tok username d log) = log' @ rest"
    using c add_chat_log [of T srv cfg tok _ _ d log']
    by (auto simp: handleDM_def Let_def case_prod_beta split: sum.split)
  then show ?thesis using l by (auto simp: handleSendMessage_def case_prod_beta)
qed

text \<open>
  When the profile of a second user cannot be loaded, the dialog shows the profile of the user before
  under the second one's name: everything on the page is the first user's, and its button sends a
  message to the second.
\<close>

theorem stale_profile_shown:
  assumes "second \<noteq> []" and "own \<noteq> Some first" and "own \<noteq> Some second"
    and "case srv log \<lparr>rq_method = ''GET'', rq_url = coop_url cfg (''profile/'' @ second),
        rq_headers = maybeWithBearerAuth [] tok, rq_body = None\<rparr> of None \<Rightarrow> True | Some rs \<Rightarrow> \<not> rs_ok rs"
    and "json_truthy (Some (pv_profile pv))"
  shows "let pv' = fst (fetchProfile srv cfg tok own second True pv log) in
    UserProfile E now own second False saving contact pv' = UserProfile E now own first False saving contact pv \<and>
    Label (at_name (pv_profile pv)) \<in> set (UserProfile E now own second False saving contact pv') \<and>
    SendMessage \<in> set (page_offers (UserProfile E now own second False saving contact pv')) \<and>
    (\<exists>rq rest. snd (handleSendMessage T srv cfg tok second d log') = log' @ rq # rest \<and>
      rq_method rq = ''POST'' \<and> rq_body rq = Some (JObj [(''username'', JStr second)]))"
proof -
  have "fst (fetchProfile srv cfg tok own second True pv log) = pv"
    using assms by (auto simp: fetchProfile_def fetch_def split: option.splits)
  then show ?thesis
    using assms(2,3,5) message_names_user [of T srv cfg tok second d log'] by (auto simp: UserProfile_def profile_card_def Let_def)
qed

definition ann :: profile_view where
  "ann = \<lparr>pv_profile = JObj [(''username'', JStr ''ann'')], pv_displayName = JStr [], pv_bio = JStr [], pv_editMode = False,
     pv_privacy = ''request''\<rparr>"

lemma stale_profile_shown_witness:
  "Label ''@ann'' \<in> set (UserProfile plain_page 0 None ''bob'' False False None
     (fst (fetchProfile (\<lambda>_ _. None) plain_config None None ''bob'' True ann [])))"
proof -
  note stale = stale_profile_shown [where second = "''bob''" and first = "''ann''" and own = None and srv = "\<lambda>_ _. None" and log = "[]"
        and cfg = plain_config and tok = None and pv = ann and E = plain_page and now = 0 and saving = False and contact = None
        and T = mem_db_ops and d = "mem_db [] []" and log' = "[]"]
  have "json_truthy (Some (pv_profile ann))" by (simp add: ann_def json_truthy_def)
  from stale [OF _ _ _ _ this, unfolded Let_def, THEN conjunct2, THEN conjunct1] have "Label (at_name (pv_profile ann)) \<in> set (UserProfile plain_page 0 None ''bob'' False False None
     (fst (fetchProfile (\<lambda>_ _. None) plain_config None None ''bob'' True ann [])))"
    by simp
  then show ?thesis by (simp add: at_name_def ann_def value_text_def json_prop_def)
qed

end
