(* ===== verification/Invite_View.thy ===== *)
theory Invite_View
  imports Invite Widgets
begin

section \<open>What the page of an invitation shows (components/InvitePage.jsx)\<close>

text \<open>
  The page in each of its states, which \<open>invite_page_of\<close> tells apart. The server names the chats of an
  invitation in one text, separated by commas; a list of them would make the page throw.
  \<open>now\<close> is in milliseconds; the date is always written in the German format.
\<close>

datatype invite_action = InviteJoinClick | InviteSubmit | InviteLogin

definition invite_topic_labels :: "json \<Rightarrow> app_error + string list" where
  "invite_topic_labels data =
     (case json_prop data ''topics'' of
        Some (JStr s) \<Rightarrow> Inr (if s = [] then [] else map js_trim (split_on CHR '','' s))
      | Some (JArr (x # xs)) \<Rightarrow> Inl TypeError
      | _ \<Rightarrow> Inr [])"

definition expires_labels :: "page_env \<Rightarrow> (int \<Rightarrow> string) \<Rightarrow> int option \<Rightarrow> invite_action widget list" where
  "expires_labels E german_date expires =
     (case expires of
        Some e \<Rightarrow> if e = 0 then [Label ''0''] else [Label (tr E ''invite_expires''), Label (german_date (e * 1000))]
      | None \<Rightarrow> [])"

text \<open>The chats and the error of both forms; the page of a user, and the form of a new one.\<close>

definition invite_channels :: "page_env \<Rightarrow> string list \<Rightarrow> invite_action widget list" where
  "invite_channels E topics = shown_if (topics \<noteq> []) (Label (tr E ''invite_join_channels'') # map Label topics)"

definition invite_failed :: "invite \<Rightarrow> invite_action widget list" where
  "invite_failed iv = shown_if (truthy (iv_submitError iv)) [Notice ''error'' (coalesce (iv_submitError iv) [])]"

definition join_page :: "page_env \<Rightarrow> string option \<Rightarrow> invite \<Rightarrow> string list \<Rightarrow> invite_action widget list" where
  "join_page E own iv topics =
     [Label (tr E ''invite_join_title''),
      Label (pe_t E ''invite_join_logged_in_as'' [(''username'', coalesce own [])])] @
     invite_channels E topics @
     shown_if (iv_joinSuccess iv) [Notice ''success'' (tr E ''invite_join_success'')] @
     invite_failed iv @
     [button_if (\<not> iv_submitting iv \<and> \<not> iv_joinSuccess iv)
        (tr E (if iv_submitting iv then ''invite_join_joining''
               else if iv_joinSuccess iv then ''invite_join_success'' else ''invite_join_button'')) InviteJoinClick]"

definition register_page ::
  "page_env \<Rightarrow> (int \<Rightarrow> string) \<Rightarrow> invite \<Rightarrow> int option \<Rightarrow> string \<Rightarrow> string \<Rightarrow> string \<Rightarrow> string list \<Rightarrow> invite_action widget list" where
  "register_page E german_date iv expires username password passwordConfirm topics =
     [Label (tr E ''invite_join_title''), Label (tr E ''invite_register_desc'')] @
     invite_channels E topics @
     expires_labels E german_date expires @
     [Input (tr E ''signup_form_username'') username,
      Input (tr E ''signup_form_password'') password,
      Input (tr E ''signup_form_confirm_password'') passwordConfirm] @
     invite_failed iv @
     [button_if (\<not> iv_submitting iv)
        (tr E (if iv_submitting iv then ''invite_register_submitting'' else ''invite_register_button'')) InviteSubmit,
      Label (tr E ''invite_already_have_account''), Button (tr E ''invite_login_link'') InviteLogin]"

definition InvitePage ::
  "page_env \<Rightarrow> (int \<Rightarrow> string) \<Rightarrow> int \<Rightarrow> string option \<Rightarrow> invite \<Rightarrow> string \<Rightarrow> string \<Rightarrow> string \<Rightarrow> app_error + invite_action widget list" where
  "InvitePage E german_date now own iv username password passwordConfirm =
     (let data = coalesce (iv_data iv) JNull;
          expires = json_int (json_prop data ''expires_at'');
          with_topics = (\<lambda>page. case invite_topic_labels data of Inl e \<Rightarrow> Inl e | Inr topics \<Rightarrow> Inr (page topics))
      in case invite_page_of now (own \<noteq> None) iv of
           InviteLoading \<Rightarrow> Inr []
         | InviteError err \<Rightarrow> Inr [Label (tr E ''invite_error_title''), Label err]
         | InviteExpired \<Rightarrow> Inr [Label (tr E ''invite_expired_title''), Label (tr E ''invite_expired_desc'')]
         | InviteUnavailable \<Rightarrow> Inr [Label (tr E ''invite_unavailable_title''), Label (tr E ''invite_unavailable_desc'')]
         | InviteJoin \<Rightarrow> with_topics (join_page E own iv)
         | InviteRegister \<Rightarrow> with_topics (register_page E german_date iv expires username password passwordConfirm))"

subsection \<open>Properties\<close>

lemma offers_channels [simp]: "page_offers (map Label xs) = []"
  by (induction xs) simp_all

lemma offers_expires [simp]: "page_offers (expires_labels E german_date expires) = []"
  by (simp add: expires_labels_def split: option.split)

text \<open>
  An invitation that was used up, has expired or could not be loaded offers nothing; who has joined
  cannot join again, and nothing is sent twice while a request runs.
\<close>

lemma invite_page_offers:
  "InvitePage E german_date now own iv username password confirm = Inr ws \<Longrightarrow>
     set (page_offers ws) =
       (case invite_page_of now (own \<noteq> None) iv of
          InviteJoin \<Rightarrow> if iv_submitting iv \<or> iv_joinSuccess iv then {} else {InviteJoinClick}
        | InviteRegister \<Rightarrow> insert InviteLogin (if iv_submitting iv then {} else {InviteSubmit})
        | _ \<Rightarrow> {})"
  by (auto simp: InvitePage_def join_page_def register_page_def invite_channels_def invite_failed_def Let_def split: invite_page.splits sum.splits option.splits)

text \<open>
  The chats of the page are those of the invitation as long as none has a comma in its name: joining them
  by \<open>split\<close> and \<open>trim\<close> gives back what the server joined.
\<close>

lemma channels_shown:
  assumes "topics \<noteq> []" and "\<forall>x \<in> set topics. CHR '','' \<notin> set x \<and> js_trim x = x" and "join '','' topics \<noteq> []"
  shows "invite_topic_labels (JObj [(''topics'', JStr (join '','' topics))]) = Inr topics"
proof -
  have "split_on CHR '','' (join '','' topics) = topics"
    using assms(1,2) by (induction topics rule: induct_list012) (simp_all add: split_on_append split_on_no_sep)
  then show ?thesis
    using assms by (simp add: invite_topic_labels_def json_prop_def map_idI)
qed

end
