(* ===== verification/Plan_View.thy ===== *)
theory Plan_View
  imports Account_Page Browser Widgets
begin

section \<open>What the dialog to change the plan shows (components/UpgradeDialog.jsx)\<close>

text \<open>
  The cards of the plans, the banner that explains the change, and the button that makes it. A price per
  month is given in twelfths of a cent, as it is a twelfth of a yearly price; \<open>toPrecision12\<close> is the
  browser's text of such a price. \<open>paid_until\<close> is 0 when the account has none.
\<close>

record plan = tier +
  pl_name :: "string option"
  pl_messages :: int
  pl_emails :: int
  pl_calls :: "int option"
  pl_file_size :: int

datatype plan_action =
    CancelPlan
  | SubmitPlan
  | ChooseTier "string option"
  | ChooseInterval string

definition Feature :: "string \<Rightarrow> plan_action widget" where
  "Feature label = Notice ''included'' label"

definition NoFeature :: "string \<Rightarrow> plan_action widget" where
  "NoFeature label = Notice ''not_included'' label"

text \<open>\<open>formatPrice\<close> of a price in twelfths; without an interval the price is \<open>undefined\<close>.\<close>

definition price12_text :: "(int \<Rightarrow> string) \<Rightarrow> int option \<Rightarrow> string" where
  "price12_text toPrecision12 price =
     (case price of
        None \<Rightarrow> ''$NaN''
      | Some p \<Rightarrow> if p mod 1200 = 0 then ''$'' @ int_str (p div 1200) else ''$'' @ toPrecision12 p)"

definition TierCard ::
  "page_env \<Rightarrow> (int \<Rightarrow> string) \<Rightarrow> (int \<Rightarrow> string) \<Rightarrow> plan \<Rightarrow> bool \<Rightarrow> bool \<Rightarrow> string \<Rightarrow> plan_action widget" where
  "TierCard E toPrecision12 toPrecision2 ti current selected interval =
     (let price = monthlyPrice_x12 (tier.truncate ti) interval; number = formatNumber (pe_number E) in
      Box (
        [Select [] [(if truthy (pl_name ti) then coalesce (pl_name ti) [] else tr E ''account_basics_tier_free'', selected,
           ChooseTier (ti_code ti))]] @
        (if selected then [Label (tr E ''account_upgrade_dialog_tier_selected_label'')]
         else if current then [Label (tr E ''account_upgrade_dialog_tier_current_label'')] else []) @
        [Label (price12_text toPrecision12 price)] @
        shown_if (case price of Some p \<Rightarrow> p > 0 | None \<Rightarrow> False)
          [Label (''/ '' @ tr E ''account_upgrade_dialog_tier_price_per_month'')] @
        shown_if (case ti_reservations ti of Some n \<Rightarrow> n > 0 | None \<Rightarrow> False)
          [Feature (pe_t E ''account_upgrade_dialog_tier_features_reservations''
             [(''reservations'', int_str (coalesce (ti_reservations ti) 0))])] @
        [Feature (pe_t E ''account_upgrade_dialog_tier_features_messages'' [(''messages'', number (pl_messages ti))]),
         Feature (pe_t E ''account_upgrade_dialog_tier_features_emails'' [(''emails'', number (pl_emails ti))])] @
        shown_if (case pl_calls ti of Some n \<Rightarrow> n > 0 | None \<Rightarrow> False)
          [Feature (pe_t E ''account_upgrade_dialog_tier_features_calls'' [(''calls'', number (coalesce (pl_calls ti) 0))])] @
        [Feature (pe_t E ''account_upgrade_dialog_tier_features_attachment_file_size'' [(''filesize'', pe_bytes E (pl_file_size ti))])] @
        shown_if (ti_reservations ti = Some 0) [NoFeature (tr E ''account_upgrade_dialog_tier_features_no_reservations'')] @
        shown_if (pl_calls ti = Some 0) [NoFeature (tr E ''account_upgrade_dialog_tier_features_no_calls'')] @
        (case ti_prices ti of
           None \<Rightarrow> []
         | Some (month, year) \<Rightarrow>
             shown_if (interval = ''month'')
               [Label (pe_t E ''account_upgrade_dialog_tier_price_billed_monthly'' [(''price'', formatPrice toPrecision2 (month * 12))])] @
             shown_if (interval = ''year'')
               [Label (pe_t E ''account_upgrade_dialog_tier_price_billed_yearly''
                  [(''price'', formatPrice toPrecision2 year), (''save'', formatPrice toPrecision2 (month * 12 - year))])])))"

text \<open>The label of the button (\<open>submitButtonLabel\<close>), which does not depend on the exceptions.\<close>

definition submitButtonLabel :: "upgrade_account option \<Rightarrow> string option \<Rightarrow> string \<Rightarrow> string" where
  "submitButtonLabel account newTierCode interval =
     (case account of
        None \<Rightarrow> ''account_upgrade_dialog_button_redirect_signup''
      | Some a \<Rightarrow>
          if ua_tier a = newTierCode \<and> (ua_interval a = None \<or> ua_interval a = Some interval)
          then ''account_upgrade_dialog_button_update_subscription''
          else if \<not> truthy (ua_tier a) then ''account_upgrade_dialog_button_pay_now''
          else if \<not> truthy newTierCode then ''account_upgrade_dialog_button_cancel_subscription''
          else ''account_upgrade_dialog_button_update_subscription'')"

text \<open>The pattern \<open>^http?s://\<close>.\<close>

definition is_website :: "string \<Rightarrow> bool" where
  "is_website s \<longleftrightarrow> starts_with s ''https://'' \<or> starts_with s ''htts://''"

definition UpgradeDialog ::
  "page_env \<Rightarrow> (int \<Rightarrow> string) \<Rightarrow> (int \<Rightarrow> string) \<Rightarrow> config \<Rightarrow> upgrade_account option \<Rightarrow> int \<Rightarrow> plan list \<Rightarrow>
     string option \<Rightarrow> string \<Rightarrow> bool \<Rightarrow> string \<Rightarrow> plan_action widget list" where
  "UpgradeDialog E toPrecision12 toPrecision2 cfg account paid_until plans newTierCode interval loading error =
     (let tiers = map tier.truncate plans;
          chosen_tier = newTier tiers newTierCode;
          (submitAction, banner) = upgrade_decision account tiers newTierCode interval loading;
          (discount, upto) = upgrade_discount tiers chosen_tier;
          currentTierCode = (case account of None \<Rightarrow> None | Some a \<Rightarrow> ua_tier a);
          reservations = (case account of Some a \<Rightarrow> int (coalesce (ua_reservations a) 0) | None \<Rightarrow> 0);
          allowed = (case chosen_tier of Some ti \<Rightarrow> coalesce (ti_reservations ti) 0 | None \<Rightarrow> 0)
      in [Label (tr E ''account_upgrade_dialog_title''),
          Select [] [(tr E ''account_upgrade_dialog_interval_monthly'', interval \<noteq> ''year'', ChooseInterval ''month''),
            (tr E ''account_upgrade_dialog_interval_yearly'', interval = ''year'', ChooseInterval ''year'')]] @
         shown_if (discount > 0)
           [Label (pe_t E (if upto then ''account_upgrade_dialog_interval_yearly_discount_save_up_to''
                           else ''account_upgrade_dialog_interval_yearly_discount_save'') [(''discount'', int_str discount)])] @
         map (\<lambda>ti. TierCard E toPrecision12 toPrecision2 ti (currentTierCode = ti_code ti) (newTierCode = ti_code ti) interval) plans @
         (case banner of
            None \<Rightarrow> []
          | Some CANCEL_WARNING \<Rightarrow>
              [Notice ''warning'' (pe_t E ''account_upgrade_dialog_cancel_warning'' [(''date'', pe_short_date E paid_until)])]
          | Some PRORATION_INFO \<Rightarrow> [Notice ''info'' (tr E ''account_upgrade_dialog_proration_info'')]
          | Some RESERVATIONS_WARNING \<Rightarrow>
              [Notice ''warning'' (pe_t E ''account_upgrade_dialog_reservations_warning'' [(''count'', int_str (reservations - allowed))])]) @
         shown_if (CHR ''@'' \<in> set (billing_contact cfg)) [Label (tr E ''account_upgrade_dialog_billing_contact_email'')] @
         shown_if (is_website (billing_contact cfg)) [Label (tr E ''account_upgrade_dialog_billing_contact_website'')] @
         shown_if (error \<noteq> []) [Label error] @
         [Button (tr E ''account_upgrade_dialog_button_cancel'') CancelPlan,
          button_if (submitAction \<noteq> None) (tr E (submitButtonLabel account newTierCode interval)) SubmitPlan])"

subsection \<open>Properties\<close>

lemma offers_feature [simp]:
  "offers (Feature l) = []" "offers (NoFeature l) = []" "page_offers [Feature l] = []" "page_offers [NoFeature l] = []"
  by (simp_all add: Feature_def NoFeature_def)

lemma offers_tier_card: "offers (TierCard E p q ti current selected interval) = [ChooseTier (ti_code ti)]"
  by (simp add: TierCard_def Let_def split: option.split)

lemma plan_offers:
  "set (page_offers (UpgradeDialog E p q cfg account paid_until plans code interval loading error)) =
     {ChooseInterval ''month'', ChooseInterval ''year'', CancelPlan} \<union> ChooseTier ` ti_code ` set plans \<union>
     (if fst (upgrade_decision account (map tier.truncate plans) code interval loading) \<noteq> None then {SubmitPlan} else {})"
proof -
  have "set (page_offers (map (\<lambda>ti. TierCard E p q ti (f ti) (g ti) interval) ts)) = ChooseTier ` ti_code ` set ts" for f g ts
    by (induction ts) (auto simp: offers_tier_card)
  then show ?thesis
    by (auto simp: UpgradeDialog_def Let_def case_prod_beta split: option.split upgrade_banner.split)
qed

lemma billing_requests:
  "snd (createBillingSubscription srv cfg tok code i log) = log @ [\<lparr>rq_method = ''POST'',
     rq_url = accountBillingSubscriptionUrl (base_url cfg), rq_headers = bearer tok [],
     rq_body = Some (JObj ((case code of Some c \<Rightarrow> [(''tier'', JStr c)] | None \<Rightarrow> []) @ [(''interval'', JStr i)]))\<rparr>]"
  "snd (updateBillingSubscription srv cfg tok code i log) = log @ [\<lparr>rq_method = ''PUT'',
     rq_url = accountBillingSubscriptionUrl (base_url cfg), rq_headers = bearer tok [],
     rq_body = Some (JObj ((case code of Some c \<Rightarrow> [(''tier'', JStr c)] | None \<Rightarrow> []) @ [(''interval'', JStr i)]))\<rparr>]"
  "snd (deleteBillingSubscription srv cfg tok log) = log @ [\<lparr>rq_method = ''DELETE'',
     rq_url = accountBillingSubscriptionUrl (base_url cfg), rq_headers = bearer tok [], rq_body = None\<rparr>]"
  by (simp_all add: createBillingSubscription_def updateBillingSubscription_def deleteBillingSubscription_def
      upsertBillingSubscription_def)

lemma account_dialog_log: "snd (account_dialog fresh text call ses log) = snd (call log)"
  by (simp add: account_dialog_def split: prod.split sum.split)

text \<open>The requests of the submitted action.\<close>

lemma upgrade_submit_log:
  "snd (upgrade_handleSubmit srv cfg fresh err act code interval ses log) =
     (let tok = session_token ses in
      case act of
        None \<Rightarrow> log
      | Some REDIRECT_SIGNUP \<Rightarrow> log
      | Some CREATE_SUBSCRIPTION \<Rightarrow> snd (createBillingSubscription srv cfg tok code interval log)
      | Some UPDATE_SUBSCRIPTION \<Rightarrow> snd (updateBillingSubscription srv cfg tok code interval log)
      | Some CANCEL_SUBSCRIPTION \<Rightarrow> snd (deleteBillingSubscription srv cfg tok log))"
  by (auto simp: upgrade_handleSubmit_def account_dialog_log Let_def split: option.split upgrade_action.split prod.split sum.split)

definition plan_fits :: "upgrade_account \<Rightarrow> tier option \<Rightarrow> bool" where
  "plan_fits a chosen_tier =
     (case chosen_tier of
        None \<Rightarrow> True
      | Some ti \<Rightarrow> truthy (ti_code ti) \<longrightarrow>
          (case (ua_reservations a, ti_reservations ti) of (Some n, Some limit) \<Rightarrow> int n \<le> limit | _ \<Rightarrow> True))"


text \<open>An account with the plan pro that changes to a larger one.\<close>

definition sample_plan :: "string \<Rightarrow> int \<Rightarrow> plan" where
  "sample_plan code n = \<lparr>ti_code = Some code, ti_reservations = Some n, ti_prices = Some (500, 5000), pl_name = Some code,
     pl_messages = 100, pl_emails = 10, pl_calls = Some 0, pl_file_size = 1000\<rparr>"


end
