(* ===== verification/Start_View.thy ===== *)
theory Start_View
  imports Navigation_View Notification_View
begin

section \<open>The start page and the empty pages (components/Notifications.jsx)\<close>

text \<open>
  The page of all chats with its greeting, a card for each chat and the button for a new one; the
  pages that are shown while nothing is loaded or nothing is there; the list of notifications with
  its further pages. A card shows the badge and the preview that the side bar also shows.
\<close>

datatype start_action = VisitChat string | OpenNewChat

definition Loading :: "page_env \<Rightarrow> 'a widget list" where
  "Loading E = [Label (tr E ''notifications_loading'')]"

definition NoNotifications :: "page_env \<Rightarrow> 'a widget list" where
  "NoNotifications E =
     [Label (tr E ''notifications_none_for_topic_title''), Label (tr E ''notifications_none_for_topic_description'')]"

definition NoNotificationsWithoutSubscription :: "page_env \<Rightarrow> 'a widget list" where
  "NoNotificationsWithoutSubscription E =
     [Label (tr E ''notifications_none_for_any_title''), Label (tr E ''notifications_none_for_any_description'')]"

definition NoSubscriptions :: "page_env \<Rightarrow> start_action widget list" where
  "NoSubscriptions E =
     [Label (tr E ''notifications_no_subscriptions_title''),
      Label (pe_t E ''notifications_no_subscriptions_description'' [(''linktext'', tr E ''nav_button_subscribe'')]),
      Button (tr E ''notifications_empty_cta'') OpenNewChat]"

definition RecentChatCard ::
  "page_env \<Rightarrow> config \<Rightarrow> subscription \<Rightarrow> nat \<Rightarrow> notification option \<Rightarrow> start_action widget" where
  "RecentChatCard E cfg s unread lastN =
     Box (
       [Button (topicDisplayName cfg s) (VisitChat (forSubscription cfg s))] @
       (case badge_text unread of Some b \<Rightarrow> [Notice ''unread'' b] | None \<Rightarrow> []) @
       (case lastN of Some n \<Rightarrow> [Label (pe_date_time E (n_time n))] | None \<Rightarrow> []) @
       [Label (previewText (tr E ''welcome_no_messages'') lastN)])"

text \<open>The greeting names the user of the session, or nobody; \<open>hour\<close> is the hour of the local day.\<close>

definition WelcomeBack ::
  "page_env \<Rightarrow> config \<Rightarrow> string option \<Rightarrow> nat \<Rightarrow> ('s, 'n, 'p, 'u) db_ops \<Rightarrow> ('s, 'n, 'p, 'u) db \<Rightarrow>
     (subscription \<times> nat) list \<Rightarrow> start_action widget list" where
  "WelcomeBack E cfg username hour T d ss =
     [Label (pe_t E (getGreeting hour) [(''username'', coalesce username [])]), Label (tr E ''welcome_recent_chats'')] @
     map (\<lambda>(s, unread). RecentChatCard E cfg s unread (lastNotification (sm_getNotifications T d (s_id s)))) ss @
     [Button (tr E ''welcome_new_chat'') OpenNewChat]"

text \<open>The subscriptions come from the page around it; nothing is known of them until they are loaded.\<close>

definition AllSubscriptions ::
  "page_env \<Rightarrow> config \<Rightarrow> string option \<Rightarrow> nat \<Rightarrow> ('s, 'n, 'p, 'u) db_ops \<Rightarrow> ('s, 'n, 'p, 'u) db \<Rightarrow>
     (subscription \<times> nat) list option \<Rightarrow> start_action widget list" where
  "AllSubscriptions E cfg username hour T d subscriptions =
     (case subscriptions of
        None \<Rightarrow> Loading E
      | Some ss \<Rightarrow>
          let visible = withoutInternal ss
          in if visible = [] then NoSubscriptions E else WelcomeBack E cfg username hour T d visible)"

text \<open>
  The state of a page is its dialog for a new chat: whether it is open, and its key. A click leads to
  an address or opens the dialog; when the dialog has subscribed, the page leads to the new chat.
\<close>

fun start_click :: "start_action \<Rightarrow> bool \<times> nat \<Rightarrow> (bool \<times> nat) \<times> string option" where
  "start_click (VisitChat path) st = (st, Some path)"
| "start_click OpenNewChat st = ((True, snd st), None)"

definition handleSubscribeSuccess :: "config \<Rightarrow> subscription \<Rightarrow> bool \<times> nat \<Rightarrow> (bool \<times> nat) \<times> string option" where
  "handleSubscribeSuccess cfg s st = (handleSubscribeReset st, Some (forSubscription cfg s))"

subsection \<open>Properties\<close>

lemma last_message_same: "lastNotification (sm_getNotifications T d sid) = last_message T d sid"
  by (auto simp: lastNotification_def last_message_def Let_def split: list.split)

lemma start_offers:
  "page_offers (AllSubscriptions E cfg username hour T d (Some ss)) =
     map (\<lambda>(s, _). VisitChat (forSubscription cfg s)) (withoutInternal ss) @ [OpenNewChat]"
proof -
  have "offers (RecentChatCard E cfg s k n) = [VisitChat (forSubscription cfg s)]" for s k n
    by (simp add: RecentChatCard_def badge_text_def split: option.split)
  moreover have "concat (map (\<lambda>x. [f x]) xs) = map f xs" for f :: "subscription \<times> nat \<Rightarrow> start_action" and xs
    by (induction xs) simp_all
  ultimately show ?thesis
    by (cases "withoutInternal ss = []")
      (simp_all add: AllSubscriptions_def NoSubscriptions_def WelcomeBack_def offers_map case_prod_beta)
qed

text \<open>The badges of the two lists are the same text, and the preview of the side bar is the start of the card's.\<close>

lemma badge_of_side_bar: "badge_text k = unreadCount k"
  by (simp add: badge_text_def unreadCount_def)

lemma preview_of_side_bar:
  "\<exists>rest. previewText t (Some n) = coalesce (item_preview (Some n)) [] @ rest"
proof -
  have "take 60 xs = take 40 xs @ take 20 (drop 40 xs)" for xs :: string
    using take_add [of 40 20 xs] by simp
  then show ?thesis
    by (auto simp: previewText_def item_preview_def js_substring_def)
qed

text \<open>
  The start page leads to the same chats as the side bar, in the order of the table instead of by their
  last messages.
\<close>

lemma start_page_lists_chats:
  "set (page_offers (AllSubscriptions E cfg username hour T d (Some (sm_all T d)))) - {OpenNewChat} =
     {VisitChat (forSubscription cfg s) | s. OpenChat s \<in> set (page_offers (SubscriptionList E cfg T d sel))}"
proof -
  have "set (page_offers (SubscriptionList E cfg T d sel)) \<inter> range OpenChat = OpenChat ` fst ` set (chat_entries T d)"
    by (auto simp: SubscriptionList_def offers_map SubscriptionItem_def ListItemButton_def case_prod_beta image_iff
        split: option.splits)
  then have "OpenChat s \<in> set (page_offers (SubscriptionList E cfg T d sel)) \<longleftrightarrow> s \<in> fst ` set (withoutInternal (sm_all T d))" for s
    unfolding chat_entries_def Let_def by auto
  then show ?thesis by (auto simp: start_offers image_iff) (metis fst_conv)
qed

end
