(* ===== verification/Menus.thy ===== *)
theory Menus
  imports Form_View Navigation_View
begin

section \<open>What the chat's menu and the side bar do (SubscriptionPopup.jsx, Navigation.jsx)\<close>

text \<open>
  The state of the menu of a chat and of the side bar (which dialogs are open), and a click in
  them: the handlers of \<open>Dialogs\<close> and \<open>App_Shell\<close> with what they change in the page.
\<close>

subsection \<open>The menu of a chat\<close>

record chat_menu =
  cm_displayNameDialog :: bool
  cm_chatInfoDialog :: bool
  cm_reserveAddDialog :: bool
  cm_reserveEditDialog :: bool
  cm_reserveDeleteDialog :: bool
  cm_publishError :: bool
  cm_copiedSnackbar :: bool

definition new_chat_menu :: chat_menu where
  "new_chat_menu = \<lparr>cm_displayNameDialog = False, cm_chatInfoDialog = False, cm_reserveAddDialog = False,
     cm_reserveEditDialog = False, cm_reserveDeleteDialog = False, cm_publishError = False, cm_copiedSnackbar = False\<rparr>"

text \<open>The browser, and the random choices of a test message: one function for each shuffle, the number of tags, the time.\<close>

record menu_env =
  me_clipboard :: bool
  me_secure :: bool
  me_share :: "share_result option"
  me_pick :: "nat \<Rightarrow> nat \<Rightarrow> nat"
  me_tags :: nat
  me_clock :: string

text \<open>
  The dialogs that are open; those of a reservation are there only as long as their entries are.
\<close>

definition popup_dialogs :: "reservation_flags \<Rightarrow> chat_menu \<Rightarrow> chat_action list" where
  "popup_dialogs rf cm =
     (if cm_displayNameDialog cm then [ChangeDisplayName] else []) @
     (if cm_chatInfoDialog cm then [ShowChatInfo] else []) @
     (if rf_add rf \<and> cm_reserveAddDialog cm then [ReserveAdd] else []) @
     (if rf_edit rf \<and> cm_reserveEditDialog cm then [ReserveEdit] else []) @
     (if rf_delete rf \<and> cm_reserveDeleteDialog cm then [ReserveDelete] else [])"

text \<open>
  A click: the menu, the session, the database, what is asked of the browser, and the address it leads to.
  \<open>u\<close> is the user that is stored for the chat's server.
\<close>

fun popup_click ::
  "('s, 'n, 'p, 'u) db_ops \<Rightarrow> base64_lib \<Rightarrow> server \<Rightarrow> config \<Rightarrow> 'kv \<Rightarrow> user option \<Rightarrow> menu_env \<Rightarrow> subscription \<Rightarrow> chat_action \<Rightarrow>
     chat_menu \<times> 'kv session \<times> ('s, 'n, 'p, 'u) db \<Rightarrow> request list \<Rightarrow>
     (chat_menu \<times> 'kv session \<times> ('s, 'n, 'p, 'u) db \<times> page_call list \<times> string option) \<times> request list" where
  "popup_click T B srv cfg fresh u me s ShowChatInfo (cm, ses, d) log = ((cm\<lparr>cm_chatInfoDialog := True\<rparr>, ses, d, [], None), log)"
| "popup_click T B srv cfg fresh u me s ShareChatId (cm, ses, d) log =
     (let (calls, copied) = handleShareChatId (me_clipboard me) (me_secure me) (me_share me) s
      in ((if copied then cm\<lparr>cm_copiedSnackbar := True\<rparr> else cm, ses, d, calls, None), log))"
| "popup_click T B srv cfg fresh u me s ChangeDisplayName (cm, ses, d) log =
     ((cm\<lparr>cm_displayNameDialog := True\<rparr>, ses, d, [], None), log)"
| "popup_click T B srv cfg fresh u me s ReserveAdd (cm, ses, d) log = ((cm\<lparr>cm_reserveAddDialog := True\<rparr>, ses, d, [], None), log)"
| "popup_click T B srv cfg fresh u me s ReserveEdit (cm, ses, d) log = ((cm\<lparr>cm_reserveEditDialog := True\<rparr>, ses, d, [], None), log)"
| "popup_click T B srv cfg fresh u me s ReserveDelete (cm, ses, d) log =
     ((cm\<lparr>cm_reserveDeleteDialog := True\<rparr>, ses, d, [], None), log)"
| "popup_click T B srv cfg fresh u me s SendTestMessage (cm, ses, d) log =
     (let (failed, log') = handleSendTestMessage B srv u (me_pick me 0) (me_tags me) (me_pick me 1) (me_pick me 2) (me_pick me 3)
          (me_clock me) s log
      in ((if failed then cm\<lparr>cm_publishError := True\<rparr> else cm, ses, d, [], None), log'))"
| "popup_click T B srv cfg fresh u me s ClearAll (cm, ses, d) log = ((cm, ses, handleClearAll T s d, [], None), log)"
| "popup_click T B srv cfg fresh u me s (SetMutedUntil m) (cm, ses, d) log =
     ((cm, ses, handleSetMutedUntil T s m d, [], None), log)"
| "popup_click T B srv cfg fresh u me s Unsubscribe (cm, ses, d) log =
     (let ((path, ses', d'), log') = handleUnsubscribe T srv cfg fresh s ses d log in ((cm, ses', d', [], Some path), log'))"

subsection \<open>The side bar\<close>

text \<open>
  The dialogs of the side bar: the one to subscribe and the one to upgrade with their keys, the profile, the contacts,
  the new group; the chat whose menu is open; the alerts that were closed.
\<close>

record side_bar =
  sb_subscribe :: "bool \<times> nat"
  sb_upgrade :: "bool \<times> nat"
  sb_profile :: bool
  sb_contacts :: bool
  sb_group :: bool
  sb_menu :: "subscription option"
  sb_dismissed :: "string list"

definition new_side_bar :: side_bar where
  "new_side_bar = \<lparr>sb_subscribe = (False, 0), sb_upgrade = (False, 0), sb_profile = False, sb_contacts = False,
     sb_group = False, sb_menu = None, sb_dismissed = []\<rparr>"

datatype side_effect = NoEffect | AskPermission | ReloadWindow | CloseDrawer

text \<open>A click on an entry: the side bar, the database, the address it leads to, and what else happens.\<close>

fun nav_click ::
  "('s, 'n, 'p, 'u) db_ops \<Rightarrow> config \<Rightarrow> int \<Rightarrow> nav_action \<Rightarrow> side_bar \<times> ('s, 'n, 'p, 'u) db \<Rightarrow>
     side_bar \<times> ('s, 'n, 'p, 'u) db \<times> string option \<times> side_effect" where
  "nav_click T cfg innerWidth OpenAll (sb, d) = (sb, d, Some (app_root cfg), NoEffect)"
| "nav_click T cfg innerWidth (OpenChat s) (sb, d) =
     (let (path, d', closes) = item_click T cfg innerWidth s d in (sb, d', Some path, if closes then CloseDrawer else NoEffect))"
| "nav_click T cfg innerWidth (OpenMenu s) (sb, d) = (sb\<lparr>sb_menu := Some s\<rparr>, d, None, NoEffect)"
| "nav_click T cfg innerWidth OpenProfile (sb, d) = (sb\<lparr>sb_profile := True\<rparr>, d, None, NoEffect)"
| "nav_click T cfg innerWidth OpenContacts (sb, d) = (sb\<lparr>sb_contacts := True\<rparr>, d, None, NoEffect)"
| "nav_click T cfg innerWidth (OpenPage path) (sb, d) = (sb, d, Some path, NoEffect)"
| "nav_click T cfg innerWidth OpenSubscribe (sb, d) = (sb\<lparr>sb_subscribe := (True, snd (sb_subscribe sb))\<rparr>, d, None, NoEffect)"
| "nav_click T cfg innerWidth OpenNewGroup (sb, d) = (sb\<lparr>sb_group := True\<rparr>, d, None, NoEffect)"
| "nav_click T cfg innerWidth OpenUpgrade (sb, d) = (sb\<lparr>sb_upgrade := (True, snd (sb_upgrade sb) + 1)\<rparr>, d, None, NoEffect)"
| "nav_click T cfg innerWidth RequestPermission (sb, d) = (sb, d, None, AskPermission)"
| "nav_click T cfg innerWidth (DismissAlert key) (sb, d) = (sb\<lparr>sb_dismissed := key # sb_dismissed sb\<rparr>, d, None, NoEffect)"
| "nav_click T cfg innerWidth ReloadPage (sb, d) = (sb, d, None, ReloadWindow)"

text \<open>
  \<open>onStartDM\<close> and \<open>onCreated\<close>: the new chat is added again, without a name, and opened; as it is there
  already, with its name, adding it changes nothing.
\<close>

definition onStartDM where
  "onStartDM T cfg topic d =
     (let (d', s) = sm_add T (base_url cfg) topic no_opts d in (d', forSubscription cfg s))"

definition onCreated where
  "onCreated T cfg topic d =
     (let (d', s) = sm_add T (base_url cfg) topic no_opts d in (d', forSubscription cfg s))"

subsection \<open>Properties\<close>

context coop_db begin

lemma chat_kept_by_clear:
  assumes "sid' \<noteq> sid"
  shows "in_sub sid' n \<and> notif_row T (sm_deleteNotifications T sid d) i = Some n \<longleftrightarrow> in_sub sid' n \<and> notif_row T d i = Some n"
  using assms by (auto simp: notif_row_deletes in_sub_def split: option.splits if_splits)

lemma chat_kept_by_remove:
  assumes "sid' \<noteq> s_id s"
  shows "in_sub sid' n \<and> notif_row T (sm_remove T s d) i = Some n \<longleftrightarrow> in_sub sid' n \<and> notif_row T d i = Some n"
  using assms by (auto simp: remove_rows in_sub_def split: option.splits if_splits)

lemma started_chat_kept:
  assumes "sub_row T d (topicUrl (base_url cfg) topic) = Some s"
  shows "onStartDM T cfg topic d = (d, forSubscription cfg s)" and "onCreated T cfg topic d = (d, forSubscription cfg s)"
  using assms by (simp_all add: onStartDM_def onCreated_def sm_add_def sm_get_def Let_def)

end

text \<open>
  C40: A click in the menu of a chat touches this chat only: the row and the messages of every other one
  stay as they were, also when the chat is left; at most one request is sent; and only leaving the
  chat leads to another page.
\<close>

theorem chat_menu_keeps_others:
  assumes "coop_db T" and "popup_click T B srv cfg fresh u me s a (cm, ses, d) log = ((cm', ses', d', calls, path), log')"
    and "other \<noteq> s_id s"
  shows "sub_row T d' other = sub_row T d other \<and>
    set (sm_getNotifications T d' other) = set (sm_getNotifications T d other) \<and>
    (\<exists>rqs. log' = log @ rqs \<and> length rqs \<le> 1) \<and> (path \<noteq> None \<longleftrightarrow> a = Unsubscribe)"
proof -
  note rows = coop_db.getNotifications_rows(1) [OF assms(1)]
  consider (clear) "a = ClearAll" | (mute) m where "a = SetMutedUntil m" | (leave) "a = Unsubscribe"
    | (test) "a = SendTestMessage" | (rest) "a \<notin> {ClearAll, Unsubscribe, SendTestMessage} \<union> range SetMutedUntil"
    by blast
  then show ?thesis
  proof cases
    case clear
    then have "d' = sm_deleteNotifications T (s_id s) d" "log' = log" "path = None"
      using assms(2) by (auto simp: handleClearAll_def)
    then show ?thesis
      using clear coop_db.chat_kept_by_clear [OF assms(1,3)]
      by (auto simp: rows coop_db.subs_of_notif_ops [OF assms(1)])
  next
    case mute
    then have "d' = sm_update T (s_id s) (\<lambda>s. s\<lparr>s_mutedUntil := m\<rparr>) d" "log' = log" "path = None"
      using assms(2) by (auto simp: handleSetMutedUntil_def sm_setMutedUntil_def)
    moreover have "notifs (sm_update T (s_id s) f d) = notifs d" for f by (simp add: sm_update_def)
    ultimately show ?thesis
      using mute assms(3) by (simp add: sm_getNotifications_def coop_db.sub_row_update [OF assms(1)])
  next
    case leave
    then have "d' = sm_remove T s d" "path \<noteq> None"
      "log' = (if session_exists ses \<and> \<not> s_internal s then log @ [delete_request cfg (session_token ses) s] else log)"
      using assms(2) unsubscribe_parts [of T srv cfg fresh s ses d log] by (auto split: prod.splits)
    then show ?thesis
      using leave assms(3) coop_db.chat_kept_by_remove [OF assms(1,3)]
      by (auto simp: rows coop_db.remove_rows [OF assms(1)])
  next
    case test
    then have "d' = d" "path = None" "\<exists>rq. log' = log @ [rq]"
      using assms(2) by (auto simp: handleSendTestMessage_def api_publish_def io_defs fetchOrThrow_unfold Let_def
          split: prod.splits sum.splits option.splits if_splits)
    then show ?thesis using test by auto
  next
    case rest
    then have "d' = d \<and> path = None \<and> log' = log"
      using assms(2) by (cases a rule: chat_action.exhaust) (auto split: prod.splits)
    then show ?thesis using rest by auto
  qed
qed

definition plain_menu_env :: menu_env where
  "plain_menu_env = \<lparr>me_clipboard = True, me_secure = True, me_share = None, me_pick = (\<lambda>_ _. 0), me_tags = 1, me_clock = []\<rparr>"

lemma chat_menu_keeps_others_witness:
  "let a = new_subscription ''https://c'' ''a'' no_opts; b = new_subscription ''https://c'' ''b'' no_opts;
       ses = \<lparr>local_storage = Map.empty, kv_store = (), href = None\<rparr>;
       n = stored_row (s_id b) 1 (plain_message ''m1'' 10 EVENT_MESSAGE);
       r = popup_click mem_db_ops no_base64 (\<lambda>_ _. None) plain_config () None plain_menu_env a Unsubscribe
         (new_chat_menu, ses, mem_db [a, b] [n]) [];
       d' = fst (snd (snd (fst r)))
   in sub_row mem_db_ops d' (s_id b) = Some b \<and> set (sm_getNotifications mem_db_ops d' (s_id b)) = {n}"
proof -
  let ?a = "new_subscription ''https://c'' ''a'' no_opts" and ?b = "new_subscription ''https://c'' ''b'' no_opts"
  let ?ses = "\<lparr>local_storage = Map.empty, kv_store = (), href = None\<rparr> :: unit session"
  let ?n = "stored_row (s_id ?b) 1 (plain_message ''m1'' 10 EVENT_MESSAGE)"
  let ?r = "popup_click mem_db_ops no_base64 (\<lambda>_ _. None) plain_config () None plain_menu_env ?a Unsubscribe
         (new_chat_menu, ?ses, mem_db [?a, ?b] [?n]) []"
  obtain cm' ses' d' calls path log' where r: "?r = ((cm', ses', d', calls, path), log')"
    by (metis prod.collapse)
  have ids: "s_id ?b \<noteq> s_id ?a" by code_simp
  have rows: "sub_row mem_db_ops (mem_db [?a, ?b] [?n]) (s_id ?b) = Some ?b"
    and ns: "sm_getNotifications mem_db_ops (mem_db [?a, ?b] [?n]) (s_id ?b) = [?n]" by code_simp+
  from chat_menu_keeps_others [OF coop_db_mem r ids] show ?thesis
    unfolding Let_def r fst_conv snd_conv rows ns by simp
qed

end
