(* ===== verification/Frame_View.thy ===== *)
theory Frame_View
  imports Start_View Chat_Input
begin

section \<open>The frame of the app (components/App.jsx, ActionBar.jsx, ChatInput.jsx, Messaging.jsx)\<close>

text \<open>
  What surrounds a page: the bar above it with the chat's buttons and the profile menu, the side bar,
  and the message field below it with its quote and its palette of commands; the table of addresses
  and pages; and the state all of them keep while the user moves between the pages.
\<close>

subsection \<open>The state\<close>

text \<open>
  The state of \<open>Layout\<close> (drawer, list of members, the message that is replied to), of the action bar
  (the chat's menu and list of members, the profile menu and the profile) and of the message field,
  whose \<open>replyTo\<close> is the one of the layout.
\<close>

record layout =
  ly_mobileDrawerOpen :: bool
  ly_memberListOpen :: bool
  ly_barMembers :: bool
  ly_chatMenu :: bool
  ly_profileMenu :: bool
  ly_profileOpen :: bool
  ly_profileEditMode :: bool
  ly_input :: chat_input

definition new_layout :: layout where
  "new_layout = \<lparr>ly_mobileDrawerOpen = False, ly_memberListOpen = False, ly_barMembers = False, ly_chatMenu = False,
     ly_profileMenu = False, ly_profileOpen = False, ly_profileEditMode = False, ly_input = new_chat_input\<rparr>"

subsection \<open>The action bar\<close>

datatype bar_action =
    ToggleDrawer
  | ToggleTheme
  | ShowMembers
  | ToggleMute
  | ShowChatMenu
  | ShowProfileMenu
  | GoTo string
  | ShowProfile bool
  | LeaveFor string
  | Logout

definition SettingsIcons :: "page_env \<Rightarrow> subscription \<Rightarrow> bar_action widget list" where
  "SettingsIcons E s =
     [Button (tr E ''action_bar_member_list'') ShowMembers,
      Button (tr E (if s_mutedUntil s \<noteq> 0 then ''action_bar_unmute_notifications'' else ''action_bar_mute_notifications'')) ToggleMute,
      Button (tr E ''action_bar_toggle_action_menu'') ShowChatMenu]"

text \<open>The items of the menu are shown while it is open.\<close>

definition ProfileIcon :: "page_env \<Rightarrow> config \<Rightarrow> 'kv session \<Rightarrow> layout \<Rightarrow> bar_action widget list" where
  "ProfileIcon E cfg ses ly =
     shown_if (session_exists ses) [Button (tr E ''action_bar_profile_title'') ShowProfileMenu] @
     shown_if (\<not> session_exists ses \<and> enable_login cfg) [Button (tr E ''action_bar_sign_in'') (GoTo ''/login'')] @
     shown_if (\<not> session_exists ses \<and> enable_signup cfg) [Button (tr E ''action_bar_sign_up'') (GoTo ''/signup'')] @
     shown_if (ly_profileMenu ly)
       [Button (coalesce (session_username ses) []) (ShowProfile False),
        Button (tr E ''action_bar_edit_profile'') (ShowProfile True),
        Button (tr E ''action_bar_profile_account'') (LeaveFor ''/account''),
        Button (tr E ''action_bar_profile_settings'') (LeaveFor ''/settings''),
        Button (tr E ''action_bar_profile_logout'') Logout]"

definition ActionBar ::
  "page_env \<Rightarrow> config \<Rightarrow> 'kv session \<Rightarrow> bool \<Rightarrow> string \<Rightarrow> subscription option \<Rightarrow> layout \<Rightarrow> bar_action widget list" where
  "ActionBar E cfg ses isDark pathname selected ly =
     [Button (tr E ''action_bar_show_menu'') ToggleDrawer,
      Label (action_bar_title (tr E) cfg selected pathname),
      Button (getThemeTooltip (tr E) isDark) ToggleTheme] @
     (case selected of Some s \<Rightarrow> SettingsIcons E s | None \<Rightarrow> []) @
     ProfileIcon E cfg ses ly"

text \<open>\<open>handleClick\<close>, \<open>handleClose\<close> and \<open>handleOpenProfile\<close> of the profile menu.\<close>

definition profile_handleClick :: "layout \<Rightarrow> layout" where
  "profile_handleClick ly = ly\<lparr>ly_profileMenu := True\<rparr>"

definition profile_handleClose :: "layout \<Rightarrow> layout" where
  "profile_handleClose ly = ly\<lparr>ly_profileMenu := False\<rparr>"

definition handleOpenProfile :: "bool \<Rightarrow> layout \<Rightarrow> layout" where
  "handleOpenProfile editMode ly = (profile_handleClose ly)\<lparr>ly_profileEditMode := editMode, ly_profileOpen := True\<rparr>"

text \<open>
  A click in the bar: the state, the session, the database and the address it leads to. The buttons for
  members and for the menu of a chat only change the state. Every click in the profile menu also closes it
  (components/PopupMenu.jsx).
\<close>

fun bar_click ::
  "('s, 'n, 'p, 'u) db_ops \<Rightarrow> server \<Rightarrow> config \<Rightarrow> 'kv \<Rightarrow> ('s, 'n, 'p, 'u) db \<Rightarrow> bool \<Rightarrow> subscription option \<Rightarrow> bar_action \<Rightarrow>
     layout \<times> 'kv session \<times> ('s, 'n, 'p, 'u) db \<Rightarrow> request list \<Rightarrow>
     (layout \<times> 'kv session \<times> ('s, 'n, 'p, 'u) db \<times> string option) \<times> request list" where
  "bar_click T srv cfg fresh empty_db isDark selected ToggleDrawer (ly, ses, d) log =
     ((ly\<lparr>ly_mobileDrawerOpen := \<not> ly_mobileDrawerOpen ly\<rparr>, ses, d, None), log)"
| "bar_click T srv cfg fresh empty_db isDark selected ToggleTheme (ly, ses, d) log =
     ((ly, ses, handleThemeToggle T isDark d, None), log)"
| "bar_click T srv cfg fresh empty_db isDark selected ShowMembers (ly, ses, d) log = ((ly\<lparr>ly_barMembers := True\<rparr>, ses, d, None), log)"
| "bar_click T srv cfg fresh empty_db isDark selected ToggleMute (ly, ses, d) log =
     ((ly, ses, case selected of Some s \<Rightarrow> handleToggleMute T s d | None \<Rightarrow> d, None), log)"
| "bar_click T srv cfg fresh empty_db isDark selected ShowChatMenu (ly, ses, d) log = ((ly\<lparr>ly_chatMenu := True\<rparr>, ses, d, None), log)"
| "bar_click T srv cfg fresh empty_db isDark selected ShowProfileMenu (ly, ses, d) log = ((profile_handleClick ly, ses, d, None), log)"
| "bar_click T srv cfg fresh empty_db isDark selected (GoTo path) (ly, ses, d) log = ((ly, ses, d, Some path), log)"
| "bar_click T srv cfg fresh empty_db isDark selected (ShowProfile b) (ly, ses, d) log = ((handleOpenProfile b ly, ses, d, None), log)"
| "bar_click T srv cfg fresh empty_db isDark selected (LeaveFor path) (ly, ses, d) log =
     ((profile_handleClose ly, ses, d, Some path), log)"
| "bar_click T srv cfg fresh empty_db isDark selected Logout (ly, ses, d) log =
     (let ((ses', d'), log') = handleLogout srv cfg fresh empty_db ses d log
      in ((profile_handleClose ly, ses', d', href ses'), log'))"

text \<open>The dialogs that are open beside the page: the chat's menu, lists of members, the profile.\<close>

datatype bar_dialog = ChatMenu subscription | Members string | Profile "string option" bool

definition layout_dialogs :: "'kv session \<Rightarrow> subscription option \<Rightarrow> layout \<Rightarrow> bar_dialog list" where
  "layout_dialogs ses selected ly =
     (case selected of
        Some s \<Rightarrow>
          (if ly_chatMenu ly then [ChatMenu s] else []) @
          (if ly_barMembers ly then [Members (s_topic s)] else []) @
          (if ly_memberListOpen ly then [Members (s_topic s)] else [])
      | None \<Rightarrow> []) @
     (if ly_profileOpen ly then [Profile (session_username ses) (ly_profileEditMode ly)] else [])"

subsection \<open>The message field\<close>

datatype input_action = SendMessage | Nudge | CancelReply | PickCommand command

definition CommandPalette :: "page_env \<Rightarrow> command list \<Rightarrow> nat \<Rightarrow> input_action widget list" where
  "CommandPalette E cs selectedIndex =
     map (\<lambda>(i, c). Box (Select [] [(''/'' @ cmd_name c, i = selectedIndex, PickCommand c)] #
         (if truthy (cmd_args c) then [Label (coalesce (cmd_args c) [])] else []) @
         [Label (tr E (''command_'' @ cmd_name c))])) (enumerate 0 cs)"

definition ChatInput :: "page_env \<Rightarrow> chat_input \<Rightarrow> input_action widget list" where
  "ChatInput E ci =
     (case ci_replyTo ci of
        Some (i, text, sender) \<Rightarrow>
          [Label (tr E ''chat_reply_to'' @ '' '' @ (if sender \<noteq> [] then sender else tr E ''chat_reply_unknown'')),
           Label text, Button (tr E ''chat_reply_cancel'') CancelReply]
      | None \<Rightarrow> []) @
     CommandPalette E (ci_filtered ci) (ci_index ci) @
     [Button (tr E ''chat_nudge_button'') Nudge,
      Input (tr E ''chat_input_placeholder'') (ci_message ci),
      button_if (js_trim (ci_message ci) \<noteq> []) (tr E ''chat_input_send'') SendMessage] @
     shown_if (ci_error ci) [Notice ''error'' (tr E ''message_bar_error_publishing'')]"

text \<open>The field is there for a selected chat; what it sends is published to this chat.\<close>

definition Messaging :: "page_env \<Rightarrow> subscription option \<Rightarrow> layout \<Rightarrow> input_action widget list" where
  "Messaging E selected ly = (case selected of Some s \<Rightarrow> ChatInput E (ly_input ly) | None \<Rightarrow> [])"

definition messaging_onSend ::
  "base64_lib \<Rightarrow> server \<Rightarrow> user option \<Rightarrow> subscription \<Rightarrow> string \<Rightarrow> (string \<times> json) list \<Rightarrow> unit io" where
  "messaging_onSend B srv u s msg options = api_publish B srv u (s_baseUrl s) (s_topic s) msg options"

text \<open>\<open>onLocalCommand\<close> of the layout opens its list of members.\<close>

definition onLocalCommand :: "string list \<Rightarrow> layout \<Rightarrow> layout" where
  "onLocalCommand cmds ly = (if ''mitglieder'' \<in> set cmds then ly\<lparr>ly_memberListOpen := True\<rparr> else ly)"

text \<open>A click in the message field of the chat \<open>s\<close>; \<open>u\<close> is the user stored for the chat's server.\<close>

fun input_click ::
  "base64_lib \<Rightarrow> server \<Rightarrow> config \<Rightarrow> string option \<Rightarrow> user option \<Rightarrow> subscription \<Rightarrow> input_action \<Rightarrow>
     layout \<Rightarrow> request list \<Rightarrow> layout \<times> request list" where
  "input_click B srv cfg tok u s SendMessage ly log =
     (let ((ci, cmds), log') = handleSend srv cfg tok (s_topic s) (messaging_onSend B srv u s) (ly_input ly) log
      in (onLocalCommand cmds (ly\<lparr>ly_input := ci\<rparr>), log'))"
| "input_click B srv cfg tok u s Nudge ly log = (ly, handleNudge srv cfg tok (s_topic s) log)"
| "input_click B srv cfg tok u s CancelReply ly log = (ly\<lparr>ly_input := (ly_input ly)\<lparr>ci_replyTo := None\<rparr>\<rparr>, log)"
| "input_click B srv cfg tok u s (PickCommand cmd) ly log =
     (ly\<lparr>ly_input := handleCommandSelect cmd (ly_input ly)\<rparr>, log)"

text \<open>Replying to a message of the chat that is shown.\<close>

definition layout_reply :: "notification \<Rightarrow> layout \<Rightarrow> layout" where
  "layout_reply n ly = ly\<lparr>ly_input := (ly_input ly)\<lparr>ci_replyTo := Some (handleReply n)\<rparr>\<rparr>"

subsection \<open>The layout\<close>

text \<open>
  \<open>Layout\<close>: the bar, the side bar and the message field for the chat that the address selects.
  \<open>na\<close>, \<open>dismissed\<close> and \<open>versionChanged\<close> are the state of the side bar's alerts.
\<close>

record layout_page =
  lp_selected :: "subscription option"
  lp_title :: string
  lp_bar :: "bar_action widget list"
  lp_nav :: "nav_action widget list"
  lp_input :: "input_action widget list"
  lp_dialogs :: "bar_dialog list"

definition Layout ::
  "page_env \<Rightarrow> config \<Rightarrow> 'kv session \<Rightarrow> bool \<Rightarrow> string list \<Rightarrow> bool \<Rightarrow> nav_alerts \<Rightarrow> string option \<Rightarrow> bool \<Rightarrow>
     ('s, 'n, 'p, 'u) db_ops \<Rightarrow> ('s, 'n, 'p, 'u) db \<Rightarrow> string \<Rightarrow> string option \<Rightarrow> string option \<Rightarrow> layout \<Rightarrow> layout_page" where
  "Layout E cfg ses isDark dismissed versionChanged na role paid T d pathname param_baseUrl param_topic ly =
     (let selected = selectSubscription cfg param_baseUrl param_topic (Some (sm_all T d))
      in \<lparr>lp_selected = selected,
          lp_title = updateTitle (newNotificationsCount (Some (sm_all T d))),
          lp_bar = ActionBar E cfg ses isDark pathname selected ly,
          lp_nav = NavList E cfg dismissed versionChanged na ses pathname role paid T d selected,
          lp_input = Messaging E selected ly,
          lp_dialogs = layout_dialogs ses selected ly\<rparr>)"

text \<open>
  What rendering does to the state: without a selected chat the message field and the chat's buttons
  are removed, and their state with them; the state of the layout itself stays.
\<close>

definition layout_render :: "subscription option \<Rightarrow> layout \<Rightarrow> layout" where
  "layout_render selected ly =
     (if selected = None
      then ly\<lparr>ly_input := new_chat_input\<lparr>ci_replyTo := ci_replyTo (ly_input ly)\<rparr>, ly_chatMenu := False, ly_barMembers := False\<rparr>
      else ly)"

subsection \<open>The pages\<close>

datatype app_element =
    LoginElement | SignupElement | InviteElement
  | LayoutOf page_element
and page_element =
    AllSubscriptionsElement | AccountElement | PreferencesElement | AdminElement | DocsElement | SingleSubscriptionElement

definition App_routes :: "config \<Rightarrow> (string \<times> app_element) list" where
  "App_routes cfg =
     [(''/login'', LoginElement), (''/signup'', SignupElement), (''/invite/:token'', InviteElement),
      (app_root cfg, LayoutOf AllSubscriptionsElement), (''/account'', LayoutOf AccountElement),
      (''/settings'', LayoutOf PreferencesElement), (''/admin'', LayoutOf AdminElement), (''/docs'', LayoutOf DocsElement),
      (''/:topic'', LayoutOf SingleSubscriptionElement), (''/:baseUrl/:topic'', LayoutOf SingleSubscriptionElement)]"

text \<open>The router is a library: \<open>match\<close> finds the pattern for an address among those of the table.\<close>

definition App_page :: "(string list \<Rightarrow> string \<Rightarrow> nat option) \<Rightarrow> config \<Rightarrow> string \<Rightarrow> app_element option" where
  "App_page match cfg path = map_option (\<lambda>i. snd (App_routes cfg ! i)) (match (map fst (App_routes cfg)) path)"

subsection \<open>Properties\<close>

text \<open>The theme button changes the theme that is shown, and the mute button the sign of the selected chat only.\<close>

lemma theme_flips:
  assumes "coop_db T"
  shows "darkModeEnabled prefers (prefs_theme (PREFS T) (prefs (handleThemeToggle T (darkModeEnabled prefers theme) d))) \<longleftrightarrow>
     \<not> darkModeEnabled prefers theme"
  using assms
  by (simp add: handleThemeToggle_def darkModeEnabled_def prefs_round_trip [OF coop_db.axioms(3)])

text \<open>Nobody but the user of a session can open the profile menu, and so the profile and the logout.\<close>

inductive bar_reachable ::
  "('s, 'n, 'p, 'u) db_ops \<Rightarrow> page_env \<Rightarrow> config \<Rightarrow> 'kv session \<Rightarrow> layout \<Rightarrow> bool" for T E cfg ses where
  bar_new: "bar_reachable T E cfg ses new_layout"
| bar_clicked: "bar_reachable T E cfg ses ly \<Longrightarrow> a \<in> set (page_offers (ActionBar E cfg ses isDark pathname selected ly)) \<Longrightarrow>
    bar_click T srv cfg fresh empty_db isDark selected a (ly, ses, d) log = ((ly', ses, d', path), log') \<Longrightarrow>
    bar_reachable T E cfg ses ly'"
| bar_rendered: "bar_reachable T E cfg ses ly \<Longrightarrow> bar_reachable T E cfg ses (layout_render selected ly)"

lemma bar_offers:
  "page_offers (ActionBar E cfg ses isDark pathname selected ly) =
     [ToggleDrawer, ToggleTheme] @ (if selected = None then [] else [ShowMembers, ToggleMute, ShowChatMenu]) @
     (if session_exists ses then [ShowProfileMenu]
      else (if enable_login cfg then [GoTo ''/login''] else []) @ (if enable_signup cfg then [GoTo ''/signup''] else [])) @
     (if ly_profileMenu ly then [ShowProfile False, ShowProfile True, LeaveFor ''/account'', LeaveFor ''/settings'', Logout] else [])"
  by (simp add: ActionBar_def SettingsIcons_def ProfileIcon_def split: option.split)

lemmas layout_defs = layout_render_def profile_handleClick_def profile_handleClose_def handleOpenProfile_def new_layout_def

lemma profile_needs_session:
  "bar_reachable T E cfg ses ly \<Longrightarrow> ly_profileMenu ly \<or> ly_profileOpen ly \<Longrightarrow> session_exists ses"
proof (induction rule: bar_reachable.induct)
  case (bar_clicked ly a isDark pathname selected srv fresh empty_db d log ly' d' path log')
  then show ?case
    by (cases a rule: bar_action.exhaust) (auto simp: bar_offers layout_defs Let_def split: if_splits prod.splits)
qed (auto simp: layout_defs split: if_splits)

text \<open>The marks of the side bar.\<close>

lemma select_in_entries:
  assumes "selectSubscription cfg b t (Some ss) = Some s"
  shows "s \<in> fst ` set (withoutInternal ss)"
  using assms by (auto simp: selectSubscription_def dest!: find_Some_mem intro: rev_image_eqI)

lemma chosen_alerts: "page_chosen (nav_alert_list E dismissed v na) = []"
  by (simp add: nav_alert_list_def VersionUpdateBanner_def closable_alert_def NotificationPermissionRequired_def
      NotificationPermissionDeniedAlert_def NotificationIOSInstallRequiredAlert_def NotificationBrowserNotSupportedAlert_def
      NotificationContextNotSupportedAlert_def)

lemma chosen_item: "OpenChat x \<in> set (chosen (SubscriptionItem E cfg sel s k n)) \<longleftrightarrow> sel \<and> x = s"
  by (auto simp: SubscriptionItem_def ListItemButton_def split: option.split)

lemma chats_marked:
  assumes "coop_db T" and "s \<in> fst ` set (withoutInternal (sm_all T d))"
  shows "OpenChat x \<in> set (page_chosen (NavList E cfg dismissed v na ses pathname role paid T d (Some s))) \<longleftrightarrow> x = s"
proof -
  have inj: "inj_on (s_id \<circ> fst) (set (withoutInternal (sm_all T d)))"
    using coop_db.distinct_entry_ids [OF assms(1), of d] by (simp add: distinct_map)
  then have same: "x = s" if "x \<in> fst ` set (withoutInternal (sm_all T d))" "s_id x = s_id s" for x
    using that assms(2) inj unfolding inj_on_def by force
  have "set (chat_entries T d) = set (withoutInternal (sm_all T d))"
    by (simp add: chat_entries_def)
  then have "OpenChat x \<in> set (page_chosen (SubscriptionList E cfg T d (Some s))) \<longleftrightarrow>
      x \<in> fst ` set (withoutInternal (sm_all T d)) \<and> s_id s = s_id x" for x
    by (auto simp: SubscriptionList_def chosen_map chosen_item case_prod_beta)
  then have "OpenChat x \<in> set (page_chosen (SubscriptionList E cfg T d (Some s))) \<longleftrightarrow> x = s" for x
    using assms(2) same by metis
  moreover have "withoutInternal (sm_all T d) \<noteq> []" using assms(2) by auto
  ultimately show ?thesis
    by (auto simp: NavList_def Let_def chosen_alerts ListItemButton_def UpgradeBanner_def)
qed

text \<open>What the field sends when its text is no command.\<close>

definition send_options :: "chat_input \<Rightarrow> (string \<times> json) list" where
  "send_options ci =
     (''markdown'', JBool True) # (case ci_replyTo ci of None \<Rightarrow> [] | Some r \<Rightarrow> [(''reply_to'', JStr (fst r))])"

lemma message_sent:
  assumes "parseCommand (js_trim (ci_message (ly_input ly))) = None" and "js_trim (ci_message (ly_input ly)) \<noteq> []"
  shows "input_click B srv cfg tok u s SendMessage ly log =
    (let rq = publish_request B u (s_baseUrl s) (s_topic s) (js_trim (ci_message (ly_input ly))) (send_options (ly_input ly));
         sent = (case srv log rq of Some rs \<Rightarrow> rs_status rs = 200 | None \<Rightarrow> False)
     in (ly\<lparr>ly_input := if sent then (ly_input ly)\<lparr>ci_message := [], ci_replyTo := None, ci_sendSuccess := True\<rparr>
           else (ly_input ly)\<lparr>ci_error := True\<rparr>\<rparr>, log @ [rq]))"
  using assms
  by (simp add: handleSend_def messaging_onSend_def api_publish_def io_defs fetchOrThrow_unfold send_options_def onLocalCommand_def
      Let_def split: option.split)


text \<open>A page of one empty chat, with a text in the field, of a user without a session.\<close>

definition sample_page :: "layout \<Rightarrow> layout_page" where
  "sample_page ly = Layout plain_page plain_config \<lparr>local_storage = Map.empty, kv_store = (), href = None\<rparr> False [] False
     \<lparr>na_permissionRequired = False, na_permissionDenied = False, na_iosInstall = False, na_browserNotSupported = False,
       na_contextNotSupported = False\<rparr>
     None False mem_db_ops (mem_db [new_subscription ''https://c'' ''a'' no_opts] []) ''/a'' None (Some ''a'') ly"

definition sample_layout :: layout where
  "sample_layout = new_layout\<lparr>ly_input := handleChange ''hi'' new_chat_input\<rparr>"


text \<open>
  C39: The quote of a reply does not leave with its chat: a reply that was begun in one chat stays while
  other pages and chats are opened, is shown above the field of the next chat, and the message that is
  then written there is sent to that chat as a reply to a message which that chat does not have.
\<close>

theorem reply_leaves_chat:
  assumes "js_trim msg = msg" and "msg \<noteq> []" and "\<not> starts_with msg ''/''"
    and "ly' = fold layout_render visited (layout_reply n ly)"
    and "ly'' = layout_render (Some other) (ly'\<lparr>ly_input := handleChange msg (ly_input ly')\<rparr>)"
  shows "Label (js_substring 0 100 (coalesce (n_message n) [])) \<in> set (Messaging E (Some other) ly'') \<and>
    snd (input_click B srv cfg tok u other SendMessage ly'' log) =
      log @ [publish_request B u (s_baseUrl other) (s_topic other) msg [(''markdown'', JBool True), (''reply_to'', JStr (n_id n))]]"
proof -
  have "ci_replyTo (ly_input (fold layout_render visited ly)) = ci_replyTo (ly_input ly)" for ly
    by (induction visited arbitrary: ly) (simp_all add: layout_render_def)
  then have r: "ci_replyTo (ly_input ly'') = Some (handleReply n)" and m: "ci_message (ly_input ly'') = msg"
    by (simp_all add: assms(3-5) layout_render_def handleChange_def Let_def layout_reply_def)
  have "parseCommand msg = None" using assms(3) by (simp add: parseCommand_def)
  then have "snd (input_click B srv cfg tok u other SendMessage ly'' log) =
      log @ [publish_request B u (s_baseUrl other) (s_topic other) msg (send_options (ly_input ly''))]"
    using assms(1,2) by (subst message_sent) (simp_all add: m Let_def)
  then show ?thesis
    by (simp add: r send_options_def Messaging_def ChatInput_def handleReply_def del: input_click.simps)
qed

lemma reply_leaves_chat_witness:
  "let n = plain_message ''m1'' 10 EVENT_MESSAGE;
       ly = layout_render None (layout_reply n new_layout);
       ly' = layout_render (Some (new_subscription ''https://c'' ''b'' no_opts)) (ly\<lparr>ly_input := handleChange ''hi'' (ly_input ly)\<rparr>)
   in snd (input_click no_base64 (\<lambda>_ _. None) plain_config None None (new_subscription ''https://c'' ''b'' no_opts) SendMessage ly' []) =
      [publish_request no_base64 None ''https://c'' ''b'' ''hi'' [(''markdown'', JBool True), (''reply_to'', JStr ''m1'')]]"
proof -
  let ?ly = "layout_render None (layout_reply (plain_message ''m1'' 10 EVENT_MESSAGE) new_layout)"
  have "js_trim ''hi'' = ''hi''" "\<not> starts_with ''hi'' ''/''" by code_simp+
  moreover have "?ly = fold layout_render [None] (layout_reply (plain_message ''m1'' 10 EVENT_MESSAGE) new_layout)" by simp
  ultimately show ?thesis
    using reply_leaves_chat [of "''hi''" ?ly "[None]" "plain_message ''m1'' 10 EVENT_MESSAGE" new_layout _
        "new_subscription ''https://c'' ''b'' no_opts" plain_page no_base64 "\<lambda>_ _. None" plain_config None None "[]"]
    by (simp add: Let_def new_subscription_def plain_message_def del: input_click.simps)
qed

end
