(* ===== verification/Small_View.thy ===== *)
theory Small_View
  imports Widgets Prelude
begin

section \<open>The documentation, pictures and reactions (DocsPage.jsx, ImageLightbox.jsx, EmojiReactionPicker.jsx)\<close>

text \<open>
  The smaller pages and parts: the documentation with its two tabs, a picture that opens in full size,
  and the quick reactions. The six reactions of the code are characters beyond the strings of
  this model, so they are an argument.
\<close>

subsection \<open>Documentation\<close>

datatype docs_action = DocsTab nat

definition Section :: "string \<Rightarrow> docs_action widget list \<Rightarrow> docs_action widget" where
  "Section title children = Box (Label title # children)"

definition Step :: "string \<Rightarrow> string \<Rightarrow> docs_action widget list \<Rightarrow> docs_action widget" where
  "Step number title children = Box (Label number # Label title # children)"

definition Kbd :: "string \<Rightarrow> docs_action widget" where
  "Kbd key = Label key"

definition docs_users :: "page_env \<Rightarrow> docs_action widget list" where
  "docs_users E =
     [Section (tr E ''docs_getting_started_title'')
        [Step ''1'' (tr E ''docs_getting_started_step1_title'') [Label (tr E ''docs_getting_started_step1'')],
         Step ''2'' (tr E ''docs_getting_started_step2_title'') [Label (tr E ''docs_getting_started_step2'')],
         Step ''3'' (tr E ''docs_getting_started_step3_title'') [Label (tr E ''docs_getting_started_step3'')]],
      Section (tr E ''docs_create_chat_title'') [Label (tr E ''docs_create_chat_desc'')],
      Section (tr E ''docs_join_chat_title'')
        [Label (tr E ''docs_join_chat_desc''),
         Step ''1'' (tr E ''docs_join_chat_way1_title'') [Label (tr E ''docs_join_chat_way1'')],
         Step ''2'' (tr E ''docs_join_chat_way2_title'') [Label (tr E ''docs_join_chat_way2'')],
         Step ''3'' (tr E ''docs_join_chat_way3_title'') [Label (tr E ''docs_join_chat_way3'')]],
      Section (tr E ''docs_send_messages_title'')
        [Label (tr E ''docs_send_messages_desc''),
         Box [Kbd ''Enter'', Label (tr E ''docs_send_messages_enter'')],
         Box [Kbd ''Shift+Enter'', Label (tr E ''docs_send_messages_shift_enter'')]],
      Section (tr E ''docs_display_name_title'') [Label (tr E ''docs_display_name_desc'')],
      Section (tr E ''docs_theme_title'')
        [Label (tr E ''docs_theme_desc_simple''),
         Box [Label ''Light'', Label (tr E ''docs_theme_light'')],
         Box [Label ''Dark'', Label (tr E ''docs_theme_dark'')],
         Label (tr E ''docs_accent_desc'')],
      Section (tr E ''docs_notifications_title'') [Label (tr E ''docs_notifications_desc'')]]"

definition docs_admins :: "page_env \<Rightarrow> docs_action widget list" where
  "docs_admins E =
     [Section (tr E ''docs_admin_users_title'') [Label (tr E ''docs_admin_users_desc'')],
      Section (tr E ''docs_admin_access_title'') [Label (tr E ''docs_admin_access_desc'')],
      Section (tr E ''docs_admin_join_requests_title'') [Label (tr E ''docs_admin_join_requests_desc'')],
      Section (tr E ''docs_admin_invites_title'') [Label (tr E ''docs_admin_invites_desc'')],
      Section (tr E ''docs_admin_config_title'') [Label (tr E ''docs_admin_config_desc'')],
      Section (tr E ''docs_admin_security_title'') [Label (tr E ''docs_admin_security_desc'')]]"

text \<open>\<open>TabPanel\<close> shows its children for its own tab only.\<close>

definition TabPanel :: "nat \<Rightarrow> nat \<Rightarrow> docs_action widget list \<Rightarrow> docs_action widget list" where
  "TabPanel val index children = shown_if (val = index) children"

definition DocsPage :: "page_env \<Rightarrow> nat \<Rightarrow> docs_action widget list" where
  "DocsPage E tabIndex =
     Select [] [(tr E ''docs_tab_users'', tabIndex = 0, DocsTab 0), (tr E ''docs_tab_admins'', tabIndex = 1, DocsTab 1)] #
     TabPanel tabIndex 0 (docs_users E) @ TabPanel tabIndex 1 (docs_admins E)"

fun docs_click :: "docs_action \<Rightarrow> nat \<Rightarrow> nat" where
  "docs_click (DocsTab v) tabIndex = v"

lemma docs_tab_chosen:
  assumes "a \<in> set (page_offers (DocsPage E tabIndex))"
  shows "page_chosen (DocsPage E (docs_click a tabIndex)) = [a]"
proof -
  have "page_offers (docs_users E) = []" "page_offers (docs_admins E) = []" "page_chosen (docs_users E) = []"
    "page_chosen (docs_admins E) = []"
    by (simp_all add: docs_users_def docs_admins_def Section_def Step_def Kbd_def)
  then have "a = DocsTab 0 \<or> a = DocsTab 1" using assms by (auto simp: DocsPage_def TabPanel_def)
  then show ?thesis
    using \<open>page_chosen (docs_users E) = []\<close> \<open>page_chosen (docs_admins E) = []\<close> by (auto simp: DocsPage_def TabPanel_def)
qed

subsection \<open>Pictures\<close>

datatype picture_action = OpenPicture | ClosePicture

text \<open>A picture of a notification, which a click opens.\<close>

definition Image :: "page_env \<Rightarrow> bool \<Rightarrow> picture_action widget list" where
  "Image E is_open =
     Button (tr E ''notifications_attachment_image'') OpenPicture #
     shown_if is_open [Button [] ClosePicture, Label (tr E ''notifications_attachment_image'')]"

text \<open>The full size of a picture of a chat: closed by a click beside it, by its button or by the Escape key.\<close>

definition ImageLightbox :: "bool \<Rightarrow> string option \<Rightarrow> picture_action widget list" where
  "ImageLightbox is_open alt = shown_if is_open [Button [] ClosePicture, Label (if truthy alt then coalesce alt [] else [])]"

definition lightbox_key :: "string \<Rightarrow> bool \<Rightarrow> bool" where
  "lightbox_key key is_open = (if is_open \<and> key = ''Escape'' then False else is_open)"

fun picture_click :: "picture_action \<Rightarrow> bool \<Rightarrow> bool" where
  "picture_click OpenPicture is_open = True"
| "picture_click ClosePicture is_open = False"

subsection \<open>Reactions\<close>

datatype reaction_action = OpenReactions | CloseReactions | PickReaction string

definition EmojiReactionPicker :: "page_env \<Rightarrow> string list \<Rightarrow> bool \<Rightarrow> reaction_action widget list" where
  "EmojiReactionPicker E quickReactions is_open =
     Button (tr E ''chat_reaction_add'') OpenReactions #
     shown_if is_open (map (\<lambda>emoji. Button emoji (PickReaction emoji)) quickReactions)"

text \<open>Whether the choice is open, and the emoji that is handed to the message.\<close>

fun reaction_click :: "reaction_action \<Rightarrow> bool \<Rightarrow> bool \<times> string option" where
  "reaction_click OpenReactions is_open = (True, None)"
| "reaction_click CloseReactions is_open = (False, None)"
| "reaction_click (PickReaction emoji) is_open = (False, Some emoji)"

text \<open>Only one of the reactions can be picked, and only while the choice is open; picking closes it.\<close>

lemma reaction_picked:
  assumes "a \<in> set (page_offers (EmojiReactionPicker E rs is_open))" and "reaction_click a is_open = (is_open', Some emoji)"
  shows "emoji \<in> set rs \<and> is_open \<and> \<not> is_open'"
proof -
  have "page_offers (map (\<lambda>emoji. Button emoji (PickReaction emoji)) rs) = map PickReaction rs"
    by (induction rs) simp_all
  then show ?thesis
    using assms by (cases a rule: reaction_action.exhaust) (auto simp: EmojiReactionPicker_def split: if_splits)
qed

end
