(* ===== verification/Page_Dialogs.thy ===== *)
theory Page_Dialogs
  imports Settings_View Account_View
begin

section \<open>The dialogs of the settings and the account page (Preferences.jsx, Account.jsx)\<close>

text \<open>
  Which dialogs are open and what is typed in them, and what a click on the page or in a dialog does to
  them. Most dialogs get a new React key each time they are opened, which throws away what was typed or
  shown in them before; the fields of a closed dialog stay until then.
\<close>

record 'f dialog =
  dg_open :: bool
  dg_key :: nat
  dg_fields :: 'f

definition closed_dialog :: "'f \<Rightarrow> 'f dialog" where
  "closed_dialog start = \<lparr>dg_open = False, dg_key = 0, dg_fields = start\<rparr>"

text \<open>\<open>setDialogKey((prev) => prev + 1)\<close>, \<open>setDialogOpen(true)\<close>: the next dialog starts with the given fields.\<close>

definition reopened :: "'f \<Rightarrow> 'f dialog \<Rightarrow> 'f dialog" where
  "reopened start dg = \<lparr>dg_open = True, dg_key = dg_key dg + 1, dg_fields = start\<rparr>"

definition shut :: "'f dialog \<Rightarrow> 'f dialog" where
  "shut dg = dg\<lparr>dg_open := False\<rparr>"

definition typed :: "('f \<Rightarrow> 'f) \<Rightarrow> 'f dialog \<Rightarrow> 'f dialog" where
  "typed f dg = (if dg_open dg then dg\<lparr>dg_fields := f (dg_fields dg)\<rparr> else dg)"

lemma dialog_simps [simp]:
  "dg_open (reopened start dg)" "dg_fields (reopened start dg) = start" "\<not> dg_open (shut dg)"
  "dg_fields (shut dg) = dg_fields dg" "dg_open (typed f dg) = dg_open dg"
  "\<not> dg_open (closed_dialog start)" "dg_fields (closed_dialog start) = start"
  "dg_fields (typed f dg) = (if dg_open dg then f (dg_fields dg) else dg_fields dg)"
  by (simp_all add: reopened_def shut_def typed_def closed_dialog_def)

subsection \<open>Users of other servers\<close>

text \<open>The dialog to add a user, the one to edit a user, and the user it edits.\<close>

record users_dialogs =
  td_add :: "user_dialog dialog"
  td_edit :: "user_dialog dialog"
  td_user :: "user option"

definition closed_users_dialogs :: users_dialogs where
  "closed_users_dialogs = \<lparr>td_add = closed_dialog (open_user_dialog None), td_edit = closed_dialog (open_user_dialog None), td_user = None\<rparr>"

definition users_handleAddClick :: "users_dialogs \<Rightarrow> users_dialogs" where
  "users_handleAddClick td = td\<lparr>td_add := reopened (open_user_dialog None) (td_add td)\<rparr>"

definition userTable_handleEditClick :: "user \<Rightarrow> users_dialogs \<Rightarrow> users_dialogs" where
  "userTable_handleEditClick u td =
     td\<lparr>td_edit := reopened (open_user_dialog (Some u)) (td_edit td), td_user := Some u\<rparr>"

definition users_handleDialogCancel :: "users_dialogs \<Rightarrow> users_dialogs" where
  "users_handleDialogCancel td = td\<lparr>td_add := shut (td_add td)\<rparr>"

definition userTable_handleDialogCancel :: "users_dialogs \<Rightarrow> users_dialogs" where
  "userTable_handleDialogCancel td = td\<lparr>td_edit := shut (td_edit td)\<rparr>"

datatype user_field = UserServer | UserName | UserPassword

fun type_user :: "user_field \<Rightarrow> string \<Rightarrow> user_dialog \<Rightarrow> user_dialog" where
  "type_user UserServer v ud = ud\<lparr>ud_baseUrl := v\<rparr>"
| "type_user UserName v ud = ud\<lparr>ud_username := v\<rparr>"
| "type_user UserPassword v ud = ud\<lparr>ud_password := v\<rparr>"

datatype users_event =
    UsersClicked settings_action
  | AddTyped user_field string
  | AddClicked user_dialog_action
  | EditTyped user_field string
  | EditClicked user_dialog_action

text \<open>
  A click on the card or in a dialog. A dialog that is closed cannot be used, a button that is disabled
  does nothing, and the dialog to edit a user has no field for the server.
\<close>

fun users_step ::
  "'u user_ops \<Rightarrow> config \<Rightarrow> 'kv session \<Rightarrow> users_event \<Rightarrow> users_dialogs \<times> 'u \<Rightarrow> users_dialogs \<times> 'u" where
  "users_step U cfg ses (UsersClicked a) (td, t) =
     (case a of
        AddUser \<Rightarrow> (users_handleAddClick td, t)
      | EditUser u \<Rightarrow> (userTable_handleEditClick u td, t)
      | RemoveUser u \<Rightarrow> (td, user_handleDeleteClick U cfg ses u t)
      | _ \<Rightarrow> (td, t))"
| "users_step U cfg ses (AddTyped f v) (td, t) = (td\<lparr>td_add := typed (type_user f v) (td_add td)\<rparr>, t)"
| "users_step U cfg ses (AddClicked a) (td, t) =
     (let ud = dg_fields (td_add td) in
      if \<not> dg_open (td_add td) then (td, t)
      else if a = UserCancel then (users_handleDialogCancel td, t)
      else if \<not> addButtonEnabled False (users_all U cfg ses t) ud then (td, t)
      else (users_handleDialogCancel td, user_handleDialogSubmit U cfg ses (user_dialog_handleSubmit ud) t))"
| "users_step U cfg ses (EditTyped f v) (td, t) =
     (if f = UserServer then (td, t) else (td\<lparr>td_edit := typed (type_user f v) (td_edit td)\<rparr>, t))"
| "users_step U cfg ses (EditClicked a) (td, t) =
     (let ud = dg_fields (td_edit td) in
      if \<not> dg_open (td_edit td) then (td, t)
      else if a = UserCancel then (userTable_handleDialogCancel td, t)
      else if \<not> addButtonEnabled True (users_all U cfg ses t) ud then (td, t)
      else (userTable_handleDialogCancel td, user_handleDialogSubmit U cfg ses (user_dialog_handleSubmit ud) t))"

subsection \<open>Reserved topics\<close>

text \<open>The dialogs of the card: to add a reservation, and to edit or delete the one that was clicked, with one key for both.\<close>

record reservations_dialogs =
  rd_add :: "unit dialog"
  rd_key :: nat
  rd_reservation :: "reservation option"
  rd_editOpen :: bool
  rd_deleteOpen :: bool

definition closed_reservations_dialogs :: reservations_dialogs where
  "closed_reservations_dialogs = \<lparr>rd_add = closed_dialog (), rd_key = 0, rd_reservation = None, rd_editOpen = False, rd_deleteOpen = False\<rparr>"

definition reservations_handleAddClick :: "reservations_dialogs \<Rightarrow> reservations_dialogs" where
  "reservations_handleAddClick rd = rd\<lparr>rd_add := reopened () (rd_add rd)\<rparr>"

definition reservations_handleEditClick :: "reservation \<Rightarrow> reservations_dialogs \<Rightarrow> reservations_dialogs" where
  "reservations_handleEditClick r rd = rd\<lparr>rd_key := rd_key rd + 1, rd_reservation := Some r, rd_editOpen := True\<rparr>"

definition reservations_handleDeleteClick :: "reservation \<Rightarrow> reservations_dialogs \<Rightarrow> reservations_dialogs" where
  "reservations_handleDeleteClick r rd = rd\<lparr>rd_key := rd_key rd + 1, rd_reservation := Some r, rd_deleteOpen := True\<rparr>"

text \<open>The open dialogs, with the topic that each is about.\<close>

datatype reservation_dialog = AddDialog | EditDialog "string option" | DeleteDialog "string option"

definition reservation_dialogs :: "reservations_dialogs \<Rightarrow> reservation_dialog list" where
  "reservation_dialogs rd =
     (if dg_open (rd_add rd) then [AddDialog] else []) @
     (if rd_editOpen rd then [EditDialog (map_option r_topic (rd_reservation rd))] else []) @
     (if rd_deleteOpen rd then [DeleteDialog (map_option r_topic (rd_reservation rd))] else [])"

fun close_reservation_dialog :: "reservation_dialog \<Rightarrow> reservations_dialogs \<Rightarrow> reservations_dialogs" where
  "close_reservation_dialog AddDialog rd = rd\<lparr>rd_add := shut (rd_add rd)\<rparr>"
| "close_reservation_dialog (EditDialog r) rd = rd\<lparr>rd_editOpen := False\<rparr>"
| "close_reservation_dialog (DeleteDialog r) rd = rd\<lparr>rd_deleteOpen := False\<rparr>"

subsection \<open>The account page\<close>

record password_fields =
  pw_current :: string
  pw_new :: string
  pw_confirm :: string
  pw_error :: string

record token_fields =
  tf_label :: string
  tf_expires :: int
  tf_error :: string

record delete_fields =
  df_password :: string
  df_error :: string

definition new_password_fields :: password_fields where
  "new_password_fields = \<lparr>pw_current = [], pw_new = [], pw_confirm = [], pw_error = []\<rparr>"

definition new_token_fields :: "token option \<Rightarrow> token_fields" where
  "new_token_fields edited =
     (case open_token_dialog edited of (label, expires) \<Rightarrow> \<lparr>tf_label = label, tf_expires = expires, tf_error = []\<rparr>)"

definition new_delete_fields :: delete_fields where
  "new_delete_fields = \<lparr>df_password = [], df_error = []\<rparr>"

text \<open>
  The dialogs of the page: password, phone number, plan, new token, edited token, deleted token with the
  error it shows (it has no key), the token that was chosen, deleted account; and the notices.
\<close>

record account_dialogs =
  ad_password :: "password_fields dialog"
  ad_phone :: "phone_dialog dialog"
  ad_upgrade :: "unit dialog"
  ad_create :: "token_fields dialog"
  ad_edit :: "token_fields dialog"
  ad_delete :: "bool \<times> string"
  ad_selected :: "token option"
  ad_account :: "delete_fields dialog"
  ad_portalError :: bool
  ad_phoneCopied :: bool
  ad_tokenCopied :: bool

definition closed_account_dialogs :: account_dialogs where
  "closed_account_dialogs = \<lparr>ad_password = closed_dialog new_password_fields, ad_phone = closed_dialog new_phone_dialog,
     ad_upgrade = closed_dialog (), ad_create = closed_dialog (new_token_fields None), ad_edit = closed_dialog (new_token_fields None),
     ad_delete = (False, []), ad_selected = None, ad_account = closed_dialog new_delete_fields,
     ad_portalError = False, ad_phoneCopied = False, ad_tokenCopied = False\<rparr>"

definition password_handleDialogOpen :: "account_dialogs \<Rightarrow> account_dialogs" where
  "password_handleDialogOpen ad = ad\<lparr>ad_password := reopened new_password_fields (ad_password ad)\<rparr>"

definition handleUpgradeClick :: "account_dialogs \<Rightarrow> account_dialogs" where
  "handleUpgradeClick ad = ad\<lparr>ad_upgrade := reopened () (ad_upgrade ad)\<rparr>"

definition phone_handleDialogOpen :: "account_dialogs \<Rightarrow> account_dialogs" where
  "phone_handleDialogOpen ad = ad\<lparr>ad_phone := reopened new_phone_dialog (ad_phone ad)\<rparr>"

definition tokens_handleCreateClick :: "account_dialogs \<Rightarrow> account_dialogs" where
  "tokens_handleCreateClick ad = ad\<lparr>ad_create := reopened (new_token_fields None) (ad_create ad)\<rparr>"

definition tokens_handleEditClick :: "token \<Rightarrow> account_dialogs \<Rightarrow> account_dialogs" where
  "tokens_handleEditClick tk ad = ad\<lparr>ad_edit := reopened (new_token_fields (Some tk)) (ad_edit ad), ad_selected := Some tk\<rparr>"

definition tokens_handleDeleteClick :: "token \<Rightarrow> account_dialogs \<Rightarrow> account_dialogs" where
  "tokens_handleDeleteClick tk ad = ad\<lparr>ad_selected := Some tk, ad_delete := (True, snd (ad_delete ad))\<rparr>"

definition tokens_handleDialogClose :: "account_dialogs \<Rightarrow> account_dialogs" where
  "tokens_handleDialogClose ad = ad\<lparr>ad_edit := shut (ad_edit ad), ad_delete := (False, snd (ad_delete ad)), ad_selected := None\<rparr>"

definition account_handleDialogOpen :: "account_dialogs \<Rightarrow> account_dialogs" where
  "account_handleDialogOpen ad = ad\<lparr>ad_account := reopened new_delete_fields (ad_account ad)\<rparr>"

text \<open>A click on the page: the dialogs, the session, and what the browser is asked for.\<close>

fun account_click ::
  "bool \<Rightarrow> bool \<Rightarrow> server \<Rightarrow> config \<Rightarrow> 'kv \<Rightarrow> account_action \<Rightarrow> account_dialogs \<times> 'kv session \<Rightarrow> request list \<Rightarrow>
     (account_dialogs \<times> 'kv session \<times> page_call list) \<times> request list" where
  "account_click has_clipboard secure srv cfg fresh OpenPasswordDialog (ad, ses) log = ((password_handleDialogOpen ad, ses, []), log)"
| "account_click has_clipboard secure srv cfg fresh OpenUpgradeDialog (ad, ses) log = ((handleUpgradeClick ad, ses, []), log)"
| "account_click has_clipboard secure srv cfg fresh ManageBilling (ad, ses) log =
     (let ((url, ses', failed), log') = handleManageBilling srv cfg fresh ses log
      in ((if failed then ad\<lparr>ad_portalError := True\<rparr> else ad, ses',
           case url of Some u \<Rightarrow> [Browser.OpenWindow u ''billing_portal'' []] | None \<Rightarrow> []), log'))"
| "account_click has_clipboard secure srv cfg fresh (CopyPhone n) (ad, ses) log =
     ((ad\<lparr>ad_phoneCopied := True\<rparr>, ses, copyToClipboard has_clipboard secure n), log)"
| "account_click has_clipboard secure srv cfg fresh (DeletePhone n) (ad, ses) log =
     (let (ses', log') = phone_handleDelete srv cfg fresh n ses log in ((ad, ses', []), log'))"
| "account_click has_clipboard secure srv cfg fresh OpenPhoneDialog (ad, ses) log = ((phone_handleDialogOpen ad, ses, []), log)"
| "account_click has_clipboard secure srv cfg fresh (CopyToken v) (ad, ses) log =
     ((ad\<lparr>ad_tokenCopied := True\<rparr>, ses, copyToClipboard has_clipboard secure v), log)"
| "account_click has_clipboard secure srv cfg fresh (LookUpOrigin url) (ad, ses) log = ((ad, ses, openUrl url), log)"
| "account_click has_clipboard secure srv cfg fresh CreateToken (ad, ses) log = ((tokens_handleCreateClick ad, ses, []), log)"
| "account_click has_clipboard secure srv cfg fresh (EditToken tk) (ad, ses) log = ((tokens_handleEditClick tk ad, ses, []), log)"
| "account_click has_clipboard secure srv cfg fresh (DeleteToken tk) (ad, ses) log = ((tokens_handleDeleteClick tk ad, ses, []), log)"
| "account_click has_clipboard secure srv cfg fresh OpenDeleteDialog (ad, ses) log = ((account_handleDialogOpen ad, ses, []), log)"

text \<open>The end of a request of a dialog: it closes, stays as it is, or shows the error.\<close>

definition finish :: "('f \<Rightarrow> string \<Rightarrow> 'f) \<Rightarrow> account_end \<Rightarrow> 'f dialog \<Rightarrow> 'f dialog" where
  "finish set_error r dg =
     (case r of Closes \<Rightarrow> shut dg | StaysOpen \<Rightarrow> dg | ShowsError e \<Rightarrow> dg\<lparr>dg_fields := set_error (dg_fields dg) e\<rparr>)"

text \<open>
  The buttons of the dialogs. \<open>text\<close> is the text of an error, \<open>incorrect\<close> the one for a wrong password,
  \<open>null_text\<close> the text of the error for reading the token of \<open>null\<close>.
\<close>

definition password_click ::
  "server \<Rightarrow> config \<Rightarrow> 'kv \<Rightarrow> (app_error \<Rightarrow> string) \<Rightarrow> string \<Rightarrow> dialog_action \<Rightarrow> account_dialogs \<times> 'kv session \<Rightarrow>
     request list \<Rightarrow> (account_dialogs \<times> 'kv session) \<times> request list" where
  "password_click srv cfg fresh text incorrect a st log =
     (case st of (ad, ses) \<Rightarrow>
       let f = dg_fields (ad_password ad) in
       if a = DialogCancel then ((ad\<lparr>ad_password := shut (ad_password ad)\<rparr>, ses), log)
       else if \<not> changePasswordEnabled (pw_current f) (pw_new f) (pw_confirm f) then (st, log)
       else (let ((ses', r), log') = changePassword_handleDialogSubmit srv cfg fresh text incorrect (pw_current f) (pw_new f) ses log
             in ((ad\<lparr>ad_password := finish (\<lambda>f e. f\<lparr>pw_error := e\<rparr>) r (ad_password ad)\<rparr>, ses'), log')))"

definition phone_click ::
  "server \<Rightarrow> config \<Rightarrow> 'kv \<Rightarrow> (app_error \<Rightarrow> string) \<Rightarrow> phone_action \<Rightarrow> account_dialogs \<times> 'kv session \<Rightarrow>
     request list \<Rightarrow> (account_dialogs \<times> 'kv session) \<times> request list" where
  "phone_click srv cfg fresh text a st log =
     (case st of (ad, ses) \<Rightarrow>
       let pd = dg_fields (ad_phone ad); put = (\<lambda>pd closed. (if closed then shut else id) ((ad_phone ad)\<lparr>dg_fields := pd\<rparr>)) in
       case a of
         PhoneCancel \<Rightarrow> (let (pd', closed) = phone_handleCancel pd in ((ad\<lparr>ad_phone := put pd' closed\<rparr>, ses), log))
       | PhoneChannel c \<Rightarrow> ((ad\<lparr>ad_phone := put (pd\<lparr>ph_channel := c\<rparr>) False\<rparr>, ses), log)
       | PhoneSubmit \<Rightarrow>
           if \<not> phoneButtonEnabled pd then (st, log)
           else (let (((pd', ses'), closed), log') = phone_handleDialogSubmit srv cfg fresh text (pd, ses) log
                 in ((ad\<lparr>ad_phone := put pd' closed\<rparr>, ses'), log')))"

definition createToken_click ::
  "server \<Rightarrow> config \<Rightarrow> 'kv \<Rightarrow> (app_error \<Rightarrow> string) \<Rightarrow> int \<Rightarrow> token_action \<Rightarrow> account_dialogs \<times> 'kv session \<Rightarrow>
     request list \<Rightarrow> (account_dialogs \<times> 'kv session) \<times> request list" where
  "createToken_click srv cfg fresh text now a st log =
     (case st of (ad, ses) \<Rightarrow>
       let f = dg_fields (ad_create ad) in
       case a of
         TokenCancel \<Rightarrow> ((ad\<lparr>ad_create := shut (ad_create ad)\<rparr>, ses), log)
       | TokenExpires v \<Rightarrow> ((ad\<lparr>ad_create := (ad_create ad)\<lparr>dg_fields := f\<lparr>tf_expires := v\<rparr>\<rparr>\<rparr>, ses), log)
       | TokenSubmit \<Rightarrow>
           (let ((ses', r), log') = token_handleSubmit srv cfg fresh text now (None :: token option) (tf_label f) (tf_expires f) ses log
            in ((ad\<lparr>ad_create := finish (\<lambda>f e. f\<lparr>tf_error := e\<rparr>) r (ad_create ad)\<rparr>, ses'), log')))"

definition editToken_click ::
  "server \<Rightarrow> config \<Rightarrow> 'kv \<Rightarrow> (app_error \<Rightarrow> string) \<Rightarrow> int \<Rightarrow> token_action \<Rightarrow> account_dialogs \<times> 'kv session \<Rightarrow>
     request list \<Rightarrow> (account_dialogs \<times> 'kv session) \<times> request list" where
  "editToken_click srv cfg fresh text now a st log =
     (case st of (ad, ses) \<Rightarrow>
       let f = dg_fields (ad_edit ad) in
       case a of
         TokenCancel \<Rightarrow> ((tokens_handleDialogClose ad, ses), log)
       | TokenExpires v \<Rightarrow> ((ad\<lparr>ad_edit := (ad_edit ad)\<lparr>dg_fields := f\<lparr>tf_expires := v\<rparr>\<rparr>\<rparr>, ses), log)
       | TokenSubmit \<Rightarrow>
           (let ((ses', r), log') = token_handleSubmit srv cfg fresh text now (ad_selected ad) (tf_label f) (tf_expires f) ses log
            in ((if r = Closes then tokens_handleDialogClose ad
                 else ad\<lparr>ad_edit := finish (\<lambda>f e. f\<lparr>tf_error := e\<rparr>) r (ad_edit ad)\<rparr>, ses'), log')))"

definition deleteToken_click ::
  "server \<Rightarrow> config \<Rightarrow> 'kv \<Rightarrow> (app_error \<Rightarrow> string) \<Rightarrow> string \<Rightarrow> dialog_action \<Rightarrow> account_dialogs \<times> 'kv session \<Rightarrow>
     request list \<Rightarrow> (account_dialogs \<times> 'kv session) \<times> request list" where
  "deleteToken_click srv cfg fresh text null_text a st log =
     (case st of (ad, ses) \<Rightarrow>
       if a = DialogCancel then ((tokens_handleDialogClose ad, ses), log)
       else (case ad_selected ad of
               None \<Rightarrow> ((ad\<lparr>ad_delete := (fst (ad_delete ad), null_text)\<rparr>, ses), log)
             | Some tk \<Rightarrow>
                 (let ((ses', r), log') = tokenDelete_handleSubmit srv cfg fresh text tk ses log
                  in ((case r of
                         Closes \<Rightarrow> tokens_handleDialogClose ad
                       | StaysOpen \<Rightarrow> ad
                       | ShowsError e \<Rightarrow> ad\<lparr>ad_delete := (fst (ad_delete ad), e)\<rparr>, ses'), log'))))"

definition deleteAccount_click ::
  "server \<Rightarrow> config \<Rightarrow> 'kv \<Rightarrow> 'd \<Rightarrow> (app_error \<Rightarrow> string) \<Rightarrow> string \<Rightarrow> dialog_action \<Rightarrow>
     account_dialogs \<times> 'kv session \<Rightarrow> 'd \<Rightarrow> request list \<Rightarrow> ((account_dialogs \<times> 'kv session) \<times> 'd) \<times> request list" where
  "deleteAccount_click srv cfg fresh empty_db text incorrect a st d log =
     (case st of (ad, ses) \<Rightarrow>
       let f = dg_fields (ad_account ad) in
       if a = DialogCancel then (((ad\<lparr>ad_account := shut (ad_account ad)\<rparr>, ses), d), log)
       else if df_password f = [] then ((st, d), log)
       else (let (((ses', r), d'), log') = deleteAccount_handleSubmit srv cfg fresh empty_db text incorrect (df_password f) ses d log
             in (((ad\<lparr>ad_account := finish (\<lambda>f e. f\<lparr>df_error := e\<rparr>) r (ad_account ad)\<rparr>, ses'), d'), log')))"

text \<open>
  A click beside a dialog, or the Escape key: the dialogs for the password and for a phone number hand on an
  \<open>onCancel\<close> that they are not given, so they stay open.
\<close>

datatype account_dialog_name = PasswordOf | PhoneOf | UpgradeOf | CreateOf | EditOf | DeleteTokenOf | DeleteAccountOf

fun dismiss :: "account_dialog_name \<Rightarrow> account_dialogs \<Rightarrow> account_dialogs" where
  "dismiss PasswordOf ad = ad"
| "dismiss PhoneOf ad = ad"
| "dismiss UpgradeOf ad = ad\<lparr>ad_upgrade := shut (ad_upgrade ad)\<rparr>"
| "dismiss CreateOf ad = ad\<lparr>ad_create := shut (ad_create ad)\<rparr>"
| "dismiss EditOf ad = tokens_handleDialogClose ad"
| "dismiss DeleteTokenOf ad = tokens_handleDialogClose ad"
| "dismiss DeleteAccountOf ad = ad\<lparr>ad_account := shut (ad_account ad)\<rparr>"

subsection \<open>Lemmas and properties\<close>

text \<open>The servers that the user has named so far: typed in the dialog to add, or chosen to edit or delete.\<close>

fun names_server :: "users_event \<Rightarrow> string option" where
  "names_server (UsersClicked (EditUser u)) = Some (u_baseUrl u)"
| "names_server (UsersClicked (RemoveUser u)) = Some (u_baseUrl u)"
| "names_server (AddTyped UserServer v) = Some v"
| "names_server e = None"

definition users_dialogs_inv :: "string set \<Rightarrow> users_dialogs \<Rightarrow> bool" where
  "users_dialogs_inv bs td \<longleftrightarrow>
     ud_baseUrl (dg_fields (td_add td)) \<in> insert [] bs \<and>
     (dg_open (td_edit td) \<longrightarrow> (\<exists>u. td_user td = Some u \<and> ud_baseUrl (dg_fields (td_edit td)) = u_baseUrl u \<and> u_baseUrl u \<in> bs))"

lemma server_kept: "f \<noteq> UserServer \<Longrightarrow> ud_baseUrl (type_user f v ud) = ud_baseUrl ud"
  by (cases f) simp_all

lemma named_servers:
  "{b. \<exists>e \<in> set (es @ [e]). names_server e = Some b} =
     {b. \<exists>e \<in> set es. names_server e = Some b} \<union> {b. names_server e = Some b}"
  by auto

lemma users_dialogs_step:
  assumes "users_step U cfg ses e (td, t) = (td', t')" "users_dialogs_inv bs td"
  shows "users_dialogs_inv (bs \<union> {b. names_server e = Some b}) td'"
proof -
  show ?thesis
  proof (cases e)
    case (UsersClicked a)
    then show ?thesis
      using assms by (cases a) (auto simp: users_dialogs_inv_def users_handleAddClick_def userTable_handleEditClick_def open_user_dialog_def)
  next
    case (AddTyped f v)
    then show ?thesis using assms by (cases f) (auto simp: users_dialogs_inv_def split: if_splits)
  next
    case (AddClicked a)
    then show ?thesis
      using assms by (auto simp: users_dialogs_inv_def users_handleDialogCancel_def Let_def split: if_splits)
  next
    case (EditTyped f v)
    then show ?thesis
      using assms server_kept by (auto simp: users_dialogs_inv_def split: if_splits)
  next
    case (EditClicked a)
    then show ?thesis
      using assms by (auto simp: users_dialogs_inv_def userTable_handleDialogCancel_def Let_def split: if_splits)
  qed
qed

lemma users_table_step:
  assumes "dexie_table u_baseUrl U" "users_step U cfg ses e (td, t) = (td', t')" "users_dialogs_inv bs td"
    and "dx_get U t' b \<noteq> dx_get U t b"
  shows "b \<in> bs \<union> {b. names_server e = Some b}"
proof -
  have put: "dx_get U (users_save U cfg ses u t) b \<noteq> dx_get U t b \<Longrightarrow> u_baseUrl u = b" for u
    using keyed_store.lookup_put [OF dexie_table.axioms(1) [OF assms(1)]] by (auto simp: users_save_def split: if_splits)
  have del: "dx_get U (users_delete U cfg ses k t) b \<noteq> dx_get U t b \<Longrightarrow> k = b" for k
    using keyed_store.lookup_remove [OF dexie_table.axioms(1) [OF assms(1)]] by (auto simp: users_delete_def split: if_splits)
  have "\<not> validUrl []" by (simp add: validUrl_def starts_with_def)
  then show ?thesis
    using assms(2-4)
    by (cases e) (auto simp: users_dialogs_inv_def user_handleDialogSubmit_def user_dialog_handleSubmit_def addButtonEnabled_def
        user_handleDeleteClick_def Let_def dest!: put del split: settings_action.splits if_splits)
qed

text \<open>
  C35: The users stored for other servers change only where the user has said so: however the card and its
  two dialogs are used, the user of a server is what it was unless this server was typed into the dialog
  that adds a user, or its user was chosen to be edited or deleted. An edit never moves to another
  server, and what was typed into a dialog before it was closed is not submitted with the next one.
\<close>

theorem user_changes_traced:
  assumes "dexie_table u_baseUrl U"
    and "fold (users_step U cfg ses) es (closed_users_dialogs, t) = (td, t')" and "dx_get U t' b \<noteq> dx_get U t b"
  shows "\<exists>e \<in> set es. names_server e = Some b"
proof -
  define servers where "servers es = {b. \<exists>e \<in> set es. names_server e = Some b}" for es
  have "users_dialogs_inv (servers es) (fst st) \<and> (\<forall>b. dx_get U (snd st) b \<noteq> dx_get U t b \<longrightarrow> b \<in> servers es)"
    if "fold (users_step U cfg ses) es (closed_users_dialogs, t) = st" for st
    using that
  proof (induction es arbitrary: st rule: rev_induct)
    case Nil
    then show ?case by (auto simp: users_dialogs_inv_def closed_users_dialogs_def open_user_dialog_def)
  next
    case (snoc e es)
    obtain td1 t1 where st1: "fold (users_step U cfg ses) es (closed_users_dialogs, t) = (td1, t1)" by fastforce
    have step: "users_step U cfg ses e (td1, t1) = (fst st, snd st)" using snoc.prems st1 by simp
    have more: "servers (es @ [e]) = servers es \<union> {b. names_server e = Some b}" by (auto simp: servers_def)
    have inv: "users_dialogs_inv (servers es) td1" using snoc.IH [OF st1] by simp
    show ?case
      using users_dialogs_step [OF step inv] users_table_step [OF assms(1) step inv] snoc.IH [OF st1]
      unfolding more by (metis UnI1 fst_conv snd_conv)
  qed
  then show ?thesis using assms(2,3) by (fastforce simp: servers_def)
qed

lemma user_changes_traced_witness:
  "\<exists>e \<in> set [UsersClicked AddUser, AddTyped UserServer ''https://d'', AddTyped UserName ''bob'', AddTyped UserPassword ''x'',
     AddClicked UserSubmit]. names_server e = Some ''https://d''"
proof -
  let ?es = "[UsersClicked AddUser, AddTyped UserServer ''https://d'', AddTyped UserName ''bob'', AddTyped UserPassword ''x'',
     AddClicked UserSubmit]"
  let ?ses = "\<lparr>local_storage = Map.empty, kv_store = (), href = None\<rparr> :: unit session"
  obtain td t' where e: "fold (users_step (mem_dexie u_baseUrl) plain_config ?ses) ?es (closed_users_dialogs, []) = (td, t')"
    by fastforce
  have "snd (fold (users_step (mem_dexie u_baseUrl) plain_config ?ses) ?es (closed_users_dialogs, [])) =
      [\<lparr>u_baseUrl = ''https://d'', u_username = ''bob'', u_password = Some ''x'', u_token = None\<rparr>]" by code_simp
  then have "dx_get (mem_dexie u_baseUrl) t' ''https://d'' \<noteq> dx_get (mem_dexie u_baseUrl) [] ''https://d''"
    unfolding e by (simp add: mem_dexie_def mem_get_def)
  then show ?thesis using user_changes_traced [OF mem.dexie_table_axioms e] by blast
qed

text \<open>The token that a request changes or deletes.\<close>

definition names_token :: "config \<Rightarrow> request \<Rightarrow> string option" where
  "names_token cfg rq =
     (if rq_url rq \<noteq> accountTokenUrl (base_url cfg) then None
      else if rq_method rq = ''DELETE'' then map_of (rq_headers rq) ''X-Token''
      else if rq_method rq = ''PATCH'' then
        (case rq_body rq of None \<Rightarrow> None | Some body \<Rightarrow> json_string (json_prop body ''token''))
      else None)"

text \<open>Everything that can be done with the card of the tokens, as long as the page is there.\<close>

inductive tokens_run ::
  "server \<Rightarrow> config \<Rightarrow> 'kv \<Rightarrow> (app_error \<Rightarrow> string) \<Rightarrow> 'kv session \<Rightarrow> request list \<Rightarrow>
     account_dialogs \<times> 'kv session \<Rightarrow> request list \<Rightarrow> bool"
  for srv cfg fresh err_text ses0 log0 where
  tokens_start: "tokens_run srv cfg fresh err_text ses0 log0 (closed_account_dialogs, ses0) log0"
| tokens_clicked: "\<lbrakk>tokens_run srv cfg fresh err_text ses0 log0 (ad, ses) log; href ses = None;
    a \<in> set (offers (Tokens E collate (session_token ses) account));
    account_click has_clipboard secure srv cfg fresh a (ad, ses) log = ((ad', ses', calls), log')\<rbrakk> \<Longrightarrow>
    tokens_run srv cfg fresh err_text ses0 log0 (ad', ses') log'"
| tokens_typed: "tokens_run srv cfg fresh err_text ses0 log0 (ad, ses) log \<Longrightarrow>
    tokens_run srv cfg fresh err_text ses0 log0
      (ad\<lparr>ad_create := typed (\<lambda>f. f\<lparr>tf_label := v\<rparr>) (ad_create ad), ad_edit := typed (\<lambda>f. f\<lparr>tf_label := w\<rparr>) (ad_edit ad)\<rparr>, ses) log"
| tokens_create: "\<lbrakk>tokens_run srv cfg fresh err_text ses0 log0 (ad, ses) log; href ses = None; dg_open (ad_create ad);
    createToken_click srv cfg fresh err_text now a1 (ad, ses) log = (st', log')\<rbrakk> \<Longrightarrow>
    tokens_run srv cfg fresh err_text ses0 log0 st' log'"
| tokens_edit: "\<lbrakk>tokens_run srv cfg fresh err_text ses0 log0 (ad, ses) log; href ses = None; dg_open (ad_edit ad);
    editToken_click srv cfg fresh err_text now a2 (ad, ses) log = (st', log')\<rbrakk> \<Longrightarrow>
    tokens_run srv cfg fresh err_text ses0 log0 st' log'"
| tokens_delete: "\<lbrakk>tokens_run srv cfg fresh err_text ses0 log0 (ad, ses) log; href ses = None; fst (ad_delete ad);
    deleteToken_click srv cfg fresh err_text null_text a3 (ad, ses) log = (st', log')\<rbrakk> \<Longrightarrow>
    tokens_run srv cfg fresh err_text ses0 log0 st' log'"

definition only_foreign :: "config \<Rightarrow> string option \<Rightarrow> request list \<Rightarrow> bool" where
  "only_foreign cfg own rqs \<longleftrightarrow>
     (\<forall>rq \<in> set rqs. \<forall>v. names_token cfg rq = Some v \<longrightarrow> (\<exists>tk :: token. tk_token tk = v \<and> token_editable own tk))"

definition tokens_inv :: "config \<Rightarrow> string option \<Rightarrow> request list \<Rightarrow> account_dialogs \<times> 'kv session \<Rightarrow> request list \<Rightarrow> bool" where
  "tokens_inv cfg own log0 st log \<longleftrightarrow>
     (href (snd st) = None \<longrightarrow> session_token (snd st) = own) \<and>
     (\<forall>tk. ad_selected (fst st) = Some tk \<longrightarrow> token_editable own tk) \<and>
     (\<exists>rqs. log = log0 @ rqs \<and> only_foreign cfg own rqs)"

lemma dialog_log:
  assumes "account_dialog fresh err_text (call_unit srv verb url hs body) ses log = ((ses', r), log')"
  shows "log' = log @ [\<lparr>rq_method = verb, rq_url = url, rq_headers = hs, rq_body = map_option JObj body\<rparr>]"
    and "ses' = ses \<or> ses' = resetAndRedirect fresh ''/login'' ses"
proof -
  let ?rq = "\<lparr>rq_method = verb, rq_url = url, rq_headers = hs, rq_body = map_option JObj body\<rparr>"
  obtain r0 where "call_unit srv verb url hs body log = (r0, log @ [?rq])" by (metis prod.collapse snd_call_unit)
  then show "log' = log @ [?rq]" "ses' = ses \<or> ses' = resetAndRedirect fresh ''/login'' ses"
    using assms by (auto simp: account_dialog_def auth_guard_def split: sum.splits if_splits)
qed

lemma session_after:
  "ses' = ses \<or> ses' = resetAndRedirect fresh url ses \<Longrightarrow> href ses' = None \<Longrightarrow> ses' = ses"
  by (auto simp: resetAndRedirect_def)

lemma names_other [simp]:
  "names_token cfg \<lparr>rq_method = ''POST'', rq_url = url, rq_headers = hs, rq_body = body\<rparr> = None"
  by (simp add: names_token_def)

lemma inv_append:
  assumes "tokens_inv cfg own log0 (ad, ses) log" "\<And>rq v. rq \<in> set rqs \<Longrightarrow> names_token cfg rq = Some v \<Longrightarrow> \<exists>tk :: token. tk_token tk = v \<and> token_editable own tk"
    and "ses' = ses \<or> ses' = resetAndRedirect fresh url ses" "ad_selected ad' \<in> {None, ad_selected ad}"
  shows "tokens_inv cfg own log0 (ad', ses') (log @ rqs)"
proof -
  obtain old where old: "log = log0 @ old" "only_foreign cfg own old" using assms(1) by (auto simp: tokens_inv_def)
  have "only_foreign cfg own (old @ rqs)" using old(2) assms(2) unfolding only_foreign_def by auto
  moreover have "href ses' = None \<longrightarrow> session_token ses' = own"
    using assms(1) session_after [OF assms(3)] by (auto simp: tokens_inv_def)
  ultimately show ?thesis
    using assms(1,4) old(1) unfolding tokens_inv_def by (metis append.assoc empty_iff fst_conv insert_iff option.distinct(1) snd_conv)
qed

lemma inv_click:
  assumes "tokens_inv cfg own log0 (ad, ses) log" "href ses = None" "a \<in> set (offers (Tokens E collate (session_token ses) account))"
    and "account_click has_clipboard secure srv cfg fresh a (ad, ses) log = ((ad', ses', calls), log')"
  shows "tokens_inv cfg own log0 (ad', ses') log'"
proof -
  have own: "session_token ses = own" using assms(1,2) by (simp add: tokens_inv_def)
  have "a = CreateToken \<or> (\<exists>tk. a = CopyToken tk) \<or> (\<exists>tk. a = LookUpOrigin tk) \<or>
      (\<exists>tk. token_editable own tk \<and> (a = EditToken tk \<or> a = DeleteToken tk))"
    using assms(3) by (auto simp: offers_tokens token_rows_offers own)
  then show ?thesis
    using assms(1,4)
    by (auto simp: tokens_inv_def tokens_handleCreateClick_def tokens_handleEditClick_def tokens_handleDeleteClick_def)
qed

lemma inv_create:
  assumes "tokens_inv cfg own log0 (ad, ses) log" "createToken_click srv cfg fresh err_text now a (ad, ses) log = (st', log')"
  shows "tokens_inv cfg own log0 st' log'"
proof (cases a)
  case TokenSubmit
  let ?f = "dg_fields (ad_create ad)"
  obtain ses' r where e: "token_handleSubmit srv cfg fresh err_text now (None :: token option) (tf_label ?f) (tf_expires ?f) ses log = ((ses', r), log')"
    and st': "st' = (ad\<lparr>ad_create := finish (\<lambda>f e. f\<lparr>tf_error := e\<rparr>) r (ad_create ad)\<rparr>, ses')"
    using assms(2) TokenSubmit by (auto simp: createToken_click_def Let_def split: prod.splits)
  note sent = dialog_log [OF e [unfolded token_handleSubmit_def option.case account_createToken_def]]
  show ?thesis unfolding st' sent(1) by (rule inv_append [OF assms(1) _ sent(2)]) auto
qed (use assms in \<open>auto simp: createToken_click_def tokens_inv_def Let_def\<close>)

lemma inv_edit:
  assumes "tokens_inv cfg own log0 (ad, ses) log" "editToken_click srv cfg fresh err_text now a (ad, ses) log = (st', log')"
  shows "tokens_inv cfg own log0 st' log'"
proof (cases a)
  case TokenSubmit
  let ?f = "dg_fields (ad_edit ad)"
  obtain ses' r where e: "token_handleSubmit srv cfg fresh err_text now (ad_selected ad) (tf_label ?f) (tf_expires ?f) ses log = ((ses', r), log')"
    and st': "snd st' = ses'" "ad_selected (fst st') \<in> {None, ad_selected ad}"
    using assms(2) TokenSubmit
    by (auto simp: editToken_click_def tokens_handleDialogClose_def Let_def split: prod.splits if_splits)
  show ?thesis
  proof (cases "ad_selected ad")
    case None
    note sent = dialog_log [OF e [unfolded token_handleSubmit_def None option.case account_createToken_def]]
    have "tokens_inv cfg own log0 (fst st', snd st') log'"
      unfolding st'(1) sent(1) by (rule inv_append [OF assms(1) _ sent(2) st'(2)]) auto
    then show ?thesis by simp
  next
    case (Some tk)
    note sent = dialog_log [OF e [unfolded token_handleSubmit_def Some option.case account_updateToken_def]]
    have tk: "token_editable own tk" using assms(1) Some by (simp add: tokens_inv_def)
    have "tokens_inv cfg own log0 (fst st', snd st') log'"
      unfolding st'(1) sent(1)
      by (rule inv_append [OF assms(1) _ sent(2) st'(2)])
        (use tk in \<open>auto simp: names_token_def json_prop_def json_string_def split: if_splits\<close>)
    then show ?thesis by simp
  qed
qed (use assms in \<open>auto simp: editToken_click_def tokens_handleDialogClose_def tokens_inv_def Let_def\<close>)

lemma inv_delete:
  assumes "tokens_inv cfg own log0 (ad, ses) log" "deleteToken_click srv cfg fresh err_text null_text a (ad, ses) log = (st', log')"
  shows "tokens_inv cfg own log0 st' log'"
proof (cases "a = DialogCancel \<or> ad_selected ad = None")
  case True
  then show ?thesis
    using assms by (auto simp: deleteToken_click_def tokens_handleDialogClose_def tokens_inv_def split: if_splits)
next
  case False
  then obtain tk where tk: "ad_selected ad = Some tk" by blast
  obtain ses' r where e: "tokenDelete_handleSubmit srv cfg fresh err_text tk ses log = ((ses', r), log')"
    and st': "snd st' = ses'" "ad_selected (fst st') \<in> {None, ad_selected ad}"
    using assms(2) False tk
    by (auto simp: deleteToken_click_def tokens_handleDialogClose_def Let_def split: prod.splits account_end.splits)
  note sent = dialog_log [OF e [unfolded tokenDelete_handleSubmit_def account_deleteToken_def]]
  have "token_editable own tk" using assms(1) tk by (simp add: tokens_inv_def)
  then have "tokens_inv cfg own log0 (fst st', snd st') log'"
    unfolding st'(1) sent(1)
    by (intro inv_append [OF assms(1) _ sent(2) st'(2)])
      (auto simp: names_token_def bearer_def withBearerAuth_def split: if_splits)
  then show ?thesis by simp
qed


definition sample_token :: token where
  "sample_token = \<lparr>tk_token = ''tk_other'', tk_label = None, tk_provisioned = False, tk_expires = None, tk_last_access = 0, tk_last_origin = []\<rparr>"

definition token_session :: "unit session" where
  "token_session = \<lparr>local_storage = [''user'' \<mapsto> ''ann'', ''token'' \<mapsto> ''tk_own''], kv_store = (), href = None\<rparr>"

lemma deleting_run:
  assumes "rq = \<lparr>rq_method = ''DELETE'', rq_url = accountTokenUrl (base_url plain_config),
      rq_headers = bearer (session_token token_session) [(''X-Token'', ''tk_other'')], rq_body = None\<rparr>"
  shows "\<exists>st. tokens_run (\<lambda>_ _. None) plain_config () (\<lambda>_. ''error'') token_session [] st [rq]"
proof -
  let ?ad = "tokens_handleDeleteClick sample_token closed_account_dialogs"
  have "DeleteToken sample_token \<in> set (offers (Tokens plain_page (\<lambda>_ _. 0) (session_token token_session)
      (Some (busy_account\<lparr>ac_tokens := Some [sample_token]\<rparr>))))"
    by (simp add: offers_tokens offers_token_row token_editable_def sample_token_def session_token_def token_session_def)
  moreover have "account_click True True (\<lambda>_ _. None) plain_config () (DeleteToken sample_token) (closed_account_dialogs, token_session) [] =
      ((?ad, token_session, []), [])" by simp
  ultimately have "tokens_run (\<lambda>_ _. None) plain_config () (\<lambda>_. ''error'') token_session [] (?ad, token_session) []"
    using tokens_clicked [OF tokens_start] by (metis (no_types, lifting) token_session_def session.select_convs(3))
  moreover have "fst (ad_delete ?ad)" by (simp add: tokens_handleDeleteClick_def)
  moreover obtain st where "deleteToken_click (\<lambda>_ _. None) plain_config () (\<lambda>_. ''error'') [] DialogSubmit (?ad, token_session) [] = (st, [rq])"
    using assms
    by (simp add: deleteToken_click_def tokens_handleDeleteClick_def tokenDelete_handleSubmit_def account_dialog_def
        account_deleteToken_def call_unit_def io_defs fetchOrThrow_unfold sample_token_def Let_def)
  ultimately show ?thesis using tokens_delete by (metis token_session_def session.select_convs(3))
qed


text \<open>
  The dialog that deletes a token has no key: the error of a failed attempt is still in it when it is
  opened for another token. All other dialogs of the page start without an error and with the stored values.
\<close>

theorem token_error_stays:
  assumes "fst (account_deleteToken srv cfg (session_token ses) (tk_token tk) log) = Inl e" and "e \<noteq> UnauthorizedError"
    and "deleteToken_click srv cfg fresh err_text null_text DialogSubmit (tokens_handleDeleteClick tk ad, ses) log = ((ad1, ses1), log1)"
  shows "let ad2 = tokens_handleDeleteClick other (tokens_handleDialogClose ad1) in
    ad_delete ad2 = (True, err_text e) \<and> ad_selected ad2 = Some other \<and>
    dg_fields (ad_edit (tokens_handleEditClick other ad2)) = new_token_fields (Some other) \<and>
    dg_fields (ad_create (tokens_handleCreateClick ad2)) = new_token_fields None \<and>
    dg_fields (ad_password (password_handleDialogOpen ad2)) = new_password_fields \<and>
    dg_fields (ad_phone (phone_handleDialogOpen ad2)) = new_phone_dialog \<and>
    dg_fields (ad_account (account_handleDialogOpen ad2)) = new_delete_fields"
proof -
  obtain log' where "account_deleteToken srv cfg (session_token ses) (tk_token tk) log = (Inl e, log')"
    using assms(1) by (metis prod.collapse)
  then have "snd (ad_delete ad1) = err_text e"
    using assms(2,3)
    by (auto simp: deleteToken_click_def tokenDelete_handleSubmit_def account_dialog_def tokens_handleDeleteClick_def
        auth_guard_def)
  then show ?thesis
    by (simp add: tokens_handleDeleteClick_def tokens_handleDialogClose_def tokens_handleEditClick_def tokens_handleCreateClick_def
        password_handleDialogOpen_def phone_handleDialogOpen_def account_handleDialogOpen_def Let_def)
qed

lemma token_error_stays_witness:
  "\<exists>ad1. ad_delete (tokens_handleDeleteClick sample_token (tokens_handleDialogClose ad1)) = (True, ''error'')"
proof -
  obtain ad1 ses1 log1 where "deleteToken_click (\<lambda>_ _. None) plain_config () (\<lambda>_. ''error'') [] DialogSubmit
      (tokens_handleDeleteClick sample_token closed_account_dialogs, token_session) [] = ((ad1, ses1), log1)"
    by (metis prod.collapse)
  moreover have "fst (account_deleteToken (\<lambda>_ _. None) plain_config (session_token token_session) (tk_token sample_token) []) = Inl NetworkError"
    by (simp add: account_deleteToken_def call_unit_def io_defs fetchOrThrow_unfold)
  ultimately show ?thesis
    using token_error_stays [where other = sample_token] by (metis (no_types, lifting) app_error.distinct)
qed

end
