(* ===== verification/App_Run.thy ===== *)
theory App_Run
  imports Menus Frame_View Settings_View Account_Page Delivery Hooks People Invite
begin

section \<open>Runs of the whole app\<close>

text \<open>
  The client as one state machine: the session, the database, and the messages the page was rendered
  with. An event is a click in the side bar, in the menu of a chat or in the bar, a dialog that is
  confirmed, a report of a connection, a push, a poll that is answered, a background worker, or an
  answer of the account; what it does is what its handler does, whatever the server answers. A run
  is a sequence of events of one page: it ends when the page leaves for another address by
  \<open>window.location\<close>, as after a logout. The properties trace a chat or a message that is gone to the
  event that took it, and give the invariant of the stored rows for all handlers together.
\<close>

subsection \<open>Events\<close>

datatype app_event =
    SideBarClicked nav_action
  | MenuClicked subscription chat_action
  | BarClicked "subscription option" bar_action
  | NameSaved subscription string
  | SettingChosen choice
  | PageShown string
  | CardDeleted notification
  | CardRead notification
  | StatusWritten notification action progress "string option"
  | Reported report
  | Pushed push_data
  | PushClicked "notification_params option" "string option"
  | Polled subscription "app_error + notification list"
  | Pruned int
  | AccountSynced "json option"
  | ChatSubscribed string string string "app_error + notification list"
  | TopicOpened auto_target "app_error + notification list"
  | InviteJoined string "app_error + notification list"
  | MessageStarted string
  | GroupMade string "string list"
  | SyncTopicFound "string option"
  | AccountDeleted string

type_synonym ('kv, 's, 'n, 'p, 'u) app_state = "'kv session \<times> ('s, 'n, 'p, 'u) db \<times> notification list"

text \<open>What the server sends in the answer of a poll, a report or a push.\<close>

definition answer_ok :: "app_error + notification list \<Rightarrow> bool" where
  "answer_ok ans = (case ans of Inl e \<Rightarrow> True | Inr ns \<Rightarrow> list_all from_server ns)"

fun report_ok :: "report \<Rightarrow> bool" where
  "report_ok (NotificationReceived sid n) = from_server n"
| "report_ok (StateChanged sid state) = True"
| "report_ok (SocialEvent sid n) = True"

subsection \<open>Steps\<close>

inductive app_step ::
  "('s, 'n, 'p, 'u) db_ops \<Rightarrow> config \<Rightarrow> 'kv \<Rightarrow> ('s, 'n, 'p, 'u) db \<Rightarrow>
     ('kv, 's, 'n, 'p, 'u) app_state \<Rightarrow> app_event \<Rightarrow> ('kv, 's, 'n, 'p, 'u) app_state \<Rightarrow> bool"
  for T cfg fresh empty_db where
  side_bar: "nav_click T cfg innerWidth a (sb, d) = (sb', d', path, eff) \<Longrightarrow>
     app_step T cfg fresh empty_db (ses, d, shown) (SideBarClicked a) (ses, d', shown)"
| chat_menu: "popup_click T B srv cfg fresh u me s a (cm, ses, d) log = ((cm', ses', d', calls, path), log') \<Longrightarrow>
     app_step T cfg fresh empty_db (ses, d, shown) (MenuClicked s a) (ses', d', shown)"
| bar: "bar_click T srv cfg fresh empty_db isDark selected a (ly, ses, d) log = ((ly', ses', d', path), log') \<Longrightarrow>
     app_step T cfg fresh empty_db (ses, d, shown) (BarClicked selected a) (ses', d', shown)"
| name: "displayName_handleSave T srv cfg fresh text s name ses d log = (((ses', r), d'), log') \<Longrightarrow>
     app_step T cfg fresh empty_db (ses, d, shown) (NameSaved s name) (ses', d', shown)"
| setting: "make_choice T srv cfg fresh c lang d ses log = (lang', d', ses', log') \<Longrightarrow>
     app_step T cfg fresh empty_db (ses, d, shown) (SettingChosen c) (ses', d', shown)"
| page: "app_step T cfg fresh empty_db (ses, d, shown) (PageShown sid) (ses, d, sm_getNotifications T d sid)"
| delete: "n \<in> set shown \<Longrightarrow>
     app_step T cfg fresh empty_db (ses, d, shown) (CardDeleted n) (ses, handleDelete T n d, shown)"
| read: "n \<in> set shown \<Longrightarrow>
     app_step T cfg fresh empty_db (ses, d, shown) (CardRead n) (ses, handleMarkRead T n d, shown)"
| status: "n \<in> set shown \<Longrightarrow>
     app_step T cfg fresh empty_db (ses, d, shown) (StatusWritten n a p err) (ses, updateActionStatus T n a p err d, shown)"
| report: "report_ok r \<Longrightarrow>
     app_step T cfg fresh empty_db (ses, d, shown) (Reported r)
       (ses, app_report T parse emojis cfg br (session_username ses) (listening m) r d, shown)"
| push: "from_server (pd_message data) \<Longrightarrow> handlePush T emojis we data d = (d', effs, r) \<Longrightarrow>
     app_step T cfg fresh empty_db (ses, d, shown) (Pushed data) (ses, d', shown)"
| click: "handleClick T we srv rootUrl clients np clicked d log = ((d', effs, r), log') \<Longrightarrow>
     app_step T cfg fresh empty_db (ses, d, shown) (PushClicked np clicked) (ses, d', shown)"
| poll: "answer_ok ans \<Longrightarrow>
     app_step T cfg fresh empty_db (ses, d, shown) (Polled s ans) (ses, pollInBackground T (\<lambda>_ _ _. ans) now s d, shown)"
| prune: "app_step T cfg fresh empty_db (ses, d, shown) (Pruned now) (ses, prune T now d, shown)"
| sync: "account_sync T srv cfg fresh ses d log = ((r, d', ses'), log') \<Longrightarrow>
     app_step T cfg fresh empty_db (ses, d, shown) (AccountSynced r) (ses', d', shown)"
| subscribe: "answer_ok ans \<Longrightarrow>
     subscribe_handleSuccess T (\<lambda>_ _ _. ans) now srv cfg fresh b topic name ses d log = ((s, ses', d'), log') \<Longrightarrow>
     app_step T cfg fresh empty_db (ses, d, shown) (ChatSubscribed b topic name ans) (ses', d', shown)"
| auto: "answer_ok ans \<Longrightarrow>
     useAutoSubscribe T (\<lambda>_ _ _. ans) srv cfg fresh now params loaded selected hasRun d ses log = (hasRun', d', ses', log') \<Longrightarrow>
     app_step T cfg fresh empty_db (ses, d, shown) (TopicOpened params ans) (ses', d', shown)"
| invite: "answer_ok ans \<Longrightarrow>
     join_topic_step T (\<lambda>_ _ _. ans) now srv cfg fresh topic ((ses, d), log) = ((ses', d'), log') \<Longrightarrow>
     app_step T cfg fresh empty_db (ses, d, shown) (InviteJoined topic ans) (ses', d', shown)"
| message: "handleDM T srv cfg (session_token ses) username d log = ((topic, d'), log') \<Longrightarrow>
     app_step T cfg fresh empty_db (ses, d, shown) (MessageStarted username) (ses, d', shown)"
| group: "group_handleCreate T srv cfg (session_token ses) name selected d log = ((r, d'), log') \<Longrightarrow>
     app_step T cfg fresh empty_db (ses, d, shown) (GroupMade name selected) (ses, d', shown)"
| sync_topic: "app_step T cfg fresh empty_db (ses, d, shown) (SyncTopicFound t) (ses, addSyncTopic T cfg t d, shown)"
| leave: "deleteAccount_handleSubmit srv cfg fresh empty_db text incorrect password ses d log = (((ses', r), d'), log') \<Longrightarrow>
     app_step T cfg fresh empty_db (ses, d, shown) (AccountDeleted password) (ses', d', shown)"

text \<open>A run, event by event; after leaving for another address the page does nothing more.\<close>

inductive app_run ::
  "('s, 'n, 'p, 'u) db_ops \<Rightarrow> config \<Rightarrow> 'kv \<Rightarrow> ('s, 'n, 'p, 'u) db \<Rightarrow>
     ('kv, 's, 'n, 'p, 'u) app_state \<Rightarrow> app_event list \<Rightarrow> ('kv, 's, 'n, 'p, 'u) app_state \<Rightarrow> bool"
  for T cfg fresh empty_db where
  run_start: "app_run T cfg fresh empty_db st [] st"
| run_event: "\<lbrakk>app_run T cfg fresh empty_db st es st'; href (fst st') = None; app_step T cfg fresh empty_db st' e st''\<rbrakk> \<Longrightarrow>
     app_run T cfg fresh empty_db st (es @ [e]) st''"

subsection \<open>The events that take something away\<close>

definition answered_delete :: "string \<Rightarrow> app_error + notification list \<Rightarrow> notification \<Rightarrow> bool" where
  "answered_delete sid ans n = (case ans of
     Inl e \<Rightarrow> False
   | Inr ns \<Rightarrow> list_ex (\<lambda>m. n_event m = EVENT_MESSAGE_DELETE \<and> in_seq sid (seq_of m) n) ns)"

definition replaced_by :: "string \<Rightarrow> notification \<Rightarrow> notification \<Rightarrow> bool" where
  "replaced_by sid m n \<longleftrightarrow> in_seq sid (seq_of m) n \<and> \<not> (n_event m = EVENT_MESSAGE_CLEAR \<and> truthy (n_sequence_id m))"

text \<open>The account lists subscriptions, and not this one, which the user can see.\<close>

definition unlisted :: "('s, 'n, 'p, 'u) db_ops \<Rightarrow> ('s, 'n, 'p, 'u) db \<Rightarrow> json option \<Rightarrow> string \<Rightarrow> bool" where
  "unlisted T d r sid =
     (case (Option.bind r (\<lambda>account. json_list (json_prop account ''subscriptions'')), sub_row T d sid) of
        (Some rems, Some s) \<Rightarrow> \<not> s_internal s \<and> sid \<notin> remote_id ` set (map decode_remote rems)
      | _ \<Rightarrow> False)"

fun loses_chat :: "('s, 'n, 'p, 'u) db_ops \<Rightarrow> ('s, 'n, 'p, 'u) db \<Rightarrow> app_event \<Rightarrow> string \<Rightarrow> bool" where
  "loses_chat T d (MenuClicked s a) sid = (a = Unsubscribe \<and> s_id s = sid)"
| "loses_chat T d (BarClicked selected a) sid = (a = Logout)"
| "loses_chat T d (AccountSynced r) sid = unlisted T d r sid"
| "loses_chat T d (AccountDeleted password) sid = True"
| "loses_chat T d e sid = False"

fun loses_message :: "('s, 'n, 'p, 'u) db_ops \<Rightarrow> config \<Rightarrow> ('s, 'n, 'p, 'u) db \<Rightarrow> app_event \<Rightarrow> notification \<Rightarrow> bool" where
  "loses_message T cfg d (MenuClicked s a) n = (a \<in> {ClearAll, Unsubscribe} \<and> in_sub (s_id s) n)"
| "loses_message T cfg d (BarClicked selected a) n = (a = Logout)"
| "loses_message T cfg d (CardDeleted m) n = (n_id n = n_id m)"
| "loses_message T cfg d (Reported (NotificationReceived sid m)) n = replaced_by sid m n"
| "loses_message T cfg d (Pushed data) n = replaced_by (pd_subscription_id data) (pd_message data) n"
| "loses_message T cfg d (Polled s ans) n = answered_delete (s_id s) ans n"
| "loses_message T cfg d (Pruned now) n =
     (case prefs_deleteAfter (PREFS T) (prefs d) of None \<Rightarrow> False | Some k \<Rightarrow> k \<noteq> 0 \<and> n_time n < round_seconds now - k)"
| "loses_message T cfg d (AccountSynced r) n = (case n_subscriptionId n of None \<Rightarrow> False | Some sid \<Rightarrow> unlisted T d r sid)"
| "loses_message T cfg d (ChatSubscribed b topic name ans) n =
     answered_delete (topicUrl (if b = [] then base_url cfg else b) topic) ans n"
| "loses_message T cfg d (TopicOpened params ans) n =
     (case autoSubscribeTarget cfg True False False (at_baseUrl params) (at_topic params) of
        None \<Rightarrow> False | Some (b, topic) \<Rightarrow> answered_delete (topicUrl b topic) ans n)"
| "loses_message T cfg d (InviteJoined topic ans) n = answered_delete (topicUrl (base_url cfg) topic) ans n"
| "loses_message T cfg d (AccountDeleted password) n = True"
| "loses_message T cfg d e n = False"

text \<open>Rows and rendered messages are well formed.\<close>

definition app_ok :: "('s, 'n, 'p, 'u) db_ops \<Rightarrow> ('kv, 's, 'n, 'p, 'u) app_state \<Rightarrow> bool" where
  "app_ok T st = (case st of (ses, d, shown) \<Rightarrow> db_ok T d \<and> list_all notif_ok shown)"

subsection \<open>What a change of the database keeps\<close>

text \<open>
  From \<open>d\<close> to \<open>d'\<close> no chat is lost but those of \<open>C\<close> and no message but those of \<open>M\<close>, and stored rows stay well
  formed. One lemma per operation of the manager, then one per handler.
\<close>

definition kept_but ::
  "('s, 'n, 'p, 'u) db_ops \<Rightarrow> (string \<Rightarrow> bool) \<Rightarrow> (notification \<Rightarrow> bool) \<Rightarrow> ('s, 'n, 'p, 'u) db \<Rightarrow> ('s, 'n, 'p, 'u) db \<Rightarrow> bool" where
  "kept_but T C M d d' \<longleftrightarrow>
     (\<forall>sid. sub_row T d sid \<noteq> None \<and> sub_row T d' sid = None \<longrightarrow> C sid) \<and>
     (\<forall>i n. notif_row T d i = Some n \<and> notif_row T d' i = None \<longrightarrow> M n) \<and>
     (db_ok T d \<longrightarrow> db_ok T d')"

lemma kept_butI:
  assumes "\<And>sid. sub_row T d sid \<noteq> None \<Longrightarrow> sub_row T d' sid = None \<Longrightarrow> C sid"
    and "\<And>i n. notif_row T d i = Some n \<Longrightarrow> notif_row T d' i = None \<Longrightarrow> M n"
    and "db_ok T d \<Longrightarrow> db_ok T d'"
  shows "kept_but T C M d d'"
  unfolding kept_but_def using assms by blast

lemma kept_same: "subs d' = subs d \<Longrightarrow> notifs d' = notifs d \<Longrightarrow> kept_but T C M d d'"
  by (auto simp: kept_but_def db_ok_def)

lemma kept_refl [simp, intro]: "kept_but T C M d d"
  by (simp add: kept_same)

lemma kept_mono:
  assumes "kept_but T C M d d'" "\<And>sid. C sid \<Longrightarrow> C' sid" "\<And>n. M n \<Longrightarrow> M' n"
  shows "kept_but T C' M' d d'"
  using assms unfolding kept_but_def by blast

lemma kept_then_all:
  assumes "kept_but T C M d d1" "kept_but T (\<lambda>_. False) (\<lambda>_. False) d1 d2"
  shows "kept_but T C M d d2"
  using assms unfolding kept_but_def by (metis not_None_eq)

lemma all_then_kept:
  assumes "kept_but T (\<lambda>_. False) (\<lambda>_. False) d d1" "notifs d1 = notifs d" "kept_but T C M d1 d2"
  shows "kept_but T C M d d2"
  using assms unfolding kept_but_def by metis

context coop_db
begin

lemma kept_update:
  assumes "\<And>s. s_id (f s) = s_id s \<and> s_baseUrl (f s) = s_baseUrl s \<and> s_topic (f s) = s_topic s"
  shows "kept_but T C M d (sm_update T sid f d)"
proof (rule kept_butI)
  show "db_ok T d \<Longrightarrow> db_ok T (sm_update T sid f d)" using ok_update [of d f sid] assms by blast
  have "sub_row T (sm_update T sid f d) = (sub_row T d)(sid := map_option f (sub_row T d sid))"
    by (rule sub_row_update) (simp add: assms)
  then show "C k" if "sub_row T d k \<noteq> None" "sub_row T (sm_update T sid f d) k = None" for k
    using that by (simp split: if_splits)
qed (simp add: sm_update_def)

lemma kept_setters:
  "kept_but T C M d (sm_updateState T sid state d)" "kept_but T C M d (sm_setMutedUntil T sid until d)"
  "kept_but T C M d (sm_setDisplayName T sid name d)" "kept_but T C M d (sm_setLast T sid i d)"
  unfolding sm_updateState_def sm_setMutedUntil_def sm_setDisplayName_def sm_setLast_def
  by (rule kept_update, simp)+

lemma kept_marks:
  "kept_but T C M d (sm_markNotificationRead T i d)" "kept_but T C M d (sm_markNotificationReadBySequenceId T sid q d)"
  "kept_but T C M d (sm_markNotificationsRead T sid d)"
  by (rule kept_butI; simp add: notif_row_marks ok_notif_ops)+

lemma kept_deletes:
  "(\<And>n. n_id n = i \<Longrightarrow> M n) \<Longrightarrow> kept_but T C M d (sm_deleteNotification T i d)"
  "(\<And>n. in_seq sid q n \<Longrightarrow> M n) \<Longrightarrow> kept_but T C M d (sm_deleteNotificationBySequenceId T sid q d)"
  "(\<And>n. in_sub sid n \<Longrightarrow> M n) \<Longrightarrow> kept_but T C M d (sm_deleteNotifications T sid d)"
  "(\<And>n. n_time n < th \<Longrightarrow> M n) \<Longrightarrow> kept_but T C M d (sm_pruneNotifications T th d)"
  by (rule kept_butI; auto simp: notif_row_deletes ok_notif_ops dest: notifs_all_ids split: if_splits)+

lemma kept_add: "kept_but T C M d (fst (sm_add T b t opts d))"
  by (rule kept_butI) (auto simp: sm_add_row ok_add_remove split: if_splits)

lemma kept_remove:
  assumes "C (s_id s)" "\<And>n. in_sub (s_id s) n \<Longrightarrow> M n"
  shows "kept_but T C M d (sm_remove T s d)"
  using assms by (intro kept_butI) (auto simp: remove_rows ok_add_remove split: if_splits)

lemma kept_receive:
  assumes "from_server n"
  shows "kept_but T C M d (fst (sm_addNotification T cu sid n d))"
proof (rule kept_butI)
  show "db_ok T d \<Longrightarrow> db_ok T (fst (sm_addNotification T cu sid n d))" using assms ok_receive by blast
  have "sub_row T (fst (sm_addNotification T cu sid n d)) k = None \<Longrightarrow> sub_row T d k = None"
    and "notif_row T (fst (sm_addNotification T cu sid n d)) i = None \<Longrightarrow> notif_row T d i = None" for k i
    using notif_row_addNotification [of d n cu sid] sm_addNotification_skip [of d n cu sid]
    by (metis fst_conv fun_upd_apply option.map_disc_iff option.distinct(1))+
  then show "\<And>k. sub_row T d k \<noteq> None \<Longrightarrow> sub_row T (fst (sm_addNotification T cu sid n d)) k = None \<Longrightarrow> C k"
    and "\<And>i m. notif_row T d i = Some m \<Longrightarrow> notif_row T (fst (sm_addNotification T cu sid n d)) i = None \<Longrightarrow> M m"
    by (metis option.distinct(1))+
qed

lemma kept_rewrite:
  assumes "notif_ok n"
  shows "kept_but T C M d (updateActionStatus T n a p err d)"
proof (rule kept_butI)
  have "notif_ok (with_status a p err n)" using assms by (simp add: with_status_def)
  moreover have "subs (updateActionStatus T n a p err d) = subs d"
    by (simp add: updateActionStatus_def sm_updateNotification_def)
  ultimately show "db_ok T (updateActionStatus T n a p err d)" if "db_ok T d"
    using db_okD [OF that] by (intro db_okI) (auto simp: notif_row_status split: if_splits)
  show "M m" if "notif_row T d i = Some m" "notif_row T (updateActionStatus T n a p err d) i = None" for i m
    using that by (simp add: notif_row_status split: if_splits)
qed (auto simp: updateActionStatus_def sm_updateNotification_def split: if_splits)

subsection \<open>The handlers\<close>

lemma kept_nav:
  assumes "nav_click T cfg innerWidth a (sb, d) = (sb', d', path, eff)"
  shows "kept_but T C M d d'"
  using assms kept_marks(3) by (cases a) (auto simp: item_click_def)

lemma kept_menu:
  assumes "popup_click T B srv cfg fresh u me s a (cm, ses, d) log = ((cm', ses', d', calls, path), log')"
  shows "kept_but T (\<lambda>sid. loses_chat T d (MenuClicked s a) sid) (\<lambda>n. loses_message T cfg d (MenuClicked s a) n) d d'"
proof (cases a)
  case Unsubscribe
  then have "d' = sm_remove T s d"
    using assms unsubscribe_parts(1) [of T srv cfg fresh s ses d log] by (auto split: prod.splits)
  then show ?thesis using Unsubscribe by (simp add: kept_remove)
qed (use assms in \<open>auto simp: handleClearAll_def handleSetMutedUntil_def kept_deletes kept_setters split: prod.splits\<close>)

lemma kept_bar:
  assumes "bar_click T srv cfg fresh empty_db isDark selected a (ly, ses, d) log = ((ly', ses', d', path), log')"
    and "db_ok T empty_db"
  shows "kept_but T (\<lambda>sid. a = Logout) (\<lambda>n. a = Logout) d d'"
proof (cases a)
  case Logout
  then have "d' = d \<or> d' = empty_db"
    using assms(1) by (auto simp: handleLogout_def split: prod.splits sum.splits)
  then show ?thesis using assms(2) Logout by (auto intro: kept_butI)
qed (use assms in \<open>auto simp: handleThemeToggle_def handleToggleMute_def kept_same kept_setters split: option.splits\<close>)

lemma kept_name:
  assumes "displayName_handleSave T srv cfg fresh text s name ses d log = (((ses', r), d'), log')"
  shows "kept_but T C M d d'"
  using assms kept_setters(3) by (auto simp: displayName_handleSave_def Let_def split: if_splits prod.splits)

lemma kept_setting:
  assumes "make_choice T srv cfg fresh c lang d ses log = (lang', d', ses', log')"
  shows "kept_but T C M d d'"
proof -
  have "subs d' = subs d \<and> notifs d' = notifs d"
    using assms
    by (cases c; simp add: case_prod_beta sound_handleChange_def minPriority_handleChange_def deleteAfter_handleChange_def
        webPush_handleChange_def theme_handleChange_def handlePresetClick_def language_handleChange_def) auto
  then show ?thesis by (simp add: kept_same)
qed

lemma kept_handle:
  assumes "from_server n"
  shows "kept_but T C (replaced_by sid n) d (fst (handleMessage T parse emojis cfg br cu sid n d))"
proof (cases "sub_row T d sid")
  case None
  then show ?thesis by (simp add: handleMessage_def sm_get_def)
next
  case (Some s)
  have id: "s_id s = sid" by (rule subs_key [OF Some])
  have ne: "seq_of n \<noteq> []" using assms seq_of_ne by (simp add: from_server_def)
  have events: "EVENT_MESSAGE_DELETE \<noteq> EVENT_MESSAGE_CLEAR" by (simp add: event_names)
  consider (delete) "n_event n = EVENT_MESSAGE_DELETE" "truthy (n_sequence_id n)"
    | (clear) "n_event n = EVENT_MESSAGE_CLEAR" "truthy (n_sequence_id n)"
    | (other) "\<not> (n_event n = EVENT_MESSAGE_DELETE \<and> truthy (n_sequence_id n))"
        "\<not> (n_event n = EVENT_MESSAGE_CLEAR \<and> truthy (n_sequence_id n))"
    by blast
  then have "kept_but T C (replaced_by sid n) d (fst (handleNotification T emojis cfg br cu s n d))"
  proof cases
    case delete
    then show ?thesis
      using events by (auto simp: handleNotification_def seq_of_truthy id replaced_by_def intro!: kept_deletes)
  next
    case clear
    then show ?thesis using events by (simp add: handleNotification_def kept_marks)
  next
    case other
    have "fst (handleNotification T emojis cfg br cu s n d) =
        fst (sm_addNotification T cu sid n (sm_deleteNotificationBySequenceId T sid (seq_of n) d))"
      using other ne by (auto simp: handleNotification_def id Let_def split: prod.splits)
    moreover have "kept_but T C (replaced_by sid n) d (sm_deleteNotificationBySequenceId T sid (seq_of n) d)"
      using other(2) by (intro kept_deletes(2)) (simp add: replaced_by_def)
    ultimately show ?thesis using kept_then_all [OF _ kept_receive [OF assms]] by simp
  qed
  then show ?thesis using Some by (simp add: handleMessage_def sm_get_def)
qed

lemma kept_report:
  assumes "report_ok r"
  shows "kept_but T (\<lambda>sid. loses_chat T d (Reported r) sid) (\<lambda>n. loses_message T cfg d (Reported r) n) d
    (app_report T parse emojis cfg' br cu m r d)"
  using assms kept_setters(1) kept_handle
  by (cases r) (auto simp: app_report_def stateChanged_def notificationReceived_def)

lemma push_delete_eq:
  "fst (handlePushMessageDelete T data d) =
     (let sid = pd_subscription_id data; n = pd_message data in
      if sub_row T d sid = None then d
      else sm_setLast T sid (n_id n) (if truthy (n_sequence_id n) then sm_deleteNotificationBySequenceId T sid (seq_of n) d else d))"
  by (simp add: handlePushMessageDelete_def Let_def sm_setLast_def sm_update_def seq_of_truthy
      sm_deleteNotificationBySequenceId_def split: option.split)

lemma push_clear_eq:
  "fst (handlePushMessageClear T we data d) =
     (let sid = pd_subscription_id data; n = pd_message data in
      if sub_row T d sid = None then d
      else sm_setLast T sid (n_id n) (if truthy (n_sequence_id n) then sm_markNotificationReadBySequenceId T sid (seq_of n) d else d))"
  by (simp add: handlePushMessageClear_def Let_def sm_setLast_def sm_update_def seq_of_truthy
      sm_markNotificationReadBySequenceId_def split: option.split)

lemma push_stores_eq:
  assumes "seq_of n \<noteq> []" "pd_message data = n" "pd_subscription_id data = sid"
  shows "fst (handlePushMessage T emojis we data d) =
     (if sub_row T d sid = None then d
      else let d1 = sm_deleteNotificationBySequenceId T sid (seq_of n) d
           in case dx_add (NOTIFS T) (notifs d1) (stored_row sid 1 n) of
                None \<Rightarrow> d1 | Some t \<Rightarrow> sm_setLast T sid (n_id n) (d1\<lparr>notifs := t\<rparr>))"
  using assms by (simp add: handlePushMessage_def Let_def sm_setLast_def sm_update_def
      sm_deleteNotificationBySequenceId_def split: option.split)

lemma kept_setLast: "kept_but T C M d e \<Longrightarrow> kept_but T C M d (sm_setLast T sid i e)"
  by (rule kept_then_all [OF _ kept_setters(4)])

lemma kept_push_message:
  assumes "from_server (pd_message data)" "n_event (pd_message data) = EVENT_MESSAGE"
  shows "kept_but T C (replaced_by (pd_subscription_id data) (pd_message data)) d (fst (handlePushMessage T emojis we data d))"
proof -
  let ?sid = "pd_subscription_id data" and ?n = "pd_message data"
  let ?d = "sm_deleteNotificationBySequenceId T ?sid (seq_of ?n) d"
  have ne: "seq_of ?n \<noteq> []" using assms(1) seq_of_ne by (simp add: from_server_def)
  have del: "kept_but T C (replaced_by ?sid ?n) d ?d"
    using assms(2) by (intro kept_deletes(2)) (simp add: replaced_by_def event_names)
  have "kept_but T C (replaced_by ?sid ?n) d (sm_setLast T ?sid (n_id ?n) (?d\<lparr>notifs := t\<rparr>))"
    if "dx_add (NOTIFS T) (notifs ?d) (stored_row ?sid 1 ?n) = Some t" for t
  proof -
    have t: "dx_get (NOTIFS T) t = (notif_row T ?d)(n_id ?n \<mapsto> stored_row ?sid 1 ?n)"
      using notifs.get_add [OF that] by simp
    have "notif_ok (stored_row ?sid 1 ?n)"
      using notif_ok_stored [OF assms(1)] assms(2) by (simp add: event_names)
    then have "kept_but T (\<lambda>_. False) (\<lambda>_. False) ?d (?d\<lparr>notifs := t\<rparr>)"
      by (intro kept_butI) (auto simp: t db_ok_def split: if_splits)
    then show ?thesis using kept_then_all [OF del] by (intro kept_setLast) blast
  qed
  then show ?thesis
    using del unfolding push_stores_eq [OF ne refl refl] by (simp add: Let_def split: option.split)
qed

lemma kept_push:
  assumes "handlePush T emojis we data d = (d', effs, r)" and "from_server (pd_message data)"
  shows "kept_but T C (replaced_by (pd_subscription_id data) (pd_message data)) d d'"
proof -
  let ?sid = "pd_subscription_id data" and ?n = "pd_message data"
  have deleted: "kept_but T C (replaced_by ?sid ?n) d (fst (handlePushMessageDelete T data d))"
    if "n_event ?n = EVENT_MESSAGE_DELETE"
  proof -
    have "kept_but T C (replaced_by ?sid ?n) d (sm_deleteNotificationBySequenceId T ?sid (seq_of ?n) d)"
      using that by (intro kept_deletes(2)) (simp add: replaced_by_def event_names)
    then show ?thesis by (simp add: push_delete_eq Let_def kept_setLast)
  qed
  have cleared: "kept_but T C (replaced_by ?sid ?n) d (fst (handlePushMessageClear T we data d))"
    by (simp add: push_clear_eq Let_def kept_setLast kept_marks)
  have "d' = fst (handlePush T emojis we data d)" using assms(1) by simp
  then show ?thesis
    using kept_push_message [OF assms(2)] deleted cleared
    by (simp add: handlePush_def Let_def case_prod_beta)
qed

lemma kept_click:
  assumes "handleClick T we srv rootUrl clients np clicked d log = ((d', effs, r), log')"
  shows "kept_but T C M d d'"
proof -
  have "d' = d \<or> (\<exists>np. d' = fst (clickClearNotification T we np d))"
    using assms
    by (auto simp: handleClick_def fetch_def Let_def split: option.splits if_splits prod.splits)
  moreover have "kept_but T C M d (fst (clickClearNotification T we np d))" for np
    using kept_marks(2) [of C M d "np_subscriptionId np" "seq_of (np_message np)"]
    by (simp add: clickClearNotification_def Let_def sm_markNotificationReadBySequenceId_def)
  ultimately show ?thesis by auto
qed

lemma kept_delete_seqs:
  "kept_but T C (\<lambda>n. \<exists>q \<in> set qs. in_seq sid q n) d (fold (\<lambda>q d. sm_deleteNotificationBySequenceId T sid q d) qs d)"
proof (rule kept_butI)
  show "db_ok T (fold (\<lambda>q d. sm_deleteNotificationBySequenceId T sid q d) qs d)" if "db_ok T d"
    using db_okD [OF that] by (intro db_okI) (auto simp: delete_seqs_rows split: option.splits if_splits)
qed (auto simp: delete_seqs_rows split: if_splits)

lemma kept_bulk:
  assumes "sm_addNotifications T sid ns d = Inr d'" "\<forall>n \<in> set ns. from_server n \<and> n_event n = EVENT_MESSAGE"
  shows "kept_but T C M d d'"
proof (rule kept_butI)
  show "db_ok T d \<Longrightarrow> db_ok T d'" using ok_poll assms by blast
  show "M n" if "notif_row T d i = Some n" "notif_row T d' i = None" for i n
    using that by (simp add: notif_row_addNotifications [OF assms(1)] split: option.splits)
  show "C k" if "sub_row T d k \<noteq> None" "sub_row T d' k = None" for k
    using that assms(1) by (auto simp: sm_addNotifications_def sub_row_setLast split: if_splits)
qed

lemma poll_adds_no_chat:
  "sub_row T d k = None \<Longrightarrow> sub_row T (pollInBackground T api now s d) k = None"
  by (auto simp: pollInBackground_def poll_def Let_def sm_addNotifications_def sub_row_setLast delete_seqs_rows(1)
      split: sum.split)

lemma kept_poll:
  assumes "answer_ok ans"
  shows "kept_but T C (answered_delete (s_id s) ans) d (pollInBackground T (\<lambda>_ _ _. ans) now s d)"
proof (cases ans)
  case (Inl e)
  then show ?thesis by (simp add: pollInBackground_def poll_def)
next
  case (Inr ns)
  let ?recent = "recentNotifications (poll_threshold now (prefs_deleteAfter (PREFS T) (prefs d))) ns"
  let ?latest = "latestNotificationsBySequenceId ?recent"
  let ?D = "fold (\<lambda>q d. sm_deleteNotificationBySequenceId T (s_id s) q d) (deletedSequenceIds ?latest) d"
  have server: "\<forall>n \<in> set ns. from_server n" using assms Inr by (simp add: answer_ok_def list_all_iff)
  have sub: "is_latest ?recent n \<Longrightarrow> n \<in> set ns" for n using is_latest_mem recent_subset by blast
  then have "kept_but T C (answered_delete (s_id s) ans) d ?D"
    by (intro kept_mono [OF kept_delete_seqs])
      (auto simp: answered_delete_def Inr set_deletedSequenceIds list_ex_iff)
  moreover have "kept_but T (\<lambda>_. False) (\<lambda>_. False) ?D d'"
    if "sm_addNotifications T (s_id s) (notificationsToAdd ?latest) ?D = Inr d'" for d'
    using that server sub by (intro kept_bulk) (auto simp: set_notificationsToAdd)
  ultimately show ?thesis
    using kept_then_all
    by (auto simp: pollInBackground_def poll_def Inr Let_def sm_addNotifications_def split: if_splits)
qed

lemma kept_prune: "kept_but T C (\<lambda>n. loses_message T cfg d (Pruned now) n) d (prune T now d)"
  by (auto simp: prune_def kept_deletes split: option.split)

lemma kept_account:
  assumes "account_sync T srv cfg fresh ses d log = ((r, d', ses'), log')"
  shows "kept_but T (\<lambda>sid. loses_chat T d (AccountSynced r) sid) (\<lambda>n. loses_message T cfg d (AccountSynced r) n) d d'"
proof -
  have cases: "d' = d \<or> (\<exists>account. r = Some account \<and> d' = apply_account T cfg account d)"
    using assms by (auto simp: account_sync_def split: if_splits prod.splits sum.splits)
  have "kept_but T (\<lambda>sid. unlisted T d (Some account) sid) (\<lambda>n. loses_message T cfg d (AccountSynced (Some account)) n) d
      (apply_account T cfg account d)" for account
  proof (cases "json_list (json_prop account ''subscriptions'')")
    case None
    then show ?thesis by (simp add: apply_account_def kept_same)
  next
    case (Some rems)
    let ?p = "d\<lparr>prefs := sync_prefs (PREFS T) account (prefs d)\<rparr>"
    have "db_ok T d \<Longrightarrow> db_ok T ?p" by (simp add: db_ok_def)
    then show ?thesis
      using Some ok_sync [of ?p]
      by (intro kept_butI)
        (auto simp: apply_account_def sync_sub_row sync_notif_row unlisted_def split: option.splits if_splits)
  qed
  then show ?thesis using cases by auto
qed

lemma kept_subscribe:
  assumes "subscribeTopic T srv cfg fresh b topic opts ses d log = ((s, ses', d'), log')"
  shows "d' = fst (sm_add T b topic opts d)" "s_id s = topicUrl b topic"
  using assms sm_add_id [of b topic opts d]
  by (auto simp: subscribeTopic_def Let_def split: prod.splits sum.splits if_splits)

lemma kept_add_poll:
  assumes "answer_ok ans" "s_id s = sid"
  shows "kept_but T C (answered_delete sid ans) d (pollInBackground T (\<lambda>_ _ _. ans) now s (fst (sm_add T b topic opts d)))"
  using assms(2) by (auto intro: all_then_kept [OF kept_add _ kept_poll [OF assms(1)]])

lemma kept_auto:
  assumes "answer_ok ans"
    and "useAutoSubscribe T (\<lambda>_ _ _. ans) srv cfg fresh now params loaded selected hasRun d ses log = (hasRun', d', ses', log')"
  shows "kept_but T C (\<lambda>n. loses_message T cfg d (TopicOpened params ans) n) d d'"
proof (cases "autoSubscribeTarget cfg loaded hasRun selected (at_baseUrl params) (at_topic params)")
  case None
  then show ?thesis using assms(2) by (auto simp: useAutoSubscribe_def split: if_splits)
next
  case (Some p)
  obtain b topic where p: "p = (b, topic)" by fastforce
  then have t: "autoSubscribeTarget cfg True False False (at_baseUrl params) (at_topic params) = Some (b, topic)"
    using Some by (auto simp: autoSubscribeTarget_def split: if_splits)
  have "d' = d \<or> d' = pollInBackground T (\<lambda>_ _ _. ans) now (snd (sm_add T b topic no_opts d)) (fst (sm_add T b topic no_opts d))"
    using assms(2) Some p by (auto simp: useAutoSubscribe_def Let_def split: if_splits prod.splits)
  then show ?thesis using kept_add_poll [OF assms(1) sm_add_id] by (auto simp: t)
qed

lemma kept_chats:
  "handleDM T srv cfg tok username d log = ((t, d1), log1) \<Longrightarrow> kept_but T C M d d1"
  "group_handleCreate T srv cfg tok name selected d log = ((g, d2), log2) \<Longrightarrow> kept_but T C M d d2"
  "kept_but T C M d (addSyncTopic T cfg topic d)"
  using kept_add
  by (auto simp: handleDM_def group_handleCreate_def add_chat_def addSyncTopic_def Let_def
      split: prod.splits sum.splits if_splits)

text \<open>Every step: the events that take something away are those of \<open>loses_chat\<close> and \<open>loses_message\<close>.\<close>

lemma kept_step:
  assumes "app_step T cfg fresh empty_db (ses, d, shown) e (ses', d', shown')" "db_ok T empty_db" "list_all notif_ok shown"
  shows "kept_but T (\<lambda>sid. loses_chat T d e sid) (\<lambda>n. loses_message T cfg d e n) d d'"
  using assms(1)
proof cases
  case (message srv username log topic log')
  then show ?thesis by (auto intro: kept_chats)
next
  case (group srv name selected log r log')
  then show ?thesis by (auto intro: kept_chats)
next
  case (subscribe ans now srv b topic name log s log')
  obtain ses1 d1 where e: "subscribeTopic T srv cfg fresh (if b = [] then base_url cfg else b) topic (subscribe_opts name) ses d log =
      ((s, ses1, d1), log')" "d' = pollInBackground T (\<lambda>_ _ _. ans) now s d1"
    using subscribe(4) by (auto simp: subscribe_handleSuccess_def split: prod.splits)
  show ?thesis using kept_add_poll [OF subscribe(3) kept_subscribe(2) [OF e(1)]] subscribe(1)
    by (simp add: e(2) kept_subscribe(1) [OF e(1)])
next
  case (invite ans now srv topic log log')
  obtain s ses1 d1 where e: "subscribeTopic T srv cfg fresh (base_url cfg) topic no_opts ses d log = ((s, ses1, d1), log')"
    "d' = pollInBackground T (\<lambda>_ _ _. ans) now s d1"
    using invite(4) by (auto simp: join_topic_step_def split: prod.splits)
  show ?thesis using kept_add_poll [OF invite(3) kept_subscribe(2) [OF e(1)]] invite(1)
    by (simp add: e(2) kept_subscribe(1) [OF e(1)])
next
  case (leave srv tx incorrect log r log' password)
  then have "d' = d \<or> d' = empty_db"
    by (auto simp: deleteAccount_handleSubmit_def split: prod.splits sum.splits)
  then show ?thesis using assms(2) leave(1) by (auto intro: kept_butI)
next
  case (status n a p err)
  then show ?thesis using assms(3) by (simp add: list_all_iff kept_rewrite)
qed (auto simp: handleDelete_def handleMarkRead_def kept_marks kept_deletes kept_poll
    intro: kept_nav kept_menu [simplified] kept_bar [OF _ assms(2)] kept_name kept_setting kept_report [simplified] kept_push
      kept_click kept_prune [simplified] kept_account [simplified] kept_auto [simplified] kept_chats)

lemma ok_app_step:
  assumes "app_step T cfg fresh empty_db (ses, d, shown) e (ses', d', shown')" "db_ok T empty_db" "app_ok T (ses, d, shown)"
  shows "app_ok T (ses', d', shown')"
proof -
  have ok: "db_ok T d" "list_all notif_ok shown" using assms(3) by (simp_all add: app_ok_def)
  have page: "list_all notif_ok (sm_getNotifications T d sid)" for sid
    using db_okD(2) [OF ok(1)] by (auto simp: list_all_iff getNotifications_rows)
  have "list_all notif_ok shown'" using assms(1) by cases (use ok(2) page in auto)
  moreover have "db_ok T d'" using kept_step [OF assms(1,2) ok(2)] ok(1) by (simp add: kept_but_def)
  ultimately show ?thesis by (simp add: app_ok_def)
qed

end

lemma ok_app_run:
  assumes "coop_db T" "db_ok T empty_db" "app_run T cfg fresh empty_db st es st'" "app_ok T st"
  shows "app_ok T st'"
  using assms(3,4)
proof (induction rule: app_run.induct)
  case (run_event st es st' e st'')
  then show ?case using coop_db.ok_app_step [OF assms(1) _ assms(2)] by (metis prod.collapse)
qed simp

text \<open>What held at the start and does not at the end stopped with an event of the run.\<close>

lemma run_traced:
  assumes "app_run T cfg fresh empty_db st es st'" "P st" "\<not> P st'"
  shows "\<exists>es1 e es2 mid mid'. es = es1 @ e # es2 \<and> app_run T cfg fresh empty_db st es1 mid \<and>
    app_step T cfg fresh empty_db mid e mid' \<and> P mid \<and> \<not> P mid'"
  using assms
proof (induction rule: app_run.induct)
  case (run_event st es st' e st'')
  show ?case
  proof (cases "P st'")
    case True
    then show ?thesis using run_event.hyps run_event.prems(2) by blast
  next
    case False
    then obtain es1 e1 es2 mid mid' where "es = es1 @ e1 # es2" "app_run T cfg fresh empty_db st es1 mid"
      "app_step T cfg fresh empty_db mid e1 mid'" "P mid" "\<not> P mid'"
      using run_event.IH run_event.prems(1) by blast
    then show ?thesis by (metis append.assoc append_Cons)
  qed
qed simp

subsection \<open>Properties\<close>

text \<open>
  C4: Nothing is lost without a reason. Whatever happens in the page, in its workers and at the server: a
  chat that was stored at some moment and is not later was left by the user, or the user logged out or
  deleted the account, or an account sync found that the account does not list it; and a message that
  was stored and is not later was cleared or deleted by the user, or deleted or replaced by a message of
  its own sequence, or pruned because it was older than the setting allows, or it went with its chat.
\<close>

theorem nothing_lost:
  assumes "coop_db T" and "app_run T cfg fresh empty_db (ses, d, shown) es (ses', d', shown')"
    and "app_ok T (ses, d, shown)" and "db_ok T empty_db"
  shows "(sub_row T d sid \<noteq> None \<and> sub_row T d' sid = None \<longrightarrow>
      (\<exists>es1 e es2 ses1 d1 shown1. es = es1 @ e # es2 \<and> app_run T cfg fresh empty_db (ses, d, shown) es1 (ses1, d1, shown1) \<and>
        sub_row T d1 sid \<noteq> None \<and> loses_chat T d1 e sid)) \<and>
    (notif_row T d i \<noteq> None \<and> notif_row T d' i = None \<longrightarrow>
      (\<exists>es1 e es2 ses1 d1 shown1 n. es = es1 @ e # es2 \<and> app_run T cfg fresh empty_db (ses, d, shown) es1 (ses1, d1, shown1) \<and>
        notif_row T d1 i = Some n \<and> loses_message T cfg d1 e n))"
proof -
  have step: "kept_but T (\<lambda>sid. loses_chat T d1 e sid) (\<lambda>n. loses_message T cfg d1 e n) d1 d2"
    if "app_run T cfg fresh empty_db (ses, d, shown) es1 (ses1, d1, shown1)"
      "app_step T cfg fresh empty_db (ses1, d1, shown1) e (ses2, d2, shown2)" for es1 ses1 d1 shown1 e ses2 d2 shown2
    using coop_db.kept_step [OF assms(1) that(2) assms(4)] ok_app_run [OF assms(1,4) that(1) assms(3)]
    by (simp add: app_ok_def)
  show ?thesis
  proof (intro conjI impI)
    assume "sub_row T d sid \<noteq> None \<and> sub_row T d' sid = None"
    then obtain es1 e es2 ses1 d1 shown1 ses2 d2 shown2 where "es = es1 @ e # es2"
      and run: "app_run T cfg fresh empty_db (ses, d, shown) es1 (ses1, d1, shown1)"
        "app_step T cfg fresh empty_db (ses1, d1, shown1) e (ses2, d2, shown2)"
      and "sub_row T d1 sid \<noteq> None" "sub_row T d2 sid = None"
      using run_traced [OF assms(2), of "\<lambda>(_, d, _). sub_row T d sid \<noteq> None"] by fastforce
    moreover have "loses_chat T d1 e sid"
      using step [OF run] calculation(4,5) unfolding kept_but_def by blast
    ultimately show "\<exists>es1 e es2 ses1 d1 shown1. es = es1 @ e # es2 \<and>
        app_run T cfg fresh empty_db (ses, d, shown) es1 (ses1, d1, shown1) \<and> sub_row T d1 sid \<noteq> None \<and> loses_chat T d1 e sid"
      by blast
  next
    assume "notif_row T d i \<noteq> None \<and> notif_row T d' i = None"
    then obtain es1 e es2 ses1 d1 shown1 ses2 d2 shown2 n where "es = es1 @ e # es2"
      and run: "app_run T cfg fresh empty_db (ses, d, shown) es1 (ses1, d1, shown1)"
        "app_step T cfg fresh empty_db (ses1, d1, shown1) e (ses2, d2, shown2)"
      and "notif_row T d1 i = Some n" "notif_row T d2 i = None"
      using run_traced [OF assms(2), of "\<lambda>(_, d, _). notif_row T d i \<noteq> None"] by fastforce
    moreover have "loses_message T cfg d1 e n"
      using step [OF run] calculation(4,5) unfolding kept_but_def by blast
    ultimately show "\<exists>es1 e es2 ses1 d1 shown1 n. es = es1 @ e # es2 \<and>
        app_run T cfg fresh empty_db (ses, d, shown) es1 (ses1, d1, shown1) \<and> notif_row T d1 i = Some n \<and>
        loses_message T cfg d1 e n"
      by blast
  qed
qed

text \<open>A small run: the page of a chat is shown, then the chat is left by its menu.\<close>

definition run_chat :: subscription where "run_chat = new_subscription ''https://c'' ''a'' no_opts"
definition run_row :: notification where "run_row = stored_row ''https://c/a'' 1 (plain_message ''m1'' 10 EVENT_MESSAGE)"
definition run_session :: "unit session" where "run_session = \<lparr>local_storage = Map.empty, kv_store = (), href = None\<rparr>"

lemma run_of_one:
  "\<lbrakk>href (fst st) = None; app_step T cfg fresh empty_db st e st'\<rbrakk> \<Longrightarrow> app_run T cfg fresh empty_db st [e] st'"
  by (rule run_event [OF run_start, simplified])

lemma run_of_two:
  "\<lbrakk>href (fst st) = None; app_step T cfg fresh empty_db st e st'; href (fst st') = None;
    app_step T cfg fresh empty_db st' e' st''\<rbrakk> \<Longrightarrow> app_run T cfg fresh empty_db st [e, e'] st''"
  by (rule run_event [OF run_of_one, simplified])

lemma leaving_click:
  "popup_click mem_db_ops no_base64 (\<lambda>_ _. None) plain_config () None plain_menu_env run_chat Unsubscribe
     (new_chat_menu, run_session, mem_db [run_chat] [run_row]) [] =
   ((new_chat_menu, run_session, mem_db [] [], [], Some (app_root plain_config)), [])"
proof -
  have "sm_remove mem_db_ops run_chat (mem_db [run_chat] [run_row]) = mem_db [] []" "sm_first mem_db_ops (mem_db [] []) = None"
    by code_simp+
  then show ?thesis by (simp add: handleUnsubscribe_def session_exists_def session_token_def run_session_def)
qed

lemma leaving_run:
  "app_run mem_db_ops plain_config () (mem_db [] []) (run_session, mem_db [run_chat] [run_row], [])
     [PageShown ''https://c/a'', MenuClicked run_chat Unsubscribe] (run_session, mem_db [] [], [run_row])"
proof (rule run_of_two)
  have "sm_getNotifications mem_db_ops (mem_db [run_chat] [run_row]) ''https://c/a'' = [run_row]" by code_simp
  then show "app_step mem_db_ops plain_config () (mem_db [] []) (run_session, mem_db [run_chat] [run_row], [])
      (PageShown ''https://c/a'') (run_session, mem_db [run_chat] [run_row], [run_row])"
    using app_step.page [of mem_db_ops plain_config "()" "mem_db [] []" run_session "mem_db [run_chat] [run_row]" "[]" "''https://c/a''"]
    by simp
  show "app_step mem_db_ops plain_config () (mem_db [] []) (run_session, mem_db [run_chat] [run_row], [run_row])
      (MenuClicked run_chat Unsubscribe) (run_session, mem_db [] [], [run_row])"
    by (rule app_step.chat_menu [OF leaving_click])
qed (simp_all add: run_session_def)

lemma db_ok_empty: "(\<And>k. sub_row T d k = None) \<Longrightarrow> (\<And>i. notif_row T d i = None) \<Longrightarrow> db_ok T d"
  by (simp add: db_ok_def)

lemma mem_db_empty: "sub_row mem_db_ops (mem_db [] []) k = None" "notif_row mem_db_ops (mem_db [] []) i = None"
  by (simp_all add: mem_db_ops_def mem_db_def mem_dexie_def mem_get_def)

lemma leaving_run_ok: "app_ok mem_db_ops (run_session, mem_db [run_chat] [run_row], [])"
proof -
  have "notif_ok run_row" by code_simp
  then have "db_ok mem_db_ops (mem_db [run_chat] [run_row])"
    by (intro db_okI) (auto simp: mem_db_ops_def mem_db_def mem_dexie_def mem_get_def run_chat_def split: if_splits)
  then show ?thesis by (simp add: app_ok_def)
qed

lemma nothing_lost_witness:
  "\<exists>es1 e es2 ses1 d1 shown1 n. [PageShown ''https://c/a'', MenuClicked run_chat Unsubscribe] = es1 @ e # es2 \<and>
     app_run mem_db_ops plain_config () (mem_db [] []) (run_session, mem_db [run_chat] [run_row], []) es1 (ses1, d1, shown1) \<and>
     notif_row mem_db_ops d1 ''m1'' = Some n \<and> loses_message mem_db_ops plain_config d1 e n"
proof -
  have "notif_row mem_db_ops (mem_db [run_chat] [run_row]) ''m1'' \<noteq> None" by code_simp
  then show ?thesis
    using nothing_lost [OF coop_db_mem leaving_run leaving_run_ok db_ok_empty [OF mem_db_empty], where i = "''m1''"]
    by (simp add: mem_db_empty)
qed


text \<open>Another run: a poll that was asked before the chat was left is answered afterwards.\<close>

lemma late_poll_run:
  "app_run mem_db_ops plain_config () (mem_db [] []) (run_session, mem_db [] [], [])
     [Polled run_chat (Inr [plain_message ''m1'' 10 EVENT_MESSAGE])]
     (run_session, mem_db [] [polled_row ''https://c/a'' (plain_message ''m1'' 10 EVENT_MESSAGE)], [])"
proof (rule run_of_one)
  have "answer_ok (Inr [plain_message ''m1'' 10 EVENT_MESSAGE])" by code_simp
  moreover have "pollInBackground mem_db_ops (\<lambda>_ _ _. Inr [plain_message ''m1'' 10 EVENT_MESSAGE]) 0 run_chat (mem_db [] []) =
      mem_db [] [polled_row ''https://c/a'' (plain_message ''m1'' 10 EVENT_MESSAGE)]" by code_simp
  ultimately show "app_step mem_db_ops plain_config () (mem_db [] []) (run_session, mem_db [] [], [])
     (Polled run_chat (Inr [plain_message ''m1'' 10 EVENT_MESSAGE]))
     (run_session, mem_db [] [polled_row ''https://c/a'' (plain_message ''m1'' 10 EVENT_MESSAGE)], [])"
    using app_step.poll [of "Inr [plain_message ''m1'' 10 EVENT_MESSAGE]" mem_db_ops plain_config "()" "mem_db [] []" run_session
        "mem_db [] []" "[]" run_chat 0] by simp
qed (simp add: run_session_def)


text \<open>
  C16: A poll writes what it was answered under the id of its chat without looking whether the chat is
  still there: when the user leaves a chat while it is being polled, its messages are stored again after
  they were deleted with it, for a chat that is in no list.
\<close>

theorem late_poll_refills_left_chat:
  assumes "coop_db T" and "from_server n" "n_event n = EVENT_MESSAGE" "\<not> inherited (seq_of n)"
    and "poll_threshold now (prefs_deleteAfter (PREFS T) (prefs d)) \<le> n_time n"
    and "popup_click T B srv cfg fresh u me s Unsubscribe (cm, ses, d) log = ((cm', ses', d', calls, path), log')"
    and "d'' = pollInBackground T (\<lambda>_ _ _. Inr [n]) now s d'"
  shows "sub_row T d'' (s_id s) = None \<and> notif_row T d'' (n_id n) = Some (polled_row (s_id s) n)"
proof -
  have left: "d' = sm_remove T s d"
    using assms(6) unsubscribe_parts(1) [of T srv cfg fresh s ses d log] by (auto split: prod.splits)
  then have "prefs d' = prefs d" by (simp add: sm_remove_def)
  then have recent: "recentNotifications (poll_threshold now (prefs_deleteAfter (PREFS T) (prefs d'))) [n] = [n]"
    using assms(5) by (simp add: recentNotifications_def)
  obtain e where e: "poll T (\<lambda>_ _ _. Inr [n]) now s d' = Inr e"
    and stored: "\<And>m. \<lbrakk>is_latest [n] m; \<not> inherited (seq_of m); n_event m = EVENT_MESSAGE\<rbrakk> \<Longrightarrow>
        notif_row T e (n_id m) = Some (polled_row (s_id s) m)"
  proof (rule coop_db.poll_applies [where api = "\<lambda>_ _ _. Inr [n]" and s = s and ns = "[n]" and now = now and d = d',
      OF assms(1) refl, unfolded recent])
    show "distinct (map n_id [n])" "\<forall>m \<in> set [n]. from_server m" using assms(2) by simp_all
  qed (rule that)
  have d'': "d'' = e" using assms(7) e by (simp add: pollInBackground_def)
  have "sub_row T d' (s_id s) = None" by (simp add: left coop_db.remove_rows [OF assms(1)])
  then have "sub_row T d'' (s_id s) = None" unfolding assms(7) by (rule coop_db.poll_adds_no_chat [OF assms(1)])
  then show ?thesis using stored [OF is_latest_single assms(4,3)] d'' by simp
qed

lemma late_poll_refills_left_chat_witness:
  "let n = plain_message ''m1'' 10 EVENT_MESSAGE;
       d' = (fst \<circ> snd \<circ> snd \<circ> fst) (popup_click mem_db_ops no_base64 (\<lambda>_ _. None) plain_config () None plain_menu_env run_chat Unsubscribe
         (new_chat_menu, run_session, mem_db [run_chat] [run_row]) []);
       d'' = pollInBackground mem_db_ops (\<lambda>_ _ _. Inr [n]) 0 run_chat d'
   in sub_row mem_db_ops d'' ''https://c/a'' = None \<and> notif_row mem_db_ops d'' ''m1'' = Some (polled_row ''https://c/a'' n)"
proof -
  let ?n = "plain_message ''m1'' 10 EVENT_MESSAGE"
  have n: "from_server ?n" "n_event ?n = EVENT_MESSAGE" "\<not> inherited (seq_of ?n)"
    "poll_threshold 0 (prefs_deleteAfter (PREFS mem_db_ops) (prefs (mem_db [run_chat] [run_row]))) \<le> n_time ?n"
    by code_simp+
  have "n_id ?n = ''m1''" "s_id run_chat = ''https://c/a''" by code_simp+
  then show ?thesis
    using late_poll_refills_left_chat [OF coop_db_mem n leaving_click refl] unfolding leaving_click Let_def by simp
qed

text \<open>
  C15: A sync that has its answer but has not written it yet undoes what the user does meanwhile. A chat that is
  subscribed to after the server has listed the account's chats is removed again by the sync, though
  the server takes it; and a chat that is left is put back, without its mute and its last message.
\<close>

theorem stale_sync_undoes:
  assumes "coop_db T" and "truthy (session_token ses)"
    and "account_get srv cfg (session_token ses) log = (Inr account, log')" and "account \<noteq> JNull"
    and "json_list (json_prop account ''subscriptions'') = Some rems"
    and "sub_row T d (topicUrl b topic) = None" "topicUrl b topic \<notin> remote_id ` set (map decode_remote rems)" "\<not> o_internal opts"
    and "subscribeTopic T srv cfg fresh b topic opts ses d log' = ((s, ses1, d1), log1)"
    and "s_id old \<in> remote_id ` set (map decode_remote rems)"
    and "handleUnsubscribe T srv cfg fresh old ses d log' = ((path, ses2, d2), log2)"
  shows "account_sync T srv cfg fresh ses d log = ((Some account, apply_account T cfg account d, ses), log') \<and>
    sub_row T d1 (topicUrl b topic) = Some s \<and> sub_row T (apply_account T cfg account d1) (topicUrl b topic) = None \<and>
    sub_row T d2 (s_id old) = None \<and>
    (\<exists>r. sub_row T (apply_account T cfg account d2) (s_id old) = Some r \<and> s_mutedUntil r = 0 \<and> s_last r = None)"
proof -
  have applied: "sub_row T (apply_account T cfg account e) k =
      (case sub_row T e k of
         Some s \<Rightarrow> if s_internal s \<or> k \<in> remote_id ` set (map decode_remote rems) then Some s else None
       | None \<Rightarrow> map_option (remote_row cfg (map_option (map decode_reservation) (json_list (json_prop account ''reservations''))))
           (find (\<lambda>r. remote_id r = k) (map decode_remote rems)))" for e k
    by (simp add: apply_account_def assms(5) coop_db.sync_sub_row [OF assms(1)])
  have d1: "d1 = fst (sm_add T b topic opts d)" and s: "s = snd (sm_add T b topic opts d)"
    using subscribe_parts [of T srv cfg fresh b topic opts ses d log'] assms(9) by simp_all
  have row: "sub_row T d1 (topicUrl b topic) = Some (new_subscription b topic opts)" "s = new_subscription b topic opts"
    using assms(6) by (simp_all add: d1 s coop_db.sm_add_row [OF assms(1)]) (simp add: sm_add_def sm_get_def Let_def)
  have d2: "d2 = sm_remove T old d"
    using unsubscribe_parts(1) [of T srv cfg fresh old ses d log'] assms(11) by simp
  then have left: "sub_row T d2 (s_id old) = None" by (simp add: coop_db.remove_rows [OF assms(1)])
  obtain r where r: "find (\<lambda>r. remote_id r = s_id old) (map decode_remote rems) = Some r"
    using assms(10) by (cases "find (\<lambda>r. remote_id r = s_id old) (map decode_remote rems)") (auto simp: find_None_iff)
  have "account_sync T srv cfg fresh ses d log = ((Some account, apply_account T cfg account d, ses), log')"
    using assms(2-4) by (simp add: account_sync_def)
  moreover have "sub_row T (apply_account T cfg account d1) (topicUrl b topic) = None"
    using assms(7,8) row by (simp add: applied new_subscription_def)
  ultimately show ?thesis
    using row left r by (simp add: applied remote_row_def new_subscription_def)
qed

definition listing_server :: server where
  "listing_server log rq = Some \<lparr>rs_status = 200, rs_json = Some (JObj [(''subscriptions'',
     JArr [JObj [(''base_url'', JStr ''https://c''), (''topic'', JStr ''a'')]])])\<rparr>"

definition listed_session :: "unit session" where
  "listed_session = \<lparr>local_storage = [''user'' \<mapsto> ''bob'', ''token'' \<mapsto> ''tk''], kv_store = (), href = None\<rparr>"

definition listing_account :: json where
  "listing_account = JObj [(''subscriptions'', JArr [JObj [(''base_url'', JStr ''https://c''), (''topic'', JStr ''a'')]])]"

lemma stale_sync_undoes_witness:
  "let d1 = (snd \<circ> snd \<circ> fst) (subscribeTopic mem_db_ops listing_server plain_config () ''https://c'' ''b'' no_opts listed_session
         (mem_db [run_chat] []) (snd (account_get listing_server plain_config (Some ''tk'') [])))
   in sub_row mem_db_ops d1 ''https://c/b'' \<noteq> None \<and>
     sub_row mem_db_ops (apply_account mem_db_ops plain_config listing_account d1) ''https://c/b'' = None"
proof -
  let ?d = "mem_db [run_chat] []" and ?log = "snd (account_get listing_server plain_config (Some ''tk'') [])"
  let ?rems = "[JObj [(''base_url'', JStr ''https://c''), (''topic'', JStr ''a'')]]"
  have token: "session_token listed_session = Some ''tk''" by (simp add: session_token_def listed_session_def)
  have get: "account_get listing_server plain_config (session_token listed_session) [] = (Inr listing_account, ?log)"
    by (simp add: token account_get_def call_json_def io_bind_def io_return_def response_json_def fetchOrThrow_unfold listing_server_def
        listing_account_def)
  have rems: "json_list (json_prop listing_account ''subscriptions'') = Some ?rems"
    by (simp add: listing_account_def json_prop_def json_list_def)
  have ids: "remote_id ` set (map decode_remote ?rems) = {''https://c/a''}" by code_simp
  have urls: "topicUrl ''https://c'' ''b'' = ''https://c/b''" "s_id run_chat = ''https://c/a''" by code_simp+
  have none: "sub_row mem_db_ops ?d (topicUrl ''https://c'' ''b'') = None"
    by (simp add: mem_db_ops_def mem_db_def mem_dexie_def mem_get_def urls)
  obtain s ses1 d1 log1 where sub: "subscribeTopic mem_db_ops listing_server plain_config () ''https://c'' ''b'' no_opts listed_session ?d ?log =
      ((s, ses1, d1), log1)" by (metis surj_pair)
  obtain path ses2 d2 log2 where left: "handleUnsubscribe mem_db_ops listing_server plain_config () run_chat listed_session ?d ?log =
      ((path, ses2, d2), log2)" by (metis surj_pair)
  have "truthy (session_token listed_session)" "listing_account \<noteq> JNull" "topicUrl ''https://c'' ''b'' \<notin> remote_id ` set (map decode_remote ?rems)"
    "\<not> o_internal no_opts" "s_id run_chat \<in> remote_id ` set (map decode_remote ?rems)"
    unfolding ids urls by (simp_all add: token listing_account_def no_opts_def)
  then show ?thesis
    using stale_sync_undoes [OF coop_db_mem _ get _ rems none _ _ sub _ left] by (simp add: sub urls)
qed

end
