(* ===== verification/App_Origin.thy ===== *)
theory App_Origin
  imports App_Run
begin

section \<open>Where the messages come from\<close>

text \<open>
  The other direction of \<open>App_Run\<close>: what is stored or shown at the end of a run was delivered by one of
  its events, to the same chat and with the same contents. \<open>content\<close> leaves out what the client itself
  changes in a row: the read flag, and the progress and error of an action.
\<close>

definition content :: "notification \<Rightarrow> notification" where
  "content n = n\<lparr>n_new := None,
     n_actions := map_option (map (\<lambda>a. a\<lparr>act_progress := None, act_error := None\<rparr>)) (n_actions n)\<rparr>"

text \<open>The messages an event brings, each with its chat.\<close>

definition answered :: "string \<Rightarrow> app_error + notification list \<Rightarrow> (string \<times> notification) list" where
  "answered sid ans = (case ans of Inl e \<Rightarrow> [] | Inr ns \<Rightarrow> map (Pair sid) ns)"

fun delivers :: "config \<Rightarrow> app_event \<Rightarrow> (string \<times> notification) list" where
  "delivers cfg (Reported (NotificationReceived sid n)) = [(sid, n)]"
| "delivers cfg (Pushed data) = [(pd_subscription_id data, pd_message data)]"
| "delivers cfg (Polled s ans) = answered (s_id s) ans"
| "delivers cfg (ChatSubscribed b topic name ans) = answered (topicUrl (if b = [] then base_url cfg else b) topic) ans"
| "delivers cfg (TopicOpened params ans) =
     (case autoSubscribeTarget cfg True False False (at_baseUrl params) (at_topic params) of
        None \<Rightarrow> [] | Some (b, topic) \<Rightarrow> answered (topicUrl b topic) ans)"
| "delivers cfg (InviteJoined topic ans) = answered (topicUrl (base_url cfg) topic) ans"
| "delivers cfg e = []"

text \<open>The row of a delivered message, as far as its contents go.\<close>

definition row_content :: "string \<times> notification \<Rightarrow> notification" where
  "row_content p = content (stored_row (fst p) 0 (snd p))"

lemma content_status [simp]: "content (with_status a p err n) = content n"
proof -
  have "(\<lambda>a :: action. a\<lparr>act_progress := None, act_error := None\<rparr>) \<circ>
      (\<lambda>x. if act_id x = act_id a then x\<lparr>act_progress := Some p, act_error := err\<rparr> else x) =
      (\<lambda>a :: action. a\<lparr>act_progress := None, act_error := None\<rparr>)"
    by (simp add: fun_eq_iff)
  then show ?thesis by (simp add: content_def with_status_def option.map_comp)
qed

lemma content_simps [simp]:
  "content (set_new k n) = content n"
  "content (stored_row sid k n) = row_content (sid, n)" "content (polled_row sid n) = row_content (sid, n)"
  by (simp_all add: content_def set_new_def row_content_def stored_row_def polled_row_def)

subsection \<open>What a change of the database adds\<close>

text \<open>From \<open>d\<close> to \<open>d'\<close> the contents of the stored messages stay, or come from \<open>G\<close>.\<close>

definition fed_by ::
  "('s, 'n, 'p, 'u) db_ops \<Rightarrow> notification set \<Rightarrow> ('s, 'n, 'p, 'u) db \<Rightarrow> ('s, 'n, 'p, 'u) db \<Rightarrow> bool" where
  "fed_by T G d d' \<longleftrightarrow> (\<forall>i n'. notif_row T d' i = Some n' \<longrightarrow>
     (\<exists>n. notif_row T d i = Some n \<and> content n = content n') \<or> content n' \<in> G)"

lemma fed_same: "notifs d' = notifs d \<Longrightarrow> fed_by T G d d'"
  by (auto simp: fed_by_def)

lemma fed_refl [simp, intro]: "fed_by T G d d"
  by (simp add: fed_same)

lemma fed_trans: "fed_by T G d d1 \<Longrightarrow> fed_by T G d1 d2 \<Longrightarrow> fed_by T G d d2"
  unfolding fed_by_def by metis

lemma fed_then_same: "fed_by T G d d1 \<Longrightarrow> notifs d2 = notifs d1 \<Longrightarrow> fed_by T G d d2"
  by (rule fed_trans [OF _ fed_same])

context coop_db
begin

lemma fed_subs:
  "fed_by T G d (sm_update T sid f d)" "fed_by T G d (sm_updateState T sid state d)" "fed_by T G d (sm_setMutedUntil T sid until d)"
  "fed_by T G d (sm_setDisplayName T sid name d)" "fed_by T G d (sm_setLast T sid i d)"
  "fed_by T G d (fst (sm_add T b t opts d))"
  by (simp_all add: fed_same sm_sub_defs)

lemma fed_marks:
  "fed_by T G d (sm_markNotificationRead T i d)" "fed_by T G d (sm_markNotificationReadBySequenceId T sid q d)"
  "fed_by T G d (sm_markNotificationsRead T sid d)"
  by (auto simp: fed_by_def notif_row_marks)

lemma fed_deletes:
  "fed_by T G d (sm_deleteNotification T i d)" "fed_by T G d (sm_deleteNotificationBySequenceId T sid q d)"
  "fed_by T G d (sm_deleteNotifications T sid d)" "fed_by T G d (sm_pruneNotifications T th d)"
  "fed_by T G d (sm_remove T s d)" "fed_by T G d (fold (\<lambda>q d. sm_deleteNotificationBySequenceId T sid q d) qs d)"
  by (auto simp: fed_by_def notif_row_deletes remove_rows delete_seqs_rows split: option.splits if_splits)

lemma fed_receive:
  assumes "row_content (sid, n) \<in> G"
  shows "fed_by T G d (fst (sm_addNotification T cu sid n d))"
proof (cases "notif_row T d (n_id n) \<noteq> None \<or> n_event n = EVENT_MESSAGE_DELETE \<or> n_event n = EVENT_MESSAGE_CLEAR")
  case True
  then show ?thesis using sm_addNotification_skip [of d n cu sid] by auto
next
  case False
  then show ?thesis
    using notif_row_addNotification [of d n cu sid] assms by (auto simp: fed_by_def split: if_splits)
qed

lemma fed_rewrite: "content n \<in> G \<Longrightarrow> fed_by T G d (updateActionStatus T n a p err d)"
  by (auto simp: fed_by_def notif_row_status split: if_splits)

lemma fed_poll:
  assumes "row_content ` set (answered (s_id s) ans) \<subseteq> G"
  shows "fed_by T G d (pollInBackground T (\<lambda>_ _ _. ans) now s d)"
proof (cases ans)
  case (Inl e)
  then show ?thesis by (simp add: pollInBackground_def poll_def)
next
  case (Inr ns)
  let ?recent = "recentNotifications (poll_threshold now (prefs_deleteAfter (PREFS T) (prefs d))) ns"
  let ?add = "notificationsToAdd (latestNotificationsBySequenceId ?recent)"
  have G: "row_content (s_id s, n) \<in> G" if "n \<in> set ?add" for n
  proof -
    have "is_latest ?recent n" using that by (simp add: set_notificationsToAdd)
    then have "n \<in> set ns" using is_latest_mem recent_subset by blast
    then show ?thesis using assms by (auto simp: answered_def Inr)
  qed
  let ?D = "fold (\<lambda>q d. sm_deleteNotificationBySequenceId T (s_id s) q d) (deletedSequenceIds (latestNotificationsBySequenceId ?recent)) d"
  have "fed_by T G e e'" if "sm_addNotifications T (s_id s) ?add e = Inr e'" for e e'
    using find_Some_mem [of _ "rev ?add"] G
    by (fastforce simp: fed_by_def notif_row_addNotifications [OF that] split: option.splits)
  then have add: "fed_by T G d e'" if "sm_addNotifications T (s_id s) ?add ?D = Inr e'" for e'
    using that fed_trans [OF fed_deletes(6)] by blast
  have "pollInBackground T (\<lambda>_ _ _. ans) now s d =
      (if ?add = [] then ?D else case sm_addNotifications T (s_id s) ?add ?D of Inl e \<Rightarrow> d | Inr e' \<Rightarrow> e')"
    by (simp add: pollInBackground_def poll_def Inr Let_def)
  then show ?thesis using add fed_deletes(6) by (simp split: sum.split)
qed

subsection \<open>The handlers\<close>

lemma fed_nav:
  assumes "nav_click T cfg innerWidth a (sb, d) = (sb', d', path, eff)"
  shows "fed_by T G d d'"
  using assms fed_marks(3) by (cases a) (auto simp: item_click_def)

lemma fed_menu:
  assumes "popup_click T B srv cfg fresh u me s a (cm, ses, d) log = ((cm', ses', d', calls, path), log')"
  shows "fed_by T G d d'"
proof (cases a)
  case Unsubscribe
  then have "d' = sm_remove T s d"
    using assms unsubscribe_parts(1) [of T srv cfg fresh s ses d log] by (auto split: prod.splits)
  then show ?thesis by (simp add: fed_deletes)
qed (use assms in \<open>auto simp: handleClearAll_def handleSetMutedUntil_def fed_deletes fed_subs split: prod.splits\<close>)

lemma fed_bar:
  assumes "bar_click T srv cfg fresh empty_db isDark selected a (ly, ses, d) log = ((ly', ses', d', path), log')"
    and "\<And>i. notif_row T empty_db i = None"
  shows "fed_by T G d d'"
proof (cases a)
  case Logout
  then have "d' = d \<or> d' = empty_db"
    using assms(1) by (auto simp: handleLogout_def split: prod.splits sum.splits)
  then show ?thesis using assms(2) by (auto simp: fed_by_def)
qed (use assms in \<open>auto simp: handleThemeToggle_def handleToggleMute_def fed_same fed_subs split: option.splits\<close>)

lemma fed_handle:
  assumes "row_content (sid, n) \<in> G"
  shows "fed_by T G d (fst (handleMessage T parse emojis cfg br cu sid n d))"
proof (cases "sub_row T d sid")
  case None
  then show ?thesis by (simp add: handleMessage_def sm_get_def)
next
  case (Some s)
  have "row_content (s_id s, n) \<in> G" using assms subs_key [OF Some] by simp
  then have add: "fed_by T G e (fst (sm_addNotification T cu (s_id s) n e))" for e by (rule fed_receive)
  then have "fed_by T G e (fst (sm_addNotification T cu (s_id s) n (sm_deleteNotificationBySequenceId T (s_id s) q e)))" for e q
    using fed_trans [OF fed_deletes(2)] by blast
  then have "fed_by T G d (fst (handleNotification T emojis cfg br cu s n d))"
    unfolding handleNotification_def Let_def case_prod_beta using add by (simp add: fed_deletes fed_marks)
  then show ?thesis using Some by (simp add: handleMessage_def sm_get_def)
qed

lemma fed_report:
  assumes "row_content ` set (delivers cfg (Reported r)) \<subseteq> G"
  shows "fed_by T G d (app_report T parse emojis cfg' br cu m r d)"
  using assms fed_subs(2) fed_handle
  by (cases r) (auto simp: app_report_def stateChanged_def notificationReceived_def)

lemma fed_push:
  assumes "handlePush T emojis we data d = (d', effs, r)" and "from_server (pd_message data)"
    and "row_content (pd_subscription_id data, pd_message data) \<in> G"
  shows "fed_by T G d d'"
proof -
  let ?sid = "pd_subscription_id data" and ?n = "pd_message data"
  let ?d = "sm_deleteNotificationBySequenceId T ?sid (seq_of ?n) d"
  have ne: "seq_of ?n \<noteq> []" using assms(2) seq_of_ne by (simp add: from_server_def)
  have "fed_by T G d (sm_setLast T ?sid (n_id ?n) (?d\<lparr>notifs := t\<rparr>))"
    if "dx_add (NOTIFS T) (notifs ?d) (stored_row ?sid 1 ?n) = Some t" for t
  proof -
    have "dx_get (NOTIFS T) t = (notif_row T ?d)(n_id ?n \<mapsto> stored_row ?sid 1 ?n)"
      using notifs.get_add [OF that] by simp
    then have "fed_by T G ?d (?d\<lparr>notifs := t\<rparr>)" using assms(3) by (auto simp: fed_by_def split: if_splits)
    then show ?thesis using fed_trans [OF fed_deletes(2)] fed_then_same by (metis notifs_setLast)
  qed
  then have "fed_by T G d (fst (handlePushMessage T emojis we data d))"
    unfolding push_stores_eq [OF ne refl refl] by (simp add: Let_def fed_deletes split: option.split)
  moreover have "fed_by T G d (fst (handlePushMessageDelete T data d))"
    using fed_then_same [OF fed_deletes(2)] by (simp add: push_delete_eq Let_def fed_subs fed_then_same)
  moreover have "fed_by T G d (fst (handlePushMessageClear T we data d))"
    using fed_then_same [OF fed_marks(2)] by (simp add: push_clear_eq Let_def fed_subs fed_then_same)
  moreover have "d' = fst (handlePush T emojis we data d)" using assms(1) by simp
  ultimately show ?thesis by (simp add: handlePush_def Let_def case_prod_beta)
qed

lemma fed_click:
  assumes "handleClick T we srv rootUrl clients np clicked d log = ((d', effs, r), log')"
  shows "fed_by T G d d'"
proof -
  have "d' = d \<or> (\<exists>np. d' = fst (clickClearNotification T we np d))"
    using assms by (auto simp: handleClick_def fetch_def Let_def split: option.splits if_splits prod.splits)
  moreover have "fed_by T G d (fst (clickClearNotification T we np d))" for np
    using fed_marks(2) [of G d "np_subscriptionId np" "seq_of (np_message np)"]
    by (simp add: clickClearNotification_def Let_def sm_markNotificationReadBySequenceId_def)
  ultimately show ?thesis by auto
qed

lemma fed_account:
  assumes "account_sync T srv cfg fresh ses d log = ((r, d', ses'), log')"
  shows "fed_by T G d d'"
proof -
  have "d' = d \<or> (\<exists>account. d' = apply_account T cfg account d)"
    using assms by (auto simp: account_sync_def split: if_splits prod.splits sum.splits)
  moreover have "fed_by T G d (sm_syncFromRemote T cfg rems res (d\<lparr>prefs := p\<rparr>))" for rems res p
    by (auto simp: fed_by_def sync_notif_row split: option.splits if_splits)
  then have "fed_by T G d (apply_account T cfg account d)" for account
    by (simp add: apply_account_def fed_same Let_def split: option.split)
  ultimately show ?thesis by auto
qed

lemma fed_prune: "fed_by T G d (prune T now d)"
  by (simp add: prune_def fed_deletes split: option.split)

lemma fed_chats:
  "handleDM T srv cfg tok username d log = ((t, d1), log1) \<Longrightarrow> fed_by T G d d1"
  "group_handleCreate T srv cfg tok name selected d log = ((g, d2), log2) \<Longrightarrow> fed_by T G d d2"
  "fed_by T G d (addSyncTopic T cfg topic d)"
  "displayName_handleSave T srv cfg fresh tx s name ses d log = (((ses', r), d3), log3) \<Longrightarrow> fed_by T G d d3"
  using fed_subs
  by (auto simp: handleDM_def group_handleCreate_def add_chat_def addSyncTopic_def displayName_handleSave_def Let_def
      split: prod.splits sum.splits if_splits)

lemma fed_add_poll:
  assumes "row_content ` set (answered (s_id s) ans) \<subseteq> G"
  shows "fed_by T G d (pollInBackground T (\<lambda>_ _ _. ans) now s (fst (sm_add T b topic opts d)))"
  using fed_trans [OF fed_subs(6) fed_poll [OF assms]] .

lemma fed_auto:
  assumes "row_content ` set (delivers cfg (TopicOpened params ans)) \<subseteq> G"
    and "useAutoSubscribe T (\<lambda>_ _ _. ans) srv cfg fresh now params loaded selected hasRun d ses log = (hasRun', d', ses', log')"
  shows "fed_by T G d d'"
proof (cases "autoSubscribeTarget cfg loaded hasRun selected (at_baseUrl params) (at_topic params)")
  case None
  then show ?thesis using assms(2) by (auto simp: useAutoSubscribe_def split: if_splits)
next
  case (Some p)
  obtain b topic where p: "p = (b, topic)" by fastforce
  then have t: "autoSubscribeTarget cfg True False False (at_baseUrl params) (at_topic params) = Some (b, topic)"
    using Some by (auto simp: autoSubscribeTarget_def split: if_splits)
  have "d' = d \<or> d' = pollInBackground T (\<lambda>_ _ _. ans) now (snd (sm_add T b topic no_opts d)) (fst (sm_add T b topic no_opts d))"
    using assms(2) Some p by (auto simp: useAutoSubscribe_def Let_def split: if_splits prod.splits)
  moreover have "row_content ` set (answered (s_id (snd (sm_add T b topic no_opts d))) ans) \<subseteq> G"
    using assms(1) by (simp add: t sm_add_id)
  ultimately show ?thesis using fed_add_poll by auto
qed

lemma fed_step:
  assumes "app_step T cfg fresh empty_db (ses, d, shown) e (ses', d', shown')" and "\<And>i. notif_row T empty_db i = None"
  shows "fed_by T (content ` set shown \<union> row_content ` set (delivers cfg e)) d d'"
  using assms(1)
proof cases
  case (subscribe ans now srv b topic name log s log')
  obtain ses1 d1 where e: "subscribeTopic T srv cfg fresh (if b = [] then base_url cfg else b) topic (subscribe_opts name) ses d log =
      ((s, ses1, d1), log')" "d' = pollInBackground T (\<lambda>_ _ _. ans) now s d1"
    using subscribe(4) by (auto simp: subscribe_handleSuccess_def split: prod.splits)
  have "fed_by T (content ` set shown \<union> row_content ` set (answered (s_id s) ans)) d d'"
    unfolding e(2) kept_subscribe(1) [OF e(1)] by (rule fed_add_poll) auto
  then show ?thesis using subscribe(1) kept_subscribe(2) [OF e(1)] by simp
next
  case (invite ans now srv topic log log')
  obtain s ses1 d1 where e: "subscribeTopic T srv cfg fresh (base_url cfg) topic no_opts ses d log = ((s, ses1, d1), log')"
    "d' = pollInBackground T (\<lambda>_ _ _. ans) now s d1"
    using invite(4) by (auto simp: join_topic_step_def split: prod.splits)
  have "fed_by T (content ` set shown \<union> row_content ` set (answered (s_id s) ans)) d d'"
    unfolding e(2) kept_subscribe(1) [OF e(1)] by (rule fed_add_poll) auto
  then show ?thesis using invite(1) kept_subscribe(2) [OF e(1)] by simp
next
  case (leave srv tx incorrect log r log' password)
  then have "d' = d \<or> d' = empty_db"
    by (auto simp: deleteAccount_handleSubmit_def split: prod.splits sum.splits)
  then show ?thesis using assms(2) by (auto simp: fed_by_def)
next
  case (auto ans srv now params loaded selected hasRun log hasRun' log')
  show ?thesis by (rule fed_auto [OF _ auto(4)]) (simp add: auto(1))
next
  case (setting srv c lang log lang' log')
  then have "notifs d' = notifs d"
    by (cases c) (auto simp: case_prod_beta sound_handleChange_def minPriority_handleChange_def deleteAfter_handleChange_def
        webPush_handleChange_def theme_handleChange_def handlePresetClick_def language_handleChange_def)
  then show ?thesis by (rule fed_same)
qed (auto simp: handleDelete_def handleMarkRead_def fed_marks fed_deletes fed_rewrite
    intro: fed_nav fed_menu fed_bar [OF _ assms(2)] fed_report fed_push fed_click fed_poll fed_prune fed_account fed_auto fed_chats)

end

subsection \<open>Properties\<close>

definition brought :: "config \<Rightarrow> app_event list \<Rightarrow> notification set" where
  "brought cfg es = row_content ` set (concat (map (delivers cfg) es))"

lemma brought_snoc: "brought cfg (es @ [e]) = brought cfg es \<union> row_content ` set (delivers cfg e)"
  by (auto simp: brought_def)

lemma run_delivered:
  assumes "coop_db T" "\<And>i. notif_row T empty_db i = None" "app_run T cfg fresh empty_db st es st'"
    and "\<And>i. notif_row T (fst (snd st)) i = None" "snd (snd st) = []"
  shows "(\<forall>i n. notif_row T (fst (snd st')) i = Some n \<longrightarrow> content n \<in> brought cfg es) \<and>
    content ` set (snd (snd st')) \<subseteq> brought cfg es"
  using assms(3-5)
proof (induction rule: app_run.induct)
  case (run_event st es st' e st'')
  obtain ses d shown ses' d' shown' where st: "st' = (ses, d, shown)" "st'' = (ses', d', shown')" by (metis prod.collapse)
  have step: "app_step T cfg fresh empty_db (ses, d, shown) e (ses', d', shown')" using run_event.hyps st by simp
  have rows: "content n \<in> brought cfg es" if "notif_row T d i = Some n" for i n
    using run_event.IH run_event.prems that st by auto
  have page: "content ` set shown \<subseteq> brought cfg es" using run_event.IH run_event.prems st by simp
  have "content n \<in> brought cfg (es @ [e])" if n: "notif_row T d' i = Some n" for i n
  proof -
    consider m where "notif_row T d i = Some m" "content m = content n"
      | "content n \<in> content ` set shown" | "content n \<in> row_content ` set (delivers cfg e)"
      using coop_db.fed_step [OF assms(1) step assms(2)] n unfolding fed_by_def by blast
    then show ?thesis
    proof cases
      case 1
      then show ?thesis using rows [of i m] by (simp add: brought_snoc)
    next
      case 2
      then show ?thesis using page unfolding brought_snoc by blast
    next
      case 3
      then show ?thesis unfolding brought_snoc by (rule UnI2)
    qed
  qed
  moreover have "shown' = shown \<or> (\<exists>sid. shown' = sm_getNotifications T d sid)" using step by cases auto
  then have "content ` set shown' \<subseteq> brought cfg es"
    using page rows by (auto simp: coop_db.getNotifications_rows [OF assms(1)])
  ultimately show ?case by (auto simp: st brought_snoc)
qed simp

text \<open>
  C5: Every message that is stored after a run that starts with an empty database, and every message the
  page shows, was delivered by an event of the run: by a connection, a push, or the answer of a poll,
  under the same id, to the same chat, and with the same text, sender, time and actions. Whatever the
  handlers store, mark, replace or write back, no message is made up, changed, or moved to another chat.
\<close>

theorem messages_authentic:
  assumes "coop_db T" and "\<And>i. notif_row T d0 i = None" "\<And>i. notif_row T empty_db i = None"
    and "app_run T cfg fresh empty_db (ses, d0, []) es (ses', d, shown)"
    and "notif_row T d i = Some n \<or> n \<in> set shown"
  shows "\<exists>e \<in> set es. \<exists>(sid, m) \<in> set (delivers cfg e). content n = content (stored_row sid 0 m) \<and>
    n_id n = n_id m \<and> n_subscriptionId n = Some sid \<and> n_message n = n_message m \<and> n_sender n = n_sender m \<and> n_time n = n_time m"
proof -
  have "content n \<in> brought cfg es"
    using run_delivered [OF assms(1,3,4)] assms(2,5) by auto
  then obtain e sid m where e: "e \<in> set es" "(sid, m) \<in> set (delivers cfg e)" "content n = content (stored_row sid 0 m)"
    by (auto simp: brought_def)
  have "n_id (content x) = n_id x" "n_subscriptionId (content x) = n_subscriptionId x" "n_message (content x) = n_message x"
    "n_sender (content x) = n_sender x" "n_time (content x) = n_time x" for x
    by (simp_all add: content_def)
  moreover have "n_message (stored_row sid 0 m) = n_message m" "n_sender (stored_row sid 0 m) = n_sender m"
    by (simp_all add: stored_row_def messageWithSequenceId_def)
  ultimately have "n_id n = n_id m \<and> n_subscriptionId n = Some sid \<and> n_message n = n_message m \<and> n_sender n = n_sender m \<and>
      n_time n = n_time m"
    using e(3) n_stored_row by metis
  then show ?thesis using e by (intro bexI [OF _ e(1)] bexI [OF _ e(2)]) simp
qed

lemma messages_authentic_witness:
  "\<exists>e \<in> set [Polled run_chat (Inr [plain_message ''m1'' 10 EVENT_MESSAGE])]. \<exists>(sid, m) \<in> set (delivers plain_config e).
     content (polled_row ''https://c/a'' (plain_message ''m1'' 10 EVENT_MESSAGE)) = content (stored_row sid 0 m)"
proof -
  have "notif_row mem_db_ops (mem_db [] [polled_row ''https://c/a'' (plain_message ''m1'' 10 EVENT_MESSAGE)]) ''m1'' =
      Some (polled_row ''https://c/a'' (plain_message ''m1'' 10 EVENT_MESSAGE))" by code_simp
  then show ?thesis
    using messages_authentic [OF coop_db_mem mem_db_empty(2) mem_db_empty(2) late_poll_run] by blast
qed

end
