(* ===== verification/Side_Parts.thy ===== *)
theory Side_Parts
  imports Menus Frame_View Workers Start_View Page_Parts Service_Worker Action_Bar Message_View
begin

section \<open>The look of the app, the two side bars, and the parts around the pages\<close>

text \<open>
  App.jsx with theme.js (which theme and colours the document gets), Navigation.jsx (the side bar is there
  twice, one copy for small and one for big screens), the paged list of Notifications.jsx, the pages of
  ErrorBoundary.jsx, the emoji picker with its search field, the listeners and routes of
  public/sw.js, and the sizes of files as app/utils.js writes them.
\<close>

subsection \<open>Themes (App.jsx, theme.js)\<close>

record palette =
  pa_mode :: string
  pa_background :: string
  pa_paper :: string
  pa_primary :: string
  pa_secondary :: string
  pa_error :: string
  pa_success :: string
  pa_warning :: "string option"
  pa_text_primary :: string
  pa_text_secondary :: string

definition lightTheme :: palette where
  "lightTheme = \<lparr>pa_mode = ''light'', pa_background = ''#FFFDF7'', pa_paper = ''#FFFFFF'', pa_primary = ''#C4A265'',
     pa_secondary = ''#3B82F6'', pa_error = ''#EF4444'', pa_success = ''#22C55E'', pa_warning = Some ''#F97316'',
     pa_text_primary = ''#000000'', pa_text_secondary = ''#404040''\<rparr>"

definition darkTheme :: palette where
  "darkTheme = \<lparr>pa_mode = ''dark'', pa_background = ''#1a1a1a'', pa_paper = ''#2a2a2a'', pa_primary = ''#8B9A6B'',
     pa_secondary = ''#3B82F6'', pa_error = ''#EF4444'', pa_success = ''#22C55E'', pa_warning = None,
     pa_text_primary = ''#FFFDF7'', pa_text_secondary = ''#D4D4CF''\<rparr>"

text \<open>
  What the effects of \<open>App\<close> write into the document, and the palette of its theme. Until the preferences are
  read they are undefined. A stored preset that names a property of every object has no colour,
  and writing or darkening it throws.
\<close>

record app_look =
  al_lang :: string
  al_dir :: string
  al_theme :: string
  al_accent :: string
  al_accent_hover :: string
  al_palette :: palette

definition App_look ::
  "bool \<Rightarrow> string \<Rightarrow> string \<Rightarrow> string option \<Rightarrow> string option \<Rightarrow> string option \<Rightarrow> app_error + app_look" where
  "App_look prefersDarkMode language languageDir themePreference accentPref customAccent =
     (let isDark = darkModeEnabled prefersDarkMode (coalesce themePreference [])
      in case getAccentColor prefersDarkMode (coalesce themePreference []) accentPref customAccent of
           None \<Rightarrow> Inl TypeError
         | Some accentColor \<Rightarrow>
             Inr \<lparr>al_lang = getKebabCaseLangStr language, al_dir = languageDir, al_theme = (if isDark then ''dark'' else ''light''),
                  al_accent = accentColor, al_accent_hover = darkenColor accentColor 30,
                  al_palette = (if isDark then darkTheme else lightTheme)\<lparr>pa_primary := accentColor\<rparr>\<rparr>)"

subsection \<open>The two side bars (Navigation.jsx)\<close>

text \<open>
  \<open>Navigation\<close> renders the same list into two drawers: one for small screens, which stays mounted while it is
  closed, and a permanent one. Which of them is displayed depends on the width only, so each list has a state of its
  own: its dialogs, the profile of the user, and whether it shows the banner of a new version.
\<close>

datatype drawer = MobileDrawer | PermanentDrawer

record nav_list =
  nl_bar :: side_bar
  nl_versionChanged :: bool
  nl_ownProfile :: "json option"

definition new_nav_list :: nav_list where
  "new_nav_list = \<lparr>nl_bar = new_side_bar, nl_versionChanged = False, nl_ownProfile = None\<rparr>"

text \<open>The lists, and whose \<open>handleVersionChange\<close> the version checker has; it keeps a single listener.\<close>

record nav_frame =
  nf_list :: "drawer \<Rightarrow> nav_list"
  nf_listener :: "drawer option"
  nf_checker :: version_checker

definition new_nav_frame :: "version_checker \<Rightarrow> nav_frame" where
  "new_nav_frame v = \<lparr>nf_list = (\<lambda>_. new_nav_list), nf_listener = None, nf_checker = version_resetListener v\<rparr>"

definition nav_displayed :: "int \<Rightarrow> layout \<Rightarrow> drawer list" where
  "nav_displayed innerWidth ly =
     (if innerWidth < 600 then if ly_mobileDrawerOpen ly then [MobileDrawer] else [] else [PermanentDrawer])"

text \<open>
  React has rendered the lists \<open>ds\<close>, in this order: \<open>useVersionChangeListener\<close> depends on a function that each
  rendering makes anew, so first each of them resets the listener and then each registers its own.
\<close>

definition nav_commit :: "drawer list \<Rightarrow> nav_frame \<Rightarrow> nav_frame" where
  "nav_commit ds nf =
     (let reset = foldr (\<lambda>_. useVersionChangeListener False) ds (nf_checker nf)
      in nf\<lparr>nf_checker := foldr (\<lambda>_. useVersionChangeListener True) ds reset,
            nf_listener := (if ds = [] then nf_listener nf else Some (last ds))\<rparr>)"

text \<open>The layout renders both lists; a list whose state changes renders alone.\<close>

definition layout_commit :: "nav_frame \<Rightarrow> nav_frame" where
  "layout_commit = nav_commit [MobileDrawer, PermanentDrawer]"

definition set_list :: "drawer \<Rightarrow> (nav_list \<Rightarrow> nav_list) \<Rightarrow> nav_frame \<Rightarrow> nav_frame" where
  "set_list dr f nf = nav_commit [dr] (nf\<lparr>nf_list := (nf_list nf)(dr := f (nf_list nf dr))\<rparr>)"

definition nav_handleVersionChange :: "drawer \<Rightarrow> nav_frame \<Rightarrow> nav_frame" where
  "nav_handleVersionChange dr = set_list dr (\<lambda>l. l\<lparr>nl_versionChanged := True\<rparr>)"

text \<open>A tick of the version checker.\<close>

definition nav_tick :: "server \<Rightarrow> string \<Rightarrow> nav_frame \<Rightarrow> request list \<Rightarrow> nav_frame \<times> request list" where
  "nav_tick srv url nf log =
     (let (changed, log') = checkVersion srv url (nf_checker nf) log
      in ((if changed then (case nf_listener nf of Some dr \<Rightarrow> nav_handleVersionChange dr nf | None \<Rightarrow> nf) else nf), log'))"

text \<open>What is mounted: each list asks the server for the profile of the user.\<close>

definition nav_mount ::
  "server \<Rightarrow> config \<Rightarrow> 'kv session \<Rightarrow> drawer \<Rightarrow> nav_frame \<Rightarrow> request list \<Rightarrow> nav_frame \<times> request list" where
  "nav_mount srv cfg ses dr nf log =
     (let (own, log') = fetchOwnProfile srv cfg ses (nl_ownProfile (nf_list nf dr)) log
      in (if own = nl_ownProfile (nf_list nf dr) then nf else set_list dr (\<lambda>l. l\<lparr>nl_ownProfile := own\<rparr>) nf, log'))"

text \<open>What a click in one of the lists changes in it.\<close>

definition nav_frame_click ::
  "('s, 'n, 'p, 'u) db_ops \<Rightarrow> config \<Rightarrow> int \<Rightarrow> drawer \<Rightarrow> nav_action \<Rightarrow> nav_frame \<times> ('s, 'n, 'p, 'u) db \<Rightarrow>
     nav_frame \<times> ('s, 'n, 'p, 'u) db \<times> string option \<times> side_effect" where
  "nav_frame_click T cfg innerWidth dr a st =
     (let (sb', d', path, eff) = nav_click T cfg innerWidth a (nl_bar (nf_list (fst st) dr), snd st)
      in (if sb' = nl_bar (nf_list (fst st) dr) then fst st else set_list dr (\<lambda>l. l\<lparr>nl_bar := sb'\<rparr>) (fst st), d', path, eff))"

text \<open>The dialog to subscribe was closed, or a chat was subscribed to.\<close>

definition nav_subscribeReset :: "drawer \<Rightarrow> nav_frame \<Rightarrow> nav_frame" where
  "nav_subscribeReset dr =
     set_list dr (\<lambda>l. l\<lparr>nl_bar := (nl_bar l)\<lparr>sb_subscribe := handleSubscribeReset (sb_subscribe (nl_bar l))\<rparr>\<rparr>)"

text \<open>The dialogs of a list that are open.\<close>

datatype nav_dialog = SubscribeOf nat | ProfileOf "string option" | ContactsOf | NewGroupOf | UpgradePlansOf nat | ChatMenuOf subscription

definition nav_dialogs :: "'kv session \<Rightarrow> nav_list \<Rightarrow> nav_dialog list" where
  "nav_dialogs ses l =
     (let sb = nl_bar l
      in (case sb_menu sb of Some s \<Rightarrow> [ChatMenuOf s] | None \<Rightarrow> []) @
         (if fst (sb_upgrade sb) then [UpgradePlansOf (snd (sb_upgrade sb))] else []) @
         (if fst (sb_subscribe sb) then [SubscribeOf (snd (sb_subscribe sb))] else []) @
         (if sb_profile sb then [ProfileOf (session_username ses)] else []) @
         (if sb_contacts sb then [ContactsOf] else []) @
         (if sb_group sb then [NewGroupOf] else []))"

text \<open>The contents of a list.\<close>

definition nav_page ::
  "page_env \<Rightarrow> config \<Rightarrow> nav_alerts \<Rightarrow> 'kv session \<Rightarrow> string \<Rightarrow> string option \<Rightarrow> bool \<Rightarrow>
     ('s, 'n, 'p, 'u) db_ops \<Rightarrow> ('s, 'n, 'p, 'u) db \<Rightarrow> subscription option \<Rightarrow> nav_list \<Rightarrow> nav_action widget list" where
  "nav_page E cfg na ses pathname role paid T d selected l =
     NavList E cfg (sb_dismissed (nl_bar l)) (nl_versionChanged l) na ses pathname role paid T d selected"

lemma checker_listens: "vc_listener (nf_checker (nav_commit ds nf)) \<longleftrightarrow> ds \<noteq> [] \<or> vc_listener (nf_checker nf)"
proof -
  have "vc_listener (foldr (\<lambda>_. useVersionChangeListener True) ds v) \<longleftrightarrow> ds \<noteq> [] \<or> vc_listener v" for v
    by (induction ds) (auto simp: useVersionChangeListener_def version_registerListener_def)
  then show ?thesis by (auto simp: nav_commit_def Let_def)
qed

text \<open>In every reachable state the checker has a listener exactly when one of the lists has registered.\<close>

inductive nav_reachable :: "version_checker \<Rightarrow> nav_frame \<Rightarrow> bool" for v where
  nav_start: "nav_reachable v (layout_commit (new_nav_frame v))"
| nav_layout: "nav_reachable v nf \<Longrightarrow> nav_reachable v (layout_commit nf)"
| nav_state: "nav_reachable v nf \<Longrightarrow> nav_reachable v (set_list dr f nf)"

lemma reachable_listener: "nav_reachable v nf \<Longrightarrow> nf_listener nf \<noteq> None \<and> vc_listener (nf_checker nf)"
  by (induction rule: nav_reachable.induct) (auto simp: layout_commit_def set_list_def checker_listens, simp_all add: nav_commit_def)

lemma reachable_tick: "nav_reachable v nf \<Longrightarrow> nav_reachable v (fst (nav_tick srv url nf log))"
  by (auto simp: nav_tick_def nav_handleVersionChange_def Let_def split: prod.split option.split intro: nav_reachable.intros)

lemma reload_offered:
  "ReloadPage \<in> set (page_offers (nav_page E cfg na ses pathname role paid T d selected l)) \<longleftrightarrow> nl_versionChanged l"
proof -
  have "ReloadPage \<notin> set (offers (SubscriptionItem E cfg sel s k n))" for sel s k n
    by (auto simp: SubscriptionItem_def ListItemButton_def shown_if_def split: option.split)
  then have "ReloadPage \<notin> set (page_offers (SubscriptionList E cfg T d selected))"
    by (auto simp: SubscriptionList_def offers_map case_prod_beta)
  then show ?thesis
    by (auto simp: nav_page_def NavList_def Let_def ListItemButton_def UpgradeBanner_def nav_alert_list_def VersionUpdateBanner_def
        closable_alert_def NotificationPermissionRequired_def NotificationPermissionDeniedAlert_def
        NotificationIOSInstallRequiredAlert_def NotificationBrowserNotSupportedAlert_def NotificationContextNotSupportedAlert_def)
qed

text \<open>
  C14: The version checker tells only one of the two side bars that the program has a new version: the one that
  was rendered last. After the layout was rendered that is the permanent one, which small screens do
  not display; there the banner with its reload button stays away, whether the drawer is open or not,
  while on a big screen it is offered.
\<close>

theorem version_banner_misses_drawer:
  assumes "nav_reachable v nf" and "fst (checkVersion srv url (nf_checker (layout_commit nf)) log)"
    and "\<not> nl_versionChanged (nf_list nf MobileDrawer)"
    and "nav_tick srv url (layout_commit nf) log = (nf', log')"
  shows "nl_versionChanged (nf_list nf' PermanentDrawer) \<and> nf_list nf' MobileDrawer = nf_list nf MobileDrawer \<and>
    (\<forall>dr \<in> set (nav_displayed innerWidth ly).
       ReloadPage \<in> set (page_offers (nav_page E cfg na ses pathname role paid T d selected (nf_list nf' dr))) \<longleftrightarrow> 600 \<le> innerWidth) \<and>
    (\<exists>dr. nf_listener nf = Some dr \<and> vc_listener (nf_checker nf) \<and>
       (\<forall>dr'. dr' \<noteq> dr \<longrightarrow> nf_list (fst (nav_tick srv url nf log)) dr' = nf_list nf dr'))"
proof -
  have last: "nf_listener (layout_commit nf) = Some PermanentDrawer" "nf_list (layout_commit nf) = nf_list nf"
    by (simp_all add: layout_commit_def nav_commit_def)
  have "nf' = nav_handleVersionChange PermanentDrawer (layout_commit nf)"
    using assms(2,4) by (simp add: nav_tick_def last split: prod.splits)
  then have tick: "nf_list nf' PermanentDrawer = (nf_list nf PermanentDrawer)\<lparr>nl_versionChanged := True\<rparr>"
    "nf_list nf' MobileDrawer = nf_list nf MobileDrawer"
    by (simp_all add: nav_handleVersionChange_def set_list_def nav_commit_def last Let_def)
  obtain dr where dr: "nf_listener nf = Some dr" "vc_listener (nf_checker nf)"
    using reachable_listener [OF assms(1)] by blast
  then have "nf_list (fst (nav_tick srv url nf log)) dr' = nf_list nf dr'" if "dr' \<noteq> dr" for dr'
    using that by (simp add: nav_tick_def nav_handleVersionChange_def set_list_def nav_commit_def Let_def split: prod.split)
  then show ?thesis using dr tick assms(3) by (auto simp: reload_offered nav_displayed_def)
qed

definition told_server :: server where
  "told_server log rq = Some \<lparr>rs_status = 200, rs_json = Some (JObj [(''config_hash'', JStr ''new'')])\<rparr>"

definition old_checker :: version_checker where
  "old_checker = \<lparr>vc_worker = fresh_worker, initialConfigHash = Some ''old'', vc_listener = False\<rparr>"

lemma version_banner_misses_drawer_witness:
  "let nf = layout_commit (new_nav_frame old_checker); nf' = fst (nav_tick told_server [] (layout_commit nf) [])
   in nl_versionChanged (nf_list nf' PermanentDrawer) \<and> nf_list nf' MobileDrawer = new_nav_list"
proof -
  let ?nf = "layout_commit (new_nav_frame old_checker)"
  have shown: "nf_list ?nf MobileDrawer = new_nav_list"
    by (simp add: layout_commit_def nav_commit_def new_nav_frame_def)
  have hash: "initialConfigHash (nf_checker (layout_commit ?nf)) = Some ''old''"
    by (simp add: layout_commit_def nav_commit_def new_nav_frame_def useVersionChangeListener_def version_registerListener_def
        version_resetListener_def old_checker_def Let_def)
  have heard: "vc_listener (nf_checker (layout_commit ?nf))" by (simp add: layout_commit_def checker_listens)
  have changed: "fst (checkVersion told_server [] (nf_checker (layout_commit ?nf)) [])"
    unfolding version_change_detected using hash heard
    by (simp add: told_server_def json_prop_def json_truthy_def truthy_def)
  have hidden: "\<not> nl_versionChanged (nf_list ?nf MobileDrawer)" unfolding shown by (simp add: new_nav_list_def)
  note told = version_banner_misses_drawer [OF nav_start changed hidden prod.collapse [symmetric]]
  show ?thesis using told [THEN conjunct1] told [THEN conjunct2, THEN conjunct1] unfolding Let_def shown by (rule conjI)
qed

subsection \<open>The paged list (Notifications.jsx)\<close>

text \<open>How many messages are shown, and whether it says that something was copied.\<close>

record list_state =
  ls_maxCount :: nat
  ls_snackOpen :: bool

definition new_list_state :: list_state where
  "new_list_state = \<lparr>ls_maxCount = pageSize, ls_snackOpen = False\<rparr>"

datatype list_event = ListNext | ListCopied | SnackClosed | ListLeft

text \<open>When the list is left the count starts again, and the page is scrolled to its top.\<close>

fun list_event_step :: "list_event \<Rightarrow> list_state \<Rightarrow> list_state \<times> (int \<times> int) option" where
  "list_event_step ListNext st = (st\<lparr>ls_maxCount := list_next (ls_maxCount st)\<rparr>, None)"
| "list_event_step ListCopied st = (st\<lparr>ls_snackOpen := True\<rparr>, None)"
| "list_event_step SnackClosed st = (st\<lparr>ls_snackOpen := False\<rparr>, None)"
| "list_event_step ListLeft st = (st\<lparr>ls_maxCount := pageSize\<rparr>, Some (0, 0))"

record list_contents =
  lc_cards :: "item_card list"
  lc_loader :: "string option"
  lc_snack :: "string option"

definition NotificationList ::
  "page_env \<Rightarrow> view_env \<Rightarrow> (int \<Rightarrow> string) \<Rightarrow> notification list \<Rightarrow> list_state \<Rightarrow> list_contents" where
  "NotificationList E V link_expires notifications st =
     \<lparr>lc_cards = map (NotificationItem V link_expires) (list_shown notifications (ls_maxCount st)),
      lc_loader = (if hasMore notifications (ls_maxCount st) then Some (tr E ''notifications_loading'') else None),
      lc_snack = (if ls_snackOpen st then Some (tr E ''notifications_copied_to_clipboard'') else None)\<rparr>"

text \<open>Asking for more often enough shows every message, and then nothing is loading.\<close>

lemma list_shows_all:
  assumes "length ns \<le> 20 * k" and "0 < k"
    and "st = fold (\<lambda>e st. fst (list_event_step e st)) (replicate (k - 1) ListNext) new_list_state"
  shows "lc_cards (NotificationList E V link_expires ns st) = map (NotificationItem V link_expires) ns \<and>
    lc_loader (NotificationList E V link_expires ns st) = None"
proof -
  have "ls_maxCount (fold (\<lambda>e st. fst (list_event_step e st)) (replicate n ListNext) st0) = ls_maxCount st0 + 20 * n" for n st0
    by (induction n arbitrary: st0) (simp_all add: pageSize_def list_next_def)
  then have "ls_maxCount st = 20 * k" using assms(2,3) by (simp add: new_list_state_def pageSize_def)
  then show ?thesis
    using assms(1) by (simp add: NotificationList_def list_shown_def hasMore_def list_count_def)
qed

subsection \<open>The page after an error (ErrorBoundary.jsx)\<close>

datatype error_action = CopyStackTrace | ReloadAfterError

definition renderUnsupportedIndexedDB :: "page_env \<Rightarrow> error_action widget list" where
  "renderUnsupportedIndexedDB E =
     [Label (tr E ''error_boundary_unsupported_indexeddb_title''), Label (tr E ''error_boundary_unsupported_indexeddb_description'')]"

definition renderError :: "page_env \<Rightarrow> boundary \<Rightarrow> error_action widget list" where
  "renderError E st =
     [Label (tr E ''error_boundary_title''), Label (tr E ''error_boundary_description''),
      Button (tr E ''error_boundary_button_copy_stack_trace'') CopyStackTrace,
      Button (tr E ''error_boundary_button_reload_ntfy'') ReloadAfterError,
      Label (tr E ''error_boundary_stack_trace''),
      Label (if truthy (eb_niceStack st) then coalesce (eb_niceStack st) [] else tr E ''error_boundary_gathering_info''),
      Label (coalesce (eb_originalStack st) [])]"

definition ErrorBoundary :: "page_env \<Rightarrow> boundary \<Rightarrow> error_action widget list option" where
  "ErrorBoundary E st =
     (if eb_error st then Some (if eb_unsupportedIndexedDB st then renderUnsupportedIndexedDB E else renderError E st) else None)"

text \<open>What a click asks of the browser, and whether the page is loaded again.\<close>

fun error_click :: "bool \<Rightarrow> bool \<Rightarrow> boundary \<Rightarrow> error_action \<Rightarrow> page_call list \<times> bool" where
  "error_click has_clipboard secure st CopyStackTrace = (copyToClipboard has_clipboard secure (copyStack st), False)"
| "error_click has_clipboard secure st ReloadAfterError = ([], True)"

text \<open>Whatever is caught, the page is never shown again, and without a usable database there is no button to press.\<close>

lemma error_stays:
  "ErrorBoundary E (fold (\<lambda>(name, msg, str, stack). componentDidCatch name msg str stack) (e # es) st) \<noteq> None"
  "eb_unsupportedIndexedDB st \<Longrightarrow> eb_error st \<Longrightarrow> map_option page_offers (ErrorBoundary E st) = Some []"
proof -
  have catch: "eb_error (componentDidCatch name msg str stack st)" for name msg str stack st
    by (simp add: componentDidCatch_def handleUnsupportedIndexedDB_def boundary_handleError_def)
  have "eb_error (fold (\<lambda>(name, msg, str, stack). componentDidCatch name msg str stack) es st)" if "eb_error st" for es st
    using that by (induction es arbitrary: st) (auto simp: catch)
  then show "ErrorBoundary E (fold (\<lambda>(name, msg, str, stack). componentDidCatch name msg str stack) (e # es) st) \<noteq> None"
    by (cases e) (simp add: ErrorBoundary_def catch)
qed (simp add: ErrorBoundary_def renderUnsupportedIndexedDB_def)

subsection \<open>The emoji picker (EmojiPicker.jsx)\<close>

datatype picker_action = PickEmoji string | ClearSearch

text \<open>The emojis that the search does not find are there but hidden: they are left out.\<close>

definition Emoji :: "raw_emoji \<Rightarrow> picker_action widget" where
  "Emoji e = Button (emoji_title e) (PickEmoji (first_alias e))"

definition emoji_page :: "page_env \<Rightarrow> bool \<Rightarrow> raw_emoji list \<Rightarrow> string \<Rightarrow> picker_action widget list" where
  "emoji_page E chrome rawEmojis search =
     [Input (tr E ''emoji_picker_search_placeholder'') search] @
     shown_if (search \<noteq> []) [Button (tr E ''emoji_picker_search_clear'') ClearSearch] @
     map (\<lambda>(title, es). Box ((case title of Some t \<Rightarrow> [Label t] | None \<Rightarrow> []) @ map Emoji es))
       (Page_Parts.EmojiPicker chrome rawEmojis search)"

text \<open>A click: what is searched for then, and the name of the emoji that was picked.\<close>

fun picker_click :: "picker_action \<Rightarrow> string \<Rightarrow> string \<times> string option" where
  "picker_click (PickEmoji a) search = (search, Some a)"
| "picker_click ClearSearch search = ([], None)"

text \<open>What can be picked are the names of the emojis that the search finds, whatever was typed before.\<close>

lemma emojis_offered:
  "PickEmoji a \<in> set (page_offers (emoji_page E chrome es search)) \<longleftrightarrow>
     (\<exists>c \<in> set (Page_Parts.EmojiPicker chrome es search). a \<in> first_alias ` set (snd c))"
proof -
  have "offers (Emoji e) = [PickEmoji (first_alias e)]" for e by (simp add: Emoji_def)
  then show ?thesis
    by (auto simp: emoji_page_def offers_map case_prod_beta split: option.splits)
qed

subsection \<open>Listeners and routes of the service worker (sw.js)\<close>

datatype worker_event =
    Installed
  | Activated
  | PushSubscriptionChanged
  | PushArrived push_data
  | NotificationClicked "notification_params option" "string option"

record ('s, 'n, 'p, 'u) worker_answer =
  wa_db :: "('s, 'n, 'p, 'u) db"
  wa_effects :: "effect list"
  wa_clicks :: "click_effect list"
  wa_skipWaiting :: bool
  wa_result :: "app_error + unit"

text \<open>The listeners: a worker that was installed or activated does not wait for the old one's pages to close.\<close>

fun worker_listener ::
  "('s, 'n, 'p, 'u) db_ops \<Rightarrow> string js_obj \<Rightarrow> worker_env \<Rightarrow> server \<Rightarrow> string \<Rightarrow> client list \<Rightarrow> worker_event \<Rightarrow>
     ('s, 'n, 'p, 'u) db \<Rightarrow> request list \<Rightarrow> ('s, 'n, 'p, 'u) worker_answer \<times> request list" where
  "worker_listener T emojis we srv rootUrl clients Installed d log =
     (\<lparr>wa_db = d, wa_effects = [], wa_clicks = [], wa_skipWaiting = True, wa_result = Inr ()\<rparr>, log)"
| "worker_listener T emojis we srv rootUrl clients Activated d log =
     (\<lparr>wa_db = d, wa_effects = [], wa_clicks = [], wa_skipWaiting = True, wa_result = Inr ()\<rparr>, log)"
| "worker_listener T emojis we srv rootUrl clients PushSubscriptionChanged d log =
     (\<lparr>wa_db = d, wa_effects = [], wa_clicks = [], wa_skipWaiting = False, wa_result = Inr ()\<rparr>, log)"
| "worker_listener T emojis we srv rootUrl clients (PushArrived data) d log =
     (let (d', effs, r) = handlePush T emojis we data d
      in (\<lparr>wa_db = d', wa_effects = effs, wa_clicks = [], wa_skipWaiting = False, wa_result = r\<rparr>, log))"
| "worker_listener T emojis we srv rootUrl clients (NotificationClicked data clicked) d log =
     (let ((d', effs, r), log') = handleClick T we srv rootUrl clients data clicked d log
      in (\<lparr>wa_db = d', wa_effects = [], wa_clicks = effs, wa_skipWaiting = False, wa_result = r\<rparr>, log'))"

text \<open>
  The routes, in the order they are registered; workbox answers a request by the first that matches it, and the
  network answers the others. \<open>precached\<close> tells the files of the manifest, \<open>matches\<close> whether a regular
  expression matches an address; a navigation route looks only at requests that navigate.
\<close>

record fetch_request =
  fe_pathname :: string
  fe_search :: string
  fe_navigate :: bool

datatype route = Precached | AppShell | NetworkFirst

definition sw_routes ::
  "bool \<Rightarrow> (fetch_request \<Rightarrow> bool) \<Rightarrow> (string \<Rightarrow> string \<Rightarrow> bool) \<Rightarrow> config \<Rightarrow> (route \<times> (fetch_request \<Rightarrow> bool)) list" where
  "sw_routes dev precached matches cfg =
     [(Precached, precached)] @
     (if dev then []
      else [(AppShell, \<lambda>rq. fe_navigate rq \<and> matches (''^'' @ app_root cfg @ ''$'') (fe_pathname rq @ fe_search rq)),
            (NetworkFirst, \<lambda>rq. fe_pathname rq = ''/config.js'')])"

definition sw_route ::
  "bool \<Rightarrow> (fetch_request \<Rightarrow> bool) \<Rightarrow> (string \<Rightarrow> string \<Rightarrow> bool) \<Rightarrow> config \<Rightarrow> fetch_request \<Rightarrow> route option" where
  "sw_route dev precached matches cfg rq = map_option fst (find (\<lambda>(r, p). p rq) (sw_routes dev precached matches cfg))"

text \<open>
  The manifest of the build (vite.config.js) leaves out the configuration and names the page as the server does.
\<close>

definition sw_manifest :: "string list \<Rightarrow> string list" where
  "sw_manifest files = map (\<lambda>url. if url = ''index.html'' then ''app.html'' else url) (filter (\<lambda>url. url \<noteq> ''config.js'') files)"

text \<open>
  What is not in the manifest: the configuration is asked of the server first, the root of the app opens without a
  network, and the address of a chat does not.
\<close>

lemma worker_routes:
  assumes "\<And>s. matches (''^'' @ app_root cfg @ ''$'') s \<longleftrightarrow> s = app_root cfg" and "\<not> precached rq"
  shows "sw_route False precached matches cfg rq =
    (if fe_navigate rq \<and> fe_pathname rq @ fe_search rq = app_root cfg then Some AppShell
     else if fe_pathname rq = ''/config.js'' then Some NetworkFirst else None)"
  using assms by (auto simp: sw_route_def sw_routes_def)

subsection \<open>Sizes of files (app/utils.js)\<close>

text \<open>
  A decimal number with \<open>dm\<close> digits, given as an integer, without the zeros at its end, as \<open>parseFloat\<close> and
  the conversion to a text leave it.
\<close>

definition decimal_text :: "nat \<Rightarrow> nat \<Rightarrow> string" where
  "decimal_text n dm =
     (let fraction = rev (dropWhile (\<lambda>c. c = CHR ''0'') (rev (padStart dm CHR ''0'' (nat_str (n mod 10 ^ dm)))))
      in nat_str (n div 10 ^ dm) @ (if fraction = [] then [] else CHR ''.'' # fraction))"

definition size_names :: "string list" where
  "size_names = [''bytes'', ''KB'', ''MB'', ''GB'', ''TB'', ''PB'', ''EB'', ''ZB'', ''YB'']"

text \<open>
  The size as a multiple of a power of 1024: a division by a power of two is exact, and \<open>toFixed\<close>
  rounds the exact number, a tie upwards. Which power is \<open>exponent\<close> of the size: the logarithms it is computed
  with are approximations that the language does not fix.
\<close>

definition size_digits :: "nat \<Rightarrow> nat \<Rightarrow> nat \<Rightarrow> nat" where
  "size_digits i dm bytes = (2 * bytes * 10 ^ dm + 1024 ^ i) div (2 * 1024 ^ i)"

definition formatBytes :: "(nat \<Rightarrow> nat) \<Rightarrow> nat \<Rightarrow> int \<Rightarrow> string" where
  "formatBytes exponent bytes decimals =
     (if bytes = 0 then ''0 bytes''
      else let dm = nat decimals; i = exponent bytes
        in decimal_text (size_digits i dm bytes) dm @ '' '' @ (if i < length size_names then size_names ! i else ''undefined''))"

text \<open>With the right power the number is between 1 and 1024 and at most half a unit of its last digit from the size.\<close>

lemma size_digits_bounds:
  assumes "1024 ^ i \<le> bytes" and "bytes < 1024 ^ (i + 1)"
  shows "10 ^ dm \<le> size_digits i dm bytes \<and> size_digits i dm bytes \<le> 1024 * 10 ^ dm \<and>
    2 * \<bar>int (size_digits i dm bytes * 1024 ^ i) - int (bytes * 10 ^ dm)\<bar> \<le> 1024 ^ i"
proof -
  define K X q :: nat where "K = 1024 ^ i" and "X = bytes * 10 ^ dm" and "q = size_digits i dm bytes"
  have K: "0 < K" by (simp add: K_def)
  have q: "q = (2 * X + K) div (2 * K)" by (simp add: q_def size_digits_def K_def X_def mult.assoc)
  have "q * (2 * K) \<le> 2 * X + K" "2 * X + K < q * (2 * K) + 2 * K"
    unfolding q using K div_mult_mod_eq [of "2 * X + K" "2 * K"] mod_less_divisor [of "2 * K" "2 * X + K"] by linarith+
  then have "2 * (q * K) \<le> 2 * X + K" "2 * X + K < 2 * (q * K) + 2 * K" by (simp_all add: mult.commute mult.left_commute)
  moreover have "2 * \<bar>int Y - int X\<bar> \<le> int K" if "2 * Y \<le> 2 * X + K" "2 * X + K < 2 * Y + 2 * K" for Y
    using that by (cases "X \<le> Y") auto
  ultimately have "2 * \<bar>int (q * K) - int X\<bar> \<le> int K" by blast
  moreover have "K * 10 ^ dm \<le> X" "X \<le> 1024 * K * 10 ^ dm"
    using assms by (simp_all add: K_def X_def)
  then have "10 ^ dm * (2 * K) \<le> 2 * X + K" "2 * X + K < (1024 * 10 ^ dm + 1) * (2 * K)"
    using K by (simp_all add: algebra_simps)
  then have "10 ^ dm \<le> q" "q < 1024 * 10 ^ dm + 1"
    unfolding q using K by (simp_all add: less_eq_div_iff_mult_less_eq div_less_iff_less_mult)
  ultimately show ?thesis unfolding q_def K_def X_def by simp
qed

lemma size_samples:
  "formatBytes (\<lambda>_. 1) 1536 2 = ''1.5 KB''" "formatBytes (\<lambda>_. 1) 1048575 2 = ''1024 KB''"
proof -
  have digits: "nat_str 1024 = ''1024''" "nat_str 50 = ''50''" "nat_str (Suc 0) = ''1''" "nat_str 0 = ''0''"
    by (simp_all add: nat_str.simps digit_char_def char_of_def bit_0)
  have "size_digits 1 2 1536 = 150" "size_digits 1 2 1048575 = 102400" by (simp_all add: size_digits_def)
  then show "formatBytes (\<lambda>_. 1) 1536 2 = ''1.5 KB''" "formatBytes (\<lambda>_. 1) 1048575 2 = ''1024 KB''"
    by (simp_all add: formatBytes_def decimal_text_def size_names_def padStart_def digits)
qed

end
