(* ===== verification/Spec2Isabelle.thy ===== *)
theory Spec2Isabelle
  imports Prelude Js_Sort Stores Js_Object Client_Types Utils Notification_Utils Session_Prefs Http Notifier
    Subscriptions Subscription_Facts Poller Workers Connection Connection_Manager Messages
    Service_Worker Account_Api Chat_Input Chat Browser Hooks
    Notification_View Actions App_Shell Dialogs People Invite Settings Account_Page Admin
    Action_Bar Page_Parts Delivery Message_View Chat_View Line_Stream
    Widgets Account_View Admin_View Settings_View Navigation_View Subscribe_View Form_View
    People_View Invite_View Plan_View Start_View Menus Frame_View Small_View
    Page_Dialogs App_Run App_Origin Side_Parts
begin

text \<open>
  A model of the web client of the Coop messenger (web/src, web/public): a single-page app and its
  service worker, which keep subscriptions and messages in the browser's IndexedDB, receive messages
  over WebSockets, polls and Web Push, and talk to the server's HTTP API. Each definition is
  named after the function, method or handler it translates; file names below are relative to web/src.

  \<^bold>\<open>How the program works.\<close> A subscription is a row of the table \<open>subscriptions\<close>, keyed by the URL
  of its topic; a message is a row of \<open>notifications\<close> with the subscription, a sequence and a read
  flag. New messages come in three ways: app/ConnectionManager.js keeps one app/Connection.js per
  subscription and hands each message to components/hooks.js; app/Poller.js fetches what was missed;
  public/sw.js handles pushes, on the same tables. All of them write through
  app/SubscriptionManager.js or its counterpart in the service worker. app/AccountApi.js synchronizes
  subscriptions and preferences with the account of the session (app/Session.js). The
  components render these tables and call the operations above from their handlers.

  \<^bold>\<open>Theories.\<close>
  \<^item> Foundations: \<open>Prelude\<close> (JavaScript strings, truthiness, numbers, JSON), \<open>Js_Object\<close> (objects as
    dictionaries, with inherited names and key order), \<open>Js_Sort\<close> (sorting by a comparison function), \<open>Stores\<close> (the contracts of the browser's tables
    as locales, and a table in memory that satisfies them).
  \<^item> Data and pure functions: \<open>Client_Types\<close> (config.js, messages, subscriptions, users), \<open>Utils\<close>
    (app/utils.js), \<open>Notification_Utils\<close> (app/notificationUtils.js), \<open>Browser\<close> (what is asked of the
    browser, registerSW.js).
  \<^item> State: \<open>Session_Prefs\<close> (app/Session.js, Prefs.js, UserManager.js, db.js), \<open>Subscriptions\<close> and
    \<open>Subscription_Facts\<close> (app/SubscriptionManager.js and its lemmas).
  \<^item> Server: \<open>Http\<close> (app/Api.js, errors.js), \<open>Account_Api\<close> (app/AccountApi.js).
  \<^item> Receiving: \<open>Connection\<close>, \<open>Connection_Manager\<close>, \<open>Poller\<close> (with Pruner.js), \<open>Workers\<close> (timers,
    VersionChecker.js), \<open>Messages\<close> and \<open>Hooks\<close> (components/hooks.js), \<open>Service_Worker\<close>
    (public/sw.js), \<open>Notifier\<close> (app/Notifier.js, components/routes.js), \<open>Delivery\<close> (from a connection's
    reports through the listeners to the database, and the abstract chat they implement).
  \<^item> Writing and reading messages: \<open>Chat_Input\<close> (app/SlashCommands.js, components/ChatInput.jsx),
    \<open>Chat\<close> (the state and handlers of components/ChatView.jsx), \<open>Notification_View\<close> and \<open>Actions\<close>
    (components/Notifications.jsx), \<open>Message_View\<close> and \<open>Chat_View\<close> (what a notification's card and the
    chat's page show, as data).
  \<^item> Pages: \<open>App_Shell\<close> (App.jsx, Navigation.jsx), \<open>Dialogs\<close> (SubscribeDialog, SubscriptionPopup,
    ReserveDialogs, Login, Signup), \<open>People\<close> (avatars, members, contacts, groups, profiles),
    \<open>Invite\<close> (InvitePage), \<open>Settings\<close> (Preferences), \<open>Account_Page\<close> (Account, UpgradeDialog), \<open>Admin\<close>
    (AdminPanel), \<open>Action_Bar\<close> (ActionBar, entries of Navigation), \<open>Page_Parts\<close> (EmojiPicker,
    ErrorBoundary, ReserveTopicSelect).
  \<^item> What the pages show and offer: \<open>Widgets\<close> (labels, buttons, fields, choices and bars in their order,
    each with the action it starts), \<open>Account_View\<close> (Account.jsx), \<open>Admin_View\<close> (AdminPanel.jsx),
    \<open>Settings_View\<close> (Preferences.jsx), \<open>Navigation_View\<close> (the side bar of Navigation.jsx),
    \<open>Subscribe_View\<close> (SubscribeDialog.jsx, with the dialog's state through its pages), \<open>Form_View\<close>
    (SubscriptionPopup.jsx, ReserveDialogs.jsx, Login.jsx, Signup.jsx), \<open>People_View\<close> (MemberList,
    ContactList, ContactRequests, ContactAdd, GroupCreate, UserProfile), \<open>Invite_View\<close> (InvitePage.jsx),
    \<open>Plan_View\<close> (UpgradeDialog.jsx), \<open>Start_View\<close> (the start page and the empty pages of
    Notifications.jsx) and \<open>Small_View\<close> (DocsPage, ImageLightbox, EmojiReactionPicker).
  \<^item> What holds the pages together: \<open>Menus\<close> (the state of the chat's menu and of the side bar, and what each
    click in them does) and \<open>Frame_View\<close> (App.jsx, ActionBar.jsx, ChatInput.jsx, Messaging.jsx: the layout
    around a page, its state while the user moves between pages, and the table of addresses).
  \<^item> \<open>Page_Dialogs\<close>: the dialogs of Preferences.jsx and Account.jsx, which are open, what is typed in them,
    and what each button does to them and to the stored users or the account.
  \<^item> \<open>App_Run\<close> and \<open>App_Origin\<close>: the components as one state machine, whose events are the clicks of the
    pages, the reports of connections, pushes, polls, background workers and answers of the account, each
    with its handler from the theories above; runs of it trace where chats and messages come from and go.
  \<^item> \<open>Side_Parts\<close>: the look of the app (App.jsx, theme.js), the two copies of the side bar (Navigation.jsx) and who
    of them hears of a new version, the paged list, the error pages, the emoji picker with its search field,
    the listeners and routes of public/sw.js, and file sizes.
  \<^item> \<open>Line_Stream\<close> runs the line iterator of app/utils.js on a reader that may never end.

  \<^bold>\<open>Conventions.\<close> An object is a record, an optional property an \<open>option\<close>. An operation on the
  database takes it as its last argument and returns it changed. A request is an \<open>io\<close> step: it
  extends the log of requests and yields an error of app/errors.js or a result; the server is a
  function from the log and the request to a response (\<open>None\<close>: no connection), so that every
  theorem holds for every server. An \<open>async\<close> function runs without interruption except where
  the code awaits something long and the interleaving matters: there the model has a step relation
  (connections, typing users, the message field, the phone dialog) or an argument for what happens
  in between (the HTTP actions). Local dates, random choices and translations are arguments.

  \<^bold>\<open>Interfaces.\<close> Dexie is not part of the sources. \<open>dexie_table\<close> states what the code relies on, on
  top of \<open>keyed_store\<close>, which also describes the JavaScript \<open>Map\<close> of the connection manager;
  \<open>comparator\<close> states what makes a comparison function sort, and is shown for the code's own ones (those
  that call \<open>localeCompare\<close> inside \<open>collation\<close>, what they rely on of it);
  \<open>coop_db\<close> combines the tables of db.js, \<open>kv_table\<close> and \<open>pref_table\<close> add what the session
  and the preferences need. All are interpreted on the tables in memory, which also serve the witnesses.
  \<open>guarded_worker\<close> and \<open>restartable_worker\<close> are the contracts of the periodic workers, interpreted on
  the code's own start and stop functions. Base64 and the parser of frames are arguments.

  \<^bold>\<open>What the theorems show.\<close>
  \<^item> The database: every row stays well-formed under any sequence of operations; the account sync leaves
    exactly the remote and the internal subscriptions and deletes exactly the notifications of the
    others; subscribing and unsubscribing are inverse.
  \<^item> The components together: whatever a connection goes through, the database of its subscription
    simulates an abstract chat of one message per sequence (at the end of this theory); in any run of
    the app no chat and no message is lost without an event that is meant to take it, every message that is
    stored or shown was delivered to this chat, and rows stay well-formed. A poll that is answered
    after its chat was left brings the messages back, and a sync that is answered before and written
    after a change of the user undoes it.
  \<^item> Messages: a message replaces its sequence and is stored once; deletions and clears are exact; the
    service worker and the app agree; a poll keeps the newest event of each sequence; what it stores
    survives the pruner; and where the code departs from this (a delivery after reading).
  \<^item> Connections: one socket or pending retry per connection in every reachable state; reconnects resume
    after the last delivered message; a refresh opens exactly the target connections; identifiers can
    collide, and closing a connecting socket does not stop it.
  \<^item> The account: every operation sends one authorized request; phone numbers are added only after
    a code was sent; settings come back from the account; a logout always ends the session.
  \<^item> The views: lists shown (side bar, members, emojis) are exactly the rows that belong there, in
    order; the chat page shows each stored message under its day, and loading older ones reaches all;
    links are safe; reactions refine a set of users; the palette completes to real commands;
    a new message is scrolled to or announced; actions report what happened to their request.
  \<^item> The pages: the account page offers a session only what it may do; the bars of its usage are between
    0 and 100 percent; a click in the admin panel does what its row says and reports it; a choice in the
    settings, but for the language, is the one that is shown next; however their dialogs are used, the
    user of a server changes only where it was typed or chosen, and the token of the session is never
    changed; a click in the side bar opens the chat and takes its badge off; the subscription dialog, however it is used, subscribes only to what the server has granted;
    the plan dialog sends the one request of a change that can be made; on the page of a chat everything
    is about this chat, and what is written goes to it; its menu changes no other chat. Where the pages are wrong: a
    password with a blank at its end cannot be typed into the login, a profile that cannot be loaded
    shows the user before, a reply that was begun in one chat is sent to the next, and the banner of a new
    version is shown by only one of the two side bars, which is not the one of small screens.

  \<^bold>\<open>Bounds and termination.\<close> No fuel is used. The loops that are not structural (the line iterator, the
  splitting of texts and links) are functions with a measure on the remaining text, and so are total.
  On a reader that decides itself when it ends, the line iterator is a \<open>partial_function\<close>, which is shown
  to return exactly when the reader ends.
  The string hash is computed on 32-bit words and so wraps as in the code. Other numbers are
  integers: counts, ids and times of the program stay far below the \<open>2 ^ 53\<close> up to which the
  language is exact; prices and discounts are computed exactly in cents.

  \<^bold>\<open>Not modelled.\<close> The layout and styles of the components, and components that are only that (AvatarBox,
  PopupMenu, ReserveIcons, RTLCacheProvider, styles.js); where menus are anchored; React's scheduling, apart
  from the effects whose order matters; the table of emojis (app/emojis.js, generated), which is an
  argument; the locale formats, which use the browser's locale data, and the logarithms in \<open>formatBytes\<close>, which
  the language leaves approximate; code units above 255 (so also the quick reactions of
  EmojiReactionPicker, an argument); the router; workbox, Dexie's observers and
  i18next; the server (Go), which is the environment.
\<close>

section \<open>Properties of the components together\<close>


definition fed_conn :: conn where
  "fed_conn = conn_onmessage (\<lambda>_. Some \<lparr>fr_id = Some ''m1'', fr_time = Some 10, fr_body = plain_message ''m1'' 10 EVENT_MESSAGE\<rparr>) []
     (conn_onopen (set_socket 0 OPEN (conn_start no_base64 example_conn)))"

lemma fed_reachable:
  "conn_reachable no_base64 (\<lambda>_. Some \<lparr>fr_id = Some ''m1'', fr_time = Some 10, fr_body = plain_message ''m1'' 10 EVENT_MESSAGE\<rparr>)
     example_conn fed_conn"
  unfolding fed_conn_def
  by (rule conn_reachable.stepped [OF conn_reachable.stepped [OF conn_reachable.started conn_step.opens] conn_step.message [where i = 0]])
    (simp_all add: conn_onopen_def report_event_def set_socket_def conn_start_def example_conn_def new_connection_def)

lemma fed_reports:
  "c_reports fed_conn = [StateChanged ''https://c/a'' ''connected'',
     NotificationReceived ''https://c/a'' (plain_message ''m1'' 10 EVENT_MESSAGE)]"
  by (simp add: fed_conn_def conn_onmessage_def conn_onopen_def report_event_def set_socket_def conn_start_def
      example_conn_def new_connection_def plain_message_def event_names isCoopSocialEvent_def isNotificationEvent_def
      frame_message_def StateConnected_def)


text \<open>
  A message of somebody else that reaches the device twice, by Web Push and over the WebSocket, in
  either order, leaves the notifications and the subscriptions as after the first time.
\<close>

theorem duplicate_delivery:
  assumes "coop_db T" and "dx_get (SUBS T) (subs d) sid = Some s" and "\<not> s_internal s"
    and "from_server n" and "n_event n = EVENT_MESSAGE" and "\<not> is_own cu n" and "id_ok T sid d n"
    and "push = (\<lambda>d. fst (handlePush T emojis we
           \<lparr>pd_event = WEBPUSH_EVENT_MESSAGE, pd_subscription_id = sid, pd_message = n\<rparr> d))"
    and "receive = (\<lambda>d. fst (handleMessage T parse emojis cfg br cu sid n d))"
  shows "dx_get (NOTIFS T) (notifs (receive (push d))) = dx_get (NOTIFS T) (notifs (push d)) \<and>
    dx_get (SUBS T) (subs (receive (push d))) = dx_get (SUBS T) (subs (push d)) \<and>
    dx_get (NOTIFS T) (notifs (push (receive d))) = dx_get (NOTIFS T) (notifs (receive d)) \<and>
    dx_get (SUBS T) (subs (push (receive d))) = dx_get (SUBS T) (subs (receive d)) \<and>
    push d = receive d"
proof -
  have ok: "event_ok n" "is_regular n" "n_id n \<noteq> []"
    using assms(4,5) by (simp_all add: event_ok_def is_regular_def from_server_def)
  have same: "push e = receive e" if "dx_get (SUBS T) (subs e) sid = Some s'" "\<not> s_internal s'" for e s'
    using coop_db.push_message_eq [OF assms(1) that(1) assms(5,6) ok(3),
        of "\<lparr>pd_event = WEBPUSH_EVENT_MESSAGE, pd_subscription_id = sid, pd_message = n\<rparr>" emojis we cfg br]
    by (simp add: assms(5,8,9) handlePush_def handle_is_notification [OF that])
  have rows: "dx_get (SUBS T) (subs (receive d)) sid = Some (s\<lparr>s_last := Some (n_id n)\<rparr>)"
    using coop_db.handle_rows(2) [OF assms(1-3) ok(1) assms(7) refl, of parse emojis cfg br cu] ok(2)
    by (simp add: assms(9))
  note twice = coop_db.event_twice [OF assms(1-3) ok(1) assms(7) refl refl, of parse emojis cfg br cu parse emojis cfg br]
  have "push (receive d) = receive (receive d)" using same [OF rows] assms(3) by simp
  then show ?thesis
    using same [OF assms(2,3)] twice by (simp add: assms(9) fun_eq_iff)
qed

theorem duplicate_delivery_witness:
  "let n = plain_message ''m1'' 10 EVENT_MESSAGE; s = new_subscription ''https://c'' ''a'' no_opts;
       push = (\<lambda>d. fst (handlePush mem_db_ops [] plain_env
         \<lparr>pd_event = WEBPUSH_EVENT_MESSAGE, pd_subscription_id = ''https://c/a'', pd_message = n\<rparr> d))
   in dx_get (NOTIFS mem_db_ops) (notifs (fst (handleMessage mem_db_ops (\<lambda>_. None) [] plain_config plain_browser None
        ''https://c/a'' n (push (mem_db [s] []))))) = dx_get (NOTIFS mem_db_ops) (notifs (push (mem_db [s] [])))"
proof -
  let ?n = "plain_message ''m1'' 10 EVENT_MESSAGE" and ?s = "new_subscription ''https://c'' ''a'' no_opts"
  have 1: "dx_get (SUBS mem_db_ops) (subs (mem_db [?s] [])) ''https://c/a'' = Some ?s"
    by (simp add: mem_db_ops_def mem_db_def mem_dexie_def mem_get_def topicUrl_def)
  have 2: "\<not> s_internal ?s" "from_server ?n" "n_event ?n = EVENT_MESSAGE" "\<not> is_own None ?n"
    by (simp_all add: new_subscription_def no_opts_def from_server_def plain_message_def isNotificationEvent_def is_own_def)
  have 3: "id_ok mem_db_ops ''https://c/a'' (mem_db [?s] []) ?n"
    by (simp add: id_ok_def mem_db_ops_def mem_db_def mem_dexie_def mem_get_def)
  show ?thesis
    unfolding Let_def
    by (rule duplicate_delivery [OF coop_db_mem 1 2 3 refl refl, where emojis = "[]" and we = plain_env
        and parse = "\<lambda>_. None" and cfg = plain_config and br = plain_browser, THEN conjunct1])
qed

text \<open>
  An update (a message of a known sequence with an id of its own) replaces the old message when it
  arrives over the WebSocket, but not when it is polled: the poller stores it beside the old one,
  which the chat then shows as well.
\<close>

theorem polled_update_keeps_old:
  assumes "coop_db T" and "dx_get (SUBS T) (subs d) sid = Some s" and "\<not> s_internal s"
    and "from_server n" and "n_event n = EVENT_MESSAGE" and "id_ok T sid d n" and "\<not> inherited (seq_of n)"
    and "dx_get (NOTIFS T) (notifs d) i = Some old" and "in_seq sid (seq_of n) old" and "i \<noteq> n_id n"
    and "api (s_baseUrl s) (s_topic s) (s_last s) = Inr [n]"
    and "poll_threshold now (prefs_deleteAfter (PREFS T) (prefs d)) \<le> n_time n"
  shows "(\<exists>d'. poll T api now s d = Inr d' \<and> dx_get (NOTIFS T) (notifs d') i = Some old \<and>
      dx_get (NOTIFS T) (notifs d') (n_id n) = Some (n\<lparr>n_sequenceId := Some (seq_of n), n_subscriptionId := Some sid\<rparr>)) \<and>
    dx_get (NOTIFS T) (notifs (fst (handleMessage T parse emojis cfg br cu sid n d))) i = None"
proof -
  have sid: "s_id s = sid" using coop_db.subs_key [OF assms(1,2)] .
  have recent: "recentNotifications (poll_threshold now (prefs_deleteAfter (PREFS T) (prefs d))) [n] = [n]"
    using assms(12) by (simp add: recentNotifications_def)
  have not_proto: "seq_of n \<noteq> ''__proto__''" using assms(7) by (auto simp: inherited_def proto_names_def)
  then have latest: "latestNotificationsBySequenceId [n] = [(seq_of n, n)]"
    using assms(7) by (simp add: latestNotificationsBySequenceId_def latest_step_def obj_in_def obj_set_def)
  have one: "obj_entries [(k, n)] = [(k, n)]" for k by (simp add: obj_entries_def)
  have "poll T api now s d = sm_addNotifications T sid [n] d"
    using assms(5,11) by (simp add: poll_def recent latest one deletedSequenceIds_def notificationsToAdd_def obj_values_def
        event_names sid)
  moreover obtain d' where d': "sm_addNotifications T sid [n] d = Inr d'" by (simp add: sm_addNotifications_def)
  moreover note row = coop_db.notif_row_addNotifications [OF assms(1) d']
  moreover have "polled_row sid n = n\<lparr>n_sequenceId := Some (seq_of n), n_subscriptionId := Some sid\<rparr>"
    using assms(4) by (simp add: polled_row_def messageWithSequenceId_def from_server_def)
  moreover have "event_ok n" "is_regular n" using assms(4,5) by (simp_all add: event_ok_def is_regular_def)
  moreover note coop_db.handle_rows(1) [OF assms(1-3) this(1) assms(6) refl, of parse emojis cfg br cu i]
  ultimately show ?thesis
    using assms(5,8,9,10) by (simp add: event_names)
qed

theorem polled_update_keeps_old_witness:
  "let n = (plain_message ''m2'' 11 EVENT_MESSAGE)\<lparr>n_sequence_id := Some ''m1''\<rparr>; s = new_subscription ''https://c'' ''a'' no_opts;
       old = stored_row ''https://c/a'' 1 (plain_message ''m1'' 10 EVENT_MESSAGE)
   in \<exists>d'. poll mem_db_ops (\<lambda>_ _ _. Inr [n]) 0 s (mem_db [s] [old]) = Inr d' \<and>
        dx_get (NOTIFS mem_db_ops) (notifs d') ''m1'' = Some old"
proof -
  let ?n = "(plain_message ''m2'' 11 EVENT_MESSAGE)\<lparr>n_sequence_id := Some ''m1''\<rparr>" and ?s = "new_subscription ''https://c'' ''a'' no_opts"
  let ?old = "stored_row ''https://c/a'' 1 (plain_message ''m1'' 10 EVENT_MESSAGE)"
  let ?d = "mem_db [?s] [?old]"
  have 1: "dx_get (SUBS mem_db_ops) (subs ?d) ''https://c/a'' = Some ?s"
    by (simp add: mem_db_ops_def mem_db_def mem_dexie_def mem_get_def topicUrl_def)
  have 2: "\<not> s_internal ?s" "from_server ?n" "n_event ?n = EVENT_MESSAGE" "n_id ?n = ''m2''" "seq_of ?n = ''m1''" "n_time ?n = 11"
    by (simp_all add: new_subscription_def no_opts_def from_server_def plain_message_def isNotificationEvent_def seq_of_def)
  have 3: "dx_get (NOTIFS mem_db_ops) (notifs ?d) j = (if j = ''m1'' then Some ?old else None)" for j
    by (simp add: mem_db_ops_def mem_db_def mem_dexie_def mem_get_def plain_message_def)
  have 4: "id_ok mem_db_ops ''https://c/a'' ?d ?n" "\<not> inherited (seq_of ?n)"
    unfolding id_ok_def 3 2(4,5) by (simp_all add: inherited_def proto_names_def)
  have 5: "in_seq ''https://c/a'' (seq_of ?n) ?old"
    unfolding 2(5) by (simp add: in_seq_def stored_row_def messageWithSequenceId_def plain_message_def seq_of_def)
  have 6: "dx_get (NOTIFS mem_db_ops) (notifs ?d) ''m1'' = Some ?old" "''m1'' \<noteq> n_id ?n"
    unfolding 3 2(4) by simp_all
  have 7: "poll_threshold 0 (prefs_deleteAfter (PREFS mem_db_ops) (prefs ?d)) \<le> n_time ?n"
    unfolding 2(6) by (simp add: poll_threshold_def prefs_deleteAfter_def pref_get_def mem_db_ops_def mem_db_def
        mem_dexie_def mem_get_def round_seconds_def)
  show ?thesis
    using polled_update_keeps_old [OF coop_db_mem 1 2(1-3) 4 6(1) 5 6(2), where api = "\<lambda>_ _ _. Inr [?n]" and now = 0, OF refl 7]
    unfolding Let_def by blast
qed

end
